(* ===== verification/Prelude.thy ===== *)
theory Prelude
  imports Main "HOL-Library.Word"
begin

text \<open>
  Shared vocabulary of the development: bytes and machine words, the outcome of a C++ call,
  the little-endian object representation that \<^verbatim>\<open>std::memcpy\<close> copies, and the list lemmas every
  buffer proof uses.

  The repository asserts a little-endian platform with 8-bit bytes
  (\<^verbatim>\<open>protocol_primitives.hpp\<close>), so the object representation of an unsigned integer of
  \<open>n\<close> bytes is its bytes from the least significant one on (\<open>le_bytes\<close>) and reading it back is
  \<open>le_word\<close>.
\<close>

unbundle bit_operations_syntax

named_theorems wire_simps \<open>what makes a message one that can be appended and read back\<close>
named_theorems client_simps \<open>a new client, and when its buffer is empty\<close>

type_synonym byte = "8 word"
type_synonym bytes = "8 word list"
type_synonym u16 = "16 word"
type_synonym u32 = "32 word"
type_synonym u64 = "64 word"

section \<open>Outcomes of a call\<close>

text \<open>
  The exceptions the sources throw, with their message, and \<open>Foreign_error\<close> for one that comes
  out of a library the sources call.
\<close>

datatype exn =
    Logic_error string
  | Runtime_error string
  | System_error int string
  | Foreign_error string

text \<open>
  \<open>Value\<close> is a normal return, \<open>Raise\<close> a thrown exception, \<open>Aborted\<close> a failed \<^verbatim>\<open>assert\<close> (of the
  sources or of the standard library's checked containers), \<open>Undefined\<close> undefined behaviour,
  \<open>Blocked\<close> a system call that never returns, \<open>Ill_formed\<close> a call the compiler rejects and \<open>Exited\<close>
  a call of \<^verbatim>\<open>std::exit\<close> with its status.
\<close>

datatype 'a outcome =
    Value 'a
  | Raise exn
  | Aborted
  | Undefined
  | Blocked
  | Ill_formed
  | Exited int

fun bind_outcome :: "'a outcome \<Rightarrow> ('a \<Rightarrow> 'b outcome) \<Rightarrow> 'b outcome" where
  "bind_outcome (Value x) f = f x"
| "bind_outcome (Raise e) f = Raise e"
| "bind_outcome Aborted f = Aborted"
| "bind_outcome Undefined f = Undefined"
| "bind_outcome Blocked f = Blocked"
| "bind_outcome Ill_formed f = Ill_formed"
| "bind_outcome (Exited n) f = Exited n"

lemma bind_outcome_Value_right [simp]: "bind_outcome r Value = r"
  by (cases r) simp_all

lemma bind_outcome_assoc [simp]:
  "bind_outcome (bind_outcome r f) g = bind_outcome r (\<lambda>x. bind_outcome (f x) g)"
  by (cases r) simp_all

lemma bind_outcome_eq_Value [simp]:
  "bind_outcome r f = Value y \<longleftrightarrow> (\<exists>x. r = Value x \<and> f x = Value y)"
  by (cases r) simp_all

text \<open>
  Sequencing for operations that return their new state with their outcome: what is not a normal
  return leaves the caller too, with the state reached so far.
\<close>

fun state_bind :: "'s \<times> 'a outcome \<Rightarrow> ('a \<Rightarrow> 's \<Rightarrow> 's \<times> 'b outcome) \<Rightarrow> 's \<times> 'b outcome" where
  "state_bind (s, Value x) f = f x s"
| "state_bind (s, Raise e) f = (s, Raise e)"
| "state_bind (s, Aborted) f = (s, Aborted)"
| "state_bind (s, Undefined) f = (s, Undefined)"
| "state_bind (s, Blocked) f = (s, Blocked)"
| "state_bind (s, Ill_formed) f = (s, Ill_formed)"
| "state_bind (s, Exited n) f = (s, Exited n)"

text \<open>The same for operations with loops that may never end, which is \<open>None\<close>.\<close>

fun run_bind ::
  "('s \<times> 'a outcome) option \<Rightarrow> ('a \<Rightarrow> 's \<Rightarrow> ('s \<times> 'b outcome) option) \<Rightarrow> ('s \<times> 'b outcome) option" where
  "run_bind None f = None"
| "run_bind (Some (s, Value x)) f = f x s"
| "run_bind (Some (s, Raise e)) f = Some (s, Raise e)"
| "run_bind (Some (s, Aborted)) f = Some (s, Aborted)"
| "run_bind (Some (s, Undefined)) f = Some (s, Undefined)"
| "run_bind (Some (s, Blocked)) f = Some (s, Blocked)"
| "run_bind (Some (s, Ill_formed)) f = Some (s, Ill_formed)"
| "run_bind (Some (s, Exited n)) f = Some (s, Exited n)"

lemma state_bind_Value: "snd r = Value x \<Longrightarrow> state_bind r f = f x (fst r)"
  by (cases r) simp

text \<open>
  How the program is built: \<^verbatim>\<open>NDEBUG\<close> removes the \<^verbatim>\<open>assert\<close>s, and the checked standard library
  (\<^verbatim>\<open>_GLIBCXX_ASSERTIONS\<close>) aborts in \<^verbatim>\<open>operator[]\<close> on an index that is not below the size.
\<close>

record build =
  ndebug :: bool
  checked_subscript :: bool

text \<open>
  \<^verbatim>\<open>std::addressof(xs[i])\<close>: with the checked library the index must be below the size; without
  it the call only computes an address, and one past the end is an address.
\<close>

definition subscript_outcome :: "build \<Rightarrow> nat \<Rightarrow> nat \<Rightarrow> nat outcome" where
  "subscript_outcome cfg i n =
     (if i < n then Value i
      else if checked_subscript cfg then Aborted
      else if i = n then Value i
      else Undefined)"

lemma subscript_outcome_below [simp]: "i < n \<Longrightarrow> subscript_outcome cfg i n = Value i"
  by (simp add: subscript_outcome_def)

lemma subscript_outcome_end [simp]:
  "subscript_outcome cfg n n = (if checked_subscript cfg then Aborted else Value n)"
  by (simp add: subscript_outcome_def)

lemma subscript_outcome_Value:
  "subscript_outcome cfg i n = Value j \<Longrightarrow> j = i \<and> i \<le> n"
  by (auto simp: subscript_outcome_def split: if_splits)

section \<open>Copying bytes\<close>

text \<open>
  \<^verbatim>\<open>std::memcpy(addressof(dst[i]), src, n)\<close> into a buffer with room for the \<open>n\<close> bytes \<open>src\<close>, and
  the subspan a \<^verbatim>\<open>memcpy\<close> out of a buffer reads.
\<close>

definition overwrite :: "nat \<Rightarrow> 'a list \<Rightarrow> 'a list \<Rightarrow> 'a list" where
  "overwrite i src dst = take i dst @ src @ drop (i + length src) dst"

definition subspan :: "nat \<Rightarrow> nat \<Rightarrow> 'a list \<Rightarrow> 'a list" where
  "subspan i n xs = take n (drop i xs)"

lemma length_overwrite [simp]:
  "i + length src \<le> length dst \<Longrightarrow> length (overwrite i src dst) = length dst"
  by (simp add: overwrite_def)

lemma overwrite_end [simp]:
  "overwrite (length xs) src (xs @ ys) = xs @ src @ drop (length src) ys"
  by (simp add: overwrite_def)

lemma overwrite_append_left:
  "length xs \<le> i \<Longrightarrow> overwrite i src (xs @ ys) = xs @ overwrite (i - length xs) src ys"
  by (simp add: overwrite_def)

lemma overwrite_Nil [simp]: "i \<le> length xs \<Longrightarrow> overwrite i [] xs = xs"
  by (simp add: overwrite_def)

lemma subspan_append_left [simp]: "length xs = i \<Longrightarrow> subspan i n (xs @ ys) = take n ys"
  by (simp add: subspan_def)

lemma length_subspan [simp]: "i + n \<le> length xs \<Longrightarrow> length (subspan i n xs) = n"
  by (simp add: subspan_def)

lemma subspan_0 [simp]: "subspan 0 n xs = take n xs"
  by (simp add: subspan_def)

section \<open>Little-endian object representation\<close>

definition le_bytes :: "nat \<Rightarrow> 'a::len word \<Rightarrow> bytes" where
  "le_bytes n w = map (\<lambda>i. ucast (drop_bit (8 * i) w)) [0..<n]"

fun le_word :: "bytes \<Rightarrow> 'a::len word" where
  "le_word [] = 0"
| "le_word (b # bs) = ucast b OR push_bit 8 (le_word bs)"

lemma length_le_bytes [simp]: "length (le_bytes n w) = n"
  by (simp add: le_bytes_def)

lemma bit_le_word:
  "bit (le_word bs :: 'a::len word) i \<longleftrightarrow>
     i < LENGTH('a) \<and> i div 8 < length bs \<and> bit (bs ! (i div 8)) (i mod 8)"
proof (induction bs arbitrary: i)
  case Nil
  then show ?case by simp
next
  case (Cons b bs)
  show ?case
  proof (cases "i < 8")
    case True
    then show ?thesis by (auto simp: bit_or_iff bit_push_bit_iff bit_ucast_iff)
  next
    case False
    then have "i div 8 = Suc ((i - 8) div 8)" and "i mod 8 = (i - 8) mod 8"
      by (simp_all add: div_if mod_if)
    moreover have "\<not> bit b i"
      using False bit_imp_le_length by fastforce
    moreover have "i - 8 < LENGTH('a)" if "i < LENGTH('a)"
      using that by simp
    ultimately show ?thesis
      using False by (auto simp: bit_or_iff bit_push_bit_iff bit_ucast_iff Cons.IH)
  qed
qed

lemma nth_le_bytes:
  "i < n \<Longrightarrow> le_bytes n w ! i = ucast (drop_bit (8 * i) w)"
  by (simp add: le_bytes_def)

lemma le_word_le_bytes:
  assumes "LENGTH('a) \<le> 8 * n"
  shows "le_word (le_bytes n w) = (w :: 'a::len word)"
proof (rule bit_eqI)
  fix i assume "possible_bit TYPE('a word) i"
  then have i: "i < LENGTH('a)" by simp
  with assms have n: "i div 8 < n" by linarith
  have "8 * (i div 8) + i mod 8 = i" by simp
  with i n show "bit (le_word (le_bytes n w) :: 'a word) i \<longleftrightarrow> bit w i"
    by (simp add: bit_le_word nth_le_bytes bit_ucast_iff bit_drop_bit_eq)
qed

lemma le_bytes_le_word:
  assumes "length bs = n" and "8 * n \<le> LENGTH('a)"
  shows "le_bytes n (le_word bs :: 'a::len word) = bs"
proof (rule nth_equalityI)
  show "length (le_bytes n (le_word bs :: 'a word)) = length bs"
    using assms(1) by simp
next
  fix i assume "i < length (le_bytes n (le_word bs :: 'a word))"
  then have i: "i < n" by simp
  show "le_bytes n (le_word bs :: 'a word) ! i = bs ! i"
  proof (rule bit_eqI)
    fix k assume "possible_bit TYPE(8 word) k"
    then have k: "k < 8" by simp
    have "(8 * i + k) div 8 = i" and "(8 * i + k) mod 8 = k" and "8 * i + k < LENGTH('a)"
      using k i assms(2) by simp_all
    then show "bit (le_bytes n (le_word bs :: 'a word) ! i) k \<longleftrightarrow> bit (bs ! i) k"
      using i k assms(1) by (simp add: nth_le_bytes bit_ucast_iff bit_drop_bit_eq bit_le_word)
  qed
qed

lemma le_word_le_bytes_u16 [simp]: "le_word (le_bytes 2 w) = (w :: u16)"
  by (rule le_word_le_bytes) simp

lemma le_word_le_bytes_u32 [simp]: "le_word (le_bytes 4 w) = (w :: u32)"
  by (rule le_word_le_bytes) simp

lemma le_bytes_inject_u32 [simp]: "le_bytes 4 v = le_bytes 4 w \<longleftrightarrow> v = (w :: u32)"
  by (metis le_word_le_bytes_u32)

lemma le_bytes_inject_u16 [simp]: "le_bytes 2 v = le_bytes 2 w \<longleftrightarrow> v = (w :: u16)"
  by (metis le_word_le_bytes_u16)

lemma le_bytes_not_Nil [simp]: "0 < n \<Longrightarrow> le_bytes n w \<noteq> []"
  by (simp flip: length_greater_0_conv)

lemma unat_of_nat_u32: "n < 2 ^ 32 \<Longrightarrow> unat (of_nat n :: u32) = n"
  by (simp add: unat_of_nat take_bit_nat_eq_self)

lemma unat_of_nat_u16: "n < 2 ^ 16 \<Longrightarrow> unat (of_nat n :: u16) = n"
  by (simp add: unat_of_nat take_bit_nat_eq_self)

lemma le_bytes_2: "le_bytes 2 w = [ucast w, ucast (drop_bit 8 w)]"
  by (simp add: le_bytes_def upt_rec)

lemma le_bytes_4:
  "le_bytes 4 w = [ucast w, ucast (drop_bit 8 w), ucast (drop_bit 16 w), ucast (drop_bit 24 w)]"
  by (simp add: le_bytes_def upt_rec)

end
