(* ===== verification/Sstd.thy ===== *)
theory Sstd
  imports Prelude "HOL-Library.Signed_Division"
begin

text \<open>
  The supplement library \<^verbatim>\<open>waylander::sstd\<close>: \<^verbatim>\<open>round_upto_multiple_of\<close> of \<^verbatim>\<open>sstd.hpp\<close>, the error
  helpers of \<^verbatim>\<open>sstd.cpp\<close>, and \<^verbatim>\<open>byte_vec\<close> (\<^verbatim>\<open>byte_vec.hpp\<close>) with the allocator adapter of
  \<^verbatim>\<open>construct_allocator_adapter.hpp\<close> that leaves new elements uninitialised.
\<close>

section \<open>Rounding up to a multiple\<close>

text \<open>
  C++'s \<^verbatim>\<open>%\<close> truncates towards zero, so it is \<open>smod\<close>; the operand may be any integral value.
\<close>

definition round_upto_multiple_of :: "int \<Rightarrow> int \<Rightarrow> int" where
  "round_upto_multiple_of N x = (N - (x smod N)) smod N"

lemma smod_of_nonneg: "0 < N \<Longrightarrow> 0 \<le> x \<Longrightarrow> x smod N = x mod (N::int)"
  by (cases "x = 0") (simp_all add: signed_modulo_int_def signed_divide_int_def minus_div_mult_eq_mod)

lemma smod_of_neg: "0 < N \<Longrightarrow> x < 0 \<Longrightarrow> x smod N = - ((- x) mod (N::int))"
  by (simp add: signed_modulo_int_def signed_divide_int_def minus_mult_div_eq_mod [symmetric])

lemma round_upto_mod:
  assumes "0 < N"
  shows "round_upto_multiple_of N x = (- x) mod N"
proof (cases "0 \<le> x")
  case True
  have "0 \<le> N - x mod N" using assms by (simp add: less_imp_le)
  with assms True show ?thesis
    by (simp add: round_upto_multiple_of_def smod_of_nonneg mod_minus_eq mod_diff_right_eq
        minus_mod_self1)
next
  case False
  have "0 \<le> N + (- x) mod N" using assms by simp
  with assms False show ?thesis
    by (simp add: round_upto_multiple_of_def smod_of_neg smod_of_nonneg)
qed

text \<open>
  The way the buffer and the interpreter call it: \<open>N = 4\<close> and an unsigned size.
\<close>

definition pad_of :: "nat \<Rightarrow> nat" where
  "pad_of n = nat (round_upto_multiple_of 4 (int n))"

lemma pad_of_eq: "pad_of n = (4 - n mod 4) mod 4"
proof -
  have r: "n mod 4 < 4" by simp
  have "(- int n) mod 4 = (4 - int n mod 4) mod 4"
    by (simp add: mod_minus_eq mod_diff_right_eq minus_mod_self1)
  also have "\<dots> = int ((4 - n mod 4) mod 4)"
    using r by (simp add: of_nat_diff zmod_int)
  finally show ?thesis by (simp add: pad_of_def round_upto_mod)
qed

lemma pad_of_aligned [simp]: "(n + pad_of n) mod 4 = 0"
proof -
  have "n mod 4 \<in> {0, 1, 2, 3}" by auto
  then show ?thesis by (auto simp: pad_of_eq mod_add_left_eq [symmetric, of n])
qed

lemma dvd_pad_of [simp]: "4 dvd n + pad_of n"
  by (simp add: dvd_eq_mod_eq_0)

lemma pad_of_less [simp]: "pad_of n < 4"
  by (simp add: pad_of_eq)

lemma pad_of_4 [simp]: "pad_of 4 = 0"
  by (simp add: pad_of_eq)

lemma pad_of_zero_iff: "pad_of n = 0 \<longleftrightarrow> 4 dvd n"
  by (simp add: pad_of_eq) presburger

section \<open>Error helpers\<close>

text \<open>\<^verbatim>\<open>std::format\<close> writes an unsigned number in decimal.\<close>

fun decimal :: "nat \<Rightarrow> string" where
  "decimal n = (if n < 10 then [char_of (48 + n)] else decimal (n div 10) @ [char_of (48 + n mod 10)])"

declare decimal.simps [simp del]

record source_location =
  file_name :: string
  function_name :: string
  line_number :: nat

text \<open>
  Both helpers read \<^verbatim>\<open>errno\<close> and never return. The first one builds \<open>err_msg\<close> and does not use
  it. The text of an error number is \<^verbatim>\<open>std::strerror\<close>, a parameter here.
\<close>

definition throw_generic_system_error ::
  "(int \<Rightarrow> string) \<Rightarrow> int \<Rightarrow> source_location \<Rightarrow> 'a outcome" where
  "throw_generic_system_error strerror errno loc =
     (let current_errno = errno;
          err_msg = file_name loc @ '':'' @ function_name loc @ '':'' @ decimal (line_number loc) @
                    '': failed with error: '' @ strerror current_errno
      in Raise (System_error current_errno (strerror current_errno)))"

definition throw_partial_system_io_error ::
  "(int \<Rightarrow> string) \<Rightarrow> int \<Rightarrow> nat \<Rightarrow> nat \<Rightarrow> source_location \<Rightarrow> 'a outcome" where
  "throw_partial_system_io_error strerror errno transfered_bytes total_bytes loc =
     (let current_errno = errno;
          err_msg = function_name loc @ '' failed and transfered '' @ decimal transfered_bytes @
                    '' out of '' @ decimal total_bytes @ '' total bytes:'' @ [CHR 0x0A] @
                    strerror current_errno
      in Raise (System_error current_errno err_msg))"

text \<open>The message the header documents for the first helper.\<close>

definition documented_generic_message :: "(int \<Rightarrow> string) \<Rightarrow> int \<Rightarrow> source_location \<Rightarrow> string" where
  "documented_generic_message strerror errno loc =
     file_name loc @ '':'' @ function_name loc @ '':'' @ decimal (line_number loc) @
     '': failed with error: '' @ strerror errno"

lemma documented_generic_message_longer:
  "length (strerror errno) < length (documented_generic_message strerror errno loc)"
  by (simp add: documented_generic_message_def)

section \<open>byte_vec\<close>

text \<open>
  An allocator's \<^verbatim>\<open>construct(ptr, args...)\<close> as a function of what the storage at \<^verbatim>\<open>ptr\<close> holds and of
  the arguments. \<open>constant_construct\<close> ignores both; \<open>default_init_construct\<close> default-initialises a
  byte when there is no argument, which leaves the storage as it is, and otherwise hands the
  arguments to the adapted allocator, which copies the value.
\<close>

definition constant_construct :: "'t \<Rightarrow> 't \<Rightarrow> 'arg list \<Rightarrow> 't" where
  "constant_construct C storage args = C"

definition default_init_construct :: "byte \<Rightarrow> byte list \<Rightarrow> byte" where
  "default_init_construct storage args = (case args of [] \<Rightarrow> storage | a # _ \<Rightarrow> a)"

text \<open>
  \<^verbatim>\<open>std::vector::resize\<close>: shorten, or append elements built by the allocator with no argument.
  \<open>storage i\<close> is what the memory of element \<open>i\<close> happens to hold.
\<close>

definition vector_resize ::
  "('t \<Rightarrow> 'arg list \<Rightarrow> 't) \<Rightarrow> (nat \<Rightarrow> 't) \<Rightarrow> nat \<Rightarrow> 't list \<Rightarrow> 't list" where
  "vector_resize construct storage n xs =
     (if n \<le> length xs then take n xs
      else xs @ map (\<lambda>i. construct (storage i) []) [length xs..<n])"

definition byte_vec_resize :: "(nat \<Rightarrow> byte) \<Rightarrow> nat \<Rightarrow> bytes \<Rightarrow> bytes" where
  "byte_vec_resize = vector_resize default_init_construct"

lemma byte_vec_resize_grow:
  "byte_vec_resize storage (length xs + n) xs = xs @ map storage [length xs..<length xs + n]"
  by (simp add: byte_vec_resize_def vector_resize_def default_init_construct_def)

lemma byte_vec_resize_shrink: "n \<le> length xs \<Longrightarrow> byte_vec_resize storage n xs = take n xs"
  by (simp add: byte_vec_resize_def vector_resize_def)

lemma length_byte_vec_resize [simp]: "length (byte_vec_resize storage n xs) = n"
  by (simp add: byte_vec_resize_def vector_resize_def)

lemma take_byte_vec_resize:
  "k \<le> length xs \<Longrightarrow> k \<le> n \<Longrightarrow> take k (byte_vec_resize storage n xs) = take k xs"
  by (simp add: byte_vec_resize_def vector_resize_def)

lemma byte_vec_resize_ge:
  "length xs \<le> n \<Longrightarrow> byte_vec_resize storage n xs = xs @ map storage [length xs..<n]"
  by (simp add: byte_vec_resize_def vector_resize_def default_init_construct_def)

section \<open>Properties\<close>

text \<open>
  For a positive \<open>N\<close>, and whatever the sign of \<open>x\<close>, \<open>round_upto_multiple_of N x\<close> is the only
  number below \<open>N\<close> and not negative that makes \<open>x\<close> a multiple of \<open>N\<close>, as its comment says.
\<close>

lemma round_upto_multiple_of_least:
  assumes "0 < N"
  shows "dx = round_upto_multiple_of N x \<longleftrightarrow> 0 \<le> dx \<and> dx < N \<and> N dvd x + dx"
proof
  assume "dx = round_upto_multiple_of N x"
  then have dx: "dx = (- x) mod N" using assms by (simp add: round_upto_mod)
  then have "N dvd x + dx" by (simp add: dvd_eq_mod_eq_0 mod_add_right_eq)
  with dx assms show "0 \<le> dx \<and> dx < N \<and> N dvd x + dx" by simp
next
  assume "0 \<le> dx \<and> dx < N \<and> N dvd x + dx"
  then have r: "dx mod N = dx" and d: "N dvd dx - (- x)" by (simp_all add: add.commute)
  from d have "dx mod N = (- x) mod N" by (simp only: mod_eq_dvd_iff)
  with r show "dx = round_upto_multiple_of N x" using assms by (simp add: round_upto_mod)
qed

text \<open>
  \<open>throw_generic_system_error\<close> throws a \<^verbatim>\<open>std::system_error\<close> with the current \<^verbatim>\<open>errno\<close>, but its
  text is only that of the error number: it is never the text with file, function and line that
  the comment at its declaration promises. \<open>throw_partial_system_io_error\<close> does use the text it
  builds.
\<close>

lemma throw_generic_error_text:
  "throw_generic_system_error strerror errno loc = (Raise (System_error errno (strerror errno)) :: 'a outcome) \<and>
   throw_generic_system_error strerror errno loc
     \<noteq> (Raise (System_error errno (documented_generic_message strerror errno loc)) :: 'a outcome) \<and>
   throw_partial_system_io_error strerror errno m n loc = (Raise (System_error errno
     (function_name loc @ '' failed and transfered '' @ decimal m @ '' out of '' @ decimal n @
      '' total bytes:'' @ [CHR 0x0A] @ strerror errno)) :: 'a outcome)"
proof -
  have "strerror errno \<noteq> documented_generic_message strerror errno loc"
    using documented_generic_message_longer [of strerror errno loc] by auto
  then show ?thesis
    by (simp add: throw_generic_system_error_def throw_partial_system_io_error_def Let_def)
qed

end
