(* ===== verification/Protocol_Primitives.thy ===== *)
theory Protocol_Primitives
  imports Sstd
begin

text \<open>
  The protocol primitives of \<^verbatim>\<open>protocol_primitives.hpp\<close>: the values a message carries, objects and
  new ids with the interface they are typed by, the message header and its layout in memory, and
  the comparison operator of the primitives.
\<close>

section \<open>Interfaces and primitives\<close>

text \<open>
  An interface is any type with the nested types \<^verbatim>\<open>request\<close> and \<^verbatim>\<open>event\<close>; the protocol headers
  declare one per Wayland interface, \<open>generic_object\<close> stands for an object of unknown interface.
\<close>

datatype interface = generic_object | protocol_interface string

text \<open>The bit-fields of \<^verbatim>\<open>Wfixed\<close>, allocated from the least significant bit of one 32-bit unit.\<close>

record wfixed =
  is_negative :: bool
  mantissa :: "23 word"
  exponent :: "8 word"

definition wfixed_word :: "wfixed \<Rightarrow> u32" where
  "wfixed_word f =
     of_bool (is_negative f) OR push_bit 1 (ucast (mantissa f)) OR push_bit 24 (ucast (exponent f))"

definition wfixed_of_word :: "u32 \<Rightarrow> wfixed" where
  "wfixed_of_word w =
     \<lparr>is_negative = bit w 0, mantissa = ucast (drop_bit 1 w), exponent = ucast (drop_bit 24 w)\<rparr>"

lemma bit_wfixed_word:
  "bit (wfixed_word f) i \<longleftrightarrow>
     (i = 0 \<and> is_negative f) \<or> (0 < i \<and> i < 24 \<and> bit (mantissa f) (i - 1)) \<or>
     (24 \<le> i \<and> i < 32 \<and> bit (exponent f) (i - 24))"
proof -
  have "bit (push_bit 1 (ucast (mantissa f)) :: u32) i \<longleftrightarrow> 0 < i \<and> i < 24 \<and> bit (mantissa f) (i - 1)"
    unfolding bit_push_bit_iff bit_ucast_iff by (auto dest: bit_imp_le_length)
  moreover have "bit (push_bit 24 (ucast (exponent f)) :: u32) i \<longleftrightarrow>
      24 \<le> i \<and> i < 32 \<and> bit (exponent f) (i - 24)"
    unfolding bit_push_bit_iff bit_ucast_iff by (auto dest: bit_imp_le_length)
  moreover have "bit (of_bool (is_negative f) :: u32) i \<longleftrightarrow> i = 0 \<and> is_negative f"
    by (simp add: bit_of_bool_iff)
  ultimately show ?thesis
    unfolding wfixed_word_def bit_or_iff by blast
qed

lemma wfixed_of_word_inverse [simp]: "wfixed_word (wfixed_of_word w) = w"
proof (rule bit_eqI)
  fix i assume "possible_bit TYPE(u32) i"
  then have "i < 32" by simp
  then show "bit (wfixed_word (wfixed_of_word w)) i \<longleftrightarrow> bit w i"
    by (cases "i < 24"; cases "i = 0")
      (auto simp: bit_wfixed_word wfixed_of_word_def bit_ucast_iff bit_drop_bit_eq)
qed

lemma wfixed_word_inverse [simp]: "wfixed_of_word (wfixed_word f) = f"
proof -
  have "mantissa (wfixed_of_word (wfixed_word f)) = mantissa f"
    by (rule bit_eqI)
      (simp add: bit_wfixed_word wfixed_of_word_def bit_ucast_iff bit_drop_bit_eq)
  moreover have "exponent (wfixed_of_word (wfixed_word f)) = exponent f"
    by (rule bit_eqI)
      (simp add: bit_wfixed_word wfixed_of_word_def bit_ucast_iff bit_drop_bit_eq)
  moreover have "is_negative (wfixed_of_word (wfixed_word f)) = is_negative f"
    by (simp add: bit_wfixed_word wfixed_of_word_def)
  ultimately show ?thesis by simp
qed

text \<open>
  A value of a primitive type. \<open>Wenum\<close> is a value of a generated \<^verbatim>\<open>enum class\<close> (its underlying type
  is \<^verbatim>\<open>Wint\<close>'s or \<^verbatim>\<open>Wuint\<close>'s). A file descriptor is a \<^verbatim>\<open>gnulander::fd_ref\<close>, whose type is a
  parameter. The interface of \<open>Wobject\<close> and \<open>Wnew_id\<close> is part of the type, not of the value.
\<close>

datatype 'fd primitive =
    Wint u32
  | Wuint u32
  | Wfixed wfixed
  | Wobject u32
  | Wnew_id u32
  | Wenum u32
  | Wstring bytes
  | Warray bytes
  | Wfd 'fd

text \<open>\<^verbatim>\<open>Wobject<WObj>\<close> and \<^verbatim>\<open>Wnew_id<WObj>\<close> with the interface they are typed by.\<close>

record wobject =
  wobject_interface :: interface
  wobject_value :: u32

record wnew_id =
  wnew_id_interface :: interface
  wnew_id_value :: u32

text \<open>
  The conversion operator is a template over the target's interface \<open>T\<close>; \<open>None\<close> is a conversion
  its \<^verbatim>\<open>requires\<close> clause rejects.
\<close>

definition wobject_to_wnew_id :: "interface \<Rightarrow> wobject \<Rightarrow> wnew_id option" where
  "wobject_to_wnew_id T self =
     (if T = wobject_interface self \<or> T = generic_object
      then Some \<lparr>wnew_id_interface = T, wnew_id_value = wobject_value self\<rparr>
      else None)"

section \<open>Message header\<close>

record message_header =
  object_id :: u32
  opcode :: u16
  msg_size :: u16

definition sizeof_object_id :: nat where "sizeof_object_id = 4"
definition sizeof_opcode :: nat where "sizeof_opcode = 2"

definition opcode_offset :: nat where
  "opcode_offset = sizeof_object_id"

definition size_offset :: nat where
  "size_offset = opcode_offset + sizeof_opcode"

definition sizeof_message_header :: nat where
  "sizeof_message_header = 8"

lemma header_layout [simp]:
  "opcode_offset = 4" "size_offset = 6" "sizeof_message_header = 8"
  "sizeof_object_id = 4" "sizeof_opcode = 2"
  by (simp_all add: opcode_offset_def size_offset_def sizeof_message_header_def
      sizeof_object_id_def sizeof_opcode_def)

text \<open>The constructor, and the object representation of the header: its members in order.\<close>

definition make_message_header :: "u32 \<Rightarrow> u16 \<Rightarrow> u16 \<Rightarrow> message_header" where
  "make_message_header obj_id op size_a = \<lparr>object_id = obj_id, opcode = op, msg_size = size_a\<rparr>"

definition header_bytes :: "message_header \<Rightarrow> bytes" where
  "header_bytes h = le_bytes 4 (object_id h) @ le_bytes 2 (opcode h) @ le_bytes 2 (msg_size h)"

lemma length_header_bytes [simp]: "length (header_bytes h) = 8"
  by (simp add: header_bytes_def)

lemma take_object_id_header [simp]: "take 4 (header_bytes h @ r) = le_bytes 4 (object_id h)"
  by (simp add: header_bytes_def)

lemma opcode_of_header [simp]:
  "subspan 4 2 (header_bytes h @ r) = le_bytes 2 (opcode h)"
  by (simp add: header_bytes_def subspan_def)

lemma size_of_header [simp]:
  "subspan 6 2 (header_bytes h @ r) = le_bytes 2 (msg_size h)"
  by (simp add: header_bytes_def subspan_def)

text \<open>
  What the comment on \<^verbatim>\<open>message_header\<close> asks for: the second 32-bit word of a message has the size
  in its upper and the opcode in its lower half.
\<close>

definition header_second_word :: "message_header \<Rightarrow> u32" where
  "header_second_word h = push_bit 16 (ucast (msg_size h)) OR ucast (opcode h)"

lemma le_bytes_pair_u16:
  "le_bytes 2 (a :: u16) @ le_bytes 2 (b :: u16)
    = le_bytes 4 (push_bit 16 (ucast b) OR ucast a :: u32)"
proof (rule nth_equalityI)
  show "length (le_bytes 2 a @ le_bytes 2 b)
      = length (le_bytes 4 (push_bit 16 (ucast b) OR ucast a :: u32))" by simp
next
  fix i assume "i < length (le_bytes 2 a @ le_bytes 2 b)"
  then have i: "i < 4" by simp
  have "(le_bytes 2 a @ le_bytes 2 b) ! i
      = (if i < 2 then ucast (drop_bit (8 * i) a) else ucast (drop_bit (8 * (i - 2)) b))"
    using i by (simp add: nth_append nth_le_bytes)
  also have "\<dots> = (ucast (drop_bit (8 * i) (push_bit 16 (ucast b) OR ucast a :: u32)) :: byte)"
  proof (rule bit_eqI)
    fix k assume "possible_bit TYPE(byte) k"
    then have k: "k < 8" by simp
    show "bit (if i < 2 then ucast (drop_bit (8 * i) a) else ucast (drop_bit (8 * (i - 2)) b) :: byte) k
      = bit (ucast (drop_bit (8 * i) (push_bit 16 (ucast b) OR ucast a :: u32)) :: byte) k"
      using i k
      by (auto simp: bit_ucast_iff bit_drop_bit_eq bit_or_iff bit_push_bit_iff
          dest: bit_imp_le_length)
        (auto dest!: bit_imp_le_length simp: algebra_simps)
  qed
  finally show "(le_bytes 2 a @ le_bytes 2 b) ! i
      = le_bytes 4 (push_bit 16 (ucast b) OR ucast a :: u32) ! i"
    using i by (simp add: nth_le_bytes)
qed

lemma header_bytes_words:
  "header_bytes h = le_bytes 4 (object_id h) @ le_bytes 4 (header_second_word h)"
  by (simp add: header_bytes_def header_second_word_def le_bytes_pair_u16)

section \<open>Comparison\<close>

text \<open>
  The types the comparison accepts, as machine integers: signed and unsigned of 32 bits, and the
  unsigned 16-bit ones of the header (\<^verbatim>\<open>std::integral\<close> or a \<^verbatim>\<open>value\<close> member that is).
\<close>

datatype integral = I32 u32 | U32 u32 | U16 u16

text \<open>\<open>get_integral_value\<close>: the value member, or the integer itself.\<close>

fun get_integral_value :: "'fd primitive \<Rightarrow> integral option" where
  "get_integral_value (Wint v) = Some (I32 v)"
| "get_integral_value (Wuint v) = Some (U32 v)"
| "get_integral_value (Wobject v) = Some (U32 v)"
| "get_integral_value (Wnew_id v) = Some (U32 v)"
| "get_integral_value (Wfixed _) = None"
| "get_integral_value (Wenum _) = None"
| "get_integral_value (Wstring _) = None"
| "get_integral_value (Warray _) = None"
| "get_integral_value (Wfd _) = None"

fun is_signed :: "integral \<Rightarrow> bool" where
  "is_signed (I32 _) = True"
| "is_signed (U32 _) = False"
| "is_signed (U16 _) = False"

text \<open>
  Integral conversion to \<^verbatim>\<open>int\<close> for a signed operand and to 32-bit unsigned for the others, and the
  definition of \<^verbatim>\<open>std::cmp_equal\<close>: a plain comparison when the signedness agrees; otherwise a
  negative value is unequal and the non-negative one is compared as unsigned.
\<close>

fun to_u32 :: "integral \<Rightarrow> u32" where
  "to_u32 (I32 v) = v"
| "to_u32 (U32 v) = v"
| "to_u32 (U16 v) = ucast v"

fun negative_integral :: "integral \<Rightarrow> bool" where
  "negative_integral (I32 v) = (sint v < 0)"
| "negative_integral (U32 _) = False"
| "negative_integral (U16 _) = False"

definition cmp_equal :: "integral \<Rightarrow> integral \<Rightarrow> bool" where
  "cmp_equal t u =
     (if is_signed t = is_signed u then to_u32 t = to_u32 u
      else if is_signed t then (if negative_integral t then False else to_u32 t = to_u32 u)
      else (if negative_integral u then False else to_u32 t = to_u32 u))"

definition primitive_equal :: "'fd primitive \<Rightarrow> 'fd primitive \<Rightarrow> bool option" where
  "primitive_equal lhs rhs =
     (case (get_integral_value lhs, get_integral_value rhs) of
        (Some t, Some u) \<Rightarrow> Some (cmp_equal t u)
      | _ \<Rightarrow> None)"

fun integral_int :: "integral \<Rightarrow> int" where
  "integral_int (I32 v) = sint v"
| "integral_int (U32 v) = uint v"
| "integral_int (U16 v) = uint v"

lemma sint_less_u32: "sint (v :: u32) < 2 ^ 31"
  using sint_lt [of v] by simp

lemma sint_nonneg_uint: "0 \<le> sint (v :: u32) \<Longrightarrow> sint v = uint v"
  by (subst uint_sint) (use sint_less_u32 [of v] in \<open>simp add: take_bit_int_eq_self\<close>)

lemma uint_ucast_u16 [simp]: "uint (ucast (v :: u16) :: u32) = uint v"
proof -
  have "uint v < 2 ^ 16" using uint_lt2p [of v] by simp
  then have "take_bit 32 (uint v) = uint v" by (simp add: take_bit_int_eq_self)
  then show ?thesis by (simp add: unsigned_ucast_eq take_bit_word_eq_self)
qed

lemma integral_int_unsigned: "\<not> negative_integral x \<Longrightarrow> integral_int x = uint (to_u32 x)"
  by (cases x) (simp_all add: sint_nonneg_uint)

lemma integral_int_nonneg: "\<not> is_signed x \<Longrightarrow> \<not> negative_integral x \<and> 0 \<le> integral_int x"
  by (cases x) simp_all

lemma integral_int_negative: "negative_integral x \<longleftrightarrow> integral_int x < 0"
  by (cases x) simp_all

lemma integral_int_signed:
  "is_signed t \<Longrightarrow> is_signed u \<Longrightarrow> to_u32 t = to_u32 u \<longleftrightarrow> integral_int t = integral_int u"
  by (cases t; cases u) (auto intro: signed_word_eqI)

lemma cmp_equal_int: "cmp_equal t u \<longleftrightarrow> integral_int t = integral_int u"
proof (cases "is_signed t \<and> is_signed u")
  case True
  then show ?thesis by (simp add: cmp_equal_def integral_int_signed)
next
  case False
  then have one: "\<not> negative_integral t \<or> \<not> negative_integral u"
    using integral_int_nonneg by blast
  show ?thesis
  proof (cases "negative_integral t \<or> negative_integral u")
    case True
    with False one have "integral_int t \<noteq> integral_int u"
      by (auto simp: integral_int_negative)
    with False True show ?thesis by (auto simp: cmp_equal_def dest: integral_int_nonneg)
  next
    case nonneg: False
    with False show ?thesis
      by (auto simp: cmp_equal_def integral_int_unsigned word_uint_eq_iff)
  qed
qed

section \<open>Properties\<close>

text \<open>
  Comparing two primitives, or a primitive and an integer, compares the numbers they stand
  for, whatever their widths and signs; in particular a negative \<^verbatim>\<open>Wint\<close> equals no unsigned value.
\<close>

lemma primitive_equal_compares_numbers:
  "primitive_equal lhs rhs =
     (case (get_integral_value lhs, get_integral_value rhs) of
        (Some t, Some u) \<Rightarrow> Some (integral_int t = integral_int u)
      | _ \<Rightarrow> None) \<and>
   primitive_equal (Wint v) (Wuint v) = Some (0 \<le> sint v)"
proof
  show "primitive_equal lhs rhs =
     (case (get_integral_value lhs, get_integral_value rhs) of
        (Some t, Some u) \<Rightarrow> Some (integral_int t = integral_int u)
      | _ \<Rightarrow> None)"
    by (simp add: primitive_equal_def cmp_equal_int split: option.split)
next
  have "sint v = uint v \<longleftrightarrow> 0 \<le> sint v"
    using sint_nonneg_uint [of v] uint_lt2p [of v] by (metis uint_ge_0)
  then show "primitive_equal (Wint v) (Wuint v) = Some (0 \<le> sint v)"
    by (simp add: primitive_equal_def cmp_equal_int)
qed

text \<open>
  A header occupies eight bytes, the object id and then one 32-bit word with the size in
  its upper and the opcode in its lower half; whatever follows, the bytes at the offsets the
  receiving code uses are those of the fields.
\<close>

lemma header_on_the_wire:
  "header_bytes h = le_bytes 4 (object_id h) @ le_bytes 4 (header_second_word h) \<and>
   length (header_bytes h) = sizeof_message_header \<and>
   le_word (take 4 (header_bytes h @ payload)) = object_id h \<and>
   le_word (subspan opcode_offset 2 (header_bytes h @ payload)) = opcode h \<and>
   le_word (subspan size_offset 2 (header_bytes h @ payload)) = msg_size h"
  by (intro conjI header_bytes_words) (simp_all add: header_bytes_def subspan_def)

lemma three_digits:
  fixes a b c d e r s :: int
  assumes "e = d" and "d = c" and "a = 2 * b + r" and "b = 2 ^ 23 * c + s"
  shows "a = r + 2 * s + 2 ^ 24 * e"
  using assms by simp


end
