(* ===== verification/Type_Utils.thy ===== *)
theory Type_Utils
  imports Prelude
begin

text \<open>
  \<^verbatim>\<open>type_utils.hpp\<close>: lists of types with \<^verbatim>\<open>map\<close>, \<^verbatim>\<open>fold_left\<close>, \<^verbatim>\<open>append\<close> and concatenation, and the
  reflection helpers \<^verbatim>\<open>to_ref_tuple\<close> and \<^verbatim>\<open>to_tuple\<close> that turn an aggregate into the tuple of its
  members. Types are values of a type variable; an overload set is a partial function on them, and
  \<open>None\<close> is a program the compiler rejects.
\<close>

section \<open>Lists of types\<close>

text \<open>\<^verbatim>\<open>type_list<T...>::map<F...>\<close>: overload resolution for each type; one failure rejects all.\<close>

fun type_list_map :: "('a \<Rightarrow> 'b option) \<Rightarrow> 'a list \<Rightarrow> 'b list option" where
  "type_list_map F [] = Some []"
| "type_list_map F (T # Ts) =
     (case F T of
        None \<Rightarrow> None
      | Some U \<Rightarrow> (case type_list_map F Ts of None \<Rightarrow> None | Some Us \<Rightarrow> Some (U # Us)))"

text \<open>The primary template is not defined; the base case has one type, the recursive one two.\<close>

fun type_fold_left :: "('a \<Rightarrow> 'a \<Rightarrow> 'a option) \<Rightarrow> 'a list \<Rightarrow> 'a option" where
  "type_fold_left F [] = None"
| "type_fold_left F [T] = Some T"
| "type_fold_left F (Lhs # Rhs # Tail) =
     (case F Lhs Rhs of None \<Rightarrow> None | Some E \<Rightarrow> type_fold_left F (E # Tail))"

definition type_list_fold_left :: "('a \<Rightarrow> 'a \<Rightarrow> 'a option) \<Rightarrow> 'a \<Rightarrow> 'a list \<Rightarrow> 'a option" where
  "type_list_fold_left F Init Ts = type_fold_left F (Init # Ts)"

definition type_list_append :: "'a list \<Rightarrow> 'a list \<Rightarrow> 'a list" where
  "type_list_append Ts Us = Ts @ Us"

definition type_list_concat :: "'a list \<Rightarrow> 'a list \<Rightarrow> 'a list" where
  "type_list_concat Lhs Rhs = type_list_append Lhs Rhs"

lemma type_list_map_total:
  "(\<And>T. T \<in> set Ts \<Longrightarrow> F T = Some (g T)) \<Longrightarrow> type_list_map F Ts = Some (map g Ts)"
  by (induction Ts) auto

lemma type_list_map_None: "T \<in> set Ts \<Longrightarrow> F T = None \<Longrightarrow> type_list_map F Ts = None"
  by (induction Ts) (auto split: option.split)

lemma type_list_fold_left_total:
  "(\<And>a b. F a b = Some (g a b)) \<Longrightarrow> type_list_fold_left F Init Ts = Some (foldl g Init Ts)"
  by (induction Ts arbitrary: Init) (simp_all add: type_list_fold_left_def)

lemma type_fold_left_append:
  "type_list_fold_left F Init (Ts @ Us) =
     Option.bind (type_list_fold_left F Init Ts) (\<lambda>E. type_list_fold_left F E Us)"
  by (induction Ts arbitrary: Init)
    (auto simp: type_list_fold_left_def split: option.split)

lemma type_list_map_cong:
  "(\<And>T. T \<in> set Ts \<Longrightarrow> F T = G T) \<Longrightarrow> type_list_map F Ts = type_list_map G Ts"
  by (induction Ts) (auto split: option.split)

lemma type_list_map_append:
  "type_list_map F (Ts @ Us) =
     Option.bind (type_list_map F Ts) (\<lambda>Vs. map_option ((@) Vs) (type_list_map F Us))"
proof (induction Ts)
  case Nil
  show ?case by (cases "type_list_map F Us") simp_all
next
  case (Cons T Ts)
  then show ?case by (auto split: option.split)
qed

section \<open>Aggregates as tuples\<close>

text \<open>
  One branch of the \<^verbatim>\<open>if constexpr\<close> chains: it is taken when the aggregate is constructible from
  \<open>probes\<close> arguments, its structured binding gives the members the names \<open>bound_names\<close> (the number
  \<open>n\<close> is the name \<^verbatim>\<open>xn\<close>), and it returns the tuple of \<open>returned_names\<close>.
\<close>

record tuple_branch =
  probes :: nat
  bound_names :: "nat list"
  returned_names :: "nat list"

text \<open>
  An aggregate is the list of its members; it can be initialised from any number of arguments up
  to the number of its members. A structured binding must name every member, otherwise the
  program is rejected.
\<close>

definition constructible_from :: "'a list \<Rightarrow> nat \<Rightarrow> bool" where
  "constructible_from members n \<longleftrightarrow> n \<le> length members"

definition run_branch :: "tuple_branch \<Rightarrow> 'a list \<Rightarrow> 'a list option" where
  "run_branch br members =
     (if length (bound_names br) = length members
      then type_list_map (map_of (zip (bound_names br) members)) (returned_names br)
      else None)"

fun run_branches :: "tuple_branch list \<Rightarrow> 'a list \<Rightarrow> 'a list option" where
  "run_branches [] members = (if members = [] then Some [] else None)"
| "run_branches (br # brs) members =
     (if constructible_from members (probes br) then run_branch br members
      else run_branches brs members)"

section \<open>The branches of the chains\<close>

definition to_ref_tuple_20 :: tuple_branch where
  "to_ref_tuple_20 =
     \<lparr>probes = 20,
      bound_names = [20, 19, 18, 17, 16, 15, 14, 13, 12, 11, 10, 9, 8, 7, 6, 5, 4, 3, 2, 1],
      returned_names = [20, 19, 18, 17, 16, 15, 14, 13, 12, 11, 10, 9, 8, 7, 6, 5, 4, 3, 2, 1]\<rparr>"

definition to_ref_tuple_19 :: tuple_branch where
  "to_ref_tuple_19 =
     \<lparr>probes = 19,
      bound_names = [19, 18, 17, 16, 15, 14, 13, 12, 11, 10, 9, 8, 7, 6, 5, 4, 3, 2, 1],
      returned_names = [19, 18, 17, 16, 15, 14, 13, 12, 11, 10, 9, 8, 7, 6, 5, 4, 3, 2, 1]\<rparr>"

definition to_ref_tuple_18 :: tuple_branch where
  "to_ref_tuple_18 =
     \<lparr>probes = 18,
      bound_names = [18, 17, 16, 15, 14, 13, 12, 11, 10, 9, 8, 7, 6, 5, 4, 3, 2, 1],
      returned_names = [18, 17, 16, 15, 14, 13, 12, 11, 10, 9, 8, 7, 6, 5, 4, 3, 2, 1]\<rparr>"

definition to_ref_tuple_17 :: tuple_branch where
  "to_ref_tuple_17 =
     \<lparr>probes = 17,
      bound_names = [17, 16, 15, 14, 13, 12, 11, 10, 9, 8, 7, 6, 5, 4, 3, 2, 1],
      returned_names = [17, 16, 15, 14, 13, 12, 11, 10, 9, 8, 7, 6, 5, 4, 3, 2, 1]\<rparr>"

definition to_ref_tuple_16 :: tuple_branch where
  "to_ref_tuple_16 =
     \<lparr>probes = 16,
      bound_names = [16, 15, 14, 13, 12, 11, 10, 9, 8, 7, 6, 5, 4, 3, 2, 1],
      returned_names = [16, 15, 14, 13, 12, 11, 10, 9, 8, 7, 6, 5, 4, 3, 2, 1]\<rparr>"

definition to_ref_tuple_15 :: tuple_branch where
  "to_ref_tuple_15 =
     \<lparr>probes = 15,
      bound_names = [15, 14, 13, 12, 11, 10, 9, 8, 7, 6, 5, 4, 3, 2, 1],
      returned_names = [15, 14, 13, 12, 11, 10, 9, 8, 7, 6, 5, 4, 3, 2, 1]\<rparr>"

definition to_ref_tuple_14 :: tuple_branch where
  "to_ref_tuple_14 =
     \<lparr>probes = 14,
      bound_names = [14, 13, 12, 11, 10, 9, 8, 7, 6, 5, 4, 3, 2, 1],
      returned_names = [14, 13, 12, 11, 10, 9, 8, 7, 6, 5, 4, 3, 2, 1]\<rparr>"

definition to_ref_tuple_13 :: tuple_branch where
  "to_ref_tuple_13 =
     \<lparr>probes = 13,
      bound_names = [13, 12, 11, 10, 9, 8, 7, 6, 5, 4, 3, 2, 1],
      returned_names = [13, 12, 11, 10, 9, 8, 7, 6, 5, 4, 3, 2, 1]\<rparr>"

definition to_ref_tuple_12 :: tuple_branch where
  "to_ref_tuple_12 =
     \<lparr>probes = 12,
      bound_names = [12, 11, 10, 9, 8, 7, 6, 5, 4, 3, 2, 1],
      returned_names = [12, 11, 10, 9, 8, 7, 6, 5, 4, 3, 2, 1]\<rparr>"

definition to_ref_tuple_11 :: tuple_branch where
  "to_ref_tuple_11 =
     \<lparr>probes = 11,
      bound_names = [11, 10, 9, 8, 7, 6, 5, 4, 3, 2, 1],
      returned_names = [11, 10, 9, 8, 7, 6, 5, 4, 3, 2, 1]\<rparr>"

definition to_ref_tuple_10 :: tuple_branch where
  "to_ref_tuple_10 =
     \<lparr>probes = 10,
      bound_names = [10, 9, 8, 7, 6, 5, 4, 3, 2, 1],
      returned_names = [10, 9, 8, 7, 6, 5, 4, 3, 2, 1]\<rparr>"

definition to_ref_tuple_9 :: tuple_branch where
  "to_ref_tuple_9 =
     \<lparr>probes = 9,
      bound_names = [9, 8, 7, 6, 5, 4, 3, 2, 1],
      returned_names = [9, 8, 7, 6, 5, 4, 3, 2, 1]\<rparr>"

definition to_ref_tuple_8 :: tuple_branch where
  "to_ref_tuple_8 =
     \<lparr>probes = 8,
      bound_names = [8, 7, 6, 5, 4, 3, 2, 1],
      returned_names = [8, 7, 6, 5, 4, 3, 2, 1]\<rparr>"

definition to_ref_tuple_7 :: tuple_branch where
  "to_ref_tuple_7 =
     \<lparr>probes = 7,
      bound_names = [7, 6, 5, 4, 3, 2, 1],
      returned_names = [7, 6, 5, 4, 3, 2, 1]\<rparr>"

definition to_ref_tuple_6 :: tuple_branch where
  "to_ref_tuple_6 =
     \<lparr>probes = 6,
      bound_names = [6, 5, 4, 3, 2, 1],
      returned_names = [6, 5, 4, 3, 2, 1]\<rparr>"

definition to_ref_tuple_5 :: tuple_branch where
  "to_ref_tuple_5 =
     \<lparr>probes = 5,
      bound_names = [5, 4, 3, 2, 1],
      returned_names = [5, 4, 3, 2, 1]\<rparr>"

definition to_ref_tuple_4 :: tuple_branch where
  "to_ref_tuple_4 =
     \<lparr>probes = 4,
      bound_names = [4, 3, 2, 1],
      returned_names = [4, 3, 2, 1]\<rparr>"

definition to_ref_tuple_3 :: tuple_branch where
  "to_ref_tuple_3 =
     \<lparr>probes = 3,
      bound_names = [3, 2, 1],
      returned_names = [3, 2, 1]\<rparr>"

definition to_ref_tuple_2 :: tuple_branch where
  "to_ref_tuple_2 =
     \<lparr>probes = 2,
      bound_names = [2, 1],
      returned_names = [2, 1]\<rparr>"

definition to_ref_tuple_1 :: tuple_branch where
  "to_ref_tuple_1 =
     \<lparr>probes = 1,
      bound_names = [1],
      returned_names = [1]\<rparr>"

definition to_ref_tuple_branches :: "tuple_branch list" where
  "to_ref_tuple_branches =
     [to_ref_tuple_20, to_ref_tuple_19, to_ref_tuple_18, to_ref_tuple_17, to_ref_tuple_16,
      to_ref_tuple_15, to_ref_tuple_14, to_ref_tuple_13, to_ref_tuple_12, to_ref_tuple_11,
      to_ref_tuple_10, to_ref_tuple_9, to_ref_tuple_8, to_ref_tuple_7, to_ref_tuple_6,
      to_ref_tuple_5, to_ref_tuple_4, to_ref_tuple_3, to_ref_tuple_2, to_ref_tuple_1]"

definition to_tuple_20 :: tuple_branch where
  "to_tuple_20 =
     \<lparr>probes = 20,
      bound_names = [20, 19, 18, 17, 16, 15, 14, 13, 12, 11, 10, 9, 8, 7, 6, 5, 4, 3, 2, 1],
      returned_names = [20, 19, 18, 17, 16, 15, 14, 13, 12, 11, 10, 9, 8, 7, 6, 5, 4, 3, 2, 1]\<rparr>"

definition to_tuple_19 :: tuple_branch where
  "to_tuple_19 =
     \<lparr>probes = 19,
      bound_names = [19, 18, 17, 16, 15, 14, 13, 12, 11, 10, 9, 8, 7, 6, 5, 4, 3, 2, 1],
      returned_names = [19, 18, 17, 16, 15, 14, 13, 12, 11, 10, 9, 8, 7, 6, 5, 4, 3, 2, 1]\<rparr>"

definition to_tuple_18 :: tuple_branch where
  "to_tuple_18 =
     \<lparr>probes = 18,
      bound_names = [18, 17, 16, 15, 14, 13, 12, 11, 10, 9, 8, 7, 6, 5, 4, 3, 2, 1],
      returned_names = [18, 17, 16, 15, 14, 13, 12, 11, 10, 9, 8, 7, 6, 5, 4, 3, 2, 1]\<rparr>"

definition to_tuple_17 :: tuple_branch where
  "to_tuple_17 =
     \<lparr>probes = 17,
      bound_names = [17, 16, 15, 14, 13, 12, 11, 10, 9, 8, 7, 6, 5, 4, 3, 2, 1],
      returned_names = [17, 16, 15, 14, 13, 12, 11, 10, 9, 8, 7, 6, 5, 4, 3, 2, 1]\<rparr>"

definition to_tuple_16 :: tuple_branch where
  "to_tuple_16 =
     \<lparr>probes = 16,
      bound_names = [16, 15, 14, 13, 12, 11, 10, 9, 8, 7, 6, 5, 4, 3, 2, 1],
      returned_names = [16, 15, 14, 13, 12, 11, 10, 9, 8, 7, 6, 5, 4, 3, 2, 1]\<rparr>"

definition to_tuple_15 :: tuple_branch where
  "to_tuple_15 =
     \<lparr>probes = 15,
      bound_names = [15, 14, 13, 12, 11, 10, 9, 8, 7, 6, 5, 4, 3, 2, 1],
      returned_names = [15, 14, 13, 12, 11, 10, 9, 8, 7, 6, 5, 4, 3, 2, 1]\<rparr>"

definition to_tuple_14 :: tuple_branch where
  "to_tuple_14 =
     \<lparr>probes = 14,
      bound_names = [14, 13, 12, 11, 10, 9, 8, 7, 6, 5, 4, 3, 2, 1],
      returned_names = [14, 13, 12, 11, 10, 9, 8, 7, 6, 5, 4, 3, 2, 1]\<rparr>"

definition to_tuple_13 :: tuple_branch where
  "to_tuple_13 =
     \<lparr>probes = 13,
      bound_names = [13, 12, 11, 10, 9, 8, 7, 6, 5, 4, 3, 2, 1],
      returned_names = [13, 12, 11, 10, 9, 8, 7, 6, 5, 4, 3, 2, 1]\<rparr>"

definition to_tuple_12 :: tuple_branch where
  "to_tuple_12 =
     \<lparr>probes = 12,
      bound_names = [12, 11, 10, 9, 8, 7, 6, 5, 4, 3, 2, 1],
      returned_names = [12, 11, 10, 9, 8, 7, 6, 5, 4, 3, 2, 1]\<rparr>"

definition to_tuple_11 :: tuple_branch where
  "to_tuple_11 =
     \<lparr>probes = 11,
      bound_names = [11, 10, 9, 8, 7, 6, 5, 4, 3, 2, 1],
      returned_names = [11, 10, 9, 8, 7, 6, 5, 4, 3, 2, 1]\<rparr>"

definition to_tuple_10 :: tuple_branch where
  "to_tuple_10 =
     \<lparr>probes = 10,
      bound_names = [10, 9, 8, 7, 6, 5, 4, 3, 2, 1],
      returned_names = [10, 9, 8, 7, 6, 5, 4, 3, 2, 1]\<rparr>"

definition to_tuple_9 :: tuple_branch where
  "to_tuple_9 =
     \<lparr>probes = 9,
      bound_names = [9, 8, 7, 6, 5, 4, 3, 2, 1],
      returned_names = [9, 8, 7, 6, 5, 4, 3, 2, 1]\<rparr>"

definition to_tuple_8 :: tuple_branch where
  "to_tuple_8 =
     \<lparr>probes = 8,
      bound_names = [8, 7, 6, 5, 4, 3, 2, 1],
      returned_names = [8, 7, 6, 5, 4, 3, 2, 1]\<rparr>"

definition to_tuple_7 :: tuple_branch where
  "to_tuple_7 =
     \<lparr>probes = 7,
      bound_names = [7, 6, 5, 4, 3, 2, 1],
      returned_names = [7, 6, 5, 4, 3, 2, 1]\<rparr>"

definition to_tuple_6 :: tuple_branch where
  "to_tuple_6 =
     \<lparr>probes = 6,
      bound_names = [6, 5, 4, 3, 2, 1],
      returned_names = [6, 5, 4, 3, 2, 1]\<rparr>"

definition to_tuple_5 :: tuple_branch where
  "to_tuple_5 =
     \<lparr>probes = 5,
      bound_names = [5, 4, 3, 2, 1],
      returned_names = [5, 4, 3, 2, 1]\<rparr>"

definition to_tuple_4 :: tuple_branch where
  "to_tuple_4 =
     \<lparr>probes = 4,
      bound_names = [4, 3, 2, 1],
      returned_names = [4, 3, 2, 1]\<rparr>"

definition to_tuple_3 :: tuple_branch where
  "to_tuple_3 =
     \<lparr>probes = 3,
      bound_names = [3, 2, 1],
      returned_names = [3, 2, 1]\<rparr>"

definition to_tuple_2 :: tuple_branch where
  "to_tuple_2 =
     \<lparr>probes = 2,
      bound_names = [2, 1],
      returned_names = [2, 1]\<rparr>"

definition to_tuple_1 :: tuple_branch where
  "to_tuple_1 =
     \<lparr>probes = 1,
      bound_names = [1],
      returned_names = [1]\<rparr>"

definition to_tuple_branches :: "tuple_branch list" where
  "to_tuple_branches =
     [to_tuple_20, to_tuple_19, to_tuple_18, to_tuple_17, to_tuple_16, to_tuple_15,
      to_tuple_14, to_tuple_13, to_tuple_12, to_tuple_11, to_tuple_10, to_tuple_9,
      to_tuple_8, to_tuple_7, to_tuple_6, to_tuple_5, to_tuple_4, to_tuple_3, to_tuple_2,
      to_tuple_1]"

lemmas to_ref_tuple_defs =
  to_ref_tuple_branches_def to_ref_tuple_20_def to_ref_tuple_19_def to_ref_tuple_18_def
  to_ref_tuple_17_def to_ref_tuple_16_def to_ref_tuple_15_def to_ref_tuple_14_def
  to_ref_tuple_13_def to_ref_tuple_12_def to_ref_tuple_11_def to_ref_tuple_10_def
  to_ref_tuple_9_def to_ref_tuple_8_def to_ref_tuple_7_def to_ref_tuple_6_def to_ref_tuple_5_def
  to_ref_tuple_4_def to_ref_tuple_3_def to_ref_tuple_2_def to_ref_tuple_1_def

lemmas to_tuple_defs =
  to_tuple_branches_def to_tuple_20_def to_tuple_19_def to_tuple_18_def to_tuple_17_def
  to_tuple_16_def to_tuple_15_def to_tuple_14_def to_tuple_13_def to_tuple_12_def
  to_tuple_11_def to_tuple_10_def to_tuple_9_def to_tuple_8_def to_tuple_7_def to_tuple_6_def
  to_tuple_5_def to_tuple_4_def to_tuple_3_def to_tuple_2_def to_tuple_1_def

definition to_ref_tuple :: "'a list \<Rightarrow> 'a list option" where
  "to_ref_tuple t = run_branches to_ref_tuple_branches t"

definition to_tuple :: "'a list \<Rightarrow> 'a list option" where
  "to_tuple t = run_branches to_tuple_branches t"

section \<open>The chains are the identity on small aggregates\<close>

text \<open>A branch for \<open>k\<close> members that binds distinct names and returns them in the same order.\<close>

definition faithful_branch :: "nat \<Rightarrow> tuple_branch \<Rightarrow> bool" where
  "faithful_branch k br \<longleftrightarrow>
     probes br = k \<and> length (bound_names br) = k \<and> distinct (bound_names br) \<and>
     returned_names br = bound_names br"

lemma map_of_zip_names:
  "distinct ns \<Longrightarrow> length ns = length xs \<Longrightarrow>
     type_list_map (map_of (zip ns xs)) ns = Some xs"
proof (induction ns xs rule: list_induct2')
  case (4 n ns x xs)
  have "type_list_map (map_of (zip (n # ns) (x # xs))) ns = type_list_map (map_of (zip ns xs)) ns"
    by (rule type_list_map_cong) (use "4.prems" in auto)
  with 4 show ?case by (simp add: fun_upd_def)
qed simp_all

lemma run_branch_faithful:
  "faithful_branch k br \<Longrightarrow> run_branch br xs = (if length xs = k then Some xs else None)"
  by (auto simp: faithful_branch_def run_branch_def map_of_zip_names)

lemma run_branches_faithful:
  assumes "list_all2 faithful_branch (rev [1..<Suc n]) brs"
  shows "run_branches brs xs = (if length xs \<le> n then Some xs else None)"
  using assms
proof (induction n arbitrary: brs)
  case 0
  then show ?case by simp
next
  case (Suc n)
  from Suc.prems obtain br brs' where brs: "brs = br # brs'" and br: "faithful_branch (Suc n) br"
    and rest: "list_all2 faithful_branch (rev [1..<Suc n]) brs'"
    by (auto simp: list_all2_Cons1)
  have "probes br = Suc n" using br by (simp add: faithful_branch_def)
  with Suc.IH [OF rest] show ?case
    by (auto simp: brs constructible_from_def run_branch_faithful [OF br])
qed

lemma upt_20: "rev [1..<Suc 20] =
  [20, 19, 18, 17, 16, 15, 14, 13, 12, 11, 10, 9, 8, 7, 6, 5, 4, 3, 2, 1]"
  by code_simp

lemma to_ref_tuple_faithful: "list_all2 faithful_branch (rev [1..<Suc 20]) to_ref_tuple_branches"
  unfolding upt_20 by (simp add: to_ref_tuple_defs faithful_branch_def)

lemma to_tuple_faithful: "list_all2 faithful_branch (rev [1..<Suc 20]) to_tuple_branches"
  unfolding upt_20 by (simp add: to_tuple_defs faithful_branch_def)

lemma to_ref_tuple_eq: "to_ref_tuple xs = (if length xs \<le> 20 then Some xs else None)"
  unfolding to_ref_tuple_def by (rule run_branches_faithful [OF to_ref_tuple_faithful])

lemma to_tuple_eq: "to_tuple xs = (if length xs \<le> 20 then Some xs else None)"
  unfolding to_tuple_def by (rule run_branches_faithful [OF to_tuple_faithful])

section \<open>Properties\<close>

text \<open>
  C35: \<open>to_ref_tuple\<close> and \<open>to_tuple\<close> give the members of an aggregate in their order when there are
  at most 20 of them, and a larger aggregate does not compile: none of the 40 hand-written branches
  drops, repeats or swaps a member.
\<close>

theorem tuples_of_aggregates:
  "to_ref_tuple members = (if length members \<le> 20 then Some members else None) \<and>
   to_tuple members = (if length members \<le> 20 then Some members else None)"
  by (simp add: to_ref_tuple_eq to_tuple_eq)

end
