(* ===== verification/Message_Utils.thy ===== *)
theory Message_Utils
  imports Protocol_Primitives Type_Utils
begin

text \<open>
  Message types and the concepts of \<^verbatim>\<open>message_utils.hpp\<close>: which argument types are static (a fixed
  number of bytes on the wire) and which dynamic, when a message is static, and the size of a
  static message's payload.
\<close>

section \<open>Message types\<close>

text \<open>
  The types of the members of a generated message struct. The enumerations the generator writes
  have \<^verbatim>\<open>Wint::integral_type\<close> or \<^verbatim>\<open>Wuint::integral_type\<close> as underlying type; a value of
  enumeration type is named by its interface and its own name.
\<close>

datatype underlying_type = Wint_underlying | Wuint_underlying

datatype arg_type =
    TWint
  | TWuint
  | TWfixed
  | TWobject interface
  | TWnew_id interface
  | TWenum underlying_type string string
  | TWstring
  | TWarray
  | TWfd

datatype message_kind = Request | Event

text \<open>
  A generated message struct: the interface it is nested in, whether it is a request or an event,
  its name, the static member \<^verbatim>\<open>opcode\<close> and its data members in order.
\<close>

record message_type =
  msg_interface :: interface
  msg_kind :: message_kind
  msg_name :: string
  msg_opcode :: u16
  msg_fields :: "(string \<times> arg_type) list"

definition field_types :: "message_type \<Rightarrow> arg_type list" where
  "field_types M = map snd (msg_fields M)"

text \<open>The concept \<^verbatim>\<open>message_for_inteface\<close>: the opcode is typed by the interface.\<close>

definition message_for_interface :: "message_type \<Rightarrow> interface \<Rightarrow> bool" where
  "message_for_interface M W \<longleftrightarrow> msg_interface M = W"

section \<open>Static and dynamic arguments\<close>

fun is_any_Wobject :: "arg_type \<Rightarrow> bool" where
  "is_any_Wobject (TWobject _) = True"
| "is_any_Wobject _ = False"

fun is_any_Wnew_id :: "arg_type \<Rightarrow> bool" where
  "is_any_Wnew_id (TWnew_id _) = True"
| "is_any_Wnew_id _ = False"

fun enum_message_argument :: "arg_type \<Rightarrow> bool" where
  "enum_message_argument (TWenum u _ _) = (u = Wint_underlying \<or> u = Wuint_underlying)"
| "enum_message_argument _ = False"

definition static_message_argument :: "arg_type \<Rightarrow> bool" where
  "static_message_argument A \<longleftrightarrow>
     A = TWint \<or> A = TWuint \<or> A = TWfixed \<or>
     is_any_Wobject A \<or> is_any_Wnew_id A \<or> enum_message_argument A"

definition dynamic_message_argument :: "arg_type \<Rightarrow> bool" where
  "dynamic_message_argument A \<longleftrightarrow> A = TWstring \<or> A = TWarray \<or> A = TWfd"

lemma static_or_dynamic: "dynamic_message_argument A \<longleftrightarrow> \<not> static_message_argument A"
proof (cases A)
  case (TWenum u i n)
  then show ?thesis
    by (cases u) (simp_all add: dynamic_message_argument_def static_message_argument_def)
qed (simp_all add: dynamic_message_argument_def static_message_argument_def)

text \<open>
  The overload set of the two lambdas in \<^verbatim>\<open>static_message\<close>: a type no lambda or both lambdas accept
  makes the program ill-formed.
\<close>

definition static_message_overloads :: "arg_type \<Rightarrow> bool option" where
  "static_message_overloads A =
     (if static_message_argument A \<and> \<not> dynamic_message_argument A then Some True
      else if dynamic_message_argument A \<and> \<not> static_message_argument A then Some False
      else None)"

definition static_message :: "message_type \<Rightarrow> bool" where
  "static_message M =
     (case Option.bind (to_tuple (field_types M)) (type_list_map static_message_overloads) of
        None \<Rightarrow> False
      | Some bs \<Rightarrow> list_all (\<lambda>b. b) bs)"

text \<open>\<^verbatim>\<open>sizeof\<close> of the static argument types (the header asserts them to be 4).\<close>

fun sizeof_static :: "arg_type \<Rightarrow> nat option" where
  "sizeof_static TWint = Some 4"
| "sizeof_static TWuint = Some 4"
| "sizeof_static TWfixed = Some 4"
| "sizeof_static (TWobject _) = Some 4"
| "sizeof_static (TWnew_id _) = Some 4"
| "sizeof_static (TWenum _ _ _) = Some 4"
| "sizeof_static TWstring = None"
| "sizeof_static TWarray = None"
| "sizeof_static TWfd = None"

text \<open>\<open>None\<close> is a call the concept \<^verbatim>\<open>static_message\<close> rejects.\<close>

definition message_payload_size :: "message_type \<Rightarrow> nat option" where
  "message_payload_size M =
     (if static_message M
      then Option.bind (to_tuple (field_types M)) (\<lambda>Ts.
             Option.bind (type_list_map sizeof_static Ts)
               (type_list_fold_left (\<lambda>lhs rhs. Some (lhs + rhs)) 0))
      else None)"

section \<open>Characterisations\<close>

lemma static_message_overloads_total: "static_message_overloads A = Some (static_message_argument A)"
  using static_or_dynamic [of A] by (auto simp: static_message_overloads_def)

lemma static_message_iff:
  "static_message M \<longleftrightarrow>
     length (msg_fields M) \<le> 20 \<and> (\<forall>A \<in> set (field_types M). static_message_argument A)"
  by (auto simp: static_message_def to_tuple_eq field_types_def list_all_iff
      type_list_map_total [where g = static_message_argument] static_message_overloads_total)

lemma sizeof_static_Some: "static_message_argument A \<Longrightarrow> sizeof_static A = Some 4"
  by (cases A) (auto simp: static_message_argument_def)

lemma foldl_add_const: "foldl (+) (k::nat) (map (\<lambda>_. 4) xs) = k + 4 * length xs"
  by (induction xs arbitrary: k) simp_all

lemma message_payload_size_static:
  assumes "static_message M"
  shows "message_payload_size M = Some (4 * length (msg_fields M))"
proof -
  have len: "length (msg_fields M) \<le> 20"
    and st: "\<And>A. A \<in> set (field_types M) \<Longrightarrow> sizeof_static A = Some 4"
    using assms by (auto simp: static_message_iff intro: sizeof_static_Some)
  show ?thesis
    using assms len
    by (simp add: message_payload_size_def to_tuple_eq field_types_def [symmetric]
        type_list_map_total [where Ts = "field_types M" and g = "\<lambda>_. 4", OF st]
        type_list_fold_left_total [where g = "(+)"] foldl_add_const)
      (simp add: field_types_def)
qed

end
