(* ===== verification/Message_Buffer.thy ===== *)
theory Message_Buffer
  imports Message_Utils
begin

text \<open>
  \<^verbatim>\<open>message_buffer.hpp\<close>: the buffer of outgoing messages. \<open>append\<close> reserves room for the header,
  writes the members of the message one after another, each padded to 32 bits, collects the file
  descriptors on the side, and at last writes the header with the size it has counted. The wire
  encoding \<open>enc_args\<close> says what those bytes are, with the padding being whatever the uninitialised
  memory holds.
\<close>

section \<open>State and operations\<close>

record 'fd message_buffer =
  buff :: bytes
  fd_buff :: "'fd list"

definition empty_message_buffer :: "'fd message_buffer" where
  "empty_message_buffer = \<lparr>buff = [], fd_buff = []\<rparr>"

definition buffer_empty :: "'fd message_buffer \<Rightarrow> bool" where
  "buffer_empty mb \<longleftrightarrow> buff mb = [] \<and> fd_buff mb = []"

definition release_data :: "'fd message_buffer \<Rightarrow> bytes \<times> 'fd message_buffer" where
  "release_data mb = (buff mb, mb\<lparr>buff := []\<rparr>)"

definition release_fds :: "'fd message_buffer \<Rightarrow> 'fd list \<times> 'fd message_buffer" where
  "release_fds mb = (fd_buff mb, mb\<lparr>fd_buff := []\<rparr>)"

text \<open>The bytes of a static argument in memory.\<close>

fun static_repr :: "'fd primitive \<Rightarrow> bytes" where
  "static_repr (Wint v) = le_bytes 4 v"
| "static_repr (Wuint v) = le_bytes 4 v"
| "static_repr (Wfixed f) = le_bytes 4 (wfixed_word f)"
| "static_repr (Wobject v) = le_bytes 4 v"
| "static_repr (Wnew_id v) = le_bytes 4 v"
| "static_repr (Wenum v) = le_bytes 4 v"
| "static_repr (Wstring _) = []"
| "static_repr (Warray _) = []"
| "static_repr (Wfd _) = []"

text \<open>
  What the lambdas of \<^verbatim>\<open>write_element_32aligned\<close> capture: the two vectors of the buffer and the
  running total.
\<close>

record 'fd write_state =
  ws_buff :: bytes
  ws_fds :: "'fd list"
  ws_total :: nat

definition in_range_u32 :: "nat \<Rightarrow> bool" where
  "in_range_u32 n \<longleftrightarrow> n < 2 ^ 32"

definition assert_outcome :: "build \<Rightarrow> bool \<Rightarrow> unit outcome" where
  "assert_outcome cfg b = (if ndebug cfg \<or> b then Value () else Aborted)"

definition write_string ::
  "build \<Rightarrow> (nat \<Rightarrow> byte) \<Rightarrow> bytes \<Rightarrow> 'fd write_state \<Rightarrow> 'fd write_state outcome" where
  "write_string cfg storage str ws =
     (let length_of_str = length str + 1;
          element_size_without_pad = 4 + length_of_str;
          element_size = element_size_without_pad + pad_of element_size_without_pad;
          buff_size_before = length (ws_buff ws);
          b0 = byte_vec_resize storage (buff_size_before + element_size) (ws_buff ws)
      in bind_outcome (assert_outcome cfg (in_range_u32 length_of_str)) (\<lambda>_.
         bind_outcome (subscript_outcome cfg buff_size_before (length b0)) (\<lambda>i.
         let b1 = overwrite i (le_bytes 4 (of_nat length_of_str :: u32)) b0
         in bind_outcome (subscript_outcome cfg (buff_size_before + 4) (length b1)) (\<lambda>j.
         let b2 = overwrite j str b1
         in bind_outcome
              (subscript_outcome cfg (buff_size_before + element_size_without_pad - 1) (length b2))
              (\<lambda>k. Value (ws\<lparr>ws_buff := b2[k := 0],
                             ws_total := ws_total ws + element_size\<rparr>))))))"

definition write_array ::
  "build \<Rightarrow> (nat \<Rightarrow> byte) \<Rightarrow> bytes \<Rightarrow> 'fd write_state \<Rightarrow> 'fd write_state outcome" where
  "write_array cfg storage arr ws =
     (let element_size_without_pad = 4 + length arr;
          element_size = element_size_without_pad + pad_of element_size_without_pad;
          buff_size_before = length (ws_buff ws);
          b0 = byte_vec_resize storage (buff_size_before + element_size) (ws_buff ws)
      in bind_outcome (assert_outcome cfg (in_range_u32 (length arr))) (\<lambda>_.
         bind_outcome (subscript_outcome cfg buff_size_before (length b0)) (\<lambda>i.
         let b1 = overwrite i (le_bytes 4 (of_nat (length arr) :: u32)) b0
         in bind_outcome (subscript_outcome cfg (buff_size_before + 4) (length b1)) (\<lambda>j.
         Value (ws\<lparr>ws_buff := overwrite j arr b1,
                    ws_total := ws_total ws + element_size\<rparr>)))))"

definition write_static ::
  "build \<Rightarrow> (nat \<Rightarrow> byte) \<Rightarrow> bytes \<Rightarrow> 'fd write_state \<Rightarrow> 'fd write_state outcome" where
  "write_static cfg storage p ws =
     (let element_size = length p + pad_of (length p);
          buff_size_before = length (ws_buff ws);
          b0 = byte_vec_resize storage (buff_size_before + element_size) (ws_buff ws)
      in bind_outcome (subscript_outcome cfg buff_size_before (length b0)) (\<lambda>i.
         Value (ws\<lparr>ws_buff := overwrite i p b0, ws_total := ws_total ws + element_size\<rparr>)))"

fun write_element ::
  "build \<Rightarrow> (nat \<Rightarrow> byte) \<Rightarrow> 'fd primitive \<Rightarrow> 'fd write_state \<Rightarrow> 'fd write_state outcome" where
  "write_element cfg storage (Wstring str) ws = write_string cfg storage str ws"
| "write_element cfg storage (Warray arr) ws = write_array cfg storage arr ws"
| "write_element cfg storage (Wfd fd) ws = Value (ws\<lparr>ws_fds := ws_fds ws @ [fd]\<rparr>)"
| "write_element cfg storage p ws = write_static cfg storage (static_repr p) ws"

fun write_elements ::
  "build \<Rightarrow> (nat \<Rightarrow> byte) \<Rightarrow> 'fd primitive list \<Rightarrow> 'fd write_state \<Rightarrow> 'fd write_state outcome" where
  "write_elements cfg storage [] ws = Value ws"
| "write_elements cfg storage (p # ps) ws =
     bind_outcome (write_element cfg storage p ws) (write_elements cfg storage ps)"

text \<open>
  \<^verbatim>\<open>append(obj, msg)\<close>: the message is its type and the values of its members.
\<close>

definition append_message ::
  "build \<Rightarrow> (nat \<Rightarrow> byte) \<Rightarrow> wobject \<Rightarrow> message_type \<Rightarrow> 'fd primitive list \<Rightarrow>
     'fd message_buffer \<Rightarrow> 'fd message_buffer outcome" where
  "append_message cfg storage obj M args mb =
     (if \<not> message_for_interface M (wobject_interface obj) then Ill_formed
      else case to_ref_tuple args of
        None \<Rightarrow> Ill_formed
      | Some msg_primitives \<Rightarrow>
          let begin_of_header_index = length (buff mb);
              b0 = byte_vec_resize storage (begin_of_header_index + sizeof_message_header) (buff mb)
          in bind_outcome
               (write_elements cfg storage msg_primitives
                  \<lparr>ws_buff = b0, ws_fds = fd_buff mb, ws_total = sizeof_message_header\<rparr>)
               (\<lambda>ws.
                 let narrowed_msg_size = of_nat (ws_total ws) :: u16;
                     header = make_message_header (wobject_value obj) (msg_opcode M) narrowed_msg_size
                 in bind_outcome
                      (subscript_outcome cfg begin_of_header_index (length (ws_buff ws)))
                      (\<lambda>i. Value \<lparr>buff = overwrite i (header_bytes header) (ws_buff ws),
                                  fd_buff = ws_fds ws\<rparr>)))"

section \<open>The wire encoding\<close>

text \<open>
  The bytes of one argument that starts at offset \<open>k\<close> of the buffer; a file descriptor has none.
\<close>

definition padding :: "(nat \<Rightarrow> byte) \<Rightarrow> nat \<Rightarrow> nat \<Rightarrow> bytes" where
  "padding storage k n = map storage [k + n..<k + n + pad_of n]"

lemma length_padding [simp]: "length (padding storage k n) = pad_of n"
  by (simp add: padding_def)

fun enc_arg :: "(nat \<Rightarrow> byte) \<Rightarrow> nat \<Rightarrow> 'fd primitive \<Rightarrow> bytes" where
  "enc_arg storage k (Wstring s) =
     le_bytes 4 (of_nat (length s + 1) :: u32) @ s @ [0] @ padding storage k (5 + length s)"
| "enc_arg storage k (Warray a) =
     le_bytes 4 (of_nat (length a) :: u32) @ a @ padding storage k (4 + length a)"
| "enc_arg storage k (Wfd _) = []"
| "enc_arg storage k p = static_repr p"

fun enc_args :: "(nat \<Rightarrow> byte) \<Rightarrow> nat \<Rightarrow> 'fd primitive list \<Rightarrow> bytes" where
  "enc_args storage k [] = []"
| "enc_args storage k (p # ps) =
     enc_arg storage k p @ enc_args storage (k + length (enc_arg storage k p)) ps"

fun fd_of_arg :: "'fd primitive \<Rightarrow> 'fd list" where
  "fd_of_arg (Wfd fd) = [fd]"
| "fd_of_arg _ = []"

definition fds_of_args :: "'fd primitive list \<Rightarrow> 'fd list" where
  "fds_of_args args = concat (map fd_of_arg args)"

definition enc_message ::
  "(nat \<Rightarrow> byte) \<Rightarrow> nat \<Rightarrow> wobject \<Rightarrow> message_type \<Rightarrow> 'fd primitive list \<Rightarrow> bytes" where
  "enc_message storage k obj M args =
     header_bytes (make_message_header (wobject_value obj) (msg_opcode M)
       (of_nat (8 + length (enc_args storage (k + 8) args)))) @
     enc_args storage (k + 8) args"

text \<open>The size of an argument on the wire does not depend on where it stands.\<close>

fun wire_size :: "'fd primitive \<Rightarrow> nat" where
  "wire_size (Wstring s) = 5 + length s + pad_of (5 + length s)"
| "wire_size (Warray a) = 4 + length a + pad_of (4 + length a)"
| "wire_size (Wfd _) = 0"
| "wire_size _ = 4"

definition wire_sizes :: "'fd primitive list \<Rightarrow> nat" where
  "wire_sizes args = sum_list (map wire_size args)"

lemma length_enc_arg [simp]: "length (enc_arg storage k p) = wire_size p"
  by (cases p) simp_all

lemma length_enc_args [simp]: "length (enc_args storage k ps) = wire_sizes ps"
  by (induction ps arbitrary: k) (simp_all add: wire_sizes_def)

lemma wire_size_aligned [simp]: "4 dvd wire_size p"
  by (cases p) (simp_all del: add_Suc)

lemma wire_sizes_aligned [simp]: "4 dvd wire_sizes ps"
  by (induction ps) (simp_all add: wire_sizes_def dvd_add)

lemma length_enc_message [simp]: "length (enc_message storage k obj M args) = 8 + wire_sizes args"
  by (simp add: enc_message_def)

section \<open>append writes the wire encoding\<close>

text \<open>
  The arguments the buffer can write: lengths fit the 32-bit count, and with the checked library
  no array is empty (see \<open>write_array_empty_aborts\<close>).
\<close>

fun writable_arg :: "build \<Rightarrow> 'fd primitive \<Rightarrow> bool" where
  "writable_arg cfg (Wstring s) = in_range_u32 (length s + 1)"
| "writable_arg cfg (Warray a) = (in_range_u32 (length a) \<and> (checked_subscript cfg \<longrightarrow> a \<noteq> []))"
| "writable_arg cfg _ = True"

lemma length_static_repr:
  "static_repr p \<noteq> [] \<Longrightarrow> length (static_repr p) = 4"
  by (cases p) simp_all

lemma update_after: "(xs @ y # ys)[length xs := z] = xs @ z # ys"
  by simp

lemma byte_vec_resize_padding:
  "byte_vec_resize storage (length b + (n + pad_of n)) b =
     b @ map storage [length b..<length b + n] @ padding storage (length b) n"
proof -
  have "[length b..<length b + (n + pad_of n)]
      = [length b..<length b + n] @ [length b + n..<length b + n + pad_of n]"
    using upt_add_eq_append [of "length b" "length b + n" "pad_of n"] by (simp add: add.assoc)
  then show ?thesis by (simp add: byte_vec_resize_ge padding_def)
qed

text \<open>A 4-byte count and then a body, written over freshly resized memory.\<close>

lemma element_overwrites:
  assumes "length h = 4" and "4 + length x \<le> n"
  shows "overwrite (length b + 4) x
      (overwrite (length b) h (byte_vec_resize storage (length b + (n + pad_of n)) b))
    = (b @ h @ x) @ map storage [length b + (4 + length x)..<length b + n] @ padding storage (length b) n"
proof -
  have "overwrite (length b) h (byte_vec_resize storage (length b + (n + pad_of n)) b)
      = (b @ h) @ map storage [length b + 4..<length b + n] @ padding storage (length b) n"
    unfolding byte_vec_resize_padding overwrite_end using assms by (simp add: drop_map)
  moreover have "overwrite (length b + 4) x ((b @ h) @ r) = (b @ h) @ x @ drop (length x) r" for r
    using overwrite_end [of "b @ h" x r] assms(1) by simp
  ultimately show ?thesis
    using assms by (simp add: drop_map add.assoc)
qed

lemma length_element [simp]:
  "length h = 4 \<Longrightarrow> 4 \<le> n \<Longrightarrow>
    length (overwrite (length b) h (byte_vec_resize storage (length b + (n + m)) b))
      = length b + (n + m)"
  by simp

lemma write_static_value:
  assumes "length p = 4"
  shows "write_static cfg storage p ws =
    Value (ws\<lparr>ws_buff := ws_buff ws @ p, ws_total := ws_total ws + 4\<rparr>)"
  using assms by (simp add: write_static_def byte_vec_resize_ge)

lemma write_array_value:
  assumes "writable_arg cfg (Warray arr :: 'fd primitive)"
  shows "write_array cfg storage arr ws =
    Value (ws\<lparr>ws_buff := ws_buff ws @ enc_arg storage (length (ws_buff ws)) (Warray arr :: 'fd primitive),
              ws_total := ws_total ws + wire_size (Warray arr :: 'fd primitive)\<rparr>)"
proof -
  have s: "subscript_outcome cfg (length b + 4) (length b + (4 + length arr + pad_of (4 + length arr)))
      = Value (length b + 4)" for b :: bytes
    using assms by (cases "arr = []") (simp_all add: subscript_outcome_def)
  have a: "assert_outcome cfg (in_range_u32 (length arr)) = Value ()"
    using assms by (simp add: assert_outcome_def)
  show ?thesis
    by (simp add: write_array_def Let_def a s element_overwrites del: length_overwrite)
qed

lemma write_string_value:
  assumes "writable_arg cfg (Wstring str :: 'fd primitive)"
  shows "write_string cfg storage str ws =
    Value (ws\<lparr>ws_buff := ws_buff ws @ enc_arg storage (length (ws_buff ws)) (Wstring str :: 'fd primitive),
              ws_total := ws_total ws + wire_size (Wstring str :: 'fd primitive)\<rparr>)"
proof -
  define n where "n = 5 + length str"
  define h where "h = le_bytes 4 (of_nat (length str + 1) :: u32)"
  have n: "4 + (length str + 1) = n" and h4: "length h = 4" and u: "4 + length str \<le> n"
    by (simp_all add: n_def h_def)
  have e: "overwrite (length b + 4) str
        (overwrite (length b) h (byte_vec_resize storage (length b + (n + pad_of n)) b))
      = (b @ h @ str) @ storage (length b + (4 + length str)) # padding storage (length b) n"
    for b
  proof -
    have "[length b + (4 + length str)..<length b + n] = [length b + (4 + length str)]"
      by (simp add: n_def upt_conv_Cons)
    then show ?thesis using element_overwrites [OF h4 u, of b storage] by simp
  qed
  have f: "(overwrite (length b + 4) str
        (overwrite (length b) h (byte_vec_resize storage (length b + (n + pad_of n)) b)))
          [length b + n - 1 := 0] = b @ h @ str @ 0 # padding storage (length b) n" for b
  proof -
    have "length b + n - 1 = length (b @ h @ str)" by (simp add: n_def h4)
    then show ?thesis by (metis e update_after append_assoc)
  qed
  have a: "assert_outcome cfg (in_range_u32 (Suc (length str))) = Value ()"
    using assms by (simp add: assert_outcome_def)
  show ?thesis
    using f [of "ws_buff ws"]
    by (simp add: write_string_def Let_def a n_def h_def)
qed

lemma write_element_value:
  assumes "writable_arg cfg p"
  shows "write_element cfg storage p ws =
    Value \<lparr>ws_buff = ws_buff ws @ enc_arg storage (length (ws_buff ws)) p,
           ws_fds = ws_fds ws @ fd_of_arg p,
           ws_total = ws_total ws + wire_size p\<rparr>"
proof (cases p)
  case (Wstring s)
  with assms write_string_value [of cfg s storage ws] show ?thesis by simp
next
  case (Warray a)
  with assms write_array_value [of cfg a storage ws] show ?thesis by simp
qed (simp_all add: write_static_value)

lemma write_elements_value:
  assumes "\<forall>p \<in> set ps. writable_arg cfg p"
  shows "write_elements cfg storage ps ws =
    Value \<lparr>ws_buff = ws_buff ws @ enc_args storage (length (ws_buff ws)) ps,
           ws_fds = ws_fds ws @ fds_of_args ps,
           ws_total = ws_total ws + wire_sizes ps\<rparr>"
  using assms
proof (induction ps arbitrary: ws)
  case Nil
  then show ?case by (simp add: fds_of_args_def wire_sizes_def)
next
  case (Cons p ps)
  then show ?case
    by (simp add: write_element_value fds_of_args_def wire_sizes_def add.assoc)
qed

text \<open>
  The message \<open>append\<close> accepts: the object is of the message's interface, the struct has at most
  the 20 members \<^verbatim>\<open>to_ref_tuple\<close> knows, and every argument can be written.
\<close>

definition appendable ::
  "build \<Rightarrow> wobject \<Rightarrow> message_type \<Rightarrow> 'fd primitive list \<Rightarrow> bool" where
  "appendable cfg obj M args \<longleftrightarrow>
     message_for_interface M (wobject_interface obj) \<and> length args \<le> 20 \<and>
     (\<forall>p \<in> set args. writable_arg cfg p)"

lemmas [wire_simps] = appendable_def message_for_interface_def in_range_u32_def field_types_def

lemma append_message_value:
  assumes "appendable cfg obj M args"
  shows "append_message cfg storage obj M args mb =
    Value \<lparr>buff = buff mb @ enc_message storage (length (buff mb)) obj M args,
           fd_buff = fd_buff mb @ fds_of_args args\<rparr>"
proof -
  let ?k = "length (buff mb)"
  let ?r = "byte_vec_resize storage (?k + 8) (buff mb)"
  have r: "?r = buff mb @ map storage [?k..<?k + 8]"
    by (rule byte_vec_resize_grow)
  have "overwrite ?k h (?r @ enc_args storage (?k + 8) args)
      = buff mb @ h @ enc_args storage (?k + 8) args" if "length h = 8" for h
    using that by (simp add: r)
  with assms show ?thesis
    by (simp add: append_message_def appendable_def to_ref_tuple_eq write_elements_value Let_def
        enc_message_def)
qed

text \<open>What the checked library makes of an empty array: the subscript past the count aborts.\<close>

lemma write_array_empty_aborts:
  "checked_subscript cfg \<Longrightarrow> write_array cfg storage [] ws = Aborted"
  by (simp add: write_array_def assert_outcome_def in_range_u32_def Let_def
      subscript_outcome_def)

text \<open>A string or array whose length does not fit the count fails the assertion.\<close>

lemma write_array_too_long:
  "\<not> ndebug cfg \<Longrightarrow> 2 ^ 32 \<le> length arr \<Longrightarrow> write_array cfg storage arr ws = Aborted"
  by (simp add: write_array_def assert_outcome_def in_range_u32_def Let_def)

lemma write_string_too_long:
  "\<not> ndebug cfg \<Longrightarrow> 2 ^ 32 \<le> length str + 1 \<Longrightarrow> write_string cfg storage str ws = Aborted"
  by (simp add: write_string_def assert_outcome_def in_range_u32_def Let_def)

section \<open>Types of arguments\<close>

text \<open>The value a member of each type holds.\<close>

fun has_type :: "'fd primitive \<Rightarrow> arg_type \<Rightarrow> bool" where
  "has_type (Wint _) T = (T = TWint)"
| "has_type (Wuint _) T = (T = TWuint)"
| "has_type (Wfixed _) T = (T = TWfixed)"
| "has_type (Wobject _) T = is_any_Wobject T"
| "has_type (Wnew_id _) T = is_any_Wnew_id T"
| "has_type (Wenum _) T = enum_message_argument T"
| "has_type (Wstring _) T = (T = TWstring)"
| "has_type (Warray _) T = (T = TWarray)"
| "has_type (Wfd _) T = (T = TWfd)"

definition args_of_type :: "message_type \<Rightarrow> 'fd primitive list \<Rightarrow> bool" where
  "args_of_type M args \<longleftrightarrow> list_all2 has_type args (field_types M)"

lemma static_arg_wire_size:
  "has_type p T \<Longrightarrow> static_message_argument T \<Longrightarrow> wire_size p = 4"
  by (cases p; cases T) (auto simp: static_message_argument_def)

lemma wire_sizes_static:
  assumes "list_all2 has_type ps Ts" and "\<forall>T \<in> set Ts. static_message_argument T"
  shows "wire_sizes ps = 4 * length Ts"
  using assms
  by (induction ps Ts rule: list_all2_induct) (simp_all add: wire_sizes_def static_arg_wire_size)

lemma args_of_type_fds:
  "list_all2 has_type ps Ts \<Longrightarrow> length (fds_of_args ps) = length (filter ((=) TWfd) Ts)"
proof (induction ps Ts rule: list_all2_induct)
  case (Cons p ps T Ts)
  then show ?case
    by (cases p; cases T) (simp_all add: fds_of_args_def)
qed (simp add: fds_of_args_def)

section \<open>Properties\<close>

lemma size_field_of_enc_message:
  "le_word (subspan (length b + size_offset) 2 (b @ enc_message storage k obj M args)) =
     (of_nat (8 + wire_sizes args) :: u16)"
proof -
  have "subspan (length b + 6) 2 (b @ enc_message storage k obj M args)
      = subspan 6 2 (enc_message storage k obj M args)"
    by (simp add: subspan_def)
  then show ?thesis by (simp add: enc_message_def make_message_header_def)
qed

lemma append_message_aborts:
  assumes "message_for_interface M (wobject_interface obj)" and "length (pre @ p # post) \<le> 20"
    and "\<forall>q \<in> set pre. writable_arg cfg q" and "\<And>ws. write_element cfg storage p ws = Aborted"
  shows "append_message cfg storage obj M (pre @ p # post) mb = Aborted"
proof -
  have "write_elements cfg storage (pre @ p # post) ws = Aborted" for ws
    using assms(3) by (induction pre arbitrary: ws) (simp_all add: assms(4) write_element_value)
  with assms(1,2) show ?thesis
    by (simp add: append_message_def to_ref_tuple_eq Let_def)
qed

text \<open>
  C6: \<open>append\<close> adds to the buffer exactly the wire encoding of the message, a whole number of
  32-bit words with the header first, and its descriptors in order; nothing before it changes. What
  the uninitialised memory held is visible in the padding only.
\<close>

theorem append_writes_the_wire_encoding:
  assumes "appendable cfg obj M args"
  shows "append_message cfg storage obj M args mb =
      Value \<lparr>buff = buff mb @ enc_message storage (length (buff mb)) obj M args,
             fd_buff = fd_buff mb @ fds_of_args args\<rparr> \<and>
    4 dvd length (enc_message storage (length (buff mb)) obj M args)"
  by (simp add: append_message_value [OF assms])

theorem append_writes_the_wire_encoding_witness:
  "append_message \<lparr>ndebug = False, checked_subscript = True\<rparr> (\<lambda>_. 0xAA)
     \<lparr>wobject_interface = protocol_interface ''wl_display'', wobject_value = 1\<rparr>
     \<lparr>msg_interface = protocol_interface ''wl_display'', msg_kind = Request, msg_name = ''sync'',
      msg_opcode = 0, msg_fields = [(''callback'', TWnew_id (protocol_interface ''wl_callback''))]\<rparr>
     [Wnew_id 2] empty_message_buffer =
   Value \<lparr>buff = [1, 0, 0, 0, 0, 0, 12, 0, 2, 0, 0, 0], fd_buff = ([] :: nat list)\<rparr>"
  using append_writes_the_wire_encoding [of "\<lparr>ndebug = False, checked_subscript = True\<rparr>"
      "\<lparr>wobject_interface = protocol_interface ''wl_display'', wobject_value = 1\<rparr>"
      "\<lparr>msg_interface = protocol_interface ''wl_display'', msg_kind = Request, msg_name = ''sync'',
        msg_opcode = 0, msg_fields = [(''callback'', TWnew_id (protocol_interface ''wl_callback''))]\<rparr>"
      "[Wnew_id 2 :: nat primitive]" "\<lambda>_. 0xAA" empty_message_buffer]
  by (simp add: wire_simps enc_message_def header_bytes_def
      make_message_header_def wire_sizes_def empty_message_buffer_def fds_of_args_def
      le_bytes_2 le_bytes_4)

text \<open>
  C23: the header of an appended message holds its size modulo 65536, so it is the size of the
  message exactly when that is below 65536: a larger message is appended whole, with a size field
  that is too small, and nothing is thrown.
\<close>

theorem appended_size_field:
  assumes "appendable cfg obj M args" and "append_message cfg storage obj M args mb = Value mb'"
  shows "let n = length (buff mb') - length (buff mb);
             field = unat (le_word (subspan (length (buff mb) + size_offset) 2 (buff mb')) :: u16)
         in n = 8 + wire_sizes args \<and> field = n mod 65536 \<and> (field = n \<longleftrightarrow> n < 65536)"
proof -
  have b: "buff mb' = buff mb @ enc_message storage (length (buff mb)) obj M args"
    using assms append_message_value [OF assms(1), of storage mb] by auto
  have "unat (of_nat n :: u16) = n mod 65536" for n
    by (simp add: unat_of_nat take_bit_eq_mod)
  moreover have "(n::nat) mod 65536 = n \<longleftrightarrow> n < 65536" for n
    by (simp add: mod_eq_self_iff_div_eq_0 div_eq_0_iff)
  ultimately show ?thesis
    unfolding b size_field_of_enc_message by (simp only: Let_def) simp
qed

theorem appended_size_field_witness:
  "\<exists>mb'. append_message \<lparr>ndebug = False, checked_subscript = True\<rparr> (\<lambda>_. 0)
     \<lparr>wobject_interface = generic_object, wobject_value = 1\<rparr>
     \<lparr>msg_interface = generic_object, msg_kind = Request, msg_name = ''m'', msg_opcode = 0,
      msg_fields = [(''a'', TWarray)]\<rparr>
     [Warray (replicate 65536 0) :: nat primitive] empty_message_buffer = Value mb' \<and>
   length (buff mb') = 65548 \<and> unat (le_word (subspan 6 2 (buff mb')) :: u16) = 12"
proof -
  let ?cfg = "\<lparr>ndebug = False, checked_subscript = True\<rparr>"
  let ?obj = "\<lparr>wobject_interface = generic_object, wobject_value = 1\<rparr>"
  let ?M = "\<lparr>msg_interface = generic_object, msg_kind = Request, msg_name = ''m'', msg_opcode = 0,
      msg_fields = [(''a'', TWarray)]\<rparr>"
  let ?args = "[Warray (replicate 65536 0) :: nat primitive]"
  have a: "appendable ?cfg ?obj ?M ?args"
    by (simp add: wire_simps)
  obtain mb' where mb': "append_message ?cfg (\<lambda>_. 0) ?obj ?M ?args empty_message_buffer = Value mb'"
    using append_message_value [OF a] by blast
  have "8 + wire_sizes ?args = 65548"
    by (simp add: wire_sizes_def pad_of_eq)
  with appended_size_field [OF a mb'] mb' show ?thesis
    by (intro exI [of _ mb']) (simp add: Let_def empty_message_buffer_def)
qed

text \<open>
  C24: an empty \<^verbatim>\<open>Warray\<close> cannot be sent by a program built with the checked library when nothing
  behind it in its own element follows the count: the subscript that computes the address of the
  (absent) elements aborts. Without the checks the count 0 is appended.
\<close>

theorem empty_array_aborts_the_checked_build:
  assumes "message_for_interface M (wobject_interface obj)" and "length (pre @ Warray [] # post) \<le> 20"
    and "\<forall>p \<in> set pre. writable_arg cfg p"
  shows "(checked_subscript cfg \<longrightarrow>
      append_message cfg storage obj M (pre @ Warray [] # post) mb = Aborted) \<and>
    (\<not> checked_subscript cfg \<longrightarrow> (\<forall>p \<in> set post. writable_arg cfg p) \<longrightarrow>
      append_message cfg storage obj M (pre @ Warray [] # post) mb =
        Value \<lparr>buff = buff mb @ enc_message storage (length (buff mb)) obj M (pre @ Warray [] # post),
               fd_buff = fd_buff mb @ fds_of_args (pre @ Warray [] # post)\<rparr>)"
proof (intro conjI impI)
  assume "checked_subscript cfg"
  then show "append_message cfg storage obj M (pre @ Warray [] # post) mb = Aborted"
    using assms by (intro append_message_aborts) (simp_all add: write_array_empty_aborts)
next
  assume "\<not> checked_subscript cfg" and "\<forall>p \<in> set post. writable_arg cfg p"
  then show "append_message cfg storage obj M (pre @ Warray [] # post) mb =
      Value \<lparr>buff = buff mb @ enc_message storage (length (buff mb)) obj M (pre @ Warray [] # post),
             fd_buff = fd_buff mb @ fds_of_args (pre @ Warray [] # post)\<rparr>"
    using assms by (intro append_message_value) (auto simp: appendable_def in_range_u32_def)
qed

theorem empty_array_aborts_the_checked_build_witness:
  "append_message \<lparr>ndebug = True, checked_subscript = True\<rparr> (\<lambda>_. 0)
     \<lparr>wobject_interface = generic_object, wobject_value = 7\<rparr>
     \<lparr>msg_interface = generic_object, msg_kind = Request, msg_name = ''m'', msg_opcode = 0,
      msg_fields = [(''n'', TWuint), (''a'', TWarray)]\<rparr>
     [Wuint 1, Warray []] (empty_message_buffer :: nat message_buffer) = Aborted"
  using empty_array_aborts_the_checked_build [of
      "\<lparr>msg_interface = generic_object, msg_kind = Request, msg_name = ''m'', msg_opcode = 0,
        msg_fields = [(''n'', TWuint), (''a'', TWarray)]\<rparr>"
      "\<lparr>wobject_interface = generic_object, wobject_value = 7\<rparr>" "[Wuint 1 :: nat primitive]" "[]"
      "\<lparr>ndebug = True, checked_subscript = True\<rparr>" "\<lambda>_. 0" empty_message_buffer]
  by (simp add: message_for_interface_def)

text \<open>
  A string or array whose length does not fit the 32-bit count never reaches the buffer of a
  program built with assertions: \<open>append\<close> aborts.
\<close>

theorem count_overflow_aborts:
  assumes "message_for_interface M (wobject_interface obj)" and "length (pre @ p # post) \<le> 20"
    and "\<forall>q \<in> set pre. writable_arg cfg q" and "\<not> ndebug cfg"
    and "(\<exists>s. p = Wstring s \<and> 2 ^ 32 \<le> length s + 1) \<or> (\<exists>a. p = Warray a \<and> 2 ^ 32 \<le> length a)"
  shows "append_message cfg storage obj M (pre @ p # post) mb = Aborted"
proof (rule append_message_aborts [OF assms(1-3)])
  fix ws
  show "write_element cfg storage p ws = Aborted"
    using assms(4,5) by (auto simp: write_string_too_long write_array_too_long)
qed

theorem count_overflow_aborts_witness:
  "append_message \<lparr>ndebug = False, checked_subscript = False\<rparr> (\<lambda>_. 0)
     \<lparr>wobject_interface = generic_object, wobject_value = 7\<rparr>
     \<lparr>msg_interface = generic_object, msg_kind = Request, msg_name = ''m'', msg_opcode = 0,
      msg_fields = [(''a'', TWarray)]\<rparr>
     ([] @ Warray (replicate (2 ^ 32) 0) # []) (empty_message_buffer :: nat message_buffer) = Aborted"
  by (rule count_overflow_aborts) (simp_all add: message_for_interface_def)

text \<open>
  \<open>message_payload_size\<close> of a message type, when it has a value, is the size of the payload
  \<open>append\<close> writes for every value of the type, and a message has such a size exactly when it has at
  most 20 members and none of them is dynamic.
\<close>

lemma message_payload_size_is_the_encoded_size:
  assumes "args_of_type M args"
  shows "message_payload_size M =
    (if length (msg_fields M) \<le> 20 \<and> (\<forall>A \<in> set (field_types M). \<not> dynamic_message_argument A)
     then Some (length (enc_args storage k args)) else None)"
proof -
  have "length (enc_args storage k args) = 4 * length (msg_fields M)"
    if "\<forall>A \<in> set (field_types M). static_message_argument A"
    using wire_sizes_static [of args "field_types M"] assms that
    by (simp add: args_of_type_def field_types_def)
  then show ?thesis
    using message_payload_size_static [of M]
    by (auto simp: static_message_iff static_or_dynamic message_payload_size_def)
qed

end
