(* ===== verification/Message_Interpreter.thy ===== *)
theory Message_Interpreter
  imports Message_Buffer
begin

text \<open>
  \<^verbatim>\<open>message_intrperter.hpp\<close>: \<open>interpert_message_payload\<close> reads the members of a message back from
  the bytes of its payload, one after another, at the running offset \<^verbatim>\<open>bytes_read\<close>. The interface
  \<open>element_codec\<close> states what an encoder and a decoder of single elements owe each other and lifts
  it to sequences; it is interpreted on \<open>enc_arg\<close> and \<open>read_element\<close>.
\<close>

section \<open>Reading one element\<close>

text \<open>
  \<^verbatim>\<open>std::memcpy(dst, std::addressof(payload[pos]), n)\<close>; reading past the end of the span is
  undefined.
\<close>

definition read_bytes :: "build \<Rightarrow> bytes \<Rightarrow> nat \<Rightarrow> nat \<Rightarrow> bytes outcome" where
  "read_bytes cfg payload pos n =
     bind_outcome (subscript_outcome cfg pos (length payload))
       (\<lambda>i. if i + n \<le> length payload then Value (subspan i n payload) else Undefined)"

text \<open>A span or view of \<open>n\<close> bytes of the payload from \<open>pos\<close> on.\<close>

definition view_of :: "bytes \<Rightarrow> nat \<Rightarrow> nat \<Rightarrow> bytes outcome" where
  "view_of payload pos n =
     (if pos + n \<le> length payload then Value (subspan pos n payload) else Undefined)"

text \<open>
  The first branch of the lambda. The null string (count 0) returns before \<^verbatim>\<open>bytes_read\<close> is
  incremented.
\<close>

definition read_string ::
  "build \<Rightarrow> bytes \<Rightarrow> nat \<Rightarrow> ('fd primitive \<times> nat) outcome" where
  "read_string cfg payload bytes_read =
     bind_outcome (read_bytes cfg payload bytes_read 4) (\<lambda>b.
       let str_size = (le_word b :: u32)
       in if str_size = 0 then Value (Wstring [], bytes_read)
          else bind_outcome (subscript_outcome cfg (bytes_read + 4) (length payload)) (\<lambda>str_begin.
            let unpadded_total_size = 4 + unat str_size;
                padded_total_size = unpadded_total_size + pad_of unpadded_total_size
            in bind_outcome (view_of payload str_begin (unat str_size - 1)) (\<lambda>s.
               Value (Wstring s, bytes_read + padded_total_size))))"

definition read_array ::
  "build \<Rightarrow> bytes \<Rightarrow> nat \<Rightarrow> ('fd primitive \<times> nat) outcome" where
  "read_array cfg payload bytes_read =
     bind_outcome (read_bytes cfg payload bytes_read 4) (\<lambda>b.
       let array_size = (le_word b :: u32)
       in bind_outcome (subscript_outcome cfg (bytes_read + 4) (length payload)) (\<lambda>array_begin.
            let unpadded_total_size = 4 + unat array_size;
                padded_total_size = unpadded_total_size + pad_of unpadded_total_size
            in bind_outcome (view_of payload array_begin (unat array_size)) (\<lambda>a.
               Value (Warray a, bytes_read + padded_total_size))))"

text \<open>The static types: four bytes copied into an element of the type.\<close>

definition read_static ::
  "build \<Rightarrow> bytes \<Rightarrow> nat \<Rightarrow> (u32 \<Rightarrow> 'fd primitive) \<Rightarrow> ('fd primitive \<times> nat) outcome" where
  "read_static cfg payload bytes_read mk =
     (let element_size = 4 + pad_of 4
      in bind_outcome (read_bytes cfg payload bytes_read 4)
           (\<lambda>b. Value (mk (le_word b), bytes_read + element_size)))"

text \<open>
  No branch of the lambda returns a value for \<^verbatim>\<open>Wfd\<close>, which the build (warnings are errors)
  rejects.
\<close>

fun read_element ::
  "build \<Rightarrow> bytes \<Rightarrow> arg_type \<Rightarrow> nat \<Rightarrow> ('fd primitive \<times> nat) outcome" where
  "read_element cfg payload TWstring n = read_string cfg payload n"
| "read_element cfg payload TWarray n = read_array cfg payload n"
| "read_element cfg payload TWint n = read_static cfg payload n Wint"
| "read_element cfg payload TWuint n = read_static cfg payload n Wuint"
| "read_element cfg payload TWfixed n = read_static cfg payload n (\<lambda>w. Wfixed (wfixed_of_word w))"
| "read_element cfg payload (TWobject _) n = read_static cfg payload n Wobject"
| "read_element cfg payload (TWnew_id _) n = read_static cfg payload n Wnew_id"
| "read_element cfg payload (TWenum _ _ _) n = read_static cfg payload n Wenum"
| "read_element cfg payload TWfd n = Ill_formed"

section \<open>Reading a sequence of elements\<close>

text \<open>The pack expansion in the braces of \<^verbatim>\<open>Msg{ ... }\<close>: from left to right.\<close>

fun read_sequence ::
  "('t \<Rightarrow> nat \<Rightarrow> ('a \<times> nat) outcome) \<Rightarrow> 't list \<Rightarrow> nat \<Rightarrow> ('a list \<times> nat) outcome" where
  "read_sequence rd [] n = Value ([], n)"
| "read_sequence rd (t # ts) n =
     bind_outcome (rd t n) (\<lambda>(a, m).
       bind_outcome (read_sequence rd ts m) (\<lambda>(as, k). Value (a # as, k)))"

definition interpert_message_payload ::
  "build \<Rightarrow> message_type \<Rightarrow> bytes \<Rightarrow> 'fd primitive list outcome" where
  "interpert_message_payload cfg M payload =
     (case to_tuple (field_types M) of
        None \<Rightarrow> Ill_formed
      | Some msg_primitives \<Rightarrow>
          if TWfd \<in> set msg_primitives then Ill_formed
          else bind_outcome (read_sequence (read_element cfg payload) msg_primitives 0)
                 (\<lambda>(args, bytes_read). Value args))"

section \<open>Element codecs\<close>

text \<open>
  The contract between an encoder of single elements, which may write bytes that depend on the
  offset \<open>k\<close> it writes to, and a decoder that reads at an offset of a byte string: a good element
  is read back wherever it stands, and the decoder ends where its bytes end.
\<close>

fun enc_sequence :: "(nat \<Rightarrow> 'a \<Rightarrow> bytes) \<Rightarrow> nat \<Rightarrow> 'a list \<Rightarrow> bytes" where
  "enc_sequence enc k [] = []"
| "enc_sequence enc k (a # as) = enc k a @ enc_sequence enc (k + length (enc k a)) as"

locale element_codec =
  fixes enc :: "nat \<Rightarrow> 'a \<Rightarrow> bytes"
    and dec :: "bytes \<Rightarrow> 't \<Rightarrow> nat \<Rightarrow> ('a \<times> nat) outcome"
    and good :: "'a \<Rightarrow> 't \<Rightarrow> bool"
  assumes dec_enc: "good a t \<Longrightarrow>
    dec (pre @ enc k a @ post) t (length pre) = Value (a, length pre + length (enc k a))"
begin

lemma read_enc_sequence:
  "list_all2 good as ts \<Longrightarrow>
    read_sequence (dec (pre @ enc_sequence enc k as @ post)) ts (length pre)
      = Value (as, length pre + length (enc_sequence enc k as))"
proof (induction as ts arbitrary: pre k rule: list_all2_induct)
  case Nil
  then show ?case by simp
next
  case (Cons a as t ts)
  let ?e = "enc k a" and ?r = "enc_sequence enc (k + length (enc k a)) as"
  have one: "dec (pre @ ?e @ ?r @ post) t (length pre) = Value (a, length pre + length ?e)"
    using Cons.hyps(1) by (rule dec_enc)
  have rest: "read_sequence (dec (pre @ ?e @ ?r @ post)) ts (length pre + length ?e)
      = Value (as, length pre + length ?e + length ?r)"
    using Cons.IH [of "pre @ ?e" "k + length ?e"] by simp
  show ?case using one rest by simp
qed

lemma read_enc_all:
  "list_all2 good as ts \<Longrightarrow>
    read_sequence (dec (enc_sequence enc k as)) ts 0 = Value (as, length (enc_sequence enc k as))"
  using read_enc_sequence [of as ts "[]" k "[]"] by simp

lemma enc_sequence_inject:
  assumes "list_all2 good as ts" and "list_all2 good bs ts"
    and "enc_sequence enc k as = enc_sequence enc k bs"
  shows "as = bs"
proof -
  have "read_sequence (dec (enc_sequence enc k as)) ts 0 = Value (bs, length (enc_sequence enc k bs))"
    unfolding assms(3) by (rule read_enc_all [OF assms(2)])
  with read_enc_all [OF assms(1), of k] show ?thesis by simp
qed

end

section \<open>The message arguments are such a codec\<close>

definition readable :: "build \<Rightarrow> 'fd primitive \<Rightarrow> arg_type \<Rightarrow> bool" where
  "readable cfg p T \<longleftrightarrow> has_type p T \<and> writable_arg cfg p \<and> T \<noteq> TWfd"

lemma read_bytes_at:
  "length b = n \<Longrightarrow> 0 < n \<Longrightarrow> read_bytes cfg (pre @ b @ post) (length pre) n = Value b"
  by (simp add: read_bytes_def subspan_def)

lemma view_of_at:
  "view_of (pre @ b @ post) (length pre) (length b) = Value b"
  by (simp add: view_of_def subspan_def)

lemma read_static_at:
  "read_static cfg (pre @ le_bytes 4 (w :: u32) @ post) (length pre) mk
    = Value (mk w, length pre + 4)"
  by (simp add: read_static_def read_bytes_at)

lemma read_array_at:
  assumes "writable_arg cfg (Warray a :: 'fd primitive)"
  shows "read_array cfg (pre @ enc_arg storage k (Warray a :: 'fd primitive) @ post) (length pre)
    = Value (Warray a :: 'fd primitive, length pre + wire_size (Warray a :: 'fd primitive))"
proof -
  let ?c = "le_bytes 4 (of_nat (length a) :: u32)"
  let ?z = "padding storage k (4 + length a) @ post"
  have n: "unat (of_nat (length a) :: u32) = length a"
    using assms by (simp add: in_range_u32_def unat_of_nat_u32)
  have c: "read_bytes cfg (pre @ ?c @ a @ ?z) (length pre) 4 = Value ?c"
    by (rule read_bytes_at) simp_all
  have v: "view_of (pre @ ?c @ a @ ?z) (length pre + 4) (length a) = Value a"
    using view_of_at [of "pre @ ?c" a ?z] by simp
  have s: "subscript_outcome cfg (length pre + 4) (length (pre @ ?c @ a @ ?z)) = Value (length pre + 4)"
    using assms by (cases "a = []"; cases "?z = []") (simp_all add: subscript_outcome_def)
  show ?thesis
    using c v s by (simp add: read_array_def n Let_def)
qed

lemma read_string_at:
  assumes "writable_arg cfg (Wstring a :: 'fd primitive)"
  shows "read_string cfg (pre @ enc_arg storage k (Wstring a :: 'fd primitive) @ post) (length pre)
    = Value (Wstring a :: 'fd primitive, length pre + wire_size (Wstring a :: 'fd primitive))"
proof -
  define w where "w = (of_nat (length a + 1) :: u32)"
  let ?c = "le_bytes 4 w"
  let ?z = "[0] @ padding storage k (5 + length a) @ post"
  have n: "unat w = length a + 1"
    using assms unat_of_nat_u32 [of "length a + 1"] by (simp add: in_range_u32_def w_def)
  then have nz: "w \<noteq> 0" by auto
  have c: "read_bytes cfg (pre @ ?c @ a @ ?z) (length pre) 4 = Value ?c"
    by (rule read_bytes_at) simp_all
  have v: "view_of (pre @ ?c @ a @ ?z) (length pre + 4) (length a) = Value a"
    using view_of_at [of "pre @ ?c" a ?z] by simp
  have "read_string cfg (pre @ ?c @ a @ ?z) (length pre) =
      Value (Wstring a :: 'fd primitive, length pre + (5 + length a + pad_of (5 + length a)))"
    using v unfolding read_string_def c by (simp add: nz n Let_def)
  then show ?thesis by (simp add: w_def)
qed

lemma read_element_at:
  assumes "readable cfg p T"
  shows "read_element cfg (pre @ enc_arg storage k p @ post) T (length pre)
    = Value (p, length pre + length (enc_arg storage k p))"
proof (cases p)
  case (Wstring s)
  with assms read_string_at [of cfg s pre storage k post] show ?thesis
    by (simp add: readable_def add.assoc)
next
  case (Warray a)
  with assms read_array_at [of cfg a pre storage k post] show ?thesis
    by (simp add: readable_def add.assoc)
qed (use assms in \<open>cases T; simp add: readable_def read_static_at\<close>)+

interpretation wire: element_codec "enc_arg storage" "read_element cfg" "readable cfg"
  by unfold_locales (rule read_element_at)

lemma enc_args_sequence: "enc_args storage k ps = enc_sequence (enc_arg storage) k ps"
  by (induction ps arbitrary: k) simp_all

text \<open>A message without descriptors whose arguments fit their types and the count fields.\<close>

definition readable_message :: "build \<Rightarrow> message_type \<Rightarrow> 'fd primitive list \<Rightarrow> bool" where
  "readable_message cfg M args \<longleftrightarrow>
     length (msg_fields M) \<le> 20 \<and> list_all2 (readable cfg) args (field_types M)"

lemmas [wire_simps] = readable_message_def readable_def

lemma list_all2_readable:
  "list_all2 (readable cfg) ps Ts \<longleftrightarrow>
     list_all2 has_type ps Ts \<and> TWfd \<notin> set Ts \<and> (\<forall>p \<in> set ps. writable_arg cfg p)"
proof (induction ps arbitrary: Ts)
  case (Cons p ps)
  then show ?case by (cases Ts) (auto simp: readable_def)
qed auto

lemma readable_message_iff:
  "readable_message cfg M args \<longleftrightarrow>
     length (msg_fields M) \<le> 20 \<and> args_of_type M args \<and> TWfd \<notin> set (field_types M) \<and>
     (\<forall>p \<in> set args. writable_arg cfg p)"
  by (auto simp: readable_message_def args_of_type_def list_all2_readable)

lemma interpert_enc_args:
  assumes "readable_message cfg M args"
  shows "interpert_message_payload cfg M (enc_args storage k args) = Value args"
proof -
  have "TWfd \<notin> set (field_types M)" and "length (field_types M) \<le> 20"
    using assms by (simp_all add: readable_message_iff field_types_def)
  moreover have "read_sequence (read_element cfg (enc_args storage k args)) (field_types M) 0
      = Value (args, length (enc_args storage k args))"
    using assms by (simp only: readable_message_def enc_args_sequence wire.read_enc_all)
  ultimately show ?thesis
    by (simp add: interpert_message_payload_def to_tuple_eq)
qed

section \<open>Properties\<close>

text \<open>
  C7: interpreting the payload of an appended message gives the appended values, wherever the
  message stands in the buffer and whatever its padding holds, for every message type without
  descriptors.
\<close>

theorem interpret_appended_payload:
  assumes "appendable cfg obj M args" and "readable_message cfg' M args"
    and "append_message cfg storage obj M args mb = Value mb'"
  shows "interpert_message_payload cfg' M (drop (length (buff mb) + sizeof_message_header) (buff mb'))
    = Value args"
proof -
  have "buff mb' = buff mb @ enc_message storage (length (buff mb)) obj M args"
    using append_message_value [OF assms(1), of storage mb] assms(3) by auto
  then have "drop (length (buff mb) + sizeof_message_header) (buff mb')
      = enc_args storage (length (buff mb) + 8) args"
    by (simp add: enc_message_def)
  then show ?thesis by (simp add: interpert_enc_args [OF assms(2)])
qed

theorem interpret_appended_payload_witness:
  "\<exists>mb'. append_message \<lparr>ndebug = False, checked_subscript = True\<rparr> (\<lambda>_. 0xEE)
     \<lparr>wobject_interface = generic_object, wobject_value = 1\<rparr>
     \<lparr>msg_interface = generic_object, msg_kind = Request, msg_name = ''m'', msg_opcode = 0,
      msg_fields = [(''s'', TWstring), (''n'', TWint)]\<rparr>
     [Wstring [104, 105], Wint 5 :: nat primitive] empty_message_buffer = Value mb' \<and>
   interpert_message_payload \<lparr>ndebug = False, checked_subscript = True\<rparr>
     \<lparr>msg_interface = generic_object, msg_kind = Request, msg_name = ''m'', msg_opcode = 0,
      msg_fields = [(''s'', TWstring), (''n'', TWint)]\<rparr> (drop 8 (buff mb'))
     = Value [Wstring [104, 105], Wint 5 :: nat primitive]"
proof -
  let ?cfg = "\<lparr>ndebug = False, checked_subscript = True\<rparr>"
  let ?obj = "\<lparr>wobject_interface = generic_object, wobject_value = 1\<rparr>"
  let ?M = "\<lparr>msg_interface = generic_object, msg_kind = Request, msg_name = ''m'', msg_opcode = 0,
      msg_fields = [(''s'', TWstring), (''n'', TWint)]\<rparr>"
  let ?args = "[Wstring [104, 105], Wint 5 :: nat primitive]"
  have a: "appendable ?cfg ?obj ?M ?args"
    by (simp add: wire_simps)
  have r: "readable_message ?cfg ?M ?args"
    by (simp add: wire_simps)
  obtain mb' where mb': "append_message ?cfg (\<lambda>_. 0xEE) ?obj ?M ?args empty_message_buffer = Value mb'"
    using append_message_value [OF a] by blast
  with interpret_appended_payload [OF a r mb'] show ?thesis
    by (intro exI [of _ mb']) (simp add: empty_message_buffer_def)
qed



lemma read_static_at_end:
  "read_static cfg payload n mk =
     (if n + 4 \<le> length payload then Value (mk (le_word (subspan n 4 payload)), n + 4)
      else if checked_subscript cfg \<and> length payload \<le> n then Aborted else Undefined)"
  by (auto simp: read_static_def read_bytes_def subscript_outcome_def)

lemma read_static_element:
  assumes "static_message_argument T"
  obtains mk :: "u32 \<Rightarrow> 'fd primitive"
  where "\<And>n. read_element cfg payload T n = read_static cfg payload n mk"
  using assms by (cases T) (auto simp: static_message_argument_def)

lemma read_static_sequence:
  assumes "\<forall>T \<in> set Ts. static_message_argument T" and "n \<le> length payload"
  shows "if n + 4 * length Ts \<le> length payload
    then \<exists>args. read_sequence (read_element cfg payload) Ts n
           = Value (args :: 'fd primitive list, n + 4 * length Ts)
    else read_sequence (read_element cfg payload) Ts n \<in> {Aborted, Undefined :: ('fd primitive list \<times> nat) outcome}"
  using assms
proof (induction Ts arbitrary: n)
  case (Cons T Ts)
  obtain mk :: "u32 \<Rightarrow> 'fd primitive" where mk: "\<And>n. read_element cfg payload T n = read_static cfg payload n mk"
    using Cons.prems(1) read_static_element [of T cfg payload] by auto
  show ?case
  proof (cases "n + 4 \<le> length payload")
    case True
    with Cons.IH [of "n + 4"] Cons.prems(1) show ?thesis
      by (auto simp: mk read_static_at_end split: if_splits)
  next
    case False
    then show ?thesis by (simp add: mk read_static_at_end)
  qed
qed simp

text \<open>
  C28: the interpreter does not compare the payload with what it reads. For a message type with static
  members only it returns a value exactly when the payload has at least four bytes per member;
  a shorter one, which a faulty server can send, is an abort of the checked library or an undefined
  read past the end, never an exception.
\<close>

theorem short_payload_is_not_reported:
  assumes "static_message M"
  shows "if 4 * length (msg_fields M) \<le> length payload
    then \<exists>args :: 'fd primitive list. interpert_message_payload cfg M payload = Value args
    else interpert_message_payload cfg M payload \<in> {Aborted, Undefined :: 'fd primitive list outcome}"
proof -
  have st: "\<forall>T \<in> set (field_types M). static_message_argument T" and len: "length (field_types M) \<le> 20"
    using assms by (simp_all add: static_message_iff field_types_def)
  then have "TWfd \<notin> set (field_types M)"
    using static_or_dynamic [of TWfd] by (auto simp: dynamic_message_argument_def)
  then show ?thesis
    using read_static_sequence [OF st, of 0 payload cfg, where 'fd = 'fd] len
    by (auto simp: interpert_message_payload_def to_tuple_eq field_types_def split: if_splits)
qed

theorem short_payload_is_not_reported_witness:
  "interpert_message_payload \<lparr>ndebug = False, checked_subscript = False\<rparr>
     \<lparr>msg_interface = generic_object, msg_kind = Event, msg_name = ''m'', msg_opcode = 0,
      msg_fields = [(''n'', TWuint), (''k'', TWuint)]\<rparr> [1, 0, 0, 0]
   \<in> {Aborted, Undefined :: nat primitive list outcome}"
  using short_payload_is_not_reported [of
      "\<lparr>msg_interface = generic_object, msg_kind = Event, msg_name = ''m'', msg_opcode = 0,
        msg_fields = [(''n'', TWuint), (''k'', TWuint)]\<rparr>" "[1, 0, 0, 0]"
      "\<lparr>ndebug = False, checked_subscript = False\<rparr>", where 'fd = nat]
  by (simp add: static_message_iff field_types_def static_message_argument_def)

lemma bind_outcome_well_formed:
  "r \<noteq> Ill_formed \<Longrightarrow> (\<And>x. f x \<noteq> Ill_formed) \<Longrightarrow> bind_outcome r f \<noteq> Ill_formed"
  by (cases r) simp_all

text \<open>
  A message type can be interpreted unless it has a descriptor among its members or more than
  20 of them; then the call does not compile, whatever the payload.
\<close>

lemma interpretable_message_types:
  "interpert_message_payload cfg M payload = (Ill_formed :: 'fd primitive list outcome) \<longleftrightarrow>
     TWfd \<in> set (field_types M) \<or> length (msg_fields M) > 20"
proof -
  have el: "read_element cfg payload T n \<noteq> (Ill_formed :: ('fd primitive \<times> nat) outcome)"
    if "T \<noteq> TWfd" for T n
    using that
    by (cases T) (simp_all add: read_string_def read_array_def read_static_def read_bytes_def view_of_def
        subscript_outcome_def Let_def)
  have "read_sequence (read_element cfg payload) Ts n \<noteq> (Ill_formed :: ('fd primitive list \<times> nat) outcome)"
    if "TWfd \<notin> set Ts" for Ts n
    using that
  proof (induction Ts arbitrary: n)
    case (Cons T Ts)
    have rest: "\<And>m. read_sequence (read_element cfg payload) Ts m
        \<noteq> (Ill_formed :: ('fd primitive list \<times> nat) outcome)"
      using Cons by simp
    show ?case
      unfolding read_sequence.simps
    proof (rule bind_outcome_well_formed)
      show "read_element cfg payload T n \<noteq> (Ill_formed :: ('fd primitive \<times> nat) outcome)"
        using Cons.prems by (intro el) auto
    qed (simp add: bind_outcome_well_formed rest case_prod_beta)
  qed simp
  then show ?thesis
    by (cases "read_sequence (read_element cfg payload) (field_types M) 0
          :: ('fd primitive list \<times> nat) outcome")
      (auto simp: interpert_message_payload_def to_tuple_eq field_types_def)
qed

end
