(* ===== verification/Message_Parser.thy ===== *)
theory Message_Parser
  imports Message_Buffer
begin

text \<open>
  \<^verbatim>\<open>parsed_message.hpp\<close> and \<^verbatim>\<open>message_parser.{hpp,cpp}\<close>: the coroutine that cuts raw bytes into
  messages. One resumption of the generator is \<open>generator_resume\<close>; the messages it yields and the
  way it ends are \<open>parsed_message_generator\<close>.
\<close>

section \<open>State and operations\<close>

record parsed_message =
  pm_object_id :: u32
  pm_opcode :: u16
  pm_arguments :: bytes

text \<open>The lambda \<^verbatim>\<open>parse_NUM\<close> on the bytes from \<^verbatim>\<open>NUM_begin\<close> to the end.\<close>

definition parse_NUM :: "bytes \<Rightarrow> parsed_message outcome" where
  "parse_NUM rest =
     (let unparsed_bytes = length rest
      in if unparsed_bytes < 8
         then Raise (Logic_error
                ''Trying to interpert less than 8 bytes as Wayland message header.'')
         else
           let NUM_object_id = le_word (take 4 rest) :: u32;
               NUM_opcode = le_word (subspan opcode_offset 2 rest) :: u16;
               NUM_size = le_word (subspan size_offset 2 rest) :: u16
           in if unat NUM_size < 8
              then Raise (Logic_error ''Wayland message size is less than 8 bytes.'')
              else if unat NUM_size > unparsed_bytes
              then Raise (Logic_error ''Wayland message size is more than bytes available.'')
              else Value \<lparr>pm_object_id = NUM_object_id,
                          pm_opcode = NUM_opcode,
                          pm_arguments = subspan sizeof_message_header
                            (unat NUM_size - sizeof_message_header) rest\<rparr>)"

text \<open>
  One turn of the loop: \<open>None\<close> is the end of the coroutine, otherwise the message it yields and the
  bytes \<^verbatim>\<open>NUM_begin\<close> points to afterwards (\<^verbatim>\<open>std::ranges::advance\<close> stops at the end).
\<close>

definition generator_resume :: "bytes \<Rightarrow> (parsed_message \<times> bytes) option outcome" where
  "generator_resume rest =
     (if rest = [] then Value None
      else bind_outcome (parse_NUM rest) (\<lambda>msg.
        let tot_size = sizeof_message_header + length (pm_arguments msg)
        in Value (Some (msg, drop tot_size rest))))"

lemma generator_resume_shorter:
  "generator_resume rest = Value (Some (msg, rest')) \<Longrightarrow> length rest' < length rest"
  by (auto simp: generator_resume_def Let_def split: if_splits)

text \<open>The whole run: the messages yielded, and how the coroutine ends.\<close>

function parsed_message_generator :: "bytes \<Rightarrow> parsed_message list \<times> unit outcome" where
  "parsed_message_generator rest =
     (case generator_resume rest of
        Value None \<Rightarrow> ([], Value ())
      | Value (Some (msg, rest')) \<Rightarrow>
          (case parsed_message_generator rest' of (msgs, end_outcome) \<Rightarrow> (msg # msgs, end_outcome))
      | Raise e \<Rightarrow> ([], Raise e)
      | Aborted \<Rightarrow> ([], Aborted)
      | Undefined \<Rightarrow> ([], Undefined)
      | Blocked \<Rightarrow> ([], Blocked)
      | Ill_formed \<Rightarrow> ([], Ill_formed)
      | Exited n \<Rightarrow> ([], Exited n))"
  by pat_completeness auto
termination
  by (relation "measure length") (auto dest: generator_resume_shorter)

declare parsed_message_generator.simps [simp del]

record message_parser =
  unparsed_messages :: bytes

definition make_message_parser :: "bytes \<Rightarrow> message_parser" where
  "make_message_parser input = \<lparr>unparsed_messages = input\<rparr>"

definition message_generator :: "message_parser \<Rightarrow> parsed_message list \<times> unit outcome" where
  "message_generator p = parsed_message_generator (unparsed_messages p)"

section \<open>The bytes of a message\<close>

definition message_bytes :: "parsed_message \<Rightarrow> bytes" where
  "message_bytes m =
     header_bytes (make_message_header (pm_object_id m) (pm_opcode m)
       (of_nat (8 + length (pm_arguments m)))) @ pm_arguments m"

text \<open>A message whose size the 16-bit size field can hold.\<close>

definition fits :: "parsed_message \<Rightarrow> bool" where
  "fits m \<longleftrightarrow> 8 + length (pm_arguments m) < 2 ^ 16"

lemma length_message_bytes [simp]: "length (message_bytes m) = 8 + length (pm_arguments m)"
  by (simp add: message_bytes_def)

lemma message_bytes_not_Nil [simp]: "message_bytes m \<noteq> []"
  by (simp flip: length_greater_0_conv)

lemma message_header_fields [simp]:
  "object_id (make_message_header i oc s) = i"
  "opcode (make_message_header i oc s) = oc"
  "msg_size (make_message_header i oc s) = s"
  by (simp_all add: make_message_header_def)

text \<open>The size field read out of the bytes of a message that fits.\<close>

definition size_at :: "bytes \<Rightarrow> nat" where
  "size_at rest = unat (le_word (subspan size_offset 2 rest) :: u16)"

lemma size_at_message [simp]:
  "fits m \<Longrightarrow> size_at (message_bytes m @ r) = 8 + length (pm_arguments m)"
  using unat_of_nat_u16 [of "8 + length (pm_arguments m)"]
  by (simp add: size_at_def message_bytes_def fits_def)

lemma parse_NUM_eq:
  "parse_NUM rest =
     (if length rest < 8
      then Raise (Logic_error ''Trying to interpert less than 8 bytes as Wayland message header.'')
      else if size_at rest < 8
      then Raise (Logic_error ''Wayland message size is less than 8 bytes.'')
      else if size_at rest > length rest
      then Raise (Logic_error ''Wayland message size is more than bytes available.'')
      else Value \<lparr>pm_object_id = le_word (take 4 rest), pm_opcode = le_word (subspan 4 2 rest),
                  pm_arguments = subspan 8 (size_at rest - 8) rest\<rparr>)"
  by (simp add: parse_NUM_def size_at_def Let_def)

lemma parse_NUM_message:
  "fits m \<Longrightarrow> parse_NUM (message_bytes m @ rest) = Value m"
  by (simp add: parse_NUM_eq) (simp add: message_bytes_def subspan_def header_bytes_def)

lemma generator_resume_message [simp]:
  "fits m \<Longrightarrow> generator_resume (message_bytes m @ rest) = Value (Some (m, rest))"
  by (simp add: generator_resume_def parse_NUM_message)

lemma generator_resume_Nil [simp]: "generator_resume [] = Value None"
  by (simp add: generator_resume_def)

lemma generator_resume_None_iff [simp]: "generator_resume rest = Value None \<longleftrightarrow> rest = []"
  by (simp add: generator_resume_def Let_def)

lemma parsed_message_generator_Nil [simp]: "parsed_message_generator [] = ([], Value ())"
  by (subst parsed_message_generator.simps) simp

lemma parsed_message_generator_message [simp]:
  "fits m \<Longrightarrow> parsed_message_generator (message_bytes m @ rest) =
     (case parsed_message_generator rest of (ms, r) \<Rightarrow> (m # ms, r))"
  by (subst parsed_message_generator.simps) simp

section \<open>Soundness of the cut\<close>

lemma split_header:
  assumes "8 \<le> length rest"
  shows "rest = header_bytes (make_message_header (le_word (take 4 rest)) (le_word (subspan 4 2 rest))
      (le_word (subspan 6 2 rest))) @ drop 8 rest"
proof -
  have "le_bytes 4 (le_word (take 4 rest) :: u32) = take 4 rest"
    and "le_bytes 2 (le_word (subspan 4 2 rest) :: u16) = subspan 4 2 rest"
    and "le_bytes 2 (le_word (subspan 6 2 rest) :: u16) = subspan 6 2 rest"
    using assms by (simp_all add: le_bytes_le_word)
  moreover have "rest = take 4 rest @ subspan 4 2 rest @ subspan 6 2 rest @ drop 8 rest"
  proof -
    have "drop 6 rest = take 2 (drop 6 rest) @ drop 8 rest"
      using append_take_drop_id [of 2 "drop 6 rest"] by simp
    moreover have "drop 4 rest = take 2 (drop 4 rest) @ drop 6 rest"
      using append_take_drop_id [of 2 "drop 4 rest"] by simp
    ultimately show ?thesis
      using append_take_drop_id [of 4 rest] by (simp add: subspan_def)
  qed
  ultimately show ?thesis by (simp add: header_bytes_def)
qed

lemma parse_NUM_sound:
  assumes "parse_NUM rest = Value m"
  shows "fits m \<and> rest = message_bytes m @ drop (8 + length (pm_arguments m)) rest"
proof -
  from assms have l: "8 \<le> length rest" and s: "8 \<le> size_at rest" "size_at rest \<le> length rest"
    and m: "m = \<lparr>pm_object_id = le_word (take 4 rest), pm_opcode = le_word (subspan 4 2 rest),
                 pm_arguments = subspan 8 (size_at rest - 8) rest\<rparr>"
    by (auto simp: parse_NUM_eq split: if_splits)
  have n: "8 + length (pm_arguments m) = size_at rest"
    using s by (simp add: m)
  have "size_at rest < 2 ^ 16"
    unfolding size_at_def using unsigned_less [where w = "le_word (subspan size_offset 2 rest) :: u16"]
    by simp
  moreover have "of_nat (size_at rest) = (le_word (subspan 6 2 rest) :: u16)"
    by (simp add: size_at_def)
  moreover have "drop 8 rest = pm_arguments m @ drop (size_at rest) rest"
    using s append_take_drop_id [of "size_at rest - 8" "drop 8 rest"] by (simp add: m subspan_def)
  ultimately show ?thesis
    using split_header [OF l] n by (simp add: fits_def message_bytes_def m)
qed

lemma generator_resume_sound:
  assumes "generator_resume rest = Value (Some (m, rest'))"
  shows "fits m \<and> rest = message_bytes m @ rest'"
proof -
  from assms have "parse_NUM rest = Value m" and "rest' = drop (8 + length (pm_arguments m)) rest"
    by (auto simp: generator_resume_def Let_def split: if_splits)
  with parse_NUM_sound show ?thesis by simp
qed

lemma generator_messages_append:
  "list_all fits ms \<Longrightarrow> parsed_message_generator (concat (map message_bytes ms) @ rest) =
     (case parsed_message_generator rest of (ns, r) \<Rightarrow> (ms @ ns, r))"
  by (induction ms) (auto split: prod.split)

lemma generator_resume_Raise_iff:
  "generator_resume rest = Raise e \<longleftrightarrow> rest \<noteq> [] \<and> parse_NUM rest = Raise e"
  by (cases "parse_NUM rest") (simp_all add: generator_resume_def Let_def)

lemma generator_resume_cases:
  obtains (finished) "rest = []" "generator_resume rest = Value None"
  | (yielded) m rest' where "generator_resume rest = Value (Some (m, rest'))"
  | (failed) e where "generator_resume rest = Raise e"
proof (cases "rest = []")
  case False
  then show ?thesis
  proof (cases "parse_NUM rest")
    case (Value m)
    with False have "generator_resume rest
        = Value (Some (m, drop (8 + length (pm_arguments m)) rest))"
      by (simp add: generator_resume_def Let_def)
    then show ?thesis by (rule yielded)
  next
    case (Raise e)
    with False have "generator_resume rest = Raise e"
      by (simp add: generator_resume_Raise_iff)
    then show ?thesis by (rule failed)
  qed (simp_all add: parse_NUM_eq split: if_splits)
qed (simp add: finished)

text \<open>
  Whatever the bytes are: the generator yields messages that fit, whose bytes are a prefix of the
  input, and ends normally when the prefix is everything, otherwise with the exception
  \<open>parse_NUM\<close> throws on the remaining bytes.
\<close>

lemma generator_sound:
  "parsed_message_generator rest = (ms, r) \<Longrightarrow>
     list_all fits ms \<and> (\<exists>tail. rest = concat (map message_bytes ms) @ tail \<and>
       (if tail = [] then r = Value () else (\<exists>e. parse_NUM tail = Raise e \<and> r = Raise e)))"
proof (induction rest arbitrary: ms r rule: parsed_message_generator.induct)
  case (1 rest)
  show ?case
  proof (cases rest rule: generator_resume_cases)
    case finished
    with "1.prems" show ?thesis by simp
  next
    case (yielded m rest')
    obtain ns s where n: "parsed_message_generator rest' = (ns, s)"
      by (cases "parsed_message_generator rest'")
    have ms: "ms = m # ns" and r: "r = s"
      using "1.prems" yielded n by (simp_all add: parsed_message_generator.simps [of rest])
    have m: "fits m" and rest: "rest = message_bytes m @ rest'"
      using generator_resume_sound [OF yielded] by simp_all
    obtain tail where "list_all fits ns" and "rest' = concat (map message_bytes ns) @ tail"
      and "if tail = [] then s = Value () else (\<exists>e. parse_NUM tail = Raise e \<and> s = Raise e)"
      using "1.IH" [OF yielded refl refl n] by blast
    with m rest ms r show ?thesis by (intro conjI exI [of _ tail]) simp_all
  next
    case (failed e)
    then have "rest \<noteq> []" and "parse_NUM rest = Raise e"
      by (simp_all add: generator_resume_Raise_iff)
    with "1.prems" failed show ?thesis
      by (simp add: parsed_message_generator.simps [of rest])
  qed
qed

section \<open>Properties\<close>

text \<open>
  C8: the generator of a parser over the bytes of a sequence of messages yields those messages,
  in order, and ends normally.
\<close>

theorem parser_yields_the_messages:
  assumes "list_all fits ms"
  shows "message_generator (make_message_parser (concat (map message_bytes ms))) = (ms, Value ())"
  using generator_messages_append [OF assms, of "[]"]
  by (simp add: message_generator_def make_message_parser_def)

theorem parser_yields_the_messages_witness:
  "message_generator (make_message_parser (concat (map message_bytes
      [\<lparr>pm_object_id = 1, pm_opcode = 0, pm_arguments = [9, 9, 9, 9]\<rparr>,
       \<lparr>pm_object_id = 3, pm_opcode = 1, pm_arguments = []\<rparr>])))
   = ([\<lparr>pm_object_id = 1, pm_opcode = 0, pm_arguments = [9, 9, 9, 9]\<rparr>,
       \<lparr>pm_object_id = 3, pm_opcode = 1, pm_arguments = []\<rparr>], Value ())"
  by (rule parser_yields_the_messages) (simp add: fits_def)

text \<open>
  C9: whatever the bytes are, the generator yields messages whose bytes, one after another, are a
  prefix of them. It ends normally when they are all of them; otherwise with the exception for the
  first message that is not one, and nothing of the rest is yielded.
\<close>

theorem parser_is_sound:
  assumes "message_generator p = (ms, r)"
  shows "list_all fits ms \<and> (\<exists>tail. unparsed_messages p = concat (map message_bytes ms) @ tail \<and>
    (if tail = [] then r = Value () else (\<exists>e. parse_NUM tail = Raise e \<and> r = Raise e)))"
  using assms unfolding message_generator_def by (rule generator_sound)

theorem parser_is_sound_witness:
  "\<exists>tail. [1, 0, 0, 0, 2, 0, 8, 0, 5] =
     concat (map message_bytes [\<lparr>pm_object_id = 1, pm_opcode = 2, pm_arguments = []\<rparr>]) @ tail \<and> tail \<noteq> []"
proof -
  let ?p = "\<lparr>unparsed_messages = [1, 0, 0, 0, 2, 0, 8, 0, 5]\<rparr>"
  let ?ms = "[\<lparr>pm_object_id = 1, pm_opcode = 2, pm_arguments = []\<rparr>]"
  have b: "message_bytes \<lparr>pm_object_id = 1, pm_opcode = 2, pm_arguments = []\<rparr> = [1, 0, 0, 0, 2, 0, 8, 0]"
    by (simp add: message_bytes_def header_bytes_def le_bytes_2 le_bytes_4)
  have "parsed_message_generator [5] = ([], Raise (Logic_error
      ''Trying to interpert less than 8 bytes as Wayland message header.''))"
    by (simp add: parsed_message_generator.simps [of "[5]"] generator_resume_def parse_NUM_eq)
  then have "message_generator ?p = (?ms, Raise (Logic_error
      ''Trying to interpert less than 8 bytes as Wayland message header.''))"
    using generator_messages_append [of ?ms "[5]"]
    by (simp add: message_generator_def fits_def b)
  from parser_is_sound [OF this] show ?thesis by auto
qed


end
