(* ===== verification/Message_Overload_Set.thy ===== *)
theory Message_Overload_Set
  imports Message_Interpreter Message_Parser
begin

text \<open>
  \<^verbatim>\<open>message_overload_set.{hpp,cpp}\<close>: the table from (object id, opcode) pairs to type-erased
  callbacks, and its hash. The interface \<open>overload_table\<close> states what the visitors rely on: finding
  after adding, and that adding an occupied key changes nothing and fails.
\<close>

section \<open>State and operations\<close>

text \<open>
  A callback acts on the state \<open>'w\<close> it captured (its own \<^verbatim>\<open>mutable\<close> state and whatever it holds a
  reference to) and may throw.
\<close>

type_synonym key_t = "u32 \<times> u16"
type_synonym 'w erased_overload = "bytes \<Rightarrow> 'w \<Rightarrow> 'w \<times> unit outcome"

record 'w message_overload_set =
  overloads :: "key_t \<rightharpoonup> 'w erased_overload"

definition empty_overload_set :: "'w message_overload_set" where
  "empty_overload_set = \<lparr>overloads = Map.empty\<rparr>"

text \<open>
  The hash: the bytes of id and opcode and two zero bytes, read as one \<^verbatim>\<open>std::size_t\<close> and given to
  \<^verbatim>\<open>std::hash<std::size_t>\<close>, a parameter.
\<close>

definition key_bytes :: "key_t \<Rightarrow> bytes" where
  "key_bytes key = le_bytes 4 (fst key) @ le_bytes 2 (snd key) @ replicate (8 - 4 - 2) 0"

definition key_t_hash :: "(u64 \<Rightarrow> u64) \<Rightarrow> key_t \<Rightarrow> u64" where
  "key_t_hash std_hash key = std_hash (le_word (key_bytes key))"

text \<open>The closure \<open>add_overload\<close> stores: interpret the payload as the message, call the callback.\<close>

definition erase_overload ::
  "build \<Rightarrow> message_type \<Rightarrow> ('fd primitive list \<Rightarrow> 'w \<Rightarrow> 'w \<times> unit outcome) \<Rightarrow> 'w erased_overload" where
  "erase_overload cfg M overload payload w =
     state_bind (w, interpert_message_payload cfg M payload) overload"

text \<open>\<^verbatim>\<open>overloads_.insert\<close> keeps an existing entry and reports it; that is thrown.\<close>

definition insert_overload ::
  "'w message_overload_set \<Rightarrow> key_t \<Rightarrow> 'w erased_overload \<Rightarrow> 'w message_overload_set \<times> unit outcome" where
  "insert_overload mos key f =
     (let insert_ok = (overloads mos key = None);
          mos' = (if insert_ok then mos\<lparr>overloads := (overloads mos)(key \<mapsto> f)\<rparr> else mos)
      in if \<not> insert_ok
         then (mos', Raise (Runtime_error ''Overload for {Wobject<W>, Msg::opcode} already present!''))
         else (mos', Value ()))"

definition add_overload ::
  "build \<Rightarrow> wobject \<Rightarrow> message_type \<Rightarrow> ('fd primitive list \<Rightarrow> 'w \<Rightarrow> 'w \<times> unit outcome) \<Rightarrow>
     'w message_overload_set \<Rightarrow> 'w message_overload_set \<times> unit outcome" where
  "add_overload cfg obj M overload_arg mos =
     insert_overload mos (wobject_value obj, msg_opcode M) (erase_overload cfg M overload_arg)"

definition overload_resolution ::
  "'w message_overload_set \<Rightarrow> u32 \<Rightarrow> u16 \<Rightarrow> 'w erased_overload option" where
  "overload_resolution mos obj_id op = overloads mos (obj_id, op)"

section \<open>The interface of the table\<close>

fun add_all ::
  "('t \<Rightarrow> 'k \<Rightarrow> 'h \<Rightarrow> 't \<times> unit outcome) \<Rightarrow> 't \<Rightarrow> ('k \<times> 'h) list \<Rightarrow> 't \<times> unit outcome list" where
  "add_all add t [] = (t, [])"
| "add_all add t ((k, h) # khs) =
     (case add t k h of (t', r) \<Rightarrow> (case add_all add t' khs of (t'', rs) \<Rightarrow> (t'', r # rs)))"

locale overload_table =
  fixes none :: 't
    and add :: "'t \<Rightarrow> 'k \<Rightarrow> 'h \<Rightarrow> 't \<times> unit outcome"
    and find :: "'t \<Rightarrow> 'k \<Rightarrow> 'h option"
  assumes find_none: "find none k = None"
    and add_fresh: "find t k = None \<Longrightarrow> snd (add t k h) = Value ()"
    and find_add_fresh: "find t k = None \<Longrightarrow> find (fst (add t k h)) = (find t)(k \<mapsto> h)"
    and add_occupied: "find t k \<noteq> None \<Longrightarrow> fst (add t k h) = t \<and> (\<exists>e. snd (add t k h) = Raise e)"
begin

lemma find_add: "find (fst (add t k h)) j = (if find t k = None \<and> j = k then Some h else find t j)"
  using find_add_fresh [of t k h] add_occupied [of t k h] by (cases "find t k") auto

text \<open>The first registration of a key wins.\<close>

lemma find_add_all:
  "find (fst (add_all add t khs)) k = (case find t k of Some h \<Rightarrow> Some h | None \<Rightarrow> map_of khs k)"
proof (induction khs arbitrary: t)
  case Nil
  then show ?case by (simp split: option.split)
next
  case (Cons kh khs)
  obtain j h where kh: "kh = (j, h)" by (cases kh)
  have "find (fst (add_all add t (kh # khs))) k = find (fst (add_all add (fst (add t j h)) khs)) k"
    by (simp add: kh split: prod.split)
  then show ?case
    unfolding Cons.IH by (auto simp: kh find_add split: option.split)
qed

lemma find_add_all_none: "find (fst (add_all add none khs)) = map_of khs"
  by (rule ext) (simp add: find_add_all find_none)

text \<open>Distinct new keys are all accepted, in any order with the same table to look in.\<close>

lemma add_all_accepts:
  "distinct (map fst khs) \<Longrightarrow> (\<forall>k \<in> fst ` set khs. find t k = None) \<Longrightarrow>
     snd (add_all add t khs) = replicate (length khs) (Value ())"
proof (induction khs arbitrary: t)
  case (Cons kh khs)
  obtain j h where kh: "kh = (j, h)" by (cases kh)
  have j: "find t j = None" using Cons.prems by (simp add: kh)
  have "snd (add_all add (fst (add t j h)) khs) = replicate (length khs) (Value ())"
    using Cons.prems by (intro Cons.IH) (auto simp: kh find_add)
  then show ?case using add_fresh [OF j, of h] by (simp add: kh case_prod_beta)
qed simp

lemma find_add_all_order:
  assumes "distinct (map fst khs)" and "distinct (map fst khs')" and "set khs = set khs'"
  shows "find (fst (add_all add none khs)) = find (fst (add_all add none khs'))"
  using assms by (metis find_add_all_none map_of_eqI map_of_is_SomeI map_of_eq_None_iff
      not_None_eq map_of_SomeD ext)

end

interpretation mos: overload_table empty_overload_set insert_overload overloads
  by unfold_locales (auto simp: empty_overload_set_def insert_overload_def Let_def)

section \<open>The hash\<close>

lemma le_word_key_bytes_inject:
  "(le_word (key_bytes j) :: u64) = le_word (key_bytes k) \<Longrightarrow> j = k"
proof -
  assume "(le_word (key_bytes j) :: u64) = le_word (key_bytes k)"
  moreover have "le_bytes 8 (le_word (key_bytes i) :: u64) = key_bytes i" for i
    by (rule le_bytes_le_word) (simp_all add: key_bytes_def)
  ultimately have "key_bytes j = key_bytes k" by metis
  then show "j = k" by (simp add: key_bytes_def prod_eq_iff)
qed

section \<open>Properties\<close>

text \<open>
  One overload to add: the object, the message type and the callback; adding several, with what each
  call of \<open>add_overload\<close> returned.
\<close>

type_synonym ('fd, 'w) registration =
  "wobject \<times> message_type \<times> ('fd primitive list \<Rightarrow> 'w \<Rightarrow> 'w \<times> unit outcome)"

fun add_overloads ::
  "build \<Rightarrow> ('fd, 'w) registration list \<Rightarrow> 'w message_overload_set \<Rightarrow>
     'w message_overload_set \<times> unit outcome list" where
  "add_overloads cfg [] mos = (mos, [])"
| "add_overloads cfg ((obj, M, f) # rs) mos =
     (case add_overload cfg obj M f mos of (mos', r) \<Rightarrow>
      (case add_overloads cfg rs mos' of (mos'', outcomes) \<Rightarrow> (mos'', r # outcomes)))"

definition registered_key :: "('fd, 'w) registration \<Rightarrow> key_t" where
  "registered_key = (\<lambda>(obj, M, f). (wobject_value obj, msg_opcode M))"

definition registered_entry ::
  "build \<Rightarrow> ('fd, 'w) registration \<Rightarrow> key_t \<times> 'w erased_overload" where
  "registered_entry cfg r = (registered_key r, case r of (obj, M, f) \<Rightarrow> erase_overload cfg M f)"

lemma add_overloads_add_all:
  "add_overloads cfg rs mos = add_all insert_overload mos (map (registered_entry cfg) rs)"
  by (induction cfg rs mos rule: add_overloads.induct)
    (simp_all add: add_overload_def registered_entry_def registered_key_def split: prod.split)

lemma registered_keys: "map fst (map (registered_entry cfg) rs) = map registered_key rs"
  by (simp add: registered_entry_def comp_def)

lemma overloads_added:
  "overloads (fst (add_overloads cfg rs empty_overload_set)) = map_of (map (registered_entry cfg) rs)"
  by (simp only: add_overloads_add_all mos.find_add_all_none)

lemma overloads_accepted:
  "distinct (map registered_key rs) \<Longrightarrow>
     snd (add_overloads cfg rs empty_overload_set) = replicate (length rs) (Value ())"
  using mos.add_all_accepts [of "map (registered_entry cfg) rs" empty_overload_set]
  by (simp add: add_overloads_add_all registered_keys comp_def empty_overload_set_def
      registered_entry_def)

text \<open>
  Overload resolution after any sequence of \<open>add_overload\<close> on an empty set finds, for an object and
  an opcode, the first overload added for them and no other. A later one for the same pair is refused
  with an exception and changes nothing.
\<close>

lemma first_overload_wins:
  "overload_resolution (fst (add_overloads cfg rs empty_overload_set)) i oc
     = map_of (map (registered_entry cfg) rs) (i, oc) \<and>
   (overload_resolution mos (wobject_value obj) (msg_opcode M) \<noteq> None \<longrightarrow>
     add_overload cfg obj M f mos =
       (mos, Raise (Runtime_error ''Overload for {Wobject<W>, Msg::opcode} already present!'')))"
  by (simp_all add: overload_resolution_def overloads_added add_overload_def insert_overload_def)

text \<open>
  The word given to \<^verbatim>\<open>std::hash<std::size_t>\<close> identifies the key: distinct keys collide only where
  \<^verbatim>\<open>std::hash\<close> itself does.
\<close>

lemma key_hash_collides_only_with_std_hash:
  assumes "key_t_hash std_hash j = key_t_hash std_hash k" and "j \<noteq> k"
  shows "\<exists>x y. x \<noteq> y \<and> std_hash x = std_hash y"
  using assms le_word_key_bytes_inject [of j k] unfolding key_t_hash_def by blast

end
