(* ===== verification/Message_Visitor.thy ===== *)
theory Message_Visitor
  imports Message_Overload_Set
begin

text \<open>
  \<^verbatim>\<open>message_visitor.hpp\<close>: \<open>message_visit\<close> gives one parsed message, or every message of a range, to
  the overload found for it, or to the default.
\<close>

section \<open>Operations\<close>

text \<open>The default is invocable without arguments or with the message.\<close>

datatype 'w default_overload =
    Nullary "'w \<Rightarrow> 'w \<times> unit outcome"
  | With_message "parsed_message \<Rightarrow> 'w \<Rightarrow> 'w \<times> unit outcome"

fun invoke_default :: "'w default_overload \<Rightarrow> parsed_message \<Rightarrow> 'w \<Rightarrow> 'w \<times> unit outcome" where
  "invoke_default (Nullary f) msg w = f w"
| "invoke_default (With_message f) msg w = f msg w"

definition message_visit ::
  "'w default_overload \<Rightarrow> 'w message_overload_set \<Rightarrow> parsed_message \<Rightarrow> 'w \<Rightarrow> 'w \<times> unit outcome" where
  "message_visit default_overload mos msg w =
     (case overload_resolution mos (pm_object_id msg) (pm_opcode msg) of
        Some f \<Rightarrow> f (pm_arguments msg) w
      | None \<Rightarrow> invoke_default default_overload msg w)"

text \<open>
  The range overload: a range is what it yields and how reaching its end goes (a generator may
  throw there).
\<close>

fun message_visit_range ::
  "'w default_overload \<Rightarrow> 'w message_overload_set \<Rightarrow> parsed_message list \<times> unit outcome \<Rightarrow> 'w \<Rightarrow>
     'w \<times> unit outcome" where
  "message_visit_range default_overload mos ([], end_outcome) w = (w, end_outcome)"
| "message_visit_range default_overload mos (msg # msgs, end_outcome) w =
     (case message_visit default_overload mos msg w of
        (w', Value _) \<Rightarrow> message_visit_range default_overload mos (msgs, end_outcome) w'
      | (w', r) \<Rightarrow> (w', r))"

section \<open>Visiting as a fold\<close>

text \<open>A callback that always returns, and a fold over the messages for such callbacks.\<close>

definition returns :: "('w \<Rightarrow> 'w \<times> unit outcome) \<Rightarrow> bool" where
  "returns f \<longleftrightarrow> (\<forall>w. snd (f w) = Value ())"

definition visit_state ::
  "'w default_overload \<Rightarrow> 'w message_overload_set \<Rightarrow> parsed_message \<Rightarrow> 'w \<Rightarrow> 'w" where
  "visit_state d mos msg w = fst (message_visit d mos msg w)"

lemma message_visit_range_append:
  "message_visit_range d mos (ms @ ns, r) w =
     (case message_visit_range d mos (ms, Value ()) w of
        (w', Value _) \<Rightarrow> message_visit_range d mos (ns, r) w'
      | (w', s) \<Rightarrow> (w', s))"
  by (induction ms arbitrary: w) (auto split: prod.split outcome.split)

lemma message_visit_range_fold:
  assumes "\<And>m. m \<in> set ms \<Longrightarrow> returns (message_visit d mos m)"
  shows "message_visit_range d mos (ms, r) w = (fold (visit_state d mos) ms w, r)"
  using assms
proof (induction ms arbitrary: w)
  case (Cons m ms)
  have "message_visit d mos m w = (visit_state d mos m w, Value ())"
    using Cons.prems [of m] by (simp add: returns_def visit_state_def prod_eq_iff)
  then show ?case using Cons.IH Cons.prems by simp
qed simp

section \<open>Properties\<close>

text \<open>
  C32: a message of an object for which an overload of its type was added calls exactly that
  overload, with the values that were encoded in the message; a message of any other object or
  opcode goes to the default.
\<close>

theorem visit_dispatches_to_the_overload:
  assumes "distinct (map registered_key rs)" and "mos = fst (add_overloads cfg rs empty_overload_set)"
    and "(obj, M, f) \<in> set rs" and "readable_message cfg M args"
    and "msg = \<lparr>pm_object_id = wobject_value obj, pm_opcode = msg_opcode M,
                pm_arguments = enc_args storage k args\<rparr>"
    and "(pm_object_id other, pm_opcode other) \<notin> set (map registered_key rs)"
  shows "message_visit d mos msg w = f args w \<and>
    message_visit d mos other w = invoke_default d other w"
proof -
  have "map_of (map (registered_entry cfg) rs) (wobject_value obj, msg_opcode M) = Some (erase_overload cfg M f)"
  proof (rule map_of_is_SomeI)
    show "distinct (map fst (map (registered_entry cfg) rs))"
      unfolding registered_keys by (rule assms(1))
    show "((wobject_value obj, msg_opcode M), erase_overload cfg M f) \<in> set (map (registered_entry cfg) rs)"
      using assms(3) by (force simp: registered_entry_def registered_key_def)
  qed
  moreover have "map_of (map (registered_entry cfg) rs) (pm_object_id other, pm_opcode other) = None"
    unfolding map_of_eq_None_iff set_map [symmetric] registered_keys by (rule assms(6))
  ultimately show ?thesis
    by (simp add: message_visit_def overload_resolution_def assms(2,5) overloads_added erase_overload_def
        interpert_enc_args [OF assms(4)])
qed

theorem visit_dispatches_to_the_overload_witness:
  "message_visit (Nullary (\<lambda>w. (0, Value ())))
     (fst (add_overloads \<lparr>ndebug = False, checked_subscript = True\<rparr>
        [(\<lparr>wobject_interface = generic_object, wobject_value = 2\<rparr>,
          \<lparr>msg_interface = generic_object, msg_kind = Event, msg_name = ''m'', msg_opcode = 1,
           msg_fields = [(''n'', TWuint)]\<rparr>,
          \<lambda>(args :: nat primitive list) (w :: nat). (w + length args, Value ()))] empty_overload_set))
     \<lparr>pm_object_id = 2, pm_opcode = 1, pm_arguments = enc_args (\<lambda>_. 0) 0 [Wuint 6 :: nat primitive]\<rparr> 3
   = (4, Value ())"
proof -
  let ?cfg = "\<lparr>ndebug = False, checked_subscript = True\<rparr>"
  let ?obj = "\<lparr>wobject_interface = generic_object, wobject_value = 2\<rparr>"
  let ?M = "\<lparr>msg_interface = generic_object, msg_kind = Event, msg_name = ''m'', msg_opcode = 1,
           msg_fields = [(''n'', TWuint)]\<rparr>"
  let ?f = "\<lambda>(args :: nat primitive list) (w :: nat). (w + length args, Value ())"
  have "readable_message ?cfg ?M [Wuint 6 :: nat primitive]"
    by (simp add: wire_simps)
  from visit_dispatches_to_the_overload [OF _ refl _ this refl, of "[(?obj, ?M, ?f)]" ?obj ?f
      "\<lparr>pm_object_id = 2, pm_opcode = 2, pm_arguments = []\<rparr>"]
  show ?thesis by (simp add: registered_key_def)
qed

text \<open>
  Visiting a range gives the messages to their overloads one after another and in order; when one
  of them does not return normally the visit ends there, with what the messages before it did kept,
  and no later message is visited.
\<close>

lemma visit_range_in_order:
  assumes "\<forall>m \<in> set pre. returns (message_visit d mos m)"
  shows "message_visit_range d mos (pre @ m # post, r) w =
    (case message_visit d mos m (fold (visit_state d mos) pre w) of
       (w', Value _) \<Rightarrow> message_visit_range d mos (post, r) w'
     | (w', s) \<Rightarrow> (w', s)) \<and>
    message_visit_range d mos (pre, r) w = (fold (visit_state d mos) pre w, r)"
proof -
  have "message_visit_range d mos (pre, q) w = (fold (visit_state d mos) pre w, q)" for q
    using assms by (intro message_visit_range_fold) simp
  then show ?thesis
    by (simp add: message_visit_range_append)
qed

end
