(* ===== verification/Connected_Client.thy ===== *)
theory Connected_Client
  imports Message_Visitor
begin

text \<open>
  \<^verbatim>\<open>connected_client.{hpp,cpp}\<close>: the client's end of the Wayland socket. The socket itself
  (\<^verbatim>\<open>gnulander::local_stream_socket\<close>, a subproject) is a parameter: a state and three operations.
  The \<^verbatim>\<open>goto\<close> loops are partial functions with \<open>None\<close> for a loop that never ends.
\<close>

section \<open>State\<close>

text \<open>
  \<open>sock_send\<close> sends bytes with one descriptor and returns the number of bytes sent, \<open>sock_write\<close>
  writes all of the bytes, \<open>sock_read_some\<close> reads into a span of the given size and returns what
  it has read (no byte at the end of the stream).
\<close>

record ('s, 'fd) sock_ops =
  sock_send :: "'s \<Rightarrow> bytes \<Rightarrow> 'fd \<Rightarrow> 's \<times> nat outcome"
  sock_write :: "'s \<Rightarrow> bytes \<Rightarrow> 's \<times> unit outcome"
  sock_read_some :: "'s \<Rightarrow> nat \<Rightarrow> 's \<times> bytes outcome"

record ('s, 'fd) connected_client =
  server_sock :: 's
  next_new_id :: u32
  request_buff :: "'fd message_buffer"
  recv_buff :: bytes

definition global_display_object :: wobject where
  "global_display_object =
     \<lparr>wobject_interface = protocol_interface ''wl_display'', wobject_value = 1\<rparr>"

definition make_connected_client :: "'s \<Rightarrow> ('s, 'fd) connected_client" where
  "make_connected_client sock =
     \<lparr>server_sock = sock, next_new_id = 2, request_buff = empty_message_buffer, recv_buff = []\<rparr>"

text \<open>The constructor from a path; opening the socket is the subproject's.\<close>

definition connect_client ::
  "('path \<Rightarrow> 's outcome) \<Rightarrow> 'path \<Rightarrow> ('s, 'fd) connected_client outcome" where
  "connect_client open_local_stream_socket socket =
     bind_outcome (open_local_stream_socket socket) (\<lambda>sock. Value (make_connected_client sock))"

section \<open>Requests\<close>

definition reserve_object_id ::
  "interface \<Rightarrow> ('s, 'fd) connected_client \<Rightarrow> wobject \<times> ('s, 'fd) connected_client" where
  "reserve_object_id T c =
     (\<lparr>wobject_interface = T, wobject_value = next_new_id c\<rparr>,
      c\<lparr>next_new_id := next_new_id c + 1\<rparr>)"

text \<open>\<^verbatim>\<open>Wobject<T>::reserve_id\<close>: the new object, the value returned, and the client.\<close>

definition reserve_id ::
  "wobject \<Rightarrow> ('s, 'fd) connected_client \<Rightarrow> wobject \<times> wobject \<times> ('s, 'fd) connected_client" where
  "reserve_id self c =
     (case reserve_object_id (wobject_interface self) c of (obj, c') \<Rightarrow> (obj, obj, c'))"

definition register_request ::
  "build \<Rightarrow> (nat \<Rightarrow> byte) \<Rightarrow> wobject \<Rightarrow> message_type \<Rightarrow> 'fd primitive list \<Rightarrow>
     ('s, 'fd) connected_client \<Rightarrow> ('s, 'fd) connected_client \<times> unit outcome" where
  "register_request cfg storage obj M args c =
     state_bind (c, append_message cfg storage obj M args (request_buff c))
       (\<lambda>mb c. (c\<lparr>request_buff := mb\<rparr>, Value ()))"

definition has_registered_requests :: "('s, 'fd) connected_client \<Rightarrow> bool" where
  "has_registered_requests c \<longleftrightarrow> \<not> buffer_empty (request_buff c)"

lemmas [client_simps] = make_connected_client_def has_registered_requests_def buffer_empty_def

text \<open>\<^verbatim>\<open>std::span::subspan(off, n)\<close> of a span of the given size.\<close>

definition subspan_outcome :: "build \<Rightarrow> nat \<Rightarrow> nat \<Rightarrow> nat \<Rightarrow> unit outcome" where
  "subspan_outcome cfg off n size_of_span =
     (if off + n \<le> size_of_span then Value ()
      else if checked_subscript cfg then Aborted else Undefined)"

text \<open>The loop over the descriptors: one byte goes with each.\<close>

fun send_fds ::
  "build \<Rightarrow> ('s, 'fd) sock_ops \<Rightarrow> bytes \<Rightarrow> 'fd list \<Rightarrow> nat \<Rightarrow> 's \<Rightarrow> 's \<times> nat outcome" where
  "send_fds cfg ops data [] bytes_written s = (s, Value bytes_written)"
| "send_fds cfg ops data (fd # fds) bytes_written s =
     state_bind (s, subspan_outcome cfg bytes_written 1 (length data)) (\<lambda>_ s.
     state_bind (sock_send ops s (subspan bytes_written 1 data) fd) (\<lambda>n s.
       send_fds cfg ops data fds (bytes_written + n) s))"

definition write_requests ::
  "build \<Rightarrow> ('s, 'fd) sock_ops \<Rightarrow> bytes \<Rightarrow> 'fd list \<Rightarrow> 's \<Rightarrow> 's \<times> unit outcome" where
  "write_requests cfg ops data_to_write fds_to_write s =
     state_bind (s, assert_outcome cfg (length data_to_write > length fds_to_write)) (\<lambda>_ s.
     state_bind (send_fds cfg ops data_to_write fds_to_write 0 s) (\<lambda>bytes_written s.
     state_bind (s, subspan_outcome cfg bytes_written 0 (length data_to_write)) (\<lambda>_ s.
       sock_write ops s (drop bytes_written data_to_write))))"

definition flush_registered_requests ::
  "build \<Rightarrow> ('s, 'fd) sock_ops \<Rightarrow> ('s, 'fd) connected_client \<Rightarrow>
     ('s, 'fd) connected_client \<times> unit outcome" where
  "flush_registered_requests cfg ops c =
     (if buffer_empty (request_buff c) then (c, Value ())
      else
        let (data_to_write, mb1) = release_data (request_buff c);
            (fds_to_write, mb2) = release_fds mb1;
            (s, r) = write_requests cfg ops data_to_write fds_to_write (server_sock c)
        in (c\<lparr>server_sock := s, request_buff := mb2\<rparr>, r))"

section \<open>Events\<close>

definition recv_block_size :: nat where
  "recv_block_size = 1000"

text \<open>
  The loop of \<open>recv_more_data\<close> from its label \<^verbatim>\<open>read_again\<close> on. \<open>storage\<close> is what the memory of the
  resized vector holds.
\<close>

partial_function (option) read_again ::
  "('s, 'fd) sock_ops \<Rightarrow> (nat \<Rightarrow> byte) \<Rightarrow> nat \<Rightarrow> ('s, 'fd) connected_client \<Rightarrow>
     (('s, 'fd) connected_client \<times> unit outcome) option" where
  "read_again ops storage unprocessed_bytes c =
     (let M = unprocessed_bytes + recv_block_size;
          is_aligned = (M mod 4 = 0);
          M_pad = (if is_aligned then 1 else 0);
          b = byte_vec_resize storage (M + M_pad) (recv_buff c);
          where_to_read = length b - unprocessed_bytes
      in case sock_read_some ops (server_sock c) where_to_read of (s, r) \<Rightarrow>
         (case r of
            Value bs \<Rightarrow>
              (let bytes_read = length bs;
                   c1 = c\<lparr>server_sock := s, recv_buff := overwrite unprocessed_bytes bs b\<rparr>
               in if bytes_read = 0
                  then Some (c1\<lparr>recv_buff := byte_vec_resize storage unprocessed_bytes (recv_buff c1)\<rparr>,
                             Raise (Runtime_error ''Encountered EOF from server socket!''))
                  else if bytes_read = where_to_read
                  then read_again ops storage (unprocessed_bytes + bytes_read) c1
                  else Some (c1\<lparr>recv_buff :=
                                 byte_vec_resize storage (unprocessed_bytes + bytes_read) (recv_buff c1)\<rparr>,
                             Value ()))
          | Raise e \<Rightarrow> Some (c\<lparr>server_sock := s, recv_buff := b\<rparr>, Raise e)
          | Aborted \<Rightarrow> Some (c\<lparr>server_sock := s, recv_buff := b\<rparr>, Aborted)
          | Undefined \<Rightarrow> Some (c\<lparr>server_sock := s, recv_buff := b\<rparr>, Undefined)
          | Blocked \<Rightarrow> Some (c\<lparr>server_sock := s, recv_buff := b\<rparr>, Blocked)
          | Ill_formed \<Rightarrow> Some (c\<lparr>server_sock := s, recv_buff := b\<rparr>, Ill_formed)
          | Exited n \<Rightarrow> Some (c\<lparr>server_sock := s, recv_buff := b\<rparr>, Exited n)))"

definition recv_more_data ::
  "('s, 'fd) sock_ops \<Rightarrow> (nat \<Rightarrow> byte) \<Rightarrow> ('s, 'fd) connected_client \<Rightarrow>
     (('s, 'fd) connected_client \<times> unit outcome) option" where
  "recv_more_data ops storage c = read_again ops storage (length (recv_buff c)) c"

text \<open>
  The loop of \<open>get_recd_bytes_forming_whole_messages\<close> from its label \<^verbatim>\<open>try_next_msg\<close> on; the result
  is the length of the span it returns.
\<close>

partial_function (option) try_next_msg :: "bytes \<Rightarrow> nat \<Rightarrow> nat option" where
  "try_next_msg recv bytes_forming_whole_messages =
     (let bytes_required_for_next_msg_size = bytes_forming_whole_messages + sizeof_message_header
      in if length recv < bytes_required_for_next_msg_size
         then Some bytes_forming_whole_messages
         else
           let size_of_next_msg =
                 le_word (subspan (bytes_forming_whole_messages + size_offset) 2 recv) :: u16;
               bytes_potentially_forming_whole_messages =
                 bytes_forming_whole_messages + unat size_of_next_msg
           in if length recv \<ge> bytes_potentially_forming_whole_messages
              then try_next_msg recv bytes_potentially_forming_whole_messages
              else Some bytes_forming_whole_messages)"

definition get_recd_bytes_forming_whole_messages ::
  "('s, 'fd) connected_client \<Rightarrow> bytes option" where
  "get_recd_bytes_forming_whole_messages c =
     map_option (\<lambda>n. take n (recv_buff c)) (try_next_msg (recv_buff c) 0)"

definition recv_events ::
  "('s, 'fd) sock_ops \<Rightarrow> (nat \<Rightarrow> byte) \<Rightarrow> ('s, 'fd) connected_client \<Rightarrow>
     (('s, 'fd) connected_client \<times> message_parser outcome) option" where
  "recv_events ops storage c =
     (case recv_more_data ops storage c of
        None \<Rightarrow> None
      | Some (c1, Value _) \<Rightarrow>
          (case get_recd_bytes_forming_whole_messages c1 of
             None \<Rightarrow> None
           | Some bytes_to_parse \<Rightarrow>
               Some (c1\<lparr>recv_buff := drop (length bytes_to_parse) (recv_buff c1)\<rparr>,
                     Value (make_message_parser bytes_to_parse)))
      | Some (c1, r) \<Rightarrow> Some (c1, bind_outcome r (\<lambda>_. Undefined)))"

section \<open>Receive and visit\<close>

text \<open>
  The range-for of \<open>recvis_closure::until\<close>: \<open>Value (Some n)\<close> when the until-message was found and
  \<open>n\<close> bytes are to be erased, \<open>Value None\<close> at the end of the range.
\<close>

function visit_until ::
  "'w message_overload_set \<Rightarrow> u32 \<Rightarrow> u16 \<Rightarrow> 'w erased_overload option \<Rightarrow> bytes \<Rightarrow> nat \<Rightarrow> nat \<Rightarrow> 'w \<Rightarrow>
     'w \<times> nat option outcome" where
  "visit_until mos until_obj_id until_opcode callback rest num_msgs argument_bytes w =
     (case generator_resume rest of
        Value None \<Rightarrow> (w, Value None)
      | Value (Some (msg, rest')) \<Rightarrow>
          (let total_num_parsed_messages = num_msgs + 1;
               total_parsed_argument_bytes = argument_bytes + length (pm_arguments msg)
           in if cmp_equal (U32 (pm_object_id msg)) (U32 until_obj_id) \<and>
                 cmp_equal (U16 (pm_opcode msg)) (U16 until_opcode)
              then state_bind
                     (case callback of None \<Rightarrow> (w, Value ()) | Some f \<Rightarrow> f (pm_arguments msg) w)
                     (\<lambda>_ w. (w, Value (Some (sizeof_message_header * total_num_parsed_messages
                                           + total_parsed_argument_bytes))))
              else state_bind
                     (case overload_resolution mos (pm_object_id msg) (pm_opcode msg) of
                        None \<Rightarrow> (w, Value ())
                      | Some f \<Rightarrow> f (pm_arguments msg) w)
                     (\<lambda>_ w. visit_until mos until_obj_id until_opcode callback rest'
                              total_num_parsed_messages total_parsed_argument_bytes w))
      | Raise e \<Rightarrow> (w, Raise e)
      | Aborted \<Rightarrow> (w, Aborted)
      | Undefined \<Rightarrow> (w, Undefined)
      | Blocked \<Rightarrow> (w, Blocked)
      | Ill_formed \<Rightarrow> (w, Ill_formed)
      | Exited n \<Rightarrow> (w, Exited n))"
  by pat_completeness auto
termination
  by (relation "measure (\<lambda>(mos, i, oc, cb, rest, n, k, w). length rest)")
    (auto dest: generator_resume_shorter)

declare visit_until.simps [simp del]

text \<open>
  The member function \<^verbatim>\<open>until\<close> with its label \<^verbatim>\<open>try_again\<close>. A callback acts on the client and on
  the caller's own state.
\<close>

type_synonym ('s, 'fd, 'u) world = "('s, 'fd) connected_client \<times> 'u"

partial_function (option) try_again ::
  "('s, 'fd) sock_ops \<Rightarrow> (nat \<Rightarrow> byte) \<Rightarrow> ('s, 'fd, 'u) world message_overload_set \<Rightarrow> u32 \<Rightarrow> u16 \<Rightarrow>
     ('s, 'fd, 'u) world erased_overload option \<Rightarrow> ('s, 'fd, 'u) world \<Rightarrow>
     (('s, 'fd, 'u) world \<times> unit outcome) option" where
  "try_again ops storage mos until_obj_id until_opcode callback w =
     (case get_recd_bytes_forming_whole_messages (fst w) of
        None \<Rightarrow> None
      | Some bytes_to_parse \<Rightarrow>
          (case visit_until mos until_obj_id until_opcode callback bytes_to_parse 0 0 w of (w1, r) \<Rightarrow>
            (case r of
               Value found \<Rightarrow>
                 (case found of
                    Some total_parsed_bytes \<Rightarrow>
                      Some (((fst w1)\<lparr>recv_buff := drop total_parsed_bytes (recv_buff (fst w1))\<rparr>,
                             snd w1), Value ())
                  | None \<Rightarrow>
                      (case recv_more_data ops storage
                              ((fst w1)\<lparr>recv_buff := drop (length bytes_to_parse) (recv_buff (fst w1))\<rparr>) of
                         None \<Rightarrow> None
                       | Some cr \<Rightarrow>
                           (case snd cr of
                              Value _ \<Rightarrow> try_again ops storage mos until_obj_id until_opcode callback
                                           (fst cr, snd w1)
                            | Raise e \<Rightarrow> Some ((fst cr, snd w1), Raise e)
                            | Aborted \<Rightarrow> Some ((fst cr, snd w1), Aborted)
                            | Undefined \<Rightarrow> Some ((fst cr, snd w1), Undefined)
                            | Blocked \<Rightarrow> Some ((fst cr, snd w1), Blocked)
                            | Ill_formed \<Rightarrow> Some ((fst cr, snd w1), Ill_formed)
                            | Exited n \<Rightarrow> Some ((fst cr, snd w1), Exited n))))
             | Raise e \<Rightarrow> Some (w1, Raise e)
             | Aborted \<Rightarrow> Some (w1, Aborted)
             | Undefined \<Rightarrow> Some (w1, Undefined)
             | Blocked \<Rightarrow> Some (w1, Blocked)
             | Ill_formed \<Rightarrow> Some (w1, Ill_formed)
             | Exited n \<Rightarrow> Some (w1, Exited n))))"

text \<open>
  \<^verbatim>\<open>recv_and_visit_events\<close> returns a closure with references to the client and to the overload set. The
  client is the one of the world the closure's \<^verbatim>\<open>until\<close> acts on; the set is held here.
\<close>

record 'w recvis_closure =
  closure_mos :: "'w message_overload_set"

definition recv_and_visit_events :: "'w message_overload_set \<Rightarrow> 'w recvis_closure" where
  "recv_and_visit_events mos = \<lparr>closure_mos = mos\<rparr>"

definition until_message ::
  "('s, 'fd) sock_ops \<Rightarrow> (nat \<Rightarrow> byte) \<Rightarrow> ('s, 'fd, 'u) world message_overload_set \<Rightarrow> wobject \<Rightarrow>
     message_type \<Rightarrow> ('s, 'fd, 'u) world \<Rightarrow> (('s, 'fd, 'u) world \<times> unit outcome) option" where
  "until_message ops storage mos obj_id M w =
     try_again ops storage mos (wobject_value obj_id) (msg_opcode M) None w"

definition until_message_with ::
  "build \<Rightarrow> ('s, 'fd) sock_ops \<Rightarrow> (nat \<Rightarrow> byte) \<Rightarrow> ('s, 'fd, 'u) world message_overload_set \<Rightarrow> wobject \<Rightarrow>
     message_type \<Rightarrow>
     ('fd primitive list \<Rightarrow> ('s, 'fd, 'u) world \<Rightarrow> ('s, 'fd, 'u) world \<times> unit outcome) \<Rightarrow>
     ('s, 'fd, 'u) world \<Rightarrow> (('s, 'fd, 'u) world \<times> unit outcome) option" where
  "until_message_with cfg ops storage mos obj_id M callback_arg w =
     try_again ops storage mos (wobject_value obj_id) (msg_opcode M)
       (Some (erase_overload cfg M callback_arg)) w"

end
