(* ===== verification/Client_Events.thy ===== *)
theory Client_Events
  imports Connected_Client
begin

text \<open>
  The event side of \<open>connected_client\<close>: receiving more data, cutting whole messages off the
  receive buffer and visiting events until one of them. The socket is described by the bytes the
  server has sent and the client has not read, \<open>pending\<close>.
\<close>

section \<open>Receiving\<close>

text \<open>
  What is assumed of \<^verbatim>\<open>read_some\<close>: while bytes are pending, it returns at least one of them and at
  most as many as the span holds, in order. Nothing is assumed of a read with nothing pending,
  which blocks.
\<close>

definition reads_pending :: "('s, 'fd) sock_ops \<Rightarrow> ('s \<Rightarrow> bytes) \<Rightarrow> bool" where
  "reads_pending ops pending \<longleftrightarrow>
     (\<forall>s n. 0 < n \<longrightarrow> pending s \<noteq> [] \<longrightarrow>
        (\<exists>bs. bs \<noteq> [] \<and> length bs \<le> n \<and> snd (sock_read_some ops s n) = Value bs \<and>
              pending s = bs @ pending (fst (sock_read_some ops s n))))"

lemma reads_pendingE:
  assumes "reads_pending ops pending" and "pending s \<noteq> []" and "0 < n"
  obtains bs s' where "sock_read_some ops s n = (s', Value bs)" and "bs \<noteq> []" and "length bs \<le> n"
    and "pending s = bs @ pending s'"
  using assms unfolding reads_pending_def by (metis prod.collapse)

text \<open>The fields the event side does not touch.\<close>

definition same_requests :: "('s, 'fd) connected_client \<Rightarrow> ('s, 'fd) connected_client \<Rightarrow> bool" where
  "same_requests c c' \<longleftrightarrow> next_new_id c' = next_new_id c \<and> request_buff c' = request_buff c"

lemma same_requests_refl [simp]: "same_requests c c"
  by (simp add: same_requests_def)

lemma same_requests_trans: "same_requests a b \<Longrightarrow> same_requests b c \<Longrightarrow> same_requests a c"
  by (simp add: same_requests_def)

lemma same_requests_recv [simp]:
  "same_requests c (c\<lparr>recv_buff := b\<rparr>)" "same_requests c (c\<lparr>server_sock := s, recv_buff := b\<rparr>)"
  by (simp_all add: same_requests_def)

text \<open>
  One turn of the loop that reads \<open>bs\<close> into the span behind the \<open>length r\<close> received bytes: the
  length of the span, and what is left of the buffer.
\<close>

definition block_length :: "nat \<Rightarrow> nat" where
  "block_length u = (if (u + recv_block_size) mod 4 = 0 then 1001 else 1000)"

lemma block_length_pos [simp]: "0 < block_length u"
  by (simp add: block_length_def)

lemma block_not_aligned: "\<not> 4 dvd u + block_length u"
  by (simp add: block_length_def recv_block_size_def dvd_eq_mod_eq_0) presburger

lemma block_eq:
  "u + recv_block_size + (if (u + recv_block_size) mod 4 = 0 then 1 else 0) = u + block_length u"
  by (simp add: block_length_def recv_block_size_def)

lemma read_block:
  assumes "length bs \<le> n"
  shows "byte_vec_resize storage (length r + length bs)
      (overwrite (length r) bs (byte_vec_resize storage (length r + n) r)) = r @ bs"
    and "length bs = n \<Longrightarrow>
      overwrite (length r) bs (byte_vec_resize storage (length r + n) r) = r @ bs"
  using assms by (simp_all add: byte_vec_resize_grow byte_vec_resize_shrink)

text \<open>What reading from the socket leaves alone, for instance what has been sent.\<close>

definition reads_keep :: "('s, 'fd) sock_ops \<Rightarrow> ('s \<Rightarrow> 'o) \<Rightarrow> bool" where
  "reads_keep ops obs \<longleftrightarrow> (\<forall>s n. obs (fst (sock_read_some ops s n)) = obs s)"

lemma read_again_keeps:
  assumes "reads_keep ops obs" and "read_again ops storage u c = Some (c', r)"
  shows "obs (server_sock c') = obs (server_sock c)"
proof -
  let ?P = "\<lambda>ops' storage u c x. reads_keep ops' obs \<longrightarrow> obs (server_sock (fst x)) = obs (server_sock c)"
  have "?P ops storage u c (c', r)"
  proof (rule read_again.raw_induct [where P = ?P, OF _ assms(2)], goal_cases)
    case (1 f ops storage u c x)
    show ?case
    proof
      assume keep: "reads_keep ops obs"
      then have k: "obs (fst (sock_read_some ops s n)) = obs s" for s n
        by (simp add: reads_keep_def)
      have IH: "f ops storage u' c' = Some x \<Longrightarrow> obs (server_sock (fst x)) = obs (server_sock c')" for u' c'
        using 1(1) [of ops storage u' c' x] keep by blast
      show "obs (server_sock (fst x)) = obs (server_sock c)"
        using 1(2) by (auto simp: Let_def case_prod_beta k split: outcome.split_asm if_split_asm dest!: IH)
    qed
  qed
  with assms(1) show ?thesis by simp
qed

lemma read_again_value:
  assumes "sock_read_some ops (server_sock c) (block_length (length (recv_buff c))) = (s, Value bs)"
    and "bs \<noteq> []" and "length bs \<le> block_length (length (recv_buff c))"
  shows "read_again ops storage (length (recv_buff c)) c =
    (let c' = c\<lparr>server_sock := s, recv_buff := recv_buff c @ bs\<rparr>
     in if length bs = block_length (length (recv_buff c))
        then read_again ops storage (length (recv_buff c')) c'
        else Some (c', Value ()))"
  using assms
  by (subst read_again.simps)
    (simp add: Let_def block_eq read_block del: add_is_0)

lemma read_again_stream:
  assumes ops: "reads_pending ops pending"
  shows "pending (server_sock c) \<noteq> [] \<Longrightarrow> 4 dvd length (recv_buff c @ pending (server_sock c)) \<Longrightarrow>
    \<exists>c' bs. read_again ops storage (length (recv_buff c)) c = Some (c', Value ()) \<and> bs \<noteq> [] \<and>
      recv_buff c' = recv_buff c @ bs \<and> pending (server_sock c) = bs @ pending (server_sock c') \<and>
      same_requests c c'"
proof (induction "length (pending (server_sock c))" arbitrary: c rule: less_induct)
  case less
  let ?u = "length (recv_buff c)"
  obtain bs s where r: "sock_read_some ops (server_sock c) (block_length ?u) = (s, Value bs)"
    and bs: "bs \<noteq> []" "length bs \<le> block_length ?u" and p: "pending (server_sock c) = bs @ pending s"
    using reads_pendingE [OF ops less.prems(1) block_length_pos [of ?u]] by blast
  let ?c = "c\<lparr>server_sock := s, recv_buff := recv_buff c @ bs\<rparr>"
  note step = read_again_value [OF r bs]
  show ?case
  proof (cases "length bs = block_length ?u")
    case False
    with step p bs show ?thesis by (intro exI [of _ ?c] exI [of _ bs]) (simp add: Let_def)
  next
    case True
    have a: "4 dvd length (recv_buff ?c @ pending (server_sock ?c))"
      using less.prems(2) by (simp add: p add.assoc)
    have "pending (server_sock ?c) \<noteq> []"
      using a True block_not_aligned [of ?u] by auto
    moreover have "length (pending (server_sock ?c)) < length (pending (server_sock c))"
      using bs p by simp
    ultimately obtain c' bs' where c':
      "read_again ops storage (length (recv_buff ?c)) ?c = Some (c', Value ())"
      "recv_buff c' = recv_buff ?c @ bs'" "pending (server_sock ?c) = bs' @ pending (server_sock c')"
      "same_requests ?c c'"
      using less.hyps [of ?c] a by blast
    have "read_again ops storage ?u c = Some (c', Value ())"
      using step True c'(1) by (simp add: Let_def)
    moreover have "same_requests c c'"
      using c'(4) by (rule same_requests_trans [rotated]) simp
    ultimately show ?thesis
      using c'(2,3) p bs by (intro exI [of _ c'] exI [of _ "bs @ bs'"]) simp
  qed
qed

section \<open>Whole messages\<close>

text \<open>The bytes after the last whole message: no header, or a header that asks for more.\<close>

definition partial_tail :: "bytes \<Rightarrow> bool" where
  "partial_tail t \<longleftrightarrow> length t < 8 \<or> length t < size_at t"

text \<open>What a server sends: messages the size field can hold, of whole 32-bit words.\<close>

definition whole_words :: "parsed_message list \<Rightarrow> bool" where
  "whole_words ms \<longleftrightarrow> list_all (\<lambda>m. fits m \<and> 4 dvd length (pm_arguments m)) ms"

lemma whole_words_simps [simp]:
  "whole_words []" "whole_words (ms @ ns) \<longleftrightarrow> whole_words ms \<and> whole_words ns"
  by (simp_all add: whole_words_def)

lemma whole_wordsD:
  "whole_words ms \<Longrightarrow> list_all fits ms" "whole_words ms \<Longrightarrow> \<forall>m \<in> set ms. 4 dvd length (pm_arguments m)"
  by (simp_all add: whole_words_def list_all_iff)

lemma size_at_drop: "subspan (n + 6) 2 recv = subspan 6 2 (drop n recv)"
  by (simp add: subspan_def add.commute)

lemma try_next_msg_step:
  "try_next_msg recv n =
     (if partial_tail (drop n recv) then Some n
      else try_next_msg recv (n + size_at (drop n recv)))"
proof (cases "n \<le> length recv")
  case True
  then show ?thesis
    by (subst try_next_msg.simps)
      (auto simp: partial_tail_def size_at_def size_at_drop Let_def)
next
  case False
  then show ?thesis
    by (subst try_next_msg.simps) (simp add: partial_tail_def)
qed

lemma try_next_msg_messages:
  "list_all fits ms \<Longrightarrow> partial_tail tail \<Longrightarrow>
     try_next_msg (pre @ concat (map message_bytes ms) @ tail) (length pre) =
       Some (length pre + length (concat (map message_bytes ms)))"
proof (induction ms arbitrary: pre)
  case Nil
  then show ?case by (subst try_next_msg_step) simp
next
  case (Cons m ms)
  let ?r = "concat (map message_bytes ms) @ tail"
  have m: "fits m" and ms: "list_all fits ms" using Cons.prems(1) by simp_all
  have "\<not> partial_tail (message_bytes m @ ?r)"
    using m by (simp add: partial_tail_def)
  then have "try_next_msg (pre @ message_bytes m @ ?r) (length pre)
      = try_next_msg (pre @ message_bytes m @ ?r) (length pre + length (message_bytes m))"
    using m by (subst try_next_msg_step) simp
  also have "\<dots> = try_next_msg ((pre @ message_bytes m) @ ?r) (length (pre @ message_bytes m))"
    by simp
  also have "\<dots> = Some (length (pre @ message_bytes m) + length (concat (map message_bytes ms)))"
    using Cons.IH [OF ms Cons.prems(2), of "pre @ message_bytes m"] by simp
  finally show ?case by simp
qed

lemma whole_messages:
  assumes "list_all fits ms" and "partial_tail tail"
    and "recv_buff c = concat (map message_bytes ms) @ tail"
  shows "get_recd_bytes_forming_whole_messages c = Some (concat (map message_bytes ms))"
  using try_next_msg_messages [OF assms(1,2), of "[]"] assms(3)
  by (simp add: get_recd_bytes_forming_whole_messages_def)

text \<open>A prefix of a stream of messages: some whole ones and a part of the next.\<close>

lemma stream_prefix:
  "list_all fits ms \<Longrightarrow> recv @ rest = concat (map message_bytes ms) \<Longrightarrow>
    \<exists>ms1 ms2 tail. ms = ms1 @ ms2 \<and> recv = concat (map message_bytes ms1) @ tail \<and>
      partial_tail tail \<and> tail @ rest = concat (map message_bytes ms2)"
proof (induction ms arbitrary: recv)
  case Nil
  then show ?case by (intro exI [of _ "[]"]) (simp add: partial_tail_def)
next
  case (Cons m ms)
  have m: "fits m" and fit: "list_all fits ms" using Cons.prems(1) by simp_all
  have eq: "recv @ rest = message_bytes m @ concat (map message_bytes ms)"
    using Cons.prems(2) by simp
  show ?case
  proof (cases "length (message_bytes m) \<le> length recv")
    case True
    define recv' where "recv' = drop (length (message_bytes m)) recv"
    have recv: "recv = message_bytes m @ recv'"
      using eq True by (metis append_eq_append_conv_if append_take_drop_id recv'_def)
    with eq have "recv' @ rest = concat (map message_bytes ms)" by simp
    from Cons.IH [OF fit this] obtain ms1 ms2 tail where
      "ms = ms1 @ ms2" "recv' = concat (map message_bytes ms1) @ tail"
      "partial_tail tail" "tail @ rest = concat (map message_bytes ms2)" by blast
    with recv show ?thesis
      by (intro exI [of _ "m # ms1"] exI [of _ ms2] exI [of _ tail]) simp
  next
    case False
    then obtain z where z: "message_bytes m = recv @ z"
      using eq by (metis append_eq_append_conv_if append_take_drop_id linorder_linear)
    have "size_at recv = 8 + length (pm_arguments m)" if "8 \<le> length recv"
    proof -
      have "subspan 6 2 (recv @ z) = subspan 6 2 recv"
        using that by (simp add: subspan_def)
      then show ?thesis using size_at_message [OF m, of "[]"] z by (simp add: size_at_def)
    qed
    then have "partial_tail recv" using False
      by (cases "8 \<le> length recv") (simp_all add: partial_tail_def)
    with eq show ?thesis
      by (intro exI [of _ "[]"] exI [of _ "m # ms"] exI [of _ recv]) simp
  qed
qed

end
