(* ===== verification/Client_Visit.thy ===== *)
theory Client_Visit
  imports Client_Events
begin

text \<open>
  \<^verbatim>\<open>recv_and_visit_events(mos).until<Msg>(obj)\<close> against its specification: on the abstract level
  the server's messages are a list, and the call folds the overloads over the messages before the
  first until-message, gives that one to the callback, and leaves the rest of the list. The
  callbacks considered act on the request side of the client (reserving ids, registering
  requests) and on the caller's state.
\<close>

section \<open>Callbacks on the request side\<close>

type_synonym ('fd, 'u) request_view = "u32 \<times> 'fd message_buffer \<times> 'u"
type_synonym ('fd, 'u) view_callback = "bytes \<Rightarrow> ('fd, 'u) request_view \<Rightarrow> ('fd, 'u) request_view"

definition view_of_world :: "('s, 'fd, 'u) world \<Rightarrow> ('fd, 'u) request_view" where
  "view_of_world w = (next_new_id (fst w), request_buff (fst w), snd w)"

definition set_view :: "('s, 'fd, 'u) world \<Rightarrow> ('fd, 'u) request_view \<Rightarrow> ('s, 'fd, 'u) world" where
  "set_view w v = (case v of (n, mb, u) \<Rightarrow>
     ((fst w)\<lparr>next_new_id := n, request_buff := mb\<rparr>, u))"

text \<open>
  The callback found for a message, or none, returns normally and acts as \<open>g\<close> on the request side and the
  caller's state, leaving the socket and the receive buffer alone.
\<close>

definition acts_as ::
  "('s, 'fd, 'u) world erased_overload option \<Rightarrow> parsed_message \<Rightarrow>
     (('fd, 'u) request_view \<Rightarrow> ('fd, 'u) request_view) \<Rightarrow> bool" where
  "acts_as f m g \<longleftrightarrow>
     (\<forall>w. (case f of None \<Rightarrow> (w, Value ()) | Some f \<Rightarrow> f (pm_arguments m) w)
       = (set_view w (g (view_of_world w)), Value ()))"

lemma view_set_view [simp]: "view_of_world (set_view w v) = v"
  by (simp add: view_of_world_def set_view_def split: prod.split)

lemma set_view_view [simp]: "set_view w (view_of_world w) = w"
  by (cases w) (simp add: view_of_world_def set_view_def)

lemma set_view_set_view [simp]: "set_view (set_view w v) v' = set_view w v'"
  by (simp add: set_view_def split: prod.split)

lemma set_view_frame [simp]:
  "recv_buff (fst (set_view w v)) = recv_buff (fst w)"
  "server_sock (fst (set_view w v)) = server_sock (fst w)"
  by (simp_all add: set_view_def split: prod.split)

lemma acts_asD:
  "acts_as f m g \<Longrightarrow> (case f of None \<Rightarrow> (w, Value ()) | Some f \<Rightarrow> f (pm_arguments m) w)
     = (set_view w (g (view_of_world w)), Value ())"
  unfolding acts_as_def by (erule allE)

lemma acts_as_none [simp]: "acts_as None m (\<lambda>v. v)"
  by (simp add: acts_as_def)

lemma acts_as_erased:
  assumes "interpert_message_payload cfg M (pm_arguments m) = Value args"
    and "\<And>w. callback args w = (set_view w (g args (view_of_world w)), Value ())"
  shows "acts_as (Some (erase_overload cfg M callback)) m (g args)"
  by (simp add: acts_as_def erase_overload_def assms)

section \<open>The specification\<close>

definition matches :: "u32 \<Rightarrow> u16 \<Rightarrow> parsed_message \<Rightarrow> bool" where
  "matches i oc m \<longleftrightarrow> pm_object_id m = i \<and> pm_opcode m = oc"

text \<open>
  \<open>V m\<close> is what the overload found for \<open>m\<close> does, \<open>g m\<close> what the callback does with the until-message. The
  result is the final view and the messages that stay unvisited, or \<open>None\<close> when no message matches.
\<close>

fun until_spec ::
  "(parsed_message \<Rightarrow> ('fd, 'u) request_view \<Rightarrow> ('fd, 'u) request_view) \<Rightarrow>
   (parsed_message \<Rightarrow> ('fd, 'u) request_view \<Rightarrow> ('fd, 'u) request_view) \<Rightarrow> u32 \<Rightarrow> u16 \<Rightarrow>
     parsed_message list \<Rightarrow> ('fd, 'u) request_view \<Rightarrow> (('fd, 'u) request_view \<times> parsed_message list) option" where
  "until_spec V g i oc [] v = None"
| "until_spec V g i oc (m # ms) v =
     (if matches i oc m then Some (g m v, ms)
      else until_spec V g i oc ms (V m v))"

lemma until_spec_split:
  "until_spec V g i oc ms v = Some (v', post) \<Longrightarrow>
    \<exists>pre m. ms = pre @ m # post \<and> (\<forall>k \<in> set pre. \<not> matches i oc k) \<and> matches i oc m \<and>
      v' = g m (fold V pre v)"
proof (induction ms arbitrary: v)
  case (Cons m ms)
  show ?case
  proof (cases "matches i oc m")
    case True
    with Cons.prems show ?thesis by (intro exI [of _ "[]"]) simp
  next
    case False
    with Cons.prems Cons.IH [of "V m v"] obtain pre k where
      "ms = pre @ k # post" "\<forall>k \<in> set pre. \<not> matches i oc k" "matches i oc k"
      "v' = g k (fold V pre (V m v))" by auto
    with False show ?thesis by (intro exI [of _ "m # pre"]) auto
  qed
qed simp

section \<open>Visiting the received messages\<close>

text \<open>The overloads found for the messages act as \<open>V\<close> says.\<close>

definition visits_as ::
  "('s, 'fd, 'u) world message_overload_set \<Rightarrow> parsed_message set \<Rightarrow>
     (parsed_message \<Rightarrow> ('fd, 'u) request_view \<Rightarrow> ('fd, 'u) request_view) \<Rightarrow> bool" where
  "visits_as mos ms V \<longleftrightarrow>
     (\<forall>m \<in> ms. acts_as (overload_resolution mos (pm_object_id m) (pm_opcode m)) m (V m))"

definition total_bytes :: "parsed_message list \<Rightarrow> nat" where
  "total_bytes ms = length (concat (map message_bytes ms))"

lemma total_bytes_simps [simp]:
  "total_bytes [] = 0"
  "total_bytes (m # ms) = 8 + length (pm_arguments m) + total_bytes ms"
  by (simp_all add: total_bytes_def)

lemma cmp_equal_U32 [simp]: "cmp_equal (U32 a) (U32 b) \<longleftrightarrow> a = b"
  by (simp add: cmp_equal_def)

lemma cmp_equal_U16 [simp]: "cmp_equal (U16 a) (U16 b) \<longleftrightarrow> a = b"
  by (simp add: cmp_equal_int word_uint_eq_iff)

lemma visit_until_skip:
  "list_all fits ms \<Longrightarrow> \<forall>k \<in> set ms. \<not> matches i oc k \<Longrightarrow> visits_as mos (set ms) V \<Longrightarrow>
    visit_until mos i oc cb (concat (map message_bytes ms) @ rest) n k w =
    visit_until mos i oc cb rest (n + length ms)
      (k + (total_bytes ms - 8 * length ms)) (set_view w (fold V ms (view_of_world w)))"
proof (induction ms arbitrary: n k w)
  case (Cons m ms)
  have ge: "8 * length ms \<le> total_bytes ms" by (induction ms) simp_all
  from Cons.prems have m: "fits m" "\<not> matches i oc m" and ms: "list_all fits ms"
    "\<forall>k \<in> set ms. \<not> matches i oc k" and V: "visits_as mos (set ms) V"
    by (simp_all add: visits_as_def)
  have "(case overload_resolution mos (pm_object_id m) (pm_opcode m) of
          None \<Rightarrow> (w, Value ()) | Some f \<Rightarrow> f (pm_arguments m) w)
      = (set_view w (V m (view_of_world w)), Value ())"
    using Cons.prems(3) by (intro acts_asD) (simp add: visits_as_def)
  then have "visit_until mos i oc cb (message_bytes m @ concat (map message_bytes ms) @ rest) n k w
      = visit_until mos i oc cb (concat (map message_bytes ms) @ rest) (n + 1)
          (k + length (pm_arguments m)) (set_view w (V m (view_of_world w)))"
    using m by (subst visit_until.simps) (auto simp: matches_def Let_def)
  then show ?case
    using Cons.IH [OF ms V] ge by (simp add: add_ac)
qed simp

lemma visit_until_match:
  assumes "fits m" and "matches i oc m" and "acts_as cb m g"
  shows "visit_until mos i oc cb (message_bytes m @ rest) n k w =
    (set_view w (g (view_of_world w)),
     Value (Some (8 * (n + 1) + (k + length (pm_arguments m)))))"
proof -
  have "(case cb of None \<Rightarrow> (w, Value ()) | Some f \<Rightarrow> f (pm_arguments m) w)
      = (set_view w (g (view_of_world w)), Value ())"
    by (rule acts_asD [OF assms(3)])
  with assms(1,2) show ?thesis
    by (subst visit_until.simps) (simp add: matches_def Let_def)
qed

lemma visit_until_end: "visit_until mos i oc cb [] n k w = (w, Value None)"
  by (subst visit_until.simps) simp

section \<open>The simulation\<close>

lemma message_bytes_aligned:
  "\<forall>m \<in> set ms. 4 dvd length (pm_arguments m) \<Longrightarrow> 4 dvd length (concat (map message_bytes ms))"
  by (induction ms) (simp_all add: dvd_add)

lemma whole_not_partial:
  assumes "fits m"
  shows "\<not> partial_tail (message_bytes m @ r)"
  using assms by (simp add: partial_tail_def)

lemma try_again_found:
  assumes "list_all fits (pre @ m # post)" and "partial_tail tail"
    and "\<forall>k \<in> set pre. \<not> matches i oc k" and "matches i oc m"
    and V: "visits_as mos (set pre) V" and g: "acts_as cb m g"
    and recv: "recv_buff (fst w) = concat (map message_bytes (pre @ m # post)) @ tail"
  shows "\<exists>w'. try_again ops storage mos i oc cb w
      = Some (w', Value ()) \<and>
    view_of_world w' = g (fold V pre (view_of_world w)) \<and>
    recv_buff (fst w') = concat (map message_bytes post) @ tail \<and>
    server_sock (fst w') = server_sock (fst w)"
proof -
  let ?v = "g (fold V pre (view_of_world w))"
  have ge: "8 * length pre \<le> total_bytes pre" by (induction pre) simp_all
  have r: "get_recd_bytes_forming_whole_messages (fst w)
      = Some (concat (map message_bytes pre) @ message_bytes m @ concat (map message_bytes post))"
    using whole_messages [OF assms(1,2) recv] by simp
  have v: "visit_until mos i oc cb
        (concat (map message_bytes pre) @ message_bytes m @ concat (map message_bytes post)) 0 0 w
      = (set_view w ?v, Value (Some (total_bytes (pre @ [m]))))"
    using assms(1,3,4) ge V g
    by (simp add: visit_until_skip visit_until_match total_bytes_def)
  have d: "drop (total_bytes (pre @ [m])) (recv_buff (fst w)) = concat (map message_bytes post) @ tail"
    using recv by (simp add: total_bytes_def)
  let ?w = "((fst (set_view w ?v))\<lparr>recv_buff := concat (map message_bytes post) @ tail\<rparr>,
             snd (set_view w ?v))"
  have "try_again ops storage mos i oc cb w
      = Some (?w, Value ())"
    by (subst try_again.simps) (simp add: r v d)
  moreover have "view_of_world ?w = ?v"
    by (simp add: view_of_world_def set_view_def split: prod.split)
  ultimately show ?thesis by (intro exI [of _ ?w]) simp
qed

lemma try_again_not_found:
  assumes "list_all fits ms" and "partial_tail tail" and "\<forall>k \<in> set ms. \<not> matches i oc k"
    and V: "visits_as mos (set ms) V"
    and recv: "recv_buff (fst w) = concat (map message_bytes ms) @ tail"
    and more: "recv_more_data ops storage
        ((fst (set_view w (fold V ms (view_of_world w))))\<lparr>recv_buff := tail\<rparr>)
      = Some (c', Value ())"
  shows "try_again ops storage mos i oc cb w =
    try_again ops storage mos i oc cb
      (c', snd (set_view w (fold V ms (view_of_world w))))"
proof -
  have r: "get_recd_bytes_forming_whole_messages (fst w) = Some (concat (map message_bytes ms))"
    by (rule whole_messages [OF assms(1,2) recv])
  have v: "visit_until mos i oc cb (concat (map message_bytes ms)) 0 0 w
      = (set_view w (fold V ms (view_of_world w)), Value None)"
    using visit_until_skip [OF assms(1,3) V, of cb "[]" 0 0 w] by (simp add: visit_until_end)
  have d: "drop (length (concat (map message_bytes ms))) (recv_buff (fst w)) = tail"
    using recv by simp
  show ?thesis
    by (subst try_again.simps) (simp add: r v d more)
qed

text \<open>
  When no message ends the loop, the messages of the buffer are visited, the buffer is left with
  what is no whole message, and the loop goes on after a read.
\<close>

lemma try_again_step:
  assumes ops: "reads_pending ops pending"
    and fit: "list_all fits (ms1 @ ms2)" and al: "\<forall>k \<in> set ms2. 4 dvd length (pm_arguments k)"
    and "ms2 \<noteq> []" and pre: "\<forall>k \<in> set ms1. \<not> matches i oc k" and V: "visits_as mos (set ms1) V"
    and recv: "recv_buff (fst w) = concat (map message_bytes ms1) @ tail" and tail: "partial_tail tail"
    and rest: "tail @ pending (server_sock (fst w)) = concat (map message_bytes ms2)"
  obtains w2 bs where "try_again ops storage mos i oc cb w = try_again ops storage mos i oc cb w2"
    and "view_of_world w2 = fold V ms1 (view_of_world w)"
    and "bs \<noteq> []" and "recv_buff (fst w2) = tail @ bs"
    and "pending (server_sock (fst w)) = bs @ pending (server_sock (fst w2))"
    and "reads_keep ops obs \<longrightarrow> obs (server_sock (fst w2)) = obs (server_sock (fst w))"
proof -
  let ?w1 = "set_view w (fold V ms1 (view_of_world w))"
  let ?c1 = "(fst ?w1)\<lparr>recv_buff := tail\<rparr>"
  have "pending (server_sock (fst w)) \<noteq> []"
  proof
    assume "pending (server_sock (fst w)) = []"
    then have "tail = concat (map message_bytes ms2)" using rest by simp
    then show False using tail fit whole_not_partial assms(4) by (cases ms2) auto
  qed
  moreover have "4 dvd length (tail @ pending (server_sock (fst w)))"
    unfolding rest using al by (intro message_bytes_aligned) auto
  ultimately obtain c2 bs where
    c2: "read_again ops storage (length (recv_buff ?c1)) ?c1 = Some (c2, Value ())"
    and bs: "bs \<noteq> []" "recv_buff c2 = tail @ bs" "pending (server_sock (fst w)) = bs @ pending (server_sock c2)"
    and same: "same_requests ?c1 c2"
    using read_again_stream [OF ops, of ?c1 storage] by auto
  have "try_again ops storage mos i oc cb w = try_again ops storage mos i oc cb (c2, snd ?w1)"
    using fit pre c2 V by (intro try_again_not_found [OF _ tail _ _ recv]) (auto simp: recv_more_data_def)
  moreover have "view_of_world (c2, snd ?w1) = view_of_world ?w1"
    using same by (simp add: view_of_world_def same_requests_def)
  moreover have "obs (server_sock c2) = obs (server_sock (fst w))" if "reads_keep ops obs"
    using read_again_keeps [OF that c2] by simp
  ultimately show ?thesis using that [of "(c2, snd ?w1)" bs] bs by simp
qed

text \<open>
  The loop reaches a state in which a given message is among the received ones and all messages
  visited on the way have acted on the view. What reading leaves alone is unchanged.
\<close>

lemma try_again_advance:
  assumes ops: "reads_pending ops pending"
    and "list_all fits (pre @ m # post)"
    and "\<forall>k \<in> set (pre @ m # post). 4 dvd length (pm_arguments k)"
    and "\<forall>k \<in> set pre. \<not> matches i oc k" and V: "visits_as mos (set pre) V"
    and "recv_buff (fst w) @ pending (server_sock (fst w)) = concat (map message_bytes (pre @ m # post))"
  shows "\<exists>w' pre1 pre2 post1 post2 tail. pre = pre1 @ pre2 \<and> post = post1 @ post2 \<and>
    try_again ops storage mos i oc cb w = try_again ops storage mos i oc cb w' \<and>
    view_of_world w' = fold V pre1 (view_of_world w) \<and>
    recv_buff (fst w') = concat (map message_bytes (pre2 @ m # post1)) @ tail \<and> partial_tail tail \<and>
    tail @ pending (server_sock (fst w')) = concat (map message_bytes post2) \<and>
    (reads_keep ops obs \<longrightarrow> obs (server_sock (fst w')) = obs (server_sock (fst w)))"
  using assms(2-)
proof (induction "length (pending (server_sock (fst w)))" arbitrary: w pre rule: less_induct)
  case less
  obtain ms1 ms2 tail where ms: "pre @ m # post = ms1 @ ms2"
    and recv: "recv_buff (fst w) = concat (map message_bytes ms1) @ tail"
    and tail: "partial_tail tail"
    and rest: "tail @ pending (server_sock (fst w)) = concat (map message_bytes ms2)"
    using stream_prefix [OF less.prems(1,5)] by blast
  show ?case
  proof (cases "length pre < length ms1")
    case True
    then obtain post1 where ms1: "ms1 = pre @ m # post1" and post: "post = post1 @ ms2"
      using ms by (auto simp: append_eq_append_conv2 append_eq_Cons_conv Cons_eq_append_conv)
    show ?thesis
      using recv rest tail
      by (intro exI [of _ w] exI [of _ "[]"] exI [of _ pre] exI [of _ post1] exI [of _ ms2] exI [of _ tail])
        (simp add: ms1 post)
  next
    case False
    then obtain pre2 where p: "pre = ms1 @ pre2" and ms2: "ms2 = pre2 @ m # post"
      using ms by (auto simp: append_eq_append_conv2)
    from less.prems have fit: "list_all fits (ms1 @ ms2)" and al: "\<forall>k \<in> set ms2. 4 dvd length (pm_arguments k)"
      and pre: "\<forall>k \<in> set ms1. \<not> matches i oc k" and V: "visits_as mos (set ms1) V"
      by (auto simp: p ms2 visits_as_def)
    have "ms2 \<noteq> []" by (simp add: ms2)
    from try_again_step [OF ops fit al this pre V recv tail rest] obtain w2 bs
      where step: "try_again ops storage mos i oc cb w = try_again ops storage mos i oc cb w2"
        and view: "view_of_world w2 = fold V ms1 (view_of_world w)"
        and bs: "bs \<noteq> []" "recv_buff (fst w2) = tail @ bs"
          "pending (server_sock (fst w)) = bs @ pending (server_sock (fst w2))"
        and kept: "reads_keep ops obs \<longrightarrow> obs (server_sock (fst w2)) = obs (server_sock (fst w))" .
    have "length (pending (server_sock (fst w2))) < length (pending (server_sock (fst w)))"
      "visits_as mos (set pre2) V" "list_all fits (pre2 @ m # post)"
      "\<forall>k \<in> set (pre2 @ m # post). 4 dvd length (pm_arguments k)" "\<forall>k \<in> set pre2. \<not> matches i oc k"
      "recv_buff (fst w2) @ pending (server_sock (fst w2)) = concat (map message_bytes (pre2 @ m # post))"
      using bs rest less.prems by (auto simp: p ms2 visits_as_def)
    then obtain w' p1 p2 post1 post2 tail' where "pre2 = p1 @ p2" "post = post1 @ post2"
      "try_again ops storage mos i oc cb w2 = try_again ops storage mos i oc cb w'"
      "view_of_world w' = fold V p1 (fold V ms1 (view_of_world w))"
      "recv_buff (fst w') = concat (map message_bytes (p2 @ m # post1)) @ tail'" "partial_tail tail'"
      "tail' @ pending (server_sock (fst w')) = concat (map message_bytes post2)"
      "reads_keep ops obs \<longrightarrow> obs (server_sock (fst w')) = obs (server_sock (fst w2))"
      using less.hyps [of w2 pre2] unfolding view by fastforce
    with kept show ?thesis
      by (intro exI [of _ w'] exI [of _ "ms1 @ p1"] exI [of _ p2] exI [of _ post1] exI [of _ post2]
          exI [of _ tail']) (simp add: p step)
  qed
qed

lemma try_again_stream:
  assumes "reads_pending ops pending"
    and "list_all fits (pre @ m # post)"
    and "\<forall>k \<in> set (pre @ m # post). 4 dvd length (pm_arguments k)"
    and "\<forall>k \<in> set pre. \<not> matches i oc k" and m: "matches i oc m"
    and V: "visits_as mos (set pre) V" and g: "acts_as cb m g"
    and "recv_buff (fst w) @ pending (server_sock (fst w)) = concat (map message_bytes (pre @ m # post))"
  shows "\<exists>w'. try_again ops storage mos i oc cb w
      = Some (w', Value ()) \<and>
    view_of_world w' = g (fold V pre (view_of_world w)) \<and>
    recv_buff (fst w') @ pending (server_sock (fst w')) = concat (map message_bytes post) \<and>
    (reads_keep ops obs \<longrightarrow> obs (server_sock (fst w')) = obs (server_sock (fst w)))"
proof -
  obtain w1 pre1 pre2 post1 post2 tail where p: "pre = pre1 @ pre2" "post = post1 @ post2"
    and step: "try_again ops storage mos i oc cb w = try_again ops storage mos i oc cb w1"
    and view: "view_of_world w1 = fold V pre1 (view_of_world w)"
    and recv: "recv_buff (fst w1) = concat (map message_bytes (pre2 @ m # post1)) @ tail"
    and tail: "partial_tail tail"
    and rest: "tail @ pending (server_sock (fst w1)) = concat (map message_bytes post2)"
    and obs: "reads_keep ops obs \<longrightarrow> obs (server_sock (fst w1)) = obs (server_sock (fst w))"
    using try_again_advance [OF assms(1-4) V assms(8), of storage cb obs] by blast
  have "list_all fits (pre2 @ m # post1)" "\<forall>k \<in> set pre2. \<not> matches i oc k"
    "visits_as mos (set pre2) V"
    using assms(2,4) V by (simp_all add: p visits_as_def)
  from try_again_found [OF this(1) tail this(2) m this(3) g recv, of ops storage] step view rest obs
  show ?thesis by (auto simp: p)
qed

text \<open>
  An overload that does not return normally (it throws, or ends the program) leaves \<open>until\<close> with its
  outcome, after all messages before it.
\<close>

lemma try_again_stopped:
  assumes "list_all fits (pre @ k # post)" and "partial_tail tail"
    and "recv_buff (fst w) = concat (map message_bytes (pre @ k # post)) @ tail"
    and "\<forall>m \<in> set (pre @ [k]). \<not> matches i oc m" and "visits_as mos (set pre) V"
    and "overload_resolution mos (pm_object_id k) (pm_opcode k) = Some f"
    and "f (pm_arguments k) (set_view w (fold V pre (view_of_world w))) = (w', r)" and "r \<noteq> Value ()"
  shows "try_again ops storage mos i oc cb w = Some (w', r)"
proof -
  have k: "fits k" "\<not> matches i oc k" and pre: "list_all fits pre" "\<forall>m \<in> set pre. \<not> matches i oc m"
    using assms(1,4) by simp_all
  have "visit_until mos i oc cb
      (concat (map message_bytes pre) @ message_bytes k @ concat (map message_bytes post)) 0 0 w
      = state_bind (w', r) (\<lambda>_ w. visit_until mos i oc cb (concat (map message_bytes post)) (length pre + 1)
          (total_bytes pre - 8 * length pre + length (pm_arguments k)) w)"
    unfolding visit_until_skip [OF pre assms(5)] using k assms(6,7)
    by (subst visit_until.simps) (auto simp: matches_def Let_def)
  then show ?thesis
    using whole_messages [OF assms(1,2,3)] assms(8)
    by (cases r) (simp_all add: try_again.simps [of ops storage])
qed

lemma try_again_stream_stopped:
  assumes "reads_pending ops pending"
    and "list_all fits (pre @ m # post)"
    and "\<forall>k \<in> set (pre @ m # post). 4 dvd length (pm_arguments k)"
    and "\<forall>k \<in> set (pre @ [m]). \<not> matches i oc k" and V: "visits_as mos (set pre) V"
    and f: "overload_resolution mos (pm_object_id m) (pm_opcode m) = Some f"
    and g: "\<And>w. f (pm_arguments m) w = (set_view w (g (view_of_world w)), r)" and r: "r \<noteq> Value ()"
    and "recv_buff (fst w) @ pending (server_sock (fst w)) = concat (map message_bytes (pre @ m # post))"
  shows "\<exists>w'. try_again ops storage mos i oc cb w = Some (w', r) \<and>
    view_of_world w' = g (fold V pre (view_of_world w)) \<and>
    (reads_keep ops obs \<longrightarrow> obs (server_sock (fst w')) = obs (server_sock (fst w)))"
proof -
  have pre: "\<forall>k \<in> set pre. \<not> matches i oc k" using assms(4) by simp
  obtain w1 pre1 pre2 post1 post2 tail where p: "pre = pre1 @ pre2" "post = post1 @ post2"
    and step: "try_again ops storage mos i oc cb w = try_again ops storage mos i oc cb w1"
    and view: "view_of_world w1 = fold V pre1 (view_of_world w)"
    and recv: "recv_buff (fst w1) = concat (map message_bytes (pre2 @ m # post1)) @ tail"
    and tail: "partial_tail tail"
    and obs: "reads_keep ops obs \<longrightarrow> obs (server_sock (fst w1)) = obs (server_sock (fst w))"
    using try_again_advance [OF assms(1-3) pre V assms(9), of storage cb obs] by blast
  have l: "list_all fits (pre2 @ m # post1)" "\<forall>k \<in> set (pre2 @ [m]). \<not> matches i oc k"
    "visits_as mos (set pre2) V"
    using assms(2,4) V by (simp_all add: p visits_as_def)
  let ?w = "set_view w1 (g (fold V pre2 (view_of_world w1)))"
  have "f (pm_arguments m) (set_view w1 (fold V pre2 (view_of_world w1))) = (?w, r)"
    by (simp add: g)
  from try_again_stopped [OF l(1) tail recv l(2,3) f this r, of ops storage cb]
  have "try_again ops storage mos i oc cb w = Some (?w, r)" by (simp add: step)
  with obs show ?thesis
    by (intro exI [of _ ?w]) (simp add: view p)
qed

section \<open>Receiving events\<close>

lemma recv_events_stream:
  assumes "reads_pending ops pending" and "list_all fits ms" and "pending (server_sock c) \<noteq> []"
    and "recv_buff c @ pending (server_sock c) = concat (map message_bytes ms)"
    and "\<forall>m \<in> set ms. 4 dvd length (pm_arguments m)"
  shows "\<exists>ms1 ms2 c' p. ms = ms1 @ ms2 \<and> recv_events ops storage c = Some (c', Value p) \<and>
    message_generator p = (ms1, Value ()) \<and>
    recv_buff c' @ pending (server_sock c') = concat (map message_bytes ms2) \<and> partial_tail (recv_buff c') \<and>
    length (pending (server_sock c')) < length (pending (server_sock c)) \<and> same_requests c c'"
proof -
  have "4 dvd length (recv_buff c @ pending (server_sock c))"
    unfolding assms(4) by (rule message_bytes_aligned [OF assms(5)])
  then obtain c1 bs where c1: "recv_more_data ops storage c = Some (c1, Value ())" and bs: "bs \<noteq> []"
    and b: "recv_buff c1 = recv_buff c @ bs" and p: "pending (server_sock c) = bs @ pending (server_sock c1)"
    and same: "same_requests c c1"
    using read_again_stream [OF assms(1,3)] unfolding recv_more_data_def by blast
  have "recv_buff c1 @ pending (server_sock c1) = concat (map message_bytes ms)"
    using assms(4) by (simp add: b p)
  then obtain ms1 ms2 tail where ms: "ms = ms1 @ ms2" and tail: "partial_tail tail"
    and recv: "recv_buff c1 = concat (map message_bytes ms1) @ tail"
    and rest: "tail @ pending (server_sock c1) = concat (map message_bytes ms2)"
    using stream_prefix [OF assms(2)] by blast
  have fit: "list_all fits ms1" using assms(2) by (simp add: ms)
  have "recv_events ops storage c = Some (c1\<lparr>recv_buff := tail\<rparr>,
      Value (make_message_parser (concat (map message_bytes ms1))))"
    by (simp add: recv_events_def c1 whole_messages [OF fit tail recv] recv)
  moreover have "message_generator (make_message_parser (concat (map message_bytes ms1))) = (ms1, Value ())"
    using generator_messages_append [OF fit, of "[]"]
    by (simp add: message_generator_def make_message_parser_def)
  moreover have "same_requests c (c1\<lparr>recv_buff := tail\<rparr>)"
    using same by (simp add: same_requests_def)
  ultimately show ?thesis
    using ms rest bs p tail
    by (intro exI [of _ ms1] exI [of _ ms2] exI [of _ "c1\<lparr>recv_buff := tail\<rparr>"]
        exI [of _ "make_message_parser (concat (map message_bytes ms1))"]) simp
qed

end
