(* ===== verification/Client_Requests.thy ===== *)
theory Client_Requests
  imports Connected_Client
begin

text \<open>
  The request side of \<open>connected_client\<close>: object ids, what registering requests leaves in the
  buffer, and what flushing puts on the socket. The socket is described by what has been sent: one
  entry per byte, with the descriptor that went along with it. The last section says which messages a
  parser finds in those bytes.
\<close>

section \<open>Object ids\<close>

fun reserve_ids :: "interface list \<Rightarrow> ('s, 'fd) connected_client \<Rightarrow> wobject list \<times> ('s, 'fd) connected_client" where
  "reserve_ids [] c = ([], c)"
| "reserve_ids (T # Ts) c =
     (case reserve_object_id T c of (obj, c') \<Rightarrow>
      (case reserve_ids Ts c' of (objs, c'') \<Rightarrow> (obj # objs, c'')))"

lemma reserve_ids_values:
  "map wobject_value (fst (reserve_ids Ts c)) =
     map (\<lambda>i. next_new_id c + of_nat i) [0..<length Ts]"
proof (induction Ts arbitrary: c)
  case (Cons T Ts)
  have "[0..<length (T # Ts)] = 0 # map Suc [0..<length Ts]"
    by (simp add: upt_rec [of 0 "Suc (length Ts)"] map_Suc_upt del: upt_Suc)
  then show ?case
    using Cons.IH by (simp add: reserve_object_id_def case_prod_beta add_ac comp_def del: upt_Suc)
qed simp

section \<open>The descriptors fit in the data\<close>

text \<open>
  \<open>flush_registered_requests\<close> assumes more bytes than descriptors. With at most seven descriptors
  in a message, whose header alone has eight bytes, this is an invariant of the buffer.
\<close>

definition fd_bound :: "'fd message_buffer \<Rightarrow> bool" where
  "fd_bound mb \<longleftrightarrow> 8 * length (fd_buff mb) \<le> 7 * length (buff mb)"

lemma fd_bound_empty [simp]: "fd_bound empty_message_buffer"
  by (simp add: fd_bound_def empty_message_buffer_def)

lemma write_string_fds:
  "write_string cfg storage s ws = Value ws' \<Longrightarrow>
     ws_fds ws' = ws_fds ws \<and> length (ws_buff ws) \<le> length (ws_buff ws')"
  by (auto simp: write_string_def Let_def overwrite_def dest!: subscript_outcome_Value)

lemma write_array_fds:
  "write_array cfg storage s ws = Value ws' \<Longrightarrow>
     ws_fds ws' = ws_fds ws \<and> length (ws_buff ws) \<le> length (ws_buff ws')"
  by (auto simp: write_array_def Let_def overwrite_def dest!: subscript_outcome_Value)

lemma write_static_fds:
  "write_static cfg storage s ws = Value ws' \<Longrightarrow>
     ws_fds ws' = ws_fds ws \<and> length (ws_buff ws) \<le> length (ws_buff ws')"
  by (auto simp: write_static_def Let_def overwrite_def dest!: subscript_outcome_Value)

lemma write_element_fds:
  "write_element cfg storage p ws = Value ws' \<Longrightarrow>
     ws_fds ws' = ws_fds ws @ fd_of_arg p \<and> length (ws_buff ws) \<le> length (ws_buff ws')"
  by (cases p) (auto dest: write_string_fds write_array_fds write_static_fds)

lemma write_elements_fds:
  "write_elements cfg storage ps ws = Value ws' \<Longrightarrow>
     ws_fds ws' = ws_fds ws @ fds_of_args ps \<and> length (ws_buff ws) \<le> length (ws_buff ws')"
proof (induction ps arbitrary: ws)
  case (Cons p ps)
  then obtain w where "write_element cfg storage p ws = Value w"
    and "write_elements cfg storage ps w = Value ws'" by auto
  with Cons.IH [of w] write_element_fds [of cfg storage p ws w] show ?case
    by (auto simp: fds_of_args_def)
qed (simp add: fds_of_args_def)

lemma append_message_fds:
  assumes "append_message cfg storage obj M args mb = Value mb'"
  shows "fd_buff mb' = fd_buff mb @ fds_of_args args \<and> length (buff mb) + 8 \<le> length (buff mb')"
proof -
  from assms obtain ws where
    w: "write_elements cfg storage args
          \<lparr>ws_buff = byte_vec_resize storage (length (buff mb) + 8) (buff mb),
           ws_fds = fd_buff mb, ws_total = 8\<rparr> = Value ws"
    and mb': "fd_buff mb' = ws_fds ws"
      "\<exists>h. buff mb' = overwrite (length (buff mb)) (header_bytes h) (ws_buff ws)"
    by (auto simp: append_message_def Let_def to_ref_tuple_eq
        split: if_splits dest!: subscript_outcome_Value) blast
  from write_elements_fds [OF w] mb' show ?thesis by auto
qed

lemma append_message_fd_bound:
  assumes "append_message cfg storage obj M args mb = Value mb'"
    and "fd_bound mb" and "length (fds_of_args args) \<le> 7"
  shows "fd_bound mb' \<and> buff mb' \<noteq> []"
  using append_message_fds [OF assms(1)] assms(2,3) by (auto simp: fd_bound_def)

section \<open>Registering a sequence of requests\<close>

text \<open>One request: the object, the message, its arguments.\<close>

type_synonym 'fd request = "wobject \<times> message_type \<times> 'fd primitive list"

fun register_requests ::
  "build \<Rightarrow> (nat \<Rightarrow> byte) \<Rightarrow> 'fd request list \<Rightarrow> ('s, 'fd) connected_client \<Rightarrow>
     ('s, 'fd) connected_client \<times> unit outcome" where
  "register_requests cfg storage [] c = (c, Value ())"
| "register_requests cfg storage ((obj, M, args) # rs) c =
     state_bind (register_request cfg storage obj M args c)
       (\<lambda>_ c. register_requests cfg storage rs c)"

fun enc_requests :: "(nat \<Rightarrow> byte) \<Rightarrow> nat \<Rightarrow> 'fd request list \<Rightarrow> bytes" where
  "enc_requests storage k [] = []"
| "enc_requests storage k ((obj, M, args) # rs) =
     enc_message storage k obj M args @
     enc_requests storage (k + length (enc_message storage k obj M args)) rs"

definition fds_of_requests :: "'fd request list \<Rightarrow> 'fd list" where
  "fds_of_requests rs = concat (map (\<lambda>(obj, M, args). fds_of_args args) rs)"

lemma register_requests_value:
  assumes "\<forall>(obj, M, args) \<in> set rs. appendable cfg obj M args"
  shows "register_requests cfg storage rs c =
    (c\<lparr>request_buff :=
        \<lparr>buff = buff (request_buff c) @ enc_requests storage (length (buff (request_buff c))) rs,
         fd_buff = fd_buff (request_buff c) @ fds_of_requests rs\<rparr>\<rparr>, Value ())"
  using assms
proof (induction rs arbitrary: c)
  case Nil
  then show ?case by (cases c) (simp add: fds_of_requests_def)
next
  case (Cons r rs)
  obtain obj M args where r: "r = (obj, M, args)" by (cases r)
  from Cons.prems have a: "appendable cfg obj M args" by (simp add: r)
  have rs: "\<forall>(obj, M, args) \<in> set rs. appendable cfg obj M args" using Cons.prems by simp
  show ?case
    by (simp add: r register_request_def append_message_value [OF a] Cons.IH [OF rs]
        fds_of_requests_def add.assoc)
qed

lemma register_requests_fd_bound:
  assumes "register_requests cfg storage rs c = (c', Value ())" and "fd_bound (request_buff c)"
    and "\<forall>(obj, M, args) \<in> set rs. length (fds_of_args args) \<le> 7"
  shows "fd_bound (request_buff c')"
  using assms
proof (induction rs arbitrary: c)
  case (Cons r rs)
  obtain obj M args where r: "r = (obj, M, args)" by (cases r)
  show ?case
  proof (cases "append_message cfg storage obj M args (request_buff c)")
    case (Value mb)
    have "register_requests cfg storage rs (c\<lparr>request_buff := mb\<rparr>) = (c', Value ())"
      using Cons.prems(1) Value by (simp add: r register_request_def)
    moreover have "fd_bound mb"
      using append_message_fd_bound [OF Value] Cons.prems by (simp add: r)
    ultimately show ?thesis using Cons.IH [of "c\<lparr>request_buff := mb\<rparr>"] Cons.prems(3) by simp
  qed (use Cons.prems(1) in \<open>simp_all add: r register_request_def\<close>)
qed simp

section \<open>Flushing\<close>

text \<open>
  What is assumed of the socket: sending one byte with a descriptor sends that byte and the
  descriptor, writing sends all bytes. \<open>sent\<close> is the record of what has been sent.
\<close>

definition sends_all ::
  "('s, 'fd) sock_ops \<Rightarrow> ('s \<Rightarrow> (byte \<times> 'fd option) list) \<Rightarrow> bool" where
  "sends_all ops sent \<longleftrightarrow>
     (\<forall>s b fd. snd (sock_send ops s [b] fd) = Value 1 \<and>
        sent (fst (sock_send ops s [b] fd)) = sent s @ [(b, Some fd)]) \<and>
     (\<forall>s bs. snd (sock_write ops s bs) = Value () \<and>
        sent (fst (sock_write ops s bs)) = sent s @ map (\<lambda>b. (b, None)) bs)"

text \<open>The first bytes carry one descriptor each, in order.\<close>

fun attach :: "bytes \<Rightarrow> 'fd list \<Rightarrow> (byte \<times> 'fd option) list" where
  "attach (b # bs) (fd # fds) = (b, Some fd) # attach bs fds"
| "attach bs _ = map (\<lambda>b. (b, None)) bs"

lemma map_fst_attach: "map fst (attach bs fds) = bs"
  by (induction bs fds rule: attach.induct) (simp_all add: comp_def)

lemma fds_attach: "length fds \<le> length bs \<Longrightarrow> List.map_filter snd (attach bs fds) = fds"
  by (induction bs fds rule: attach.induct) (auto simp: map_filter_simps map_filter_def)

lemma send_fds_value:
  assumes "sends_all ops sent" and "n + length fds \<le> length data"
  shows "\<exists>s'. send_fds cfg ops data fds n s = (s', Value (n + length fds)) \<and>
    sent s' @ map (\<lambda>b. (b, None)) (drop (n + length fds) data) = sent s @ attach (drop n data) fds"
  using assms(2)
proof (induction fds arbitrary: n s)
  case Nil
  then show ?case by simp
next
  case (Cons fd fds)
  have d: "drop n data = data ! n # drop (Suc n) data" and one: "subspan n (Suc 0) data = [data ! n]"
    using Cons.prems by (simp_all add: Cons_nth_drop_Suc subspan_def take_Suc_conv_app_nth hd_drop_conv_nth)
  obtain s1 where s1: "sock_send ops s [data ! n] fd = (s1, Value 1)"
    "sent s1 = sent s @ [(data ! n, Some fd)]"
    using assms(1) unfolding sends_all_def by (metis prod.collapse)
  have "Suc n + length fds \<le> length data" using Cons.prems by simp
  from Cons.IH [OF this, of s1] obtain s2 where
    "send_fds cfg ops data fds (Suc n) s1 = (s2, Value (Suc n + length fds))"
    "sent s2 @ map (\<lambda>b. (b, None)) (drop (Suc n + length fds) data) = sent s1 @ attach (drop (Suc n) data) fds"
    by blast
  then show ?case
    using s1 Cons.prems by (simp add: one d subspan_outcome_def)
qed

lemma write_requests_value:
  assumes "sends_all ops sent" and "length fds < length data"
  shows "\<exists>s'. write_requests cfg ops data fds s = (s', Value ()) \<and> sent s' = sent s @ attach data fds"
proof -
  obtain s1 where s1: "send_fds cfg ops data fds 0 s = (s1, Value (length fds))"
    "sent s1 @ map (\<lambda>b. (b, None)) (drop (length fds) data) = sent s @ attach data fds"
    using send_fds_value [OF assms(1), of 0 fds data cfg s] assms(2) by auto
  have "write_requests cfg ops data fds s = sock_write ops s1 (drop (length fds) data)"
    using assms(2) s1(1) by (simp add: write_requests_def assert_outcome_def subspan_outcome_def)
  moreover have "snd (sock_write ops s1 bs) = Value () \<and>
      sent (fst (sock_write ops s1 bs)) = sent s1 @ map (\<lambda>b. (b, None)) bs" for bs
    using assms(1) by (simp add: sends_all_def)
  ultimately show ?thesis
    using s1(2) by (metis prod.collapse)
qed

lemma released_buffer: "mb\<lparr>buff := [], fd_buff := []\<rparr> = empty_message_buffer"
  by (cases mb) (simp add: empty_message_buffer_def)

lemma flush_value:
  assumes "sends_all ops sent"
    and "length (fd_buff (request_buff c)) < length (buff (request_buff c))"
  shows "\<exists>s'. flush_registered_requests cfg ops c =
      (c\<lparr>server_sock := s', request_buff := empty_message_buffer\<rparr>, Value ()) \<and>
    sent s' = sent (server_sock c) @ attach (buff (request_buff c)) (fd_buff (request_buff c))"
proof -
  from write_requests_value [OF assms, of cfg "server_sock c"] obtain s' where
    "write_requests cfg ops (buff (request_buff c)) (fd_buff (request_buff c)) (server_sock c)
      = (s', Value ())"
    "sent s' = sent (server_sock c) @ attach (buff (request_buff c)) (fd_buff (request_buff c))"
    by blast
  with assms(2) show ?thesis
    by (auto simp: flush_registered_requests_def buffer_empty_def release_data_def release_fds_def
        released_buffer)
qed

lemma fd_bound_less:
  "fd_bound mb \<Longrightarrow> \<not> buffer_empty mb \<Longrightarrow> length (fd_buff mb) < length (buff mb)"
  by (cases "buff mb") (auto simp: fd_bound_def buffer_empty_def)

text \<open>Sending does not read: the pending bytes stay.\<close>

definition sends_keep_pending :: "('s, 'fd) sock_ops \<Rightarrow> ('s \<Rightarrow> bytes) \<Rightarrow> bool" where
  "sends_keep_pending ops pending \<longleftrightarrow>
     (\<forall>s bs fd. pending (fst (sock_send ops s bs fd)) = pending s) \<and>
     (\<forall>s bs. pending (fst (sock_write ops s bs)) = pending s)"

lemma send_fds_pending:
  assumes "sends_keep_pending ops pending"
  shows "pending (fst (send_fds cfg ops data fds n s)) = pending s"
proof (induction fds arbitrary: n s)
  case (Cons fd fds)
  obtain s1 r1 where s1: "sock_send ops s (subspan n 1 data) fd = (s1, r1)" by fastforce
  then have p: "pending s1 = pending s"
    using assms unfolding sends_keep_pending_def by (metis fst_conv)
  show ?case
    using Cons.IH s1 p by (cases "subspan_outcome cfg n 1 (length data)"; cases r1) simp_all
qed simp

lemma write_requests_pending:
  assumes "sends_keep_pending ops pending"
  shows "pending (fst (write_requests cfg ops data fds s)) = pending s"
proof -
  obtain s1 r1 where s1: "send_fds cfg ops data fds 0 s = (s1, r1)" by fastforce
  then have p: "pending s1 = pending s"
    using send_fds_pending [OF assms, of cfg data fds 0 s] by simp
  have w: "pending (fst (sock_write ops s1 bs)) = pending s1" for bs
    using assms by (simp add: sends_keep_pending_def)
  show ?thesis
    using p w
    by (cases "assert_outcome cfg (length data > length fds)"; cases r1;
        cases "subspan_outcome cfg (case r1 of Value n \<Rightarrow> n) 0 (length data)")
      (simp_all add: write_requests_def s1)
qed

section \<open>The requests as the messages of a parser\<close>

text \<open>The messages the server's parser should find in the bytes of registered requests.\<close>

fun messages_of_requests :: "(nat \<Rightarrow> byte) \<Rightarrow> nat \<Rightarrow> 'fd request list \<Rightarrow> parsed_message list" where
  "messages_of_requests storage k [] = []"
| "messages_of_requests storage k ((obj, M, args) # rs) =
     \<lparr>pm_object_id = wobject_value obj, pm_opcode = msg_opcode M,
      pm_arguments = enc_args storage (k + 8) args\<rparr> #
     messages_of_requests storage (k + length (enc_message storage k obj M args)) rs"

lemma enc_requests_messages:
  "enc_requests storage k rs = concat (map message_bytes (messages_of_requests storage k rs))"
  by (induction storage k rs rule: enc_requests.induct) (simp_all add: message_bytes_def enc_message_def)

lemma messages_of_requests_fit:
  "\<forall>(obj, M, args) \<in> set rs. 8 + wire_sizes args < 65536 \<Longrightarrow>
     list_all fits (messages_of_requests storage k rs)"
  by (induction storage k rs rule: messages_of_requests.induct) (simp_all add: fits_def)

lemma messages_of_requests_aligned: "\<forall>m \<in> set (messages_of_requests storage k rs). 4 dvd length (pm_arguments m)"
  by (induction storage k rs rule: messages_of_requests.induct) simp_all

lemma messages_of_requests_interpreted:
  "list_all2 (\<lambda>(obj, M, args) m. pm_object_id m = wobject_value obj \<and> pm_opcode m = msg_opcode M \<and>
      (readable_message cfg M args \<longrightarrow> interpert_message_payload cfg M (pm_arguments m) = Value args))
    rs (messages_of_requests storage k rs)"
  by (induction storage k rs rule: messages_of_requests.induct) (simp_all add: interpert_enc_args)

lemma fds_of_requests_bound:
  "\<forall>(obj, M, args) \<in> set rs. length (fds_of_args args) \<le> 7 \<Longrightarrow>
     8 * length (fds_of_requests rs) \<le> 7 * length (enc_requests storage k rs)"
proof (induction storage k rs rule: enc_requests.induct)
  case (2 storage k obj M args rs)
  then show ?case by (auto simp: fds_of_requests_def)
qed (simp add: fds_of_requests_def)

lemma enc_message_not_Nil: "enc_message storage k obj M args \<noteq> []"
  using length_enc_message [of storage k obj M args] by (metis add_is_0 list.size(3) zero_neq_numeral)

end
