(* ===== verification/List_Socket.thy ===== *)
theory List_Socket
  imports Client_Requests Client_Events
begin

text \<open>
  A socket in memory: what the peer has sent and is not read yet, and what has been sent, byte for
  byte with the descriptors. It satisfies the assumptions the client's lemmas make of a socket.
\<close>

record 'fd list_socket =
  incoming :: bytes
  outgoing :: "(byte \<times> 'fd option) list"

definition list_socket_ops :: "('fd list_socket, 'fd) sock_ops" where
  "list_socket_ops =
     \<lparr>sock_send = (\<lambda>s bs fd. (s\<lparr>outgoing := outgoing s @ map (\<lambda>b. (b, Some fd)) bs\<rparr>, Value (length bs))),
      sock_write = (\<lambda>s bs. (s\<lparr>outgoing := outgoing s @ map (\<lambda>b. (b, None)) bs\<rparr>, Value ())),
      sock_read_some = (\<lambda>s n. (s\<lparr>incoming := drop n (incoming s)\<rparr>, Value (take n (incoming s))))\<rparr>"

definition list_socket :: "bytes \<Rightarrow> 'fd list_socket" where
  "list_socket bs = \<lparr>incoming = bs, outgoing = []\<rparr>"

lemma list_socket_simps [simp]: "incoming (list_socket bs) = bs" "outgoing (list_socket bs) = []"
  by (simp_all add: list_socket_def)

lemma list_socket_sends_all: "sends_all list_socket_ops outgoing"
  by (simp add: sends_all_def list_socket_ops_def)

lemma list_socket_reads_pending: "reads_pending list_socket_ops incoming"
  by (auto simp: reads_pending_def list_socket_ops_def)

end
