(* ===== verification/Client_Properties.thy ===== *)
theory Client_Properties
  imports Client_Visit List_Socket
begin

text \<open>
  The properties of the connected client. The witnesses use the socket of \<^verbatim>\<open>List_Socket\<close>.
\<close>

lemma four_dvd [simp]: "4 dvd Suc (Suc (Suc (Suc 0)))"
  by (simp add: eval_nat_numeral)

section \<open>Object ids\<close>

text \<open>
  A new client hands out the ids 2, 3, 4, ... whatever interfaces are asked for. Until the 32-bit
  counter has gone round they are different from each other, from 0 (the null object) and from the
  id of \<open>global_display_object\<close>.
\<close>

lemma reserved_ids_are_fresh:
  fixes c :: "('s, 'fd) connected_client"
  assumes "c = make_connected_client sock" and "length Ts \<le> 2 ^ 32 - 2"
  shows "map (\<lambda>x. unat (wobject_value x)) (fst (reserve_ids Ts c))
      = [2..<2 + length Ts] \<and>
    distinct (map wobject_value (fst (reserve_ids Ts c))) \<and>
    wobject_value global_display_object
      \<notin> set (map wobject_value (fst (reserve_ids Ts c)))"
proof -
  let ?vs = "map wobject_value (fst (reserve_ids Ts c))"
  have v: "?vs = map (\<lambda>i. 2 + of_nat i) [0..<length Ts]"
    by (simp add: assms(1) reserve_ids_values make_connected_client_def)
  have u: "unat (2 + of_nat i :: u32) = 2 + i" if "i < length Ts" for i
  proof -
    have "unat (of_nat (2 + i) :: u32) = 2 + i"
      using that assms(2) by (intro unat_of_nat_u32) simp
    then show ?thesis by simp
  qed
  have "map unat ?vs = map (\<lambda>i. 2 + i) [0..<length Ts]"
    unfolding v by (simp add: u)
  also have "\<dots> = [2..<2 + length Ts]"
    using map_add_upt [of 2 "length Ts"] by (simp only: add.commute)
  finally have m: "map unat ?vs = [2..<2 + length Ts]" .
  then have "distinct ?vs" by (metis distinct_map distinct_upt)
  moreover have "unat x \<noteq> 1" if "x \<in> set ?vs" for x
  proof -
    have "unat x \<in> set (map unat ?vs)" using that by auto
    then show ?thesis unfolding m by auto
  qed
  then have "wobject_value global_display_object \<notin> set ?vs"
    by (force simp: global_display_object_def)
  ultimately show ?thesis using m by (simp add: comp_def)
qed

section \<open>Flushing\<close>

text \<open>
  C11: flushing sends every buffered byte once and in order, and every buffered descriptor once, in
  order, each with a byte of its own; afterwards nothing is registered any more.
\<close>

theorem flush_sends_everything:
  assumes "sends_all ops sent" and "length (fd_buff (request_buff c)) < length (buff (request_buff c))"
    and "flush_registered_requests cfg ops c = (c', r)"
  shows "r = Value () \<and> \<not> has_registered_requests c' \<and> next_new_id c' = next_new_id c \<and>
    recv_buff c' = recv_buff c \<and>
    (\<exists>new. sent (server_sock c') = sent (server_sock c) @ new \<and>
       map fst new = buff (request_buff c) \<and> List.map_filter snd new = fd_buff (request_buff c))"
proof -
  obtain s' where "flush_registered_requests cfg ops c =
      (c\<lparr>server_sock := s', request_buff := empty_message_buffer\<rparr>, Value ())"
    and "sent s' = sent (server_sock c) @ attach (buff (request_buff c)) (fd_buff (request_buff c))"
    using flush_value [OF assms(1,2)] by blast
  with assms(2,3) show ?thesis
    by (auto simp: client_simps empty_message_buffer_def
        map_fst_attach fds_attach)
qed

theorem flush_sends_everything_witness:
  "snd (flush_registered_requests \<lparr>ndebug = False, checked_subscript = True\<rparr> list_socket_ops
     ((make_connected_client (list_socket []))\<lparr>request_buff := \<lparr>buff = [1, 2, 3, 4], fd_buff = [7 :: nat]\<rparr>\<rparr>))
   = Value ()"
proof -
  let ?c = "(make_connected_client (list_socket []))\<lparr>request_buff := \<lparr>buff = [1, 2, 3, 4], fd_buff = [7 :: nat]\<rparr>\<rparr>"
  show ?thesis
    using flush_sends_everything [OF list_socket_sends_all, of ?c
        "\<lparr>ndebug = False, checked_subscript = True\<rparr>"
        "fst (flush_registered_requests \<lparr>ndebug = False, checked_subscript = True\<rparr> list_socket_ops ?c)"
        "snd (flush_registered_requests \<lparr>ndebug = False, checked_subscript = True\<rparr> list_socket_ops ?c)"]
    by simp
qed

section \<open>Receiving\<close>

text \<open>
  C19: while the server's bytes are pending and, with those received, make whole 32-bit words,
  \<open>recv_more_data\<close> returns with at least one new byte, loses none and touches nothing else. It does
  not read when nothing is pending, so it neither blocks nor meets the end of the stream, however
  the reads are cut.
\<close>

theorem recv_more_data_reads_pending_bytes:
  assumes "reads_pending ops pending" and "pending (server_sock c) \<noteq> []"
    and "4 dvd length (recv_buff c @ pending (server_sock c))"
  shows "\<exists>c' bs. recv_more_data ops storage c = Some (c', Value ()) \<and> bs \<noteq> [] \<and>
    recv_buff c' = recv_buff c @ bs \<and> pending (server_sock c) = bs @ pending (server_sock c') \<and>
    same_requests c c'"
  unfolding recv_more_data_def by (rule read_again_stream [OF assms])

theorem recv_more_data_reads_pending_bytes_witness:
  "\<exists>c' bs. recv_more_data list_socket_ops (\<lambda>_. 0)
      (make_connected_client (list_socket [1, 2, 3, 4]) :: (nat list_socket, nat) connected_client)
    = Some (c', Value ()) \<and> bs \<noteq> [] \<and> [1, 2, 3, 4] = bs @ incoming (server_sock c')"
  using recv_more_data_reads_pending_bytes [OF list_socket_reads_pending,
      of "make_connected_client (list_socket [1, 2, 3, 4]) :: (nat list_socket, nat) connected_client" "\<lambda>_. 0"]
  by (auto simp: client_simps)

text \<open>
  C5: \<open>recv_events\<close> on a stream of whole messages, however the socket cuts it, returns a parser that
  yields the first of them without an exception, and keeps the bytes of the others: received or
  pending, they are still the bytes of whole messages, so the call can be repeated until none is
  left. What stays in the receive buffer is less than one message, so no event that has arrived
  waits for a later call.
\<close>

theorem recv_events_conserves_the_stream:
  assumes "reads_pending ops pending" and "list_all fits ms" and "pending (server_sock c) \<noteq> []"
    and "recv_buff c @ pending (server_sock c) = concat (map message_bytes ms)"
    and "\<forall>m \<in> set ms. 4 dvd length (pm_arguments m)"
  shows "\<exists>ms1 ms2 c' p. ms = ms1 @ ms2 \<and> recv_events ops storage c = Some (c', Value p) \<and>
    message_generator p = (ms1, Value ()) \<and>
    recv_buff c' @ pending (server_sock c') = concat (map message_bytes ms2) \<and> partial_tail (recv_buff c') \<and>
    length (pending (server_sock c')) < length (pending (server_sock c)) \<and> same_requests c c'"
  by (rule recv_events_stream [OF assms])

theorem recv_events_conserves_the_stream_witness:
  "\<exists>ms1 ms2 c' p. [\<lparr>pm_object_id = 1, pm_opcode = 0, pm_arguments = [9, 9, 9, 9]\<rparr>] = ms1 @ ms2 \<and>
    recv_events list_socket_ops (\<lambda>_. 0) (make_connected_client (list_socket (concat (map message_bytes
      [\<lparr>pm_object_id = 1, pm_opcode = 0, pm_arguments = [9, 9, 9, 9]\<rparr>]))) :: (nat list_socket, nat) connected_client)
      = Some (c', Value p) \<and> message_generator p = (ms1, Value ())"
  using recv_events_conserves_the_stream [OF list_socket_reads_pending,
      of "[\<lparr>pm_object_id = 1, pm_opcode = 0, pm_arguments = [9, 9, 9, 9]\<rparr>]"
        "make_connected_client (list_socket (concat (map message_bytes
          [\<lparr>pm_object_id = 1, pm_opcode = 0, pm_arguments = [9, 9, 9, 9]\<rparr>]))) :: (nat list_socket, nat) connected_client"
        "\<lambda>_. 0"]
  by (fastforce simp: client_simps fits_def)

text \<open>
  At the end of the stream \<open>recv_more_data\<close> throws and leaves the receive buffer as it was: the
  bytes of an unfinished message stay, and no uninitialised byte is taken for a received one.
\<close>

lemma end_of_stream_keeps_the_buffer:
  assumes "sock_read_some ops (server_sock c) (block_length (length (recv_buff c))) = (s, Value [])"
  shows "recv_more_data ops storage c =
    Some (c\<lparr>server_sock := s\<rparr>, Raise (Runtime_error ''Encountered EOF from server socket!''))"
proof -
  have "overwrite (length (recv_buff c)) []
        (byte_vec_resize storage (length (recv_buff c) + block_length (length (recv_buff c))) (recv_buff c))
      = byte_vec_resize storage (length (recv_buff c) + block_length (length (recv_buff c))) (recv_buff c)"
    by (intro overwrite_Nil) simp
  then show ?thesis
    using assms read_block(1) [of "[]" "block_length (length (recv_buff c))" storage "recv_buff c"]
    by (simp add: recv_more_data_def read_again.simps [of ops storage] Let_def block_eq)
qed

text \<open>
  C29: when \<^verbatim>\<open>read_some\<close> throws, the exception leaves \<open>recv_more_data\<close> with the receive buffer still
  grown: 1000 or 1001 uninitialised bytes stand behind the received ones, and the next call takes
  them for data from the server.
\<close>

theorem read_exception_leaves_garbage:
  assumes "sock_read_some ops (server_sock c) (block_length (length (recv_buff c))) = (s, Raise e)"
  shows "recv_more_data ops storage c =
    Some (c\<lparr>server_sock := s, recv_buff := recv_buff c @
      map storage [length (recv_buff c)..<length (recv_buff c) + block_length (length (recv_buff c))]\<rparr>, Raise e)"
  using assms
  by (simp add: recv_more_data_def read_again.simps [of ops storage] Let_def block_eq byte_vec_resize_grow)

theorem read_exception_leaves_garbage_witness:
  "\<exists>c'. recv_more_data (list_socket_ops\<lparr>sock_read_some := \<lambda>s n. (s, Raise (Foreign_error ''EINTR''))\<rparr>) (\<lambda>_. 0xAA)
     (make_connected_client (list_socket []) :: (nat list_socket, nat) connected_client)
   = Some (c', Raise (Foreign_error ''EINTR'')) \<and> length (recv_buff c') = 1001"
  using read_exception_leaves_garbage [of
      "list_socket_ops\<lparr>sock_read_some := \<lambda>s n. (s, Raise (Foreign_error ''EINTR''))\<rparr>"
      "make_connected_client (list_socket []) :: (nat list_socket, nat) connected_client"
      "list_socket []" "Foreign_error ''EINTR''" "\<lambda>_. 0xAA"]
  by (simp add: client_simps block_length_def recv_block_size_def)

section \<open>Whole messages\<close>

text \<open>
  C20: when the receive buffer holds some whole messages and then too few bytes for the next one,
  \<open>get_recd_bytes_forming_whole_messages\<close> returns, with exactly the bytes of the whole messages.
\<close>

theorem whole_messages_are_found:
  assumes "list_all fits ms" and "partial_tail tail"
    and "recv_buff c = concat (map message_bytes ms) @ tail"
  shows "\<exists>bs. get_recd_bytes_forming_whole_messages c = Some bs \<and>
    parsed_message_generator bs = (ms, Value ()) \<and> recv_buff c = bs @ tail"
  using whole_messages [OF assms] generator_messages_append [OF assms(1), of "[]"] assms(3) by simp

theorem whole_messages_are_found_witness:
  "\<exists>bs. get_recd_bytes_forming_whole_messages ((make_connected_client (list_socket []))
        \<lparr>recv_buff := message_bytes \<lparr>pm_object_id = 5, pm_opcode = 1, pm_arguments = [1, 2, 3, 4]\<rparr> @ [7, 7]\<rparr>
        :: (nat list_socket, nat) connected_client) = Some bs \<and>
     parsed_message_generator bs = ([\<lparr>pm_object_id = 5, pm_opcode = 1, pm_arguments = [1, 2, 3, 4]\<rparr>], Value ())"
  using whole_messages_are_found [of "[\<lparr>pm_object_id = 5, pm_opcode = 1, pm_arguments = [1, 2, 3, 4]\<rparr>]" "[7, 7]"
      "(make_connected_client (list_socket []))\<lparr>recv_buff := message_bytes
        \<lparr>pm_object_id = 5, pm_opcode = 1, pm_arguments = [1, 2, 3, 4]\<rparr> @ [7, 7]\<rparr>
        :: (nat list_socket, nat) connected_client"]
  by (auto simp: fits_def partial_tail_def)

text \<open>A header with size 0: the loop comes back to the same offset.\<close>

definition zero_size_header :: "bytes \<Rightarrow> bool" where
  "zero_size_header t \<longleftrightarrow> 8 \<le> length t \<and> size_at t = 0"

lemma try_next_msg_zero_size:
  assumes "zero_size_header (drop n recv)"
  shows "try_next_msg recv n = None"
proof -
  have "\<not> zero_size_header (drop n recv)" if "try_next_msg recv n = Some k" for k
  proof (rule try_next_msg.raw_induct [where P = "\<lambda>recv n k. \<not> zero_size_header (drop n recv)", OF _ that])
    fix f recv n k
    assume IH: "\<And>recv n k. f recv n = Some k \<Longrightarrow> \<not> zero_size_header (drop n recv)"
      and body: "(let bytes_required_for_next_msg_size = n + sizeof_message_header
        in if length recv < bytes_required_for_next_msg_size then Some n
           else let size_of_next_msg = le_word (subspan (n + size_offset) 2 recv) :: u16;
                    bytes_potentially_forming_whole_messages = n + unat size_of_next_msg
                in if bytes_potentially_forming_whole_messages \<le> length recv
                   then f recv bytes_potentially_forming_whole_messages else Some n) = Some k"
    show "\<not> zero_size_header (drop n recv)"
    proof
      assume z: "zero_size_header (drop n recv)"
      then have "f recv n = Some k"
        using body by (auto simp: zero_size_header_def size_at_def size_at_drop Let_def split: if_splits)
      with IH z show False by blast
    qed
  qed
  with assms show ?thesis by (cases "try_next_msg recv n") auto
qed

lemma try_next_msg_skip:
  "list_all fits ms \<Longrightarrow>
     try_next_msg (pre @ concat (map message_bytes ms) @ r) (length pre) =
     try_next_msg (pre @ concat (map message_bytes ms) @ r) (length pre + total_bytes ms)"
proof (induction ms arbitrary: pre)
  case (Cons m ms)
  let ?r = "concat (map message_bytes ms) @ r"
  have m: "fits m" using Cons.prems by simp
  then have "\<not> partial_tail (message_bytes m @ ?r)" by (simp add: partial_tail_def)
  then have "try_next_msg (pre @ message_bytes m @ ?r) (length pre)
      = try_next_msg ((pre @ message_bytes m) @ ?r) (length (pre @ message_bytes m))"
    using m by (subst try_next_msg_step) simp
  then show ?case
    using Cons.IH [of "pre @ message_bytes m"] Cons.prems by (simp add: add.assoc)
qed simp

text \<open>
  C21: a message whose size field is 0, behind any whole messages, makes
  \<open>get_recd_bytes_forming_whole_messages\<close> loop for ever, and with it every \<open>until\<close>; the parser, which is
  given the bytes only afterwards, would have thrown on the same bytes.
\<close>

theorem zero_size_message_hangs:
  assumes "list_all fits ms" and "zero_size_header tail"
    and "recv_buff c = concat (map message_bytes ms) @ tail"
  shows "get_recd_bytes_forming_whole_messages c = None \<and>
    until_message ops storage mos obj M (c, u) = None \<and>
    parsed_message_generator (recv_buff c)
      = (ms, Raise (Logic_error ''Wayland message size is less than 8 bytes.''))"
proof -
  have "try_next_msg (recv_buff c) 0 = try_next_msg (recv_buff c) (total_bytes ms)"
    using try_next_msg_skip [OF assms(1), of "[]" tail] by (simp add: assms(3))
  moreover have "try_next_msg (recv_buff c) (total_bytes ms) = None"
    using assms(2) by (intro try_next_msg_zero_size) (simp add: assms(3) total_bytes_def)
  ultimately have g: "get_recd_bytes_forming_whole_messages c = None"
    by (simp add: get_recd_bytes_forming_whole_messages_def)
  then have "until_message ops storage mos obj M (c, u) = None"
    by (simp add: until_message_def try_again.simps [of ops storage])
  moreover have "parsed_message_generator tail
      = ([], Raise (Logic_error ''Wayland message size is less than 8 bytes.''))"
    using assms(2)
    by (subst parsed_message_generator.simps) (auto simp: zero_size_header_def generator_resume_def parse_NUM_eq)
  ultimately show ?thesis
    using g generator_messages_append [OF assms(1), of tail] by (simp add: assms(3))
qed

theorem zero_size_message_hangs_witness:
  "get_recd_bytes_forming_whole_messages ((make_connected_client (list_socket []))
     \<lparr>recv_buff := [1, 0, 0, 0, 0, 0, 0, 0]\<rparr> :: (nat list_socket, nat) connected_client) = None"
proof -
  have "zero_size_header [1, 0, 0, 0, 0, 0, 0, 0]"
    by (simp add: zero_size_header_def size_at_def subspan_def)
  from zero_size_message_hangs [OF _ this, of "[]" "(make_connected_client (list_socket []))
     \<lparr>recv_buff := [1, 0, 0, 0, 0, 0, 0, 0]\<rparr> :: (nat list_socket, nat) connected_client"
     list_socket_ops "\<lambda>_. 0" empty_overload_set global_display_object undefined "()"]
  show ?thesis by simp
qed

section \<open>Visiting until a message\<close>

text \<open>
  C3: \<open>recv_and_visit_events(mos).until<Msg>(obj)\<close> refines its specification on lists of messages: when the
  specification finds the until-message in the server's messages, received or still pending and cut
  in any way, the call returns, every message before it has been given to its overload in order, the
  request side and the caller's state are what the specification says, and exactly the messages
  after it are left, unvisited.
\<close>

theorem until_refines_the_specification:
  assumes "reads_pending ops pending" and "list_all fits ms" and "\<forall>m \<in> set ms. 4 dvd length (pm_arguments m)"
    and "visits_as mos (set ms) V"
    and "recv_buff (fst w) @ pending (server_sock (fst w)) = concat (map message_bytes ms)"
    and "until_spec V (\<lambda>_ v. v) (wobject_value obj) (msg_opcode M) ms (view_of_world w) = Some (v, post)"
  shows "\<exists>w'. until_message ops storage mos obj M w = Some (w', Value ()) \<and> view_of_world w' = v \<and>
    recv_buff (fst w') @ pending (server_sock (fst w')) = concat (map message_bytes post)"
proof -
  obtain pre m where ms: "ms = pre @ m # post" and pre: "\<forall>k \<in> set pre. \<not> matches (wobject_value obj) (msg_opcode M) k"
    and m: "matches (wobject_value obj) (msg_opcode M) m" and v: "v = fold V pre (view_of_world w)"
    using until_spec_split [OF assms(6)] by blast
  have "visits_as mos (set pre) V" using assms(4) by (simp add: visits_as_def ms)
  from try_again_stream [OF assms(1) assms(2,3) [unfolded ms] pre m this acts_as_none assms(5) [unfolded ms],
      of storage "\<lambda>_. ()"]
  show ?thesis unfolding until_message_def v by blast
qed

text \<open>The stream the witnesses read: a message of object 3, then the until-message and another one of object 1.\<close>

definition example_messages :: "parsed_message list" where
  "example_messages =
     [\<lparr>pm_object_id = 3, pm_opcode = 0, pm_arguments = [9, 9, 9, 9]\<rparr>,
      \<lparr>pm_object_id = 1, pm_opcode = 2, pm_arguments = [5, 0, 0, 0]\<rparr>,
      \<lparr>pm_object_id = 1, pm_opcode = 0, pm_arguments = []\<rparr>]"

definition example_type :: message_type where
  "example_type = \<lparr>msg_interface = protocol_interface ''wl_display'', msg_kind = Event, msg_name = ''m'',
     msg_opcode = 2, msg_fields = [(''n'', TWuint)]\<rparr>"

definition example_client :: "(nat list_socket, nat) connected_client" where
  "example_client = make_connected_client (list_socket (concat (map message_bytes example_messages)))"

lemma example_stream:
  "list_all fits example_messages" "\<forall>m \<in> set example_messages. 4 dvd length (pm_arguments m)"
  "recv_buff (fst (example_client, u)) @ incoming (server_sock (fst (example_client, u)))
    = concat (map message_bytes example_messages)"
  by (simp_all add: example_messages_def fits_def example_client_def client_simps)

lemma visits_as_empty: "visits_as empty_overload_set ms (\<lambda>_ v. v)"
  by (simp add: visits_as_def overload_resolution_def empty_overload_set_def)

theorem until_refines_the_specification_witness:
  "\<exists>w'. until_message list_socket_ops (\<lambda>_. 0) empty_overload_set global_display_object example_type
      (example_client, ()) = Some (w', Value ()) \<and>
    recv_buff (fst w') @ incoming (server_sock (fst w'))
      = message_bytes \<lparr>pm_object_id = 1, pm_opcode = 0, pm_arguments = []\<rparr>"
proof -
  have "until_spec (\<lambda>_ v. v) (\<lambda>_ v. v) (wobject_value global_display_object) (msg_opcode example_type)
      example_messages v = Some (v, [\<lparr>pm_object_id = 1, pm_opcode = 0, pm_arguments = []\<rparr>])"
    for v :: "(nat, unit) request_view"
    by (simp add: example_messages_def example_type_def global_display_object_def matches_def)
  from until_refines_the_specification [OF list_socket_reads_pending example_stream(1,2) visits_as_empty
      example_stream(3) this, of "\<lambda>_. 0"]
  show ?thesis by auto
qed

text \<open>
  C4: the other \<open>until\<close>, with a callback: the until-message is interpreted as its type and the values go
  to the callback, after the overloads of the messages before it.
\<close>

theorem until_with_callback_refines_the_specification:
  assumes "reads_pending ops pending" and "list_all fits ms" and "\<forall>m \<in> set ms. 4 dvd length (pm_arguments m)"
    and "visits_as mos (set ms) V"
    and "recv_buff (fst w) @ pending (server_sock (fst w)) = concat (map message_bytes ms)"
    and "until_spec V (\<lambda>m v. g (pm_arguments m) v) (wobject_value obj) (msg_opcode M) ms (view_of_world w)
      = Some (v, post)"
    and "\<forall>m \<in> set ms. matches (wobject_value obj) (msg_opcode M) m \<longrightarrow>
      (\<exists>args. interpert_message_payload cfg M (pm_arguments m) = Value args \<and>
        (\<forall>w. callback args w = (set_view w (g (pm_arguments m) (view_of_world w)), Value ())))"
  shows "\<exists>w'. until_message_with cfg ops storage mos obj M callback w = Some (w', Value ()) \<and>
    view_of_world w' = v \<and>
    recv_buff (fst w') @ pending (server_sock (fst w')) = concat (map message_bytes post)"
proof -
  obtain pre m where ms: "ms = pre @ m # post" and pre: "\<forall>k \<in> set pre. \<not> matches (wobject_value obj) (msg_opcode M) k"
    and m: "matches (wobject_value obj) (msg_opcode M) m"
    and v: "v = g (pm_arguments m) (fold V pre (view_of_world w))"
    using until_spec_split [OF assms(6)] by blast
  obtain args where "interpert_message_payload cfg M (pm_arguments m) = Value args"
    and "\<And>w. callback args w = (set_view w (g (pm_arguments m) (view_of_world w)), Value ())"
    using assms(7) m by (auto simp: ms)
  then have "acts_as (Some (erase_overload cfg M callback)) m (g (pm_arguments m))"
    by (rule acts_as_erased)
  moreover have "visits_as mos (set pre) V" using assms(4) by (simp add: visits_as_def ms)
  ultimately show ?thesis
    using try_again_stream [OF assms(1) assms(2,3) [unfolded ms] pre m _ _ assms(5) [unfolded ms],
        where obs = "\<lambda>_. ()"]
    unfolding until_message_with_def v by blast
qed

theorem until_with_callback_refines_the_specification_witness:
  "\<exists>w'. until_message_with \<lparr>ndebug = False, checked_subscript = True\<rparr> list_socket_ops (\<lambda>_. 0)
      empty_overload_set global_display_object example_type
      (\<lambda>args w. ((fst w, args), Value ())) (example_client, []) = Some (w', Value ()) \<and>
    snd w' = [Wuint 5 :: nat primitive]"
proof -
  let ?cfg = "\<lparr>ndebug = False, checked_subscript = True\<rparr>"
  let ?g = "\<lambda>payload v :: (nat, nat primitive list) request_view.
      (fst v, fst (snd v), [Wuint (le_word payload) :: nat primitive])"
  have l: "le_word [5, 0, 0, 0] = (5 :: u32)"
    by simp
  have "until_spec (\<lambda>_ v. v) (\<lambda>m v. ?g (pm_arguments m) v) (wobject_value global_display_object)
      (msg_opcode example_type) example_messages v
      = Some ((fst v, fst (snd v), [Wuint 5]), [\<lparr>pm_object_id = 1, pm_opcode = 0, pm_arguments = []\<rparr>])" for v
    by (simp add: example_messages_def example_type_def global_display_object_def matches_def l)
  moreover have "\<forall>m \<in> set example_messages.
      matches (wobject_value global_display_object) (msg_opcode example_type) m \<longrightarrow>
      (\<exists>args. interpert_message_payload ?cfg example_type (pm_arguments m) = Value args \<and>
        (\<forall>w :: (nat list_socket, nat, nat primitive list) world.
          ((fst w, args), Value ()) = (set_view w (?g (pm_arguments m) (view_of_world w)), Value ())))"
    by (simp add: example_messages_def example_type_def global_display_object_def matches_def l
        interpert_message_payload_def field_types_def to_tuple_eq read_static_def read_bytes_def
        subspan_def set_view_def view_of_world_def)
  ultimately show ?thesis
    using until_with_callback_refines_the_specification [OF list_socket_reads_pending example_stream(1,2)
      visits_as_empty example_stream(3), where g = ?g and obj = global_display_object and M = example_type
      and cfg = ?cfg and callback = "\<lambda>args w. ((fst w, args), Value ())" and storage = "\<lambda>_. 0"]
    by (fastforce simp: view_of_world_def)
qed



end
