(* ===== verification/Client_Invariant.thy ===== *)
theory Client_Invariant
  imports Client_Properties
begin

text \<open>
  The client as a state machine: its operations and what the server does in between, as a step
  relation, and the invariant of the reachable clients. It has the assumption the class comments
  on its receive buffer ("the data never begins at middle of message") and the bound the flush
  asserts.
\<close>

section \<open>Steps\<close>

text \<open>
  A request has at most seven descriptors; a failed registration does not change the buffer the
  caller goes on with only when it throws nothing, so only successful ones are steps. Events are
  received while bytes are pending (otherwise the call blocks). The server sends whole messages.
\<close>

inductive client_step ::
  "build \<Rightarrow> ('s, 'fd) sock_ops \<Rightarrow> (nat \<Rightarrow> byte) \<Rightarrow> ('s \<Rightarrow> bytes) \<Rightarrow>
     ('s, 'fd) connected_client \<Rightarrow> ('s, 'fd) connected_client \<Rightarrow> bool"
  for cfg ops storage pending where
  Reserve: "client_step cfg ops storage pending c (snd (reserve_object_id T c))"
| Register: "register_request cfg storage obj M args c = (c', Value ()) \<Longrightarrow>
    length (fds_of_args args) \<le> 7 \<Longrightarrow> client_step cfg ops storage pending c c'"
| Flush: "flush_registered_requests cfg ops c = (c', r) \<Longrightarrow> client_step cfg ops storage pending c c'"
| Receive: "pending (server_sock c) \<noteq> [] \<Longrightarrow> recv_events ops storage c = Some (c', r) \<Longrightarrow>
    client_step cfg ops storage pending c c'"
| Server: "whole_words ms \<Longrightarrow> pending s = pending (server_sock c) @ concat (map message_bytes ms) \<Longrightarrow>
    client_step cfg ops storage pending c (c\<lparr>server_sock := s\<rparr>)"

inductive reachable_client ::
  "build \<Rightarrow> ('s, 'fd) sock_ops \<Rightarrow> (nat \<Rightarrow> byte) \<Rightarrow> ('s \<Rightarrow> bytes) \<Rightarrow> ('s, 'fd) connected_client \<Rightarrow> bool"
  for cfg ops storage pending where
  Connected: "pending sock = [] \<Longrightarrow> reachable_client cfg ops storage pending (make_connected_client sock)"
| Step: "reachable_client cfg ops storage pending c \<Longrightarrow> client_step cfg ops storage pending c c' \<Longrightarrow>
    reachable_client cfg ops storage pending c'"

section \<open>The invariant\<close>

definition client_inv :: "('s \<Rightarrow> bytes) \<Rightarrow> ('s, 'fd) connected_client \<Rightarrow> bool" where
  "client_inv pending c \<longleftrightarrow> fd_bound (request_buff c) \<and>
     (\<exists>ms. whole_words ms \<and> recv_buff c @ pending (server_sock c) = concat (map message_bytes ms))"

lemma client_inv_flush:
  assumes "sends_keep_pending ops pending" and "client_inv pending c"
    and "flush_registered_requests cfg ops c = (c', r)"
  shows "client_inv pending c'"
proof (cases "buffer_empty (request_buff c)")
  case True
  with assms(2,3) show ?thesis by (simp add: flush_registered_requests_def)
next
  case False
  obtain s q where w: "write_requests cfg ops (buff (request_buff c)) (fd_buff (request_buff c)) (server_sock c)
      = (s, q)" by fastforce
  then have "pending s = pending (server_sock c)"
    using write_requests_pending [OF assms(1)] by (metis fst_conv)
  moreover have "c' = c\<lparr>server_sock := s, request_buff := empty_message_buffer\<rparr>"
    using assms(3) False w
    by (simp add: flush_registered_requests_def release_data_def release_fds_def released_buffer)
  ultimately show ?thesis using assms(2) by (simp add: client_inv_def)
qed

lemma client_inv_receive:
  assumes "reads_pending ops pending" and "client_inv pending c" and "pending (server_sock c) \<noteq> []"
  shows "\<exists>c' p ms. recv_events ops storage c = Some (c', Value p) \<and> client_inv pending c' \<and>
    message_generator p = (ms, Value ())"
proof -
  obtain ms where ms: "whole_words ms" and stream: "recv_buff c @ pending (server_sock c) = concat (map message_bytes ms)"
    using assms(2) by (auto simp: client_inv_def)
  obtain ms1 ms2 c' p where "ms = ms1 @ ms2" and "recv_events ops storage c = Some (c', Value p)"
    and "message_generator p = (ms1, Value ())" and "same_requests c c'"
    and "recv_buff c' @ pending (server_sock c') = concat (map message_bytes ms2)"
    using recv_events_stream [OF assms(1) whole_wordsD(1) [OF ms] assms(3) stream whole_wordsD(2) [OF ms]]
    by blast
  then show ?thesis
    using assms(2) ms by (auto simp: client_inv_def same_requests_def)
qed

lemma client_inv_step:
  assumes "reads_pending ops pending" and "sends_keep_pending ops pending"
    and "client_step cfg ops storage pending c c'" and "client_inv pending c"
  shows "client_inv pending c'"
  using assms(3)
proof (cases rule: client_step.cases)
  case (Reserve T)
  with assms(4) show ?thesis by (simp add: reserve_object_id_def client_inv_def)
next
  case (Register obj M args)
  then obtain mb where mb: "append_message cfg storage obj M args (request_buff c) = Value mb"
    and c': "c' = c\<lparr>request_buff := mb\<rparr>"
    by (cases "append_message cfg storage obj M args (request_buff c)") (simp_all add: register_request_def)
  have "fd_bound (request_buff c)" using assms(4) by (simp add: client_inv_def)
  from append_message_fd_bound [OF mb this] Register(2) assms(4) show ?thesis
    by (simp add: c' client_inv_def)
next
  case (Flush r)
  with client_inv_flush [OF assms(2,4)] show ?thesis by blast
next
  case (Receive r)
  with client_inv_receive [OF assms(1,4), of storage] show ?thesis by auto
next
  case (Server ms s)
  obtain ns where ns: "whole_words ns" and "recv_buff c @ pending (server_sock c) = concat (map message_bytes ns)"
    using assms(4) by (auto simp: client_inv_def)
  with Server have "recv_buff c @ pending s = concat (map message_bytes (ns @ ms))"
    by (metis append_assoc concat_append map_append)
  with Server ns assms(4) show ?thesis
    by (auto simp: client_inv_def intro!: exI [of _ "ns @ ms"])
qed

lemma reachable_client_inv:
  assumes "reads_pending ops pending" and "sends_keep_pending ops pending"
    and "reachable_client cfg ops storage pending c"
  shows "client_inv pending c"
  using assms(3)
proof (induction rule: reachable_client.induct)
  case (Connected sock)
  then show ?case
    by (auto simp: client_inv_def client_simps intro: exI [of _ "[]"])
next
  case (Step c c')
  with client_inv_step [OF assms(1,2)] show ?case by blast
qed

section \<open>Property\<close>

text \<open>
  C2: in every client reached by any interleaving of reserving ids, registering requests, flushing,
  receiving events and the server sending messages, the receive buffer begins at the beginning of a
  message, the assertion of the flush holds, and when bytes are pending \<open>recv_events\<close> returns a parser
  whose messages can all be parsed.
\<close>

theorem reachable_clients_are_sound:
  assumes "reads_pending ops pending" and "sends_keep_pending ops pending"
    and "reachable_client cfg ops storage pending c"
  shows "(\<exists>ms. list_all fits ms \<and> recv_buff c @ pending (server_sock c) = concat (map message_bytes ms)) \<and>
    (has_registered_requests c \<longrightarrow> length (fd_buff (request_buff c)) < length (buff (request_buff c))) \<and>
    (pending (server_sock c) \<noteq> [] \<longrightarrow>
      (\<exists>c' p ms. recv_events ops storage c = Some (c', Value p) \<and> message_generator p = (ms, Value ())))"
proof -
  have inv: "client_inv pending c" by (rule reachable_client_inv [OF assms])
  then have "\<exists>ms. list_all fits ms \<and> recv_buff c @ pending (server_sock c) = concat (map message_bytes ms)"
    using whole_wordsD(1) by (auto simp: client_inv_def)
  moreover have "has_registered_requests c \<longrightarrow> length (fd_buff (request_buff c)) < length (buff (request_buff c))"
    using inv fd_bound_less by (auto simp: client_inv_def has_registered_requests_def)
  ultimately show ?thesis using client_inv_receive [OF assms(1) inv] by blast
qed

theorem reachable_clients_are_sound_witness:
  "\<exists>c' p ms. recv_events list_socket_ops (\<lambda>_. 0)
      ((make_connected_client (list_socket []) :: (nat list_socket, nat) connected_client)
        \<lparr>server_sock := list_socket (concat (map message_bytes example_messages))\<rparr>) = Some (c', Value p) \<and>
    message_generator p = (ms, Value ())"
proof -
  let ?cfg = "\<lparr>ndebug = False, checked_subscript = True\<rparr>"
  let ?c = "(make_connected_client (list_socket []) :: (nat list_socket, nat) connected_client)
        \<lparr>server_sock := list_socket (concat (map message_bytes example_messages))\<rparr>"
  have keep: "sends_keep_pending list_socket_ops incoming"
    by (simp add: sends_keep_pending_def list_socket_ops_def)
  have "whole_words example_messages"
    by (simp add: whole_words_def example_messages_def fits_def)
  then have step: "client_step ?cfg list_socket_ops (\<lambda>_. 0) incoming (make_connected_client (list_socket [])) ?c"
    by (rule client_step.Server) (simp add: client_simps)
  have "reachable_client ?cfg list_socket_ops (\<lambda>_. 0) incoming
      (make_connected_client (list_socket []) :: (nat list_socket, nat) connected_client)"
    by (rule reachable_client.Connected) simp
  then have "reachable_client ?cfg list_socket_ops (\<lambda>_. 0) incoming ?c"
    using step by (rule reachable_client.Step)
  from reachable_clients_are_sound [OF list_socket_reads_pending keep this]
  have "incoming (server_sock ?c) \<noteq> [] \<longrightarrow>
      (\<exists>c' p ms. recv_events list_socket_ops (\<lambda>_. 0) ?c = Some (c', Value p) \<and> message_generator p = (ms, Value ()))"
    by blast
  then show ?thesis by (simp add: example_messages_def)
qed

end
