(* ===== verification/Protocol_Tables.thy ===== *)
theory Protocol_Tables
  imports Message_Utils
begin

text \<open>
  What a generated protocol header declares, as data: the interfaces with the names they
  forward-declare, the definitions of their enumerations and the definitions of their message
  structs. The theories of the protocol headers hold one value of these types per C++ declaration.
  A header is well-formed when every definition has its declaration and conversely, opcodes number
  the requests and the events of an interface in the order of their declaration, enumerators fit
  the underlying type, and messages are within the limits of the library that encodes them.
\<close>

section \<open>Declarations\<close>

text \<open>\<^verbatim>\<open>struct <interface> { enum class ...; struct request { ... }; struct event { ... }; };\<close>\<close>

record interface_decl =
  decl_name :: string
  decl_enums :: "(string \<times> underlying_type) list"
  decl_requests :: "string list"
  decl_events :: "string list"

text \<open>\<^verbatim>\<open>enum class <interface>::<name> : <underlying> { ... };\<close>\<close>

record enum_type =
  enum_interface :: string
  enum_name :: string
  enum_underlying :: underlying_type
  enumerators :: "(string \<times> int) list"

text \<open>An interface with the definitions of what it declares, and a header with its interfaces.\<close>

record interface_def =
  forward_decl :: interface_decl
  enum_definitions :: "enum_type list"
  request_messages :: "message_type list"
  event_messages :: "message_type list"

record protocol =
  protocol_name :: string
  protocol_interfaces :: "interface_def list"

fun messages_of :: "message_kind \<Rightarrow> interface_def \<Rightarrow> message_type list" where
  "messages_of Request I = request_messages I"
| "messages_of Event I = event_messages I"

fun declared_messages :: "message_kind \<Rightarrow> interface_decl \<Rightarrow> string list" where
  "declared_messages Request d = decl_requests d"
| "declared_messages Event d = decl_events d"

definition message_types :: "protocol \<Rightarrow> message_type list" where
  "message_types P = concat (map (\<lambda>I. request_messages I @ event_messages I) (protocol_interfaces P))"

section \<open>Well-formedness\<close>

fun fits_underlying :: "underlying_type \<Rightarrow> int \<Rightarrow> bool" where
  "fits_underlying Wint_underlying v = (- (2 ^ 31) \<le> v \<and> v < 2 ^ 31)"
| "fits_underlying Wuint_underlying v = (0 \<le> v \<and> v < 2 ^ 32)"

definition enum_ok :: "enum_type \<Rightarrow> bool" where
  "enum_ok E \<longleftrightarrow>
     enumerators E \<noteq> [] \<and> distinct (map fst (enumerators E)) \<and>
     list_all (\<lambda>(_, v). fits_underlying (enum_underlying E) v) (enumerators E)"

text \<open>
  The definitions of an interface are those it declares, in the order of the declaration, and the
  opcodes count the requests and the events from 0.
\<close>

fun opcodes_from :: "int \<Rightarrow> message_type list \<Rightarrow> bool" where
  "opcodes_from n [] = True"
| "opcodes_from n (M # Ms) = (uint (msg_opcode M) = n \<and> opcodes_from (n + 1) Ms)"

definition messages_ok :: "interface_def \<Rightarrow> message_kind \<Rightarrow> bool" where
  "messages_ok I k \<longleftrightarrow>
     (let Ms = messages_of k I
      in map msg_name Ms = declared_messages k (forward_decl I) \<and>
         opcodes_from 0 Ms \<and>
         distinct (declared_messages k (forward_decl I)) \<and>
         list_all (\<lambda>M. msg_kind M = k \<and>
             msg_interface M = protocol_interface (decl_name (forward_decl I))) Ms)"

definition interface_ok :: "interface_def \<Rightarrow> bool" where
  "interface_ok I \<longleftrightarrow>
     map (\<lambda>E. (enum_name E, enum_underlying E)) (enum_definitions I) = decl_enums (forward_decl I) \<and>
     distinct (map fst (decl_enums (forward_decl I))) \<and>
     list_all (\<lambda>E. enum_interface E = decl_name (forward_decl I) \<and> enum_ok E) (enum_definitions I) \<and>
     messages_ok I Request \<and> messages_ok I Event"

text \<open>The interfaces and enumerations a member's type names are declared by one of the headers.\<close>

definition interface_names :: "protocol \<Rightarrow> string list" where
  "interface_names P = map (\<lambda>I. decl_name (forward_decl I)) (protocol_interfaces P)"

definition enum_names :: "protocol \<Rightarrow> (string \<times> string \<times> underlying_type) list" where
  "enum_names P =
     concat (map (\<lambda>I. map (Pair (decl_name (forward_decl I))) (decl_enums (forward_decl I)))
       (protocol_interfaces P))"

definition declares :: "protocol \<Rightarrow> string \<Rightarrow> bool" where
  "declares P i \<longleftrightarrow> list_ex ((=) i) (interface_names P)"

definition declares_enum :: "protocol \<Rightarrow> string \<times> string \<times> underlying_type \<Rightarrow> bool" where
  "declares_enum P e \<longleftrightarrow> list_ex ((=) e) (enum_names P)"

fun field_ok :: "protocol list \<Rightarrow> arg_type \<Rightarrow> bool" where
  "field_ok Ps (TWobject (protocol_interface i)) = list_ex (\<lambda>P. declares P i) Ps"
| "field_ok Ps (TWnew_id (protocol_interface i)) = list_ex (\<lambda>P. declares P i) Ps"
| "field_ok Ps (TWenum u i n) = list_ex (\<lambda>P. declares_enum P (i, n, u)) Ps"
| "field_ok Ps _ = True"

text \<open>
  A new id of unknown interface comes with the name and the version of its interface before it.
\<close>

definition new_ids_ok :: "arg_type list \<Rightarrow> bool" where
  "new_ids_ok Ts \<longleftrightarrow>
     list_all (\<lambda>i. Ts ! i = TWnew_id generic_object \<longrightarrow>
         2 \<le> i \<and> Ts ! (i - 2) = TWstring \<and> Ts ! (i - 1) = TWuint) [0..<length Ts]"

definition fd_count :: "message_type \<Rightarrow> nat" where
  "fd_count M = length (filter ((=) TWfd) (field_types M))"

definition message_ok :: "protocol list \<Rightarrow> message_type \<Rightarrow> bool" where
  "message_ok Ps M \<longleftrightarrow>
     length (msg_fields M) \<le> 20 \<and> distinct (map fst (msg_fields M)) \<and>
     list_all (field_ok Ps) (field_types M) \<and> new_ids_ok (field_types M) \<and> fd_count M \<le> 1"

definition protocol_ok :: "protocol list \<Rightarrow> protocol \<Rightarrow> bool" where
  "protocol_ok Ps P \<longleftrightarrow>
     distinct (interface_names P) \<and>
     list_all interface_ok (protocol_interfaces P) \<and>
     list_all (message_ok Ps) (message_types P)"

section \<open>Consequences\<close>

named_theorems protocol_names

lemma all_declared: "list_all (declares P) (interface_names P)"
  by (simp add: list_all_iff declares_def list_ex_iff)

lemma all_declared_enums: "list_all (declares_enum P) (enum_names P)"
  by (simp add: list_all_iff declares_enum_def list_ex_iff)

lemma opcodes_from_nth:
  "opcodes_from n Ms \<Longrightarrow> i < length Ms \<Longrightarrow> uint (msg_opcode (Ms ! i)) = n + int i"
  by (induction n Ms arbitrary: i rule: opcodes_from.induct) (auto simp: nth_Cons split: nat.split)

lemma messages_ok_nth:
  assumes "messages_ok I k" and "i < length (messages_of k I)"
  shows "unat (msg_opcode (messages_of k I ! i)) = i"
proof -
  have "uint (msg_opcode (messages_of k I ! i)) = int i"
    using assms opcodes_from_nth [of 0 "messages_of k I" i] by (simp add: messages_ok_def Let_def)
  then show ?thesis by (metis nat_int nat_uint_eq)
qed

lemma messages_ok_opcodes:
  assumes "messages_ok I k"
  shows "distinct (map msg_opcode (messages_of k I))"
proof (unfold distinct_conv_nth length_map, intro allI impI)
  fix i j
  assume "i < length (messages_of k I)" and "j < length (messages_of k I)" and "i \<noteq> j"
  with messages_ok_nth [OF assms, of i] messages_ok_nth [OF assms, of j]
  show "map msg_opcode (messages_of k I) ! i \<noteq> map msg_opcode (messages_of k I) ! j" by auto
qed

lemma interface_ok_messages: "interface_ok I \<Longrightarrow> messages_ok I k"
  by (cases k) (simp_all add: interface_ok_def)

lemma protocol_okD:
  assumes "protocol_ok Ps P"
  shows "I \<in> set (protocol_interfaces P) \<Longrightarrow> interface_ok I"
    and "M \<in> set (message_types P) \<Longrightarrow> message_ok Ps M"
  using assms by (simp_all add: protocol_ok_def list_all_iff)

lemma message_types_iff:
  "M \<in> set (message_types P) \<longleftrightarrow> (\<exists>I \<in> set (protocol_interfaces P). \<exists>k. M \<in> set (messages_of k I))"
proof -
  have "(\<exists>k. M \<in> set (messages_of k I)) \<longleftrightarrow> M \<in> set (request_messages I @ event_messages I)" for I
    by (metis (full_types) Un_iff message_kind.exhaust messages_of.simps set_append)
  then show ?thesis by (simp add: message_types_def)
qed

lemma all_messages:
  "list_all Q (message_types P) \<longleftrightarrow>
     list_all (\<lambda>I. list_all Q (request_messages I) \<and> list_all Q (event_messages I)) (protocol_interfaces P)"
  by (auto simp: message_types_def list_all_iff)

lemma message_ok_limits:
  assumes "message_ok Ps M"
  shows "length (field_types M) \<le> 20" and "length (filter ((=) TWfd) (field_types M)) \<le> 1"
  using assms by (simp_all add: message_ok_def fd_count_def field_types_def)

end
