(* ===== verification/Wayland_Protocol.thy ===== *)
theory Wayland_Protocol
  imports Protocol_Tables
begin

text \<open>
  The declarations of \<^verbatim>\<open>wayland_protocol.hpp\<close>, in the order of the header: its interfaces with what they
  declare, then per interface the enumerations, the requests and the events.
\<close>

section \<open>Interfaces\<close>

definition wl_display_decl :: interface_decl where
  "wl_display_decl =
     \<lparr>decl_name = ''wl_display'',
      decl_enums = [(''error'', Wint_underlying)],
      decl_requests = [''sync'', ''get_registry''],
      decl_events = [''error'', ''delete_id'']\<rparr>"

definition wl_registry_decl :: interface_decl where
  "wl_registry_decl =
     \<lparr>decl_name = ''wl_registry'',
      decl_enums = [],
      decl_requests = [''bind''],
      decl_events = [''global'', ''global_remove'']\<rparr>"

definition wl_callback_decl :: interface_decl where
  "wl_callback_decl =
     \<lparr>decl_name = ''wl_callback'',
      decl_enums = [],
      decl_requests = [],
      decl_events = [''done'']\<rparr>"

definition wl_compositor_decl :: interface_decl where
  "wl_compositor_decl =
     \<lparr>decl_name = ''wl_compositor'',
      decl_enums = [],
      decl_requests = [''create_surface'', ''create_region''],
      decl_events = []\<rparr>"

definition wl_shm_pool_decl :: interface_decl where
  "wl_shm_pool_decl =
     \<lparr>decl_name = ''wl_shm_pool'',
      decl_enums = [],
      decl_requests = [''create_buffer'', ''destroy'', ''resize''],
      decl_events = []\<rparr>"

definition wl_shm_decl :: interface_decl where
  "wl_shm_decl =
     \<lparr>decl_name = ''wl_shm'',
      decl_enums = [(''error'', Wint_underlying), (''format'', Wint_underlying)],
      decl_requests = [''create_pool'', ''release''],
      decl_events = [''format'']\<rparr>"

definition wl_buffer_decl :: interface_decl where
  "wl_buffer_decl =
     \<lparr>decl_name = ''wl_buffer'',
      decl_enums = [],
      decl_requests = [''destroy''],
      decl_events = [''release'']\<rparr>"

definition wl_data_offer_decl :: interface_decl where
  "wl_data_offer_decl =
     \<lparr>decl_name = ''wl_data_offer'',
      decl_enums = [(''error'', Wint_underlying)],
      decl_requests = [''accept'', ''receive'', ''destroy'', ''finish'', ''set_actions''],
      decl_events = [''offer'', ''source_actions'', ''action'']\<rparr>"

definition wl_data_source_decl :: interface_decl where
  "wl_data_source_decl =
     \<lparr>decl_name = ''wl_data_source'',
      decl_enums = [(''error'', Wint_underlying)],
      decl_requests = [''offer'', ''destroy'', ''set_actions''],
      decl_events = [''target'', ''send'', ''cancelled'', ''dnd_drop_performed'', ''dnd_finished'',
                     ''action'']\<rparr>"

definition wl_data_device_decl :: interface_decl where
  "wl_data_device_decl =
     \<lparr>decl_name = ''wl_data_device'',
      decl_enums = [(''error'', Wint_underlying)],
      decl_requests = [''start_drag'', ''set_selection'', ''release''],
      decl_events = [''data_offer'', ''enter'', ''leave'', ''motion'', ''drop'', ''selection'']\<rparr>"

definition wl_data_device_manager_decl :: interface_decl where
  "wl_data_device_manager_decl =
     \<lparr>decl_name = ''wl_data_device_manager'',
      decl_enums = [(''dnd_action'', Wuint_underlying)],
      decl_requests = [''create_data_source'', ''get_data_device''],
      decl_events = []\<rparr>"

definition wl_shell_decl :: interface_decl where
  "wl_shell_decl =
     \<lparr>decl_name = ''wl_shell'',
      decl_enums = [(''error'', Wint_underlying)],
      decl_requests = [''get_shell_surface''],
      decl_events = []\<rparr>"

definition wl_shell_surface_decl :: interface_decl where
  "wl_shell_surface_decl =
     \<lparr>decl_name = ''wl_shell_surface'',
      decl_enums = [(''resize'', Wuint_underlying), (''transient'', Wuint_underlying),
                    (''fullscreen_method'', Wint_underlying)],
      decl_requests = [''pong'', ''move'', ''resize'', ''set_toplevel'', ''set_transient'',
                       ''set_fullscreen'', ''set_popup'', ''set_maximized'', ''set_title'',
                       ''set_class''],
      decl_events = [''ping'', ''configure'', ''popup_done'']\<rparr>"

definition wl_surface_decl :: interface_decl where
  "wl_surface_decl =
     \<lparr>decl_name = ''wl_surface'',
      decl_enums = [(''error'', Wint_underlying)],
      decl_requests = [''destroy'', ''attach'', ''damage'', ''frame'', ''set_opaque_region'',
                       ''set_input_region'', ''commit'', ''set_buffer_transform'',
                       ''set_buffer_scale'', ''damage_buffer'', ''offset''],
      decl_events = [''enter'', ''leave'', ''preferred_buffer_scale'',
                     ''preferred_buffer_transform'']\<rparr>"

definition wl_seat_decl :: interface_decl where
  "wl_seat_decl =
     \<lparr>decl_name = ''wl_seat'',
      decl_enums = [(''capability'', Wuint_underlying), (''error'', Wint_underlying)],
      decl_requests = [''get_pointer'', ''get_keyboard'', ''get_touch'', ''release''],
      decl_events = [''capabilities'', ''name'']\<rparr>"

definition wl_pointer_decl :: interface_decl where
  "wl_pointer_decl =
     \<lparr>decl_name = ''wl_pointer'',
      decl_enums = [(''error'', Wint_underlying), (''button_state'', Wint_underlying),
                    (''axis'', Wint_underlying), (''axis_source'', Wint_underlying),
                    (''axis_relative_direction'', Wint_underlying)],
      decl_requests = [''set_cursor'', ''release''],
      decl_events = [''enter'', ''leave'', ''motion'', ''button'', ''axis'', ''frame'',
                     ''axis_source'', ''axis_stop'', ''axis_discrete'', ''axis_value120'',
                     ''axis_relative_direction'']\<rparr>"

definition wl_keyboard_decl :: interface_decl where
  "wl_keyboard_decl =
     \<lparr>decl_name = ''wl_keyboard'',
      decl_enums = [(''keymap_format'', Wint_underlying), (''key_state'', Wint_underlying)],
      decl_requests = [''release''],
      decl_events = [''keymap'', ''enter'', ''leave'', ''key'', ''modifiers'', ''repeat_info'']\<rparr>"

definition wl_touch_decl :: interface_decl where
  "wl_touch_decl =
     \<lparr>decl_name = ''wl_touch'',
      decl_enums = [],
      decl_requests = [''release''],
      decl_events = [''down'', ''up'', ''motion'', ''frame'', ''cancel'', ''shape'',
                     ''orientation'']\<rparr>"

definition wl_output_decl :: interface_decl where
  "wl_output_decl =
     \<lparr>decl_name = ''wl_output'',
      decl_enums = [(''subpixel'', Wint_underlying), (''transform'', Wint_underlying),
                    (''mode'', Wuint_underlying)],
      decl_requests = [''release''],
      decl_events = [''geometry'', ''mode'', ''done'', ''scale'', ''name'', ''description'']\<rparr>"

definition wl_region_decl :: interface_decl where
  "wl_region_decl =
     \<lparr>decl_name = ''wl_region'',
      decl_enums = [],
      decl_requests = [''destroy'', ''add'', ''subtract''],
      decl_events = []\<rparr>"

definition wl_subcompositor_decl :: interface_decl where
  "wl_subcompositor_decl =
     \<lparr>decl_name = ''wl_subcompositor'',
      decl_enums = [(''error'', Wint_underlying)],
      decl_requests = [''destroy'', ''get_subsurface''],
      decl_events = []\<rparr>"

definition wl_subsurface_decl :: interface_decl where
  "wl_subsurface_decl =
     \<lparr>decl_name = ''wl_subsurface'',
      decl_enums = [(''error'', Wint_underlying)],
      decl_requests = [''destroy'', ''set_position'', ''place_above'', ''place_below'',
                       ''set_sync'', ''set_desync''],
      decl_events = []\<rparr>"

definition wl_fixes_decl :: interface_decl where
  "wl_fixes_decl =
     \<lparr>decl_name = ''wl_fixes'',
      decl_enums = [],
      decl_requests = [''destroy'', ''destroy_registry''],
      decl_events = []\<rparr>"

section \<open>\<^verbatim>\<open>wl_display\<close>\<close>

definition wl_display_enum_error :: enum_type where
  "wl_display_enum_error =
     \<lparr>enum_interface = ''wl_display'', enum_name = ''error'', enum_underlying = Wint_underlying,
      enumerators = [(''Einvalid_object'', 0), (''Einvalid_method'', 1), (''Eno_memory'', 2),
                     (''Eimplementation'', 3)]\<rparr>"

definition wl_display_request_sync :: message_type where
  "wl_display_request_sync =
     \<lparr>msg_interface = protocol_interface ''wl_display'', msg_kind = Request, msg_name = ''sync'',
      msg_opcode = 0,
      msg_fields = [(''callback'', TWnew_id (protocol_interface ''wl_callback''))]\<rparr>"

definition wl_display_request_get_registry :: message_type where
  "wl_display_request_get_registry =
     \<lparr>msg_interface = protocol_interface ''wl_display'', msg_kind = Request, msg_name = ''get_registry'',
      msg_opcode = 1,
      msg_fields = [(''registry'', TWnew_id (protocol_interface ''wl_registry''))]\<rparr>"

definition wl_display_event_error :: message_type where
  "wl_display_event_error =
     \<lparr>msg_interface = protocol_interface ''wl_display'', msg_kind = Event, msg_name = ''error'',
      msg_opcode = 0,
      msg_fields = [(''object_id'', TWobject generic_object), (''code'', TWuint),
                    (''message'', TWstring)]\<rparr>"

definition wl_display_event_delete_id :: message_type where
  "wl_display_event_delete_id =
     \<lparr>msg_interface = protocol_interface ''wl_display'', msg_kind = Event, msg_name = ''delete_id'',
      msg_opcode = 1,
      msg_fields = [(''id'', TWuint)]\<rparr>"

section \<open>\<^verbatim>\<open>wl_registry\<close>\<close>

definition wl_registry_request_bind :: message_type where
  "wl_registry_request_bind =
     \<lparr>msg_interface = protocol_interface ''wl_registry'', msg_kind = Request, msg_name = ''bind'',
      msg_opcode = 0,
      msg_fields = [(''name'', TWuint), (''new_id_interface'', TWstring),
                    (''new_id_interface_version'', TWuint), (''id'', TWnew_id generic_object)]\<rparr>"

definition wl_registry_event_global :: message_type where
  "wl_registry_event_global =
     \<lparr>msg_interface = protocol_interface ''wl_registry'', msg_kind = Event, msg_name = ''global'',
      msg_opcode = 0,
      msg_fields = [(''name'', TWuint), (''interface'', TWstring), (''version'', TWuint)]\<rparr>"

definition wl_registry_event_global_remove :: message_type where
  "wl_registry_event_global_remove =
     \<lparr>msg_interface = protocol_interface ''wl_registry'', msg_kind = Event, msg_name = ''global_remove'',
      msg_opcode = 1,
      msg_fields = [(''name'', TWuint)]\<rparr>"

section \<open>\<^verbatim>\<open>wl_callback\<close>\<close>

definition wl_callback_event_done :: message_type where
  "wl_callback_event_done =
     \<lparr>msg_interface = protocol_interface ''wl_callback'', msg_kind = Event, msg_name = ''done'',
      msg_opcode = 0,
      msg_fields = [(''callback_data'', TWuint)]\<rparr>"

section \<open>\<^verbatim>\<open>wl_compositor\<close>\<close>

definition wl_compositor_request_create_surface :: message_type where
  "wl_compositor_request_create_surface =
     \<lparr>msg_interface = protocol_interface ''wl_compositor'', msg_kind = Request, msg_name = ''create_surface'',
      msg_opcode = 0,
      msg_fields = [(''id'', TWnew_id (protocol_interface ''wl_surface''))]\<rparr>"

definition wl_compositor_request_create_region :: message_type where
  "wl_compositor_request_create_region =
     \<lparr>msg_interface = protocol_interface ''wl_compositor'', msg_kind = Request, msg_name = ''create_region'',
      msg_opcode = 1,
      msg_fields = [(''id'', TWnew_id (protocol_interface ''wl_region''))]\<rparr>"

section \<open>\<^verbatim>\<open>wl_shm_pool\<close>\<close>

definition wl_shm_pool_request_create_buffer :: message_type where
  "wl_shm_pool_request_create_buffer =
     \<lparr>msg_interface = protocol_interface ''wl_shm_pool'', msg_kind = Request, msg_name = ''create_buffer'',
      msg_opcode = 0,
      msg_fields = [(''id'', TWnew_id (protocol_interface ''wl_buffer'')), (''offset'', TWint),
                    (''width'', TWint), (''height'', TWint), (''stride'', TWint),
                    (''format'', TWenum Wint_underlying ''wl_shm'' ''format'')]\<rparr>"

definition wl_shm_pool_request_destroy :: message_type where
  "wl_shm_pool_request_destroy =
     \<lparr>msg_interface = protocol_interface ''wl_shm_pool'', msg_kind = Request, msg_name = ''destroy'',
      msg_opcode = 1,
      msg_fields = []\<rparr>"

definition wl_shm_pool_request_resize :: message_type where
  "wl_shm_pool_request_resize =
     \<lparr>msg_interface = protocol_interface ''wl_shm_pool'', msg_kind = Request, msg_name = ''resize'',
      msg_opcode = 2,
      msg_fields = [(''size'', TWint)]\<rparr>"

section \<open>\<^verbatim>\<open>wl_shm\<close>\<close>

definition wl_shm_enum_error :: enum_type where
  "wl_shm_enum_error =
     \<lparr>enum_interface = ''wl_shm'', enum_name = ''error'', enum_underlying = Wint_underlying,
      enumerators = [(''Einvalid_format'', 0), (''Einvalid_stride'', 1), (''Einvalid_fd'', 2)]\<rparr>"

definition wl_shm_enum_format_low :: "(string \<times> int) list" where
  "wl_shm_enum_format_low =
     [(''Eargb8888'', 0), (''Exrgb8888'', 1), (''Ec8'', 538982467), (''Ergb332'', 943867730),
      (''Ebgr233'', 944916290), (''Exrgb4444'', 842093144), (''Exbgr4444'', 842089048),
      (''Ergbx4444'', 842094674), (''Ebgrx4444'', 842094658), (''Eargb4444'', 842093121),
      (''Eabgr4444'', 842089025), (''Ergba4444'', 842088786), (''Ebgra4444'', 842088770),
      (''Exrgb1555'', 892424792), (''Exbgr1555'', 892420696), (''Ergbx5551'', 892426322),
      (''Ebgrx5551'', 892426306), (''Eargb1555'', 892424769), (''Eabgr1555'', 892420673),
      (''Ergba5551'', 892420434), (''Ebgra5551'', 892420418), (''Ergb565'', 909199186),
      (''Ebgr565'', 909199170), (''Ergb888'', 875710290), (''Ebgr888'', 875710274),
      (''Exbgr8888'', 875709016), (''Ergbx8888'', 875714642), (''Ebgrx8888'', 875714626),
      (''Eabgr8888'', 875708993), (''Ergba8888'', 875708754), (''Ebgra8888'', 875708738),
      (''Exrgb2101010'', 808669784), (''Exbgr2101010'', 808665688), (''Ergbx1010102'', 808671314),
      (''Ebgrx1010102'', 808671298), (''Eargb2101010'', 808669761), (''Eabgr2101010'', 808665665),
      (''Ergba1010102'', 808665426), (''Ebgra1010102'', 808665410), (''Eyuyv'', 1448695129),
      (''Eyvyu'', 1431918169), (''Euyvy'', 1498831189), (''Evyuy'', 1498765654),
      (''Eayuv'', 1448433985), (''Env12'', 842094158), (''Env21'', 825382478),
      (''Env16'', 909203022), (''Env61'', 825644622), (''Eyuv410'', 961959257),
      (''Eyvu410'', 961893977), (''Eyuv411'', 825316697), (''Eyvu411'', 825316953),
      (''Eyuv420'', 842093913), (''Eyvu420'', 842094169), (''Eyuv422'', 909202777)]"

definition wl_shm_enum_format_high :: "(string \<times> int) list" where
  "wl_shm_enum_format_high =
     [(''Eyvu422'', 909203033), (''Eyuv444'', 875713881), (''Eyvu444'', 875714137),
      (''Er8'', 538982482), (''Er16'', 540422482), (''Erg88'', 943212370), (''Egr88'', 943215175),
      (''Erg1616'', 842221394), (''Egr1616'', 842224199), (''Exrgb16161616f'', 1211388504),
      (''Exbgr16161616f'', 1211384408), (''Eargb16161616f'', 1211388481),
      (''Eabgr16161616f'', 1211384385), (''Exyuv8888'', 1448434008), (''Evuy888'', 875713878),
      (''Evuy101010'', 808670550), (''Ey210'', 808530521), (''Ey212'', 842084953),
      (''Ey216'', 909193817), (''Ey410'', 808531033), (''Ey412'', 842085465),
      (''Ey416'', 909194329), (''Exvyu2101010'', 808670808), (''Exvyu12_16161616'', 909334104),
      (''Exvyu16161616'', 942954072), (''Ey0l0'', 810299481), (''Ex0l0'', 810299480),
      (''Ey0l2'', 843853913), (''Ex0l2'', 843853912), (''Eyuv420_8bit'', 942691673),
      (''Eyuv420_10bit'', 808539481), (''Exrgb8888_a8'', 943805016), (''Exbgr8888_a8'', 943800920),
      (''Ergbx8888_a8'', 943806546), (''Ebgrx8888_a8'', 943806530), (''Ergb888_a8'', 943798354),
      (''Ebgr888_a8'', 943798338), (''Ergb565_a8'', 943797586), (''Ebgr565_a8'', 943797570),
      (''Env24'', 875714126), (''Env42'', 842290766), (''Ep210'', 808530512),
      (''Ep010'', 808530000), (''Ep012'', 842084432), (''Ep016'', 909193296),
      (''Eaxbxgxrx106106106106'', 808534593), (''Env15'', 892425806), (''Eq410'', 808531025),
      (''Eq401'', 825242705), (''Exrgb16161616'', 942953048), (''Exbgr16161616'', 942948952),
      (''Eargb16161616'', 942953025), (''Eabgr16161616'', 942948929), (''Ec1'', 538980675),
      (''Ec2'', 538980931), (''Ec4'', 538981443), (''Ed1'', 538980676), (''Ed2'', 538980932),
      (''Ed4'', 538981444), (''Ed8'', 538982468), (''Er1'', 538980690), (''Er2'', 538980946),
      (''Er4'', 538981458), (''Er10'', 540029266), (''Er12'', 540160338),
      (''Eavuy8888'', 1498764865), (''Exvuy8888'', 1498764888), (''Ep030'', 808661072)]"

definition wl_shm_enum_format :: enum_type where
  "wl_shm_enum_format =
     \<lparr>enum_interface = ''wl_shm'', enum_name = ''format'', enum_underlying = Wint_underlying,
      enumerators = wl_shm_enum_format_low @ wl_shm_enum_format_high\<rparr>"

definition wl_shm_request_create_pool :: message_type where
  "wl_shm_request_create_pool =
     \<lparr>msg_interface = protocol_interface ''wl_shm'', msg_kind = Request, msg_name = ''create_pool'',
      msg_opcode = 0,
      msg_fields = [(''id'', TWnew_id (protocol_interface ''wl_shm_pool'')), (''fd'', TWfd),
                    (''size'', TWint)]\<rparr>"

definition wl_shm_request_release :: message_type where
  "wl_shm_request_release =
     \<lparr>msg_interface = protocol_interface ''wl_shm'', msg_kind = Request, msg_name = ''release'',
      msg_opcode = 1,
      msg_fields = []\<rparr>"

definition wl_shm_event_format :: message_type where
  "wl_shm_event_format =
     \<lparr>msg_interface = protocol_interface ''wl_shm'', msg_kind = Event, msg_name = ''format'',
      msg_opcode = 0,
      msg_fields = [(''format'', TWenum Wint_underlying ''wl_shm'' ''format'')]\<rparr>"

section \<open>\<^verbatim>\<open>wl_buffer\<close>\<close>

definition wl_buffer_request_destroy :: message_type where
  "wl_buffer_request_destroy =
     \<lparr>msg_interface = protocol_interface ''wl_buffer'', msg_kind = Request, msg_name = ''destroy'',
      msg_opcode = 0,
      msg_fields = []\<rparr>"

definition wl_buffer_event_release :: message_type where
  "wl_buffer_event_release =
     \<lparr>msg_interface = protocol_interface ''wl_buffer'', msg_kind = Event, msg_name = ''release'',
      msg_opcode = 0,
      msg_fields = []\<rparr>"

section \<open>\<^verbatim>\<open>wl_data_offer\<close>\<close>

definition wl_data_offer_enum_error :: enum_type where
  "wl_data_offer_enum_error =
     \<lparr>enum_interface = ''wl_data_offer'', enum_name = ''error'', enum_underlying = Wint_underlying,
      enumerators = [(''Einvalid_finish'', 0), (''Einvalid_action_mask'', 1),
                     (''Einvalid_action'', 2), (''Einvalid_offer'', 3)]\<rparr>"

definition wl_data_offer_request_accept :: message_type where
  "wl_data_offer_request_accept =
     \<lparr>msg_interface = protocol_interface ''wl_data_offer'', msg_kind = Request, msg_name = ''accept'',
      msg_opcode = 0,
      msg_fields = [(''serial'', TWuint), (''mime_type'', TWstring)]\<rparr>"

definition wl_data_offer_request_receive :: message_type where
  "wl_data_offer_request_receive =
     \<lparr>msg_interface = protocol_interface ''wl_data_offer'', msg_kind = Request, msg_name = ''receive'',
      msg_opcode = 1,
      msg_fields = [(''mime_type'', TWstring), (''fd'', TWfd)]\<rparr>"

definition wl_data_offer_request_destroy :: message_type where
  "wl_data_offer_request_destroy =
     \<lparr>msg_interface = protocol_interface ''wl_data_offer'', msg_kind = Request, msg_name = ''destroy'',
      msg_opcode = 2,
      msg_fields = []\<rparr>"

definition wl_data_offer_request_finish :: message_type where
  "wl_data_offer_request_finish =
     \<lparr>msg_interface = protocol_interface ''wl_data_offer'', msg_kind = Request, msg_name = ''finish'',
      msg_opcode = 3,
      msg_fields = []\<rparr>"

definition wl_data_offer_request_set_actions :: message_type where
  "wl_data_offer_request_set_actions =
     \<lparr>msg_interface = protocol_interface ''wl_data_offer'', msg_kind = Request, msg_name = ''set_actions'',
      msg_opcode = 4,
      msg_fields = [(''dnd_actions'', TWenum Wuint_underlying ''wl_data_device_manager'' ''dnd_action''),
                    (''preferred_action'', TWenum Wuint_underlying ''wl_data_device_manager'' ''dnd_action'')]\<rparr>"

definition wl_data_offer_event_offer :: message_type where
  "wl_data_offer_event_offer =
     \<lparr>msg_interface = protocol_interface ''wl_data_offer'', msg_kind = Event, msg_name = ''offer'',
      msg_opcode = 0,
      msg_fields = [(''mime_type'', TWstring)]\<rparr>"

definition wl_data_offer_event_source_actions :: message_type where
  "wl_data_offer_event_source_actions =
     \<lparr>msg_interface = protocol_interface ''wl_data_offer'', msg_kind = Event, msg_name = ''source_actions'',
      msg_opcode = 1,
      msg_fields = [(''source_actions'', TWenum Wuint_underlying ''wl_data_device_manager'' ''dnd_action'')]\<rparr>"

definition wl_data_offer_event_action :: message_type where
  "wl_data_offer_event_action =
     \<lparr>msg_interface = protocol_interface ''wl_data_offer'', msg_kind = Event, msg_name = ''action'',
      msg_opcode = 2,
      msg_fields = [(''dnd_action'', TWenum Wuint_underlying ''wl_data_device_manager'' ''dnd_action'')]\<rparr>"

section \<open>\<^verbatim>\<open>wl_data_source\<close>\<close>

definition wl_data_source_enum_error :: enum_type where
  "wl_data_source_enum_error =
     \<lparr>enum_interface = ''wl_data_source'', enum_name = ''error'', enum_underlying = Wint_underlying,
      enumerators = [(''Einvalid_action_mask'', 0), (''Einvalid_source'', 1)]\<rparr>"

definition wl_data_source_request_offer :: message_type where
  "wl_data_source_request_offer =
     \<lparr>msg_interface = protocol_interface ''wl_data_source'', msg_kind = Request, msg_name = ''offer'',
      msg_opcode = 0,
      msg_fields = [(''mime_type'', TWstring)]\<rparr>"

definition wl_data_source_request_destroy :: message_type where
  "wl_data_source_request_destroy =
     \<lparr>msg_interface = protocol_interface ''wl_data_source'', msg_kind = Request, msg_name = ''destroy'',
      msg_opcode = 1,
      msg_fields = []\<rparr>"

definition wl_data_source_request_set_actions :: message_type where
  "wl_data_source_request_set_actions =
     \<lparr>msg_interface = protocol_interface ''wl_data_source'', msg_kind = Request, msg_name = ''set_actions'',
      msg_opcode = 2,
      msg_fields = [(''dnd_actions'', TWenum Wuint_underlying ''wl_data_device_manager'' ''dnd_action'')]\<rparr>"

definition wl_data_source_event_target :: message_type where
  "wl_data_source_event_target =
     \<lparr>msg_interface = protocol_interface ''wl_data_source'', msg_kind = Event, msg_name = ''target'',
      msg_opcode = 0,
      msg_fields = [(''mime_type'', TWstring)]\<rparr>"

definition wl_data_source_event_send :: message_type where
  "wl_data_source_event_send =
     \<lparr>msg_interface = protocol_interface ''wl_data_source'', msg_kind = Event, msg_name = ''send'',
      msg_opcode = 1,
      msg_fields = [(''mime_type'', TWstring), (''fd'', TWfd)]\<rparr>"

definition wl_data_source_event_cancelled :: message_type where
  "wl_data_source_event_cancelled =
     \<lparr>msg_interface = protocol_interface ''wl_data_source'', msg_kind = Event, msg_name = ''cancelled'',
      msg_opcode = 2,
      msg_fields = []\<rparr>"

definition wl_data_source_event_dnd_drop_performed :: message_type where
  "wl_data_source_event_dnd_drop_performed =
     \<lparr>msg_interface = protocol_interface ''wl_data_source'', msg_kind = Event, msg_name = ''dnd_drop_performed'',
      msg_opcode = 3,
      msg_fields = []\<rparr>"

definition wl_data_source_event_dnd_finished :: message_type where
  "wl_data_source_event_dnd_finished =
     \<lparr>msg_interface = protocol_interface ''wl_data_source'', msg_kind = Event, msg_name = ''dnd_finished'',
      msg_opcode = 4,
      msg_fields = []\<rparr>"

definition wl_data_source_event_action :: message_type where
  "wl_data_source_event_action =
     \<lparr>msg_interface = protocol_interface ''wl_data_source'', msg_kind = Event, msg_name = ''action'',
      msg_opcode = 5,
      msg_fields = [(''dnd_action'', TWenum Wuint_underlying ''wl_data_device_manager'' ''dnd_action'')]\<rparr>"

section \<open>\<^verbatim>\<open>wl_data_device\<close>\<close>

definition wl_data_device_enum_error :: enum_type where
  "wl_data_device_enum_error =
     \<lparr>enum_interface = ''wl_data_device'', enum_name = ''error'', enum_underlying = Wint_underlying,
      enumerators = [(''Erole'', 0), (''Eused_source'', 1)]\<rparr>"

definition wl_data_device_request_start_drag :: message_type where
  "wl_data_device_request_start_drag =
     \<lparr>msg_interface = protocol_interface ''wl_data_device'', msg_kind = Request, msg_name = ''start_drag'',
      msg_opcode = 0,
      msg_fields = [(''source'', TWobject (protocol_interface ''wl_data_source'')),
                    (''origin'', TWobject (protocol_interface ''wl_surface'')),
                    (''icon'', TWobject (protocol_interface ''wl_surface'')), (''serial'', TWuint)]\<rparr>"

definition wl_data_device_request_set_selection :: message_type where
  "wl_data_device_request_set_selection =
     \<lparr>msg_interface = protocol_interface ''wl_data_device'', msg_kind = Request, msg_name = ''set_selection'',
      msg_opcode = 1,
      msg_fields = [(''source'', TWobject (protocol_interface ''wl_data_source'')),
                    (''serial'', TWuint)]\<rparr>"

definition wl_data_device_request_release :: message_type where
  "wl_data_device_request_release =
     \<lparr>msg_interface = protocol_interface ''wl_data_device'', msg_kind = Request, msg_name = ''release'',
      msg_opcode = 2,
      msg_fields = []\<rparr>"

definition wl_data_device_event_data_offer :: message_type where
  "wl_data_device_event_data_offer =
     \<lparr>msg_interface = protocol_interface ''wl_data_device'', msg_kind = Event, msg_name = ''data_offer'',
      msg_opcode = 0,
      msg_fields = [(''id'', TWnew_id (protocol_interface ''wl_data_offer''))]\<rparr>"

definition wl_data_device_event_enter :: message_type where
  "wl_data_device_event_enter =
     \<lparr>msg_interface = protocol_interface ''wl_data_device'', msg_kind = Event, msg_name = ''enter'',
      msg_opcode = 1,
      msg_fields = [(''serial'', TWuint),
                    (''surface'', TWobject (protocol_interface ''wl_surface'')), (''x'', TWfixed),
                    (''y'', TWfixed), (''id'', TWobject (protocol_interface ''wl_data_offer''))]\<rparr>"

definition wl_data_device_event_leave :: message_type where
  "wl_data_device_event_leave =
     \<lparr>msg_interface = protocol_interface ''wl_data_device'', msg_kind = Event, msg_name = ''leave'',
      msg_opcode = 2,
      msg_fields = []\<rparr>"

definition wl_data_device_event_motion :: message_type where
  "wl_data_device_event_motion =
     \<lparr>msg_interface = protocol_interface ''wl_data_device'', msg_kind = Event, msg_name = ''motion'',
      msg_opcode = 3,
      msg_fields = [(''time'', TWuint), (''x'', TWfixed), (''y'', TWfixed)]\<rparr>"

definition wl_data_device_event_drop :: message_type where
  "wl_data_device_event_drop =
     \<lparr>msg_interface = protocol_interface ''wl_data_device'', msg_kind = Event, msg_name = ''drop'',
      msg_opcode = 4,
      msg_fields = []\<rparr>"

definition wl_data_device_event_selection :: message_type where
  "wl_data_device_event_selection =
     \<lparr>msg_interface = protocol_interface ''wl_data_device'', msg_kind = Event, msg_name = ''selection'',
      msg_opcode = 5,
      msg_fields = [(''id'', TWobject (protocol_interface ''wl_data_offer''))]\<rparr>"

section \<open>\<^verbatim>\<open>wl_data_device_manager\<close>\<close>

definition wl_data_device_manager_enum_dnd_action :: enum_type where
  "wl_data_device_manager_enum_dnd_action =
     \<lparr>enum_interface = ''wl_data_device_manager'', enum_name = ''dnd_action'', enum_underlying = Wuint_underlying,
      enumerators = [(''Enone'', 0), (''Ecopy'', 1), (''Emove'', 2), (''Eask'', 4)]\<rparr>"

definition wl_data_device_manager_request_create_data_source :: message_type where
  "wl_data_device_manager_request_create_data_source =
     \<lparr>msg_interface = protocol_interface ''wl_data_device_manager'', msg_kind = Request, msg_name = ''create_data_source'',
      msg_opcode = 0,
      msg_fields = [(''id'', TWnew_id (protocol_interface ''wl_data_source''))]\<rparr>"

definition wl_data_device_manager_request_get_data_device :: message_type where
  "wl_data_device_manager_request_get_data_device =
     \<lparr>msg_interface = protocol_interface ''wl_data_device_manager'', msg_kind = Request, msg_name = ''get_data_device'',
      msg_opcode = 1,
      msg_fields = [(''id'', TWnew_id (protocol_interface ''wl_data_device'')),
                    (''seat'', TWobject (protocol_interface ''wl_seat''))]\<rparr>"

section \<open>\<^verbatim>\<open>wl_shell\<close>\<close>

definition wl_shell_enum_error :: enum_type where
  "wl_shell_enum_error =
     \<lparr>enum_interface = ''wl_shell'', enum_name = ''error'', enum_underlying = Wint_underlying,
      enumerators = [(''Erole'', 0)]\<rparr>"

definition wl_shell_request_get_shell_surface :: message_type where
  "wl_shell_request_get_shell_surface =
     \<lparr>msg_interface = protocol_interface ''wl_shell'', msg_kind = Request, msg_name = ''get_shell_surface'',
      msg_opcode = 0,
      msg_fields = [(''id'', TWnew_id (protocol_interface ''wl_shell_surface'')),
                    (''surface'', TWobject (protocol_interface ''wl_surface''))]\<rparr>"

section \<open>\<^verbatim>\<open>wl_shell_surface\<close>\<close>

definition wl_shell_surface_enum_resize :: enum_type where
  "wl_shell_surface_enum_resize =
     \<lparr>enum_interface = ''wl_shell_surface'', enum_name = ''resize'', enum_underlying = Wuint_underlying,
      enumerators = [(''Enone'', 0), (''Etop'', 1), (''Ebottom'', 2), (''Eleft'', 4),
                     (''Etop_left'', 5), (''Ebottom_left'', 6), (''Eright'', 8),
                     (''Etop_right'', 9), (''Ebottom_right'', 10)]\<rparr>"

definition wl_shell_surface_enum_transient :: enum_type where
  "wl_shell_surface_enum_transient =
     \<lparr>enum_interface = ''wl_shell_surface'', enum_name = ''transient'', enum_underlying = Wuint_underlying,
      enumerators = [(''Einactive'', 1)]\<rparr>"

definition wl_shell_surface_enum_fullscreen_method :: enum_type where
  "wl_shell_surface_enum_fullscreen_method =
     \<lparr>enum_interface = ''wl_shell_surface'', enum_name = ''fullscreen_method'', enum_underlying = Wint_underlying,
      enumerators = [(''Edefault'', 0), (''Escale'', 1), (''Edriver'', 2), (''Efill'', 3)]\<rparr>"

definition wl_shell_surface_request_pong :: message_type where
  "wl_shell_surface_request_pong =
     \<lparr>msg_interface = protocol_interface ''wl_shell_surface'', msg_kind = Request, msg_name = ''pong'',
      msg_opcode = 0,
      msg_fields = [(''serial'', TWuint)]\<rparr>"

definition wl_shell_surface_request_move :: message_type where
  "wl_shell_surface_request_move =
     \<lparr>msg_interface = protocol_interface ''wl_shell_surface'', msg_kind = Request, msg_name = ''move'',
      msg_opcode = 1,
      msg_fields = [(''seat'', TWobject (protocol_interface ''wl_seat'')), (''serial'', TWuint)]\<rparr>"

definition wl_shell_surface_request_resize :: message_type where
  "wl_shell_surface_request_resize =
     \<lparr>msg_interface = protocol_interface ''wl_shell_surface'', msg_kind = Request, msg_name = ''resize'',
      msg_opcode = 2,
      msg_fields = [(''seat'', TWobject (protocol_interface ''wl_seat'')), (''serial'', TWuint),
                    (''edges'', TWenum Wuint_underlying ''wl_shell_surface'' ''resize'')]\<rparr>"

definition wl_shell_surface_request_set_toplevel :: message_type where
  "wl_shell_surface_request_set_toplevel =
     \<lparr>msg_interface = protocol_interface ''wl_shell_surface'', msg_kind = Request, msg_name = ''set_toplevel'',
      msg_opcode = 3,
      msg_fields = []\<rparr>"

definition wl_shell_surface_request_set_transient :: message_type where
  "wl_shell_surface_request_set_transient =
     \<lparr>msg_interface = protocol_interface ''wl_shell_surface'', msg_kind = Request, msg_name = ''set_transient'',
      msg_opcode = 4,
      msg_fields = [(''parent'', TWobject (protocol_interface ''wl_surface'')), (''x'', TWint),
                    (''y'', TWint),
                    (''flags'', TWenum Wuint_underlying ''wl_shell_surface'' ''transient'')]\<rparr>"

definition wl_shell_surface_request_set_fullscreen :: message_type where
  "wl_shell_surface_request_set_fullscreen =
     \<lparr>msg_interface = protocol_interface ''wl_shell_surface'', msg_kind = Request, msg_name = ''set_fullscreen'',
      msg_opcode = 5,
      msg_fields = [(''method'', TWenum Wint_underlying ''wl_shell_surface'' ''fullscreen_method''),
                    (''framerate'', TWuint),
                    (''output'', TWobject (protocol_interface ''wl_output''))]\<rparr>"

definition wl_shell_surface_request_set_popup :: message_type where
  "wl_shell_surface_request_set_popup =
     \<lparr>msg_interface = protocol_interface ''wl_shell_surface'', msg_kind = Request, msg_name = ''set_popup'',
      msg_opcode = 6,
      msg_fields = [(''seat'', TWobject (protocol_interface ''wl_seat'')), (''serial'', TWuint),
                    (''parent'', TWobject (protocol_interface ''wl_surface'')), (''x'', TWint),
                    (''y'', TWint),
                    (''flags'', TWenum Wuint_underlying ''wl_shell_surface'' ''transient'')]\<rparr>"

definition wl_shell_surface_request_set_maximized :: message_type where
  "wl_shell_surface_request_set_maximized =
     \<lparr>msg_interface = protocol_interface ''wl_shell_surface'', msg_kind = Request, msg_name = ''set_maximized'',
      msg_opcode = 7,
      msg_fields = [(''output'', TWobject (protocol_interface ''wl_output''))]\<rparr>"

definition wl_shell_surface_request_set_title :: message_type where
  "wl_shell_surface_request_set_title =
     \<lparr>msg_interface = protocol_interface ''wl_shell_surface'', msg_kind = Request, msg_name = ''set_title'',
      msg_opcode = 8,
      msg_fields = [(''title'', TWstring)]\<rparr>"

definition wl_shell_surface_request_set_class :: message_type where
  "wl_shell_surface_request_set_class =
     \<lparr>msg_interface = protocol_interface ''wl_shell_surface'', msg_kind = Request, msg_name = ''set_class'',
      msg_opcode = 9,
      msg_fields = [(''class_'', TWstring)]\<rparr>"

definition wl_shell_surface_event_ping :: message_type where
  "wl_shell_surface_event_ping =
     \<lparr>msg_interface = protocol_interface ''wl_shell_surface'', msg_kind = Event, msg_name = ''ping'',
      msg_opcode = 0,
      msg_fields = [(''serial'', TWuint)]\<rparr>"

definition wl_shell_surface_event_configure :: message_type where
  "wl_shell_surface_event_configure =
     \<lparr>msg_interface = protocol_interface ''wl_shell_surface'', msg_kind = Event, msg_name = ''configure'',
      msg_opcode = 1,
      msg_fields = [(''edges'', TWenum Wuint_underlying ''wl_shell_surface'' ''resize''),
                    (''width'', TWint), (''height'', TWint)]\<rparr>"

definition wl_shell_surface_event_popup_done :: message_type where
  "wl_shell_surface_event_popup_done =
     \<lparr>msg_interface = protocol_interface ''wl_shell_surface'', msg_kind = Event, msg_name = ''popup_done'',
      msg_opcode = 2,
      msg_fields = []\<rparr>"

section \<open>\<^verbatim>\<open>wl_surface\<close>\<close>

definition wl_surface_enum_error :: enum_type where
  "wl_surface_enum_error =
     \<lparr>enum_interface = ''wl_surface'', enum_name = ''error'', enum_underlying = Wint_underlying,
      enumerators = [(''Einvalid_scale'', 0), (''Einvalid_transform'', 1), (''Einvalid_size'', 2),
                     (''Einvalid_offset'', 3), (''Edefunct_role_object'', 4)]\<rparr>"

definition wl_surface_request_destroy :: message_type where
  "wl_surface_request_destroy =
     \<lparr>msg_interface = protocol_interface ''wl_surface'', msg_kind = Request, msg_name = ''destroy'',
      msg_opcode = 0,
      msg_fields = []\<rparr>"

definition wl_surface_request_attach :: message_type where
  "wl_surface_request_attach =
     \<lparr>msg_interface = protocol_interface ''wl_surface'', msg_kind = Request, msg_name = ''attach'',
      msg_opcode = 1,
      msg_fields = [(''buffer'', TWobject (protocol_interface ''wl_buffer'')), (''x'', TWint),
                    (''y'', TWint)]\<rparr>"

definition wl_surface_request_damage :: message_type where
  "wl_surface_request_damage =
     \<lparr>msg_interface = protocol_interface ''wl_surface'', msg_kind = Request, msg_name = ''damage'',
      msg_opcode = 2,
      msg_fields = [(''x'', TWint), (''y'', TWint), (''width'', TWint), (''height'', TWint)]\<rparr>"

definition wl_surface_request_frame :: message_type where
  "wl_surface_request_frame =
     \<lparr>msg_interface = protocol_interface ''wl_surface'', msg_kind = Request, msg_name = ''frame'',
      msg_opcode = 3,
      msg_fields = [(''callback'', TWnew_id (protocol_interface ''wl_callback''))]\<rparr>"

definition wl_surface_request_set_opaque_region :: message_type where
  "wl_surface_request_set_opaque_region =
     \<lparr>msg_interface = protocol_interface ''wl_surface'', msg_kind = Request, msg_name = ''set_opaque_region'',
      msg_opcode = 4,
      msg_fields = [(''region'', TWobject (protocol_interface ''wl_region''))]\<rparr>"

definition wl_surface_request_set_input_region :: message_type where
  "wl_surface_request_set_input_region =
     \<lparr>msg_interface = protocol_interface ''wl_surface'', msg_kind = Request, msg_name = ''set_input_region'',
      msg_opcode = 5,
      msg_fields = [(''region'', TWobject (protocol_interface ''wl_region''))]\<rparr>"

definition wl_surface_request_commit :: message_type where
  "wl_surface_request_commit =
     \<lparr>msg_interface = protocol_interface ''wl_surface'', msg_kind = Request, msg_name = ''commit'',
      msg_opcode = 6,
      msg_fields = []\<rparr>"

definition wl_surface_request_set_buffer_transform :: message_type where
  "wl_surface_request_set_buffer_transform =
     \<lparr>msg_interface = protocol_interface ''wl_surface'', msg_kind = Request, msg_name = ''set_buffer_transform'',
      msg_opcode = 7,
      msg_fields = [(''transform'', TWenum Wint_underlying ''wl_output'' ''transform'')]\<rparr>"

definition wl_surface_request_set_buffer_scale :: message_type where
  "wl_surface_request_set_buffer_scale =
     \<lparr>msg_interface = protocol_interface ''wl_surface'', msg_kind = Request, msg_name = ''set_buffer_scale'',
      msg_opcode = 8,
      msg_fields = [(''scale'', TWint)]\<rparr>"

definition wl_surface_request_damage_buffer :: message_type where
  "wl_surface_request_damage_buffer =
     \<lparr>msg_interface = protocol_interface ''wl_surface'', msg_kind = Request, msg_name = ''damage_buffer'',
      msg_opcode = 9,
      msg_fields = [(''x'', TWint), (''y'', TWint), (''width'', TWint), (''height'', TWint)]\<rparr>"

definition wl_surface_request_offset :: message_type where
  "wl_surface_request_offset =
     \<lparr>msg_interface = protocol_interface ''wl_surface'', msg_kind = Request, msg_name = ''offset'',
      msg_opcode = 10,
      msg_fields = [(''x'', TWint), (''y'', TWint)]\<rparr>"

definition wl_surface_event_enter :: message_type where
  "wl_surface_event_enter =
     \<lparr>msg_interface = protocol_interface ''wl_surface'', msg_kind = Event, msg_name = ''enter'',
      msg_opcode = 0,
      msg_fields = [(''output'', TWobject (protocol_interface ''wl_output''))]\<rparr>"

definition wl_surface_event_leave :: message_type where
  "wl_surface_event_leave =
     \<lparr>msg_interface = protocol_interface ''wl_surface'', msg_kind = Event, msg_name = ''leave'',
      msg_opcode = 1,
      msg_fields = [(''output'', TWobject (protocol_interface ''wl_output''))]\<rparr>"

definition wl_surface_event_preferred_buffer_scale :: message_type where
  "wl_surface_event_preferred_buffer_scale =
     \<lparr>msg_interface = protocol_interface ''wl_surface'', msg_kind = Event, msg_name = ''preferred_buffer_scale'',
      msg_opcode = 2,
      msg_fields = [(''factor'', TWint)]\<rparr>"

definition wl_surface_event_preferred_buffer_transform :: message_type where
  "wl_surface_event_preferred_buffer_transform =
     \<lparr>msg_interface = protocol_interface ''wl_surface'', msg_kind = Event, msg_name = ''preferred_buffer_transform'',
      msg_opcode = 3,
      msg_fields = [(''transform'', TWenum Wint_underlying ''wl_output'' ''transform'')]\<rparr>"

section \<open>\<^verbatim>\<open>wl_seat\<close>\<close>

definition wl_seat_enum_capability :: enum_type where
  "wl_seat_enum_capability =
     \<lparr>enum_interface = ''wl_seat'', enum_name = ''capability'', enum_underlying = Wuint_underlying,
      enumerators = [(''Epointer'', 1), (''Ekeyboard'', 2), (''Etouch'', 4)]\<rparr>"

definition wl_seat_enum_error :: enum_type where
  "wl_seat_enum_error =
     \<lparr>enum_interface = ''wl_seat'', enum_name = ''error'', enum_underlying = Wint_underlying,
      enumerators = [(''Emissing_capability'', 0)]\<rparr>"

definition wl_seat_request_get_pointer :: message_type where
  "wl_seat_request_get_pointer =
     \<lparr>msg_interface = protocol_interface ''wl_seat'', msg_kind = Request, msg_name = ''get_pointer'',
      msg_opcode = 0,
      msg_fields = [(''id'', TWnew_id (protocol_interface ''wl_pointer''))]\<rparr>"

definition wl_seat_request_get_keyboard :: message_type where
  "wl_seat_request_get_keyboard =
     \<lparr>msg_interface = protocol_interface ''wl_seat'', msg_kind = Request, msg_name = ''get_keyboard'',
      msg_opcode = 1,
      msg_fields = [(''id'', TWnew_id (protocol_interface ''wl_keyboard''))]\<rparr>"

definition wl_seat_request_get_touch :: message_type where
  "wl_seat_request_get_touch =
     \<lparr>msg_interface = protocol_interface ''wl_seat'', msg_kind = Request, msg_name = ''get_touch'',
      msg_opcode = 2,
      msg_fields = [(''id'', TWnew_id (protocol_interface ''wl_touch''))]\<rparr>"

definition wl_seat_request_release :: message_type where
  "wl_seat_request_release =
     \<lparr>msg_interface = protocol_interface ''wl_seat'', msg_kind = Request, msg_name = ''release'',
      msg_opcode = 3,
      msg_fields = []\<rparr>"

definition wl_seat_event_capabilities :: message_type where
  "wl_seat_event_capabilities =
     \<lparr>msg_interface = protocol_interface ''wl_seat'', msg_kind = Event, msg_name = ''capabilities'',
      msg_opcode = 0,
      msg_fields = [(''capabilities'', TWenum Wuint_underlying ''wl_seat'' ''capability'')]\<rparr>"

definition wl_seat_event_name :: message_type where
  "wl_seat_event_name =
     \<lparr>msg_interface = protocol_interface ''wl_seat'', msg_kind = Event, msg_name = ''name'',
      msg_opcode = 1,
      msg_fields = [(''name'', TWstring)]\<rparr>"

section \<open>\<^verbatim>\<open>wl_pointer\<close>\<close>

definition wl_pointer_enum_error :: enum_type where
  "wl_pointer_enum_error =
     \<lparr>enum_interface = ''wl_pointer'', enum_name = ''error'', enum_underlying = Wint_underlying,
      enumerators = [(''Erole'', 0)]\<rparr>"

definition wl_pointer_enum_button_state :: enum_type where
  "wl_pointer_enum_button_state =
     \<lparr>enum_interface = ''wl_pointer'', enum_name = ''button_state'', enum_underlying = Wint_underlying,
      enumerators = [(''Ereleased'', 0), (''Epressed'', 1)]\<rparr>"

definition wl_pointer_enum_axis :: enum_type where
  "wl_pointer_enum_axis =
     \<lparr>enum_interface = ''wl_pointer'', enum_name = ''axis'', enum_underlying = Wint_underlying,
      enumerators = [(''Evertical_scroll'', 0), (''Ehorizontal_scroll'', 1)]\<rparr>"

definition wl_pointer_enum_axis_source :: enum_type where
  "wl_pointer_enum_axis_source =
     \<lparr>enum_interface = ''wl_pointer'', enum_name = ''axis_source'', enum_underlying = Wint_underlying,
      enumerators = [(''Ewheel'', 0), (''Efinger'', 1), (''Econtinuous'', 2), (''Ewheel_tilt'', 3)]\<rparr>"

definition wl_pointer_enum_axis_relative_direction :: enum_type where
  "wl_pointer_enum_axis_relative_direction =
     \<lparr>enum_interface = ''wl_pointer'', enum_name = ''axis_relative_direction'', enum_underlying = Wint_underlying,
      enumerators = [(''Eidentical'', 0), (''Einverted'', 1)]\<rparr>"

definition wl_pointer_request_set_cursor :: message_type where
  "wl_pointer_request_set_cursor =
     \<lparr>msg_interface = protocol_interface ''wl_pointer'', msg_kind = Request, msg_name = ''set_cursor'',
      msg_opcode = 0,
      msg_fields = [(''serial'', TWuint),
                    (''surface'', TWobject (protocol_interface ''wl_surface'')),
                    (''hotspot_x'', TWint), (''hotspot_y'', TWint)]\<rparr>"

definition wl_pointer_request_release :: message_type where
  "wl_pointer_request_release =
     \<lparr>msg_interface = protocol_interface ''wl_pointer'', msg_kind = Request, msg_name = ''release'',
      msg_opcode = 1,
      msg_fields = []\<rparr>"

definition wl_pointer_event_enter :: message_type where
  "wl_pointer_event_enter =
     \<lparr>msg_interface = protocol_interface ''wl_pointer'', msg_kind = Event, msg_name = ''enter'',
      msg_opcode = 0,
      msg_fields = [(''serial'', TWuint),
                    (''surface'', TWobject (protocol_interface ''wl_surface'')),
                    (''surface_x'', TWfixed), (''surface_y'', TWfixed)]\<rparr>"

definition wl_pointer_event_leave :: message_type where
  "wl_pointer_event_leave =
     \<lparr>msg_interface = protocol_interface ''wl_pointer'', msg_kind = Event, msg_name = ''leave'',
      msg_opcode = 1,
      msg_fields = [(''serial'', TWuint),
                    (''surface'', TWobject (protocol_interface ''wl_surface''))]\<rparr>"

definition wl_pointer_event_motion :: message_type where
  "wl_pointer_event_motion =
     \<lparr>msg_interface = protocol_interface ''wl_pointer'', msg_kind = Event, msg_name = ''motion'',
      msg_opcode = 2,
      msg_fields = [(''time'', TWuint), (''surface_x'', TWfixed), (''surface_y'', TWfixed)]\<rparr>"

definition wl_pointer_event_button :: message_type where
  "wl_pointer_event_button =
     \<lparr>msg_interface = protocol_interface ''wl_pointer'', msg_kind = Event, msg_name = ''button'',
      msg_opcode = 3,
      msg_fields = [(''serial'', TWuint), (''time'', TWuint), (''button'', TWuint),
                    (''state'', TWenum Wint_underlying ''wl_pointer'' ''button_state'')]\<rparr>"

definition wl_pointer_event_axis :: message_type where
  "wl_pointer_event_axis =
     \<lparr>msg_interface = protocol_interface ''wl_pointer'', msg_kind = Event, msg_name = ''axis'',
      msg_opcode = 4,
      msg_fields = [(''time'', TWuint), (''axis'', TWenum Wint_underlying ''wl_pointer'' ''axis''),
                    (''value'', TWfixed)]\<rparr>"

definition wl_pointer_event_frame :: message_type where
  "wl_pointer_event_frame =
     \<lparr>msg_interface = protocol_interface ''wl_pointer'', msg_kind = Event, msg_name = ''frame'',
      msg_opcode = 5,
      msg_fields = []\<rparr>"

definition wl_pointer_event_axis_source :: message_type where
  "wl_pointer_event_axis_source =
     \<lparr>msg_interface = protocol_interface ''wl_pointer'', msg_kind = Event, msg_name = ''axis_source'',
      msg_opcode = 6,
      msg_fields = [(''axis_source'', TWenum Wint_underlying ''wl_pointer'' ''axis_source'')]\<rparr>"

definition wl_pointer_event_axis_stop :: message_type where
  "wl_pointer_event_axis_stop =
     \<lparr>msg_interface = protocol_interface ''wl_pointer'', msg_kind = Event, msg_name = ''axis_stop'',
      msg_opcode = 7,
      msg_fields = [(''time'', TWuint), (''axis'', TWenum Wint_underlying ''wl_pointer'' ''axis'')]\<rparr>"

definition wl_pointer_event_axis_discrete :: message_type where
  "wl_pointer_event_axis_discrete =
     \<lparr>msg_interface = protocol_interface ''wl_pointer'', msg_kind = Event, msg_name = ''axis_discrete'',
      msg_opcode = 8,
      msg_fields = [(''axis'', TWenum Wint_underlying ''wl_pointer'' ''axis''),
                    (''discrete'', TWint)]\<rparr>"

definition wl_pointer_event_axis_value120 :: message_type where
  "wl_pointer_event_axis_value120 =
     \<lparr>msg_interface = protocol_interface ''wl_pointer'', msg_kind = Event, msg_name = ''axis_value120'',
      msg_opcode = 9,
      msg_fields = [(''axis'', TWenum Wint_underlying ''wl_pointer'' ''axis''),
                    (''value120'', TWint)]\<rparr>"

definition wl_pointer_event_axis_relative_direction :: message_type where
  "wl_pointer_event_axis_relative_direction =
     \<lparr>msg_interface = protocol_interface ''wl_pointer'', msg_kind = Event, msg_name = ''axis_relative_direction'',
      msg_opcode = 10,
      msg_fields = [(''axis'', TWenum Wint_underlying ''wl_pointer'' ''axis''),
                    (''direction'', TWenum Wint_underlying ''wl_pointer'' ''axis_relative_direction'')]\<rparr>"

section \<open>\<^verbatim>\<open>wl_keyboard\<close>\<close>

definition wl_keyboard_enum_keymap_format :: enum_type where
  "wl_keyboard_enum_keymap_format =
     \<lparr>enum_interface = ''wl_keyboard'', enum_name = ''keymap_format'', enum_underlying = Wint_underlying,
      enumerators = [(''Eno_keymap'', 0), (''Exkb_v1'', 1)]\<rparr>"

definition wl_keyboard_enum_key_state :: enum_type where
  "wl_keyboard_enum_key_state =
     \<lparr>enum_interface = ''wl_keyboard'', enum_name = ''key_state'', enum_underlying = Wint_underlying,
      enumerators = [(''Ereleased'', 0), (''Epressed'', 1), (''Erepeated'', 2)]\<rparr>"

definition wl_keyboard_request_release :: message_type where
  "wl_keyboard_request_release =
     \<lparr>msg_interface = protocol_interface ''wl_keyboard'', msg_kind = Request, msg_name = ''release'',
      msg_opcode = 0,
      msg_fields = []\<rparr>"

definition wl_keyboard_event_keymap :: message_type where
  "wl_keyboard_event_keymap =
     \<lparr>msg_interface = protocol_interface ''wl_keyboard'', msg_kind = Event, msg_name = ''keymap'',
      msg_opcode = 0,
      msg_fields = [(''format'', TWenum Wint_underlying ''wl_keyboard'' ''keymap_format''),
                    (''fd'', TWfd), (''size'', TWuint)]\<rparr>"

definition wl_keyboard_event_enter :: message_type where
  "wl_keyboard_event_enter =
     \<lparr>msg_interface = protocol_interface ''wl_keyboard'', msg_kind = Event, msg_name = ''enter'',
      msg_opcode = 1,
      msg_fields = [(''serial'', TWuint),
                    (''surface'', TWobject (protocol_interface ''wl_surface'')),
                    (''keys'', TWarray)]\<rparr>"

definition wl_keyboard_event_leave :: message_type where
  "wl_keyboard_event_leave =
     \<lparr>msg_interface = protocol_interface ''wl_keyboard'', msg_kind = Event, msg_name = ''leave'',
      msg_opcode = 2,
      msg_fields = [(''serial'', TWuint),
                    (''surface'', TWobject (protocol_interface ''wl_surface''))]\<rparr>"

definition wl_keyboard_event_key :: message_type where
  "wl_keyboard_event_key =
     \<lparr>msg_interface = protocol_interface ''wl_keyboard'', msg_kind = Event, msg_name = ''key'',
      msg_opcode = 3,
      msg_fields = [(''serial'', TWuint), (''time'', TWuint), (''key'', TWuint),
                    (''state'', TWenum Wint_underlying ''wl_keyboard'' ''key_state'')]\<rparr>"

definition wl_keyboard_event_modifiers :: message_type where
  "wl_keyboard_event_modifiers =
     \<lparr>msg_interface = protocol_interface ''wl_keyboard'', msg_kind = Event, msg_name = ''modifiers'',
      msg_opcode = 4,
      msg_fields = [(''serial'', TWuint), (''mods_depressed'', TWuint), (''mods_latched'', TWuint),
                    (''mods_locked'', TWuint), (''group'', TWuint)]\<rparr>"

definition wl_keyboard_event_repeat_info :: message_type where
  "wl_keyboard_event_repeat_info =
     \<lparr>msg_interface = protocol_interface ''wl_keyboard'', msg_kind = Event, msg_name = ''repeat_info'',
      msg_opcode = 5,
      msg_fields = [(''rate'', TWint), (''delay'', TWint)]\<rparr>"

section \<open>\<^verbatim>\<open>wl_touch\<close>\<close>

definition wl_touch_request_release :: message_type where
  "wl_touch_request_release =
     \<lparr>msg_interface = protocol_interface ''wl_touch'', msg_kind = Request, msg_name = ''release'',
      msg_opcode = 0,
      msg_fields = []\<rparr>"

definition wl_touch_event_down :: message_type where
  "wl_touch_event_down =
     \<lparr>msg_interface = protocol_interface ''wl_touch'', msg_kind = Event, msg_name = ''down'',
      msg_opcode = 0,
      msg_fields = [(''serial'', TWuint), (''time'', TWuint),
                    (''surface'', TWobject (protocol_interface ''wl_surface'')), (''id'', TWint),
                    (''x'', TWfixed), (''y'', TWfixed)]\<rparr>"

definition wl_touch_event_up :: message_type where
  "wl_touch_event_up =
     \<lparr>msg_interface = protocol_interface ''wl_touch'', msg_kind = Event, msg_name = ''up'',
      msg_opcode = 1,
      msg_fields = [(''serial'', TWuint), (''time'', TWuint), (''id'', TWint)]\<rparr>"

definition wl_touch_event_motion :: message_type where
  "wl_touch_event_motion =
     \<lparr>msg_interface = protocol_interface ''wl_touch'', msg_kind = Event, msg_name = ''motion'',
      msg_opcode = 2,
      msg_fields = [(''time'', TWuint), (''id'', TWint), (''x'', TWfixed), (''y'', TWfixed)]\<rparr>"

definition wl_touch_event_frame :: message_type where
  "wl_touch_event_frame =
     \<lparr>msg_interface = protocol_interface ''wl_touch'', msg_kind = Event, msg_name = ''frame'',
      msg_opcode = 3,
      msg_fields = []\<rparr>"

definition wl_touch_event_cancel :: message_type where
  "wl_touch_event_cancel =
     \<lparr>msg_interface = protocol_interface ''wl_touch'', msg_kind = Event, msg_name = ''cancel'',
      msg_opcode = 4,
      msg_fields = []\<rparr>"

definition wl_touch_event_shape :: message_type where
  "wl_touch_event_shape =
     \<lparr>msg_interface = protocol_interface ''wl_touch'', msg_kind = Event, msg_name = ''shape'',
      msg_opcode = 5,
      msg_fields = [(''id'', TWint), (''major'', TWfixed), (''minor'', TWfixed)]\<rparr>"

definition wl_touch_event_orientation :: message_type where
  "wl_touch_event_orientation =
     \<lparr>msg_interface = protocol_interface ''wl_touch'', msg_kind = Event, msg_name = ''orientation'',
      msg_opcode = 6,
      msg_fields = [(''id'', TWint), (''orientation'', TWfixed)]\<rparr>"

section \<open>\<^verbatim>\<open>wl_output\<close>\<close>

definition wl_output_enum_subpixel :: enum_type where
  "wl_output_enum_subpixel =
     \<lparr>enum_interface = ''wl_output'', enum_name = ''subpixel'', enum_underlying = Wint_underlying,
      enumerators = [(''Eunknown'', 0), (''Enone'', 1), (''Ehorizontal_rgb'', 2),
                     (''Ehorizontal_bgr'', 3), (''Evertical_rgb'', 4), (''Evertical_bgr'', 5)]\<rparr>"

definition wl_output_enum_transform :: enum_type where
  "wl_output_enum_transform =
     \<lparr>enum_interface = ''wl_output'', enum_name = ''transform'', enum_underlying = Wint_underlying,
      enumerators = [(''Enormal'', 0), (''E90'', 1), (''E180'', 2), (''E270'', 3),
                     (''Eflipped'', 4), (''Eflipped_90'', 5), (''Eflipped_180'', 6),
                     (''Eflipped_270'', 7)]\<rparr>"

definition wl_output_enum_mode :: enum_type where
  "wl_output_enum_mode =
     \<lparr>enum_interface = ''wl_output'', enum_name = ''mode'', enum_underlying = Wuint_underlying,
      enumerators = [(''Ecurrent'', 1), (''Epreferred'', 2)]\<rparr>"

definition wl_output_request_release :: message_type where
  "wl_output_request_release =
     \<lparr>msg_interface = protocol_interface ''wl_output'', msg_kind = Request, msg_name = ''release'',
      msg_opcode = 0,
      msg_fields = []\<rparr>"

definition wl_output_event_geometry :: message_type where
  "wl_output_event_geometry =
     \<lparr>msg_interface = protocol_interface ''wl_output'', msg_kind = Event, msg_name = ''geometry'',
      msg_opcode = 0,
      msg_fields = [(''x'', TWint), (''y'', TWint), (''physical_width'', TWint),
                    (''physical_height'', TWint),
                    (''subpixel'', TWenum Wint_underlying ''wl_output'' ''subpixel''),
                    (''make'', TWstring), (''model'', TWstring),
                    (''transform'', TWenum Wint_underlying ''wl_output'' ''transform'')]\<rparr>"

definition wl_output_event_mode :: message_type where
  "wl_output_event_mode =
     \<lparr>msg_interface = protocol_interface ''wl_output'', msg_kind = Event, msg_name = ''mode'',
      msg_opcode = 1,
      msg_fields = [(''flags'', TWenum Wuint_underlying ''wl_output'' ''mode''),
                    (''width'', TWint), (''height'', TWint), (''refresh'', TWint)]\<rparr>"

definition wl_output_event_done :: message_type where
  "wl_output_event_done =
     \<lparr>msg_interface = protocol_interface ''wl_output'', msg_kind = Event, msg_name = ''done'',
      msg_opcode = 2,
      msg_fields = []\<rparr>"

definition wl_output_event_scale :: message_type where
  "wl_output_event_scale =
     \<lparr>msg_interface = protocol_interface ''wl_output'', msg_kind = Event, msg_name = ''scale'',
      msg_opcode = 3,
      msg_fields = [(''factor'', TWint)]\<rparr>"

definition wl_output_event_name :: message_type where
  "wl_output_event_name =
     \<lparr>msg_interface = protocol_interface ''wl_output'', msg_kind = Event, msg_name = ''name'',
      msg_opcode = 4,
      msg_fields = [(''name'', TWstring)]\<rparr>"

definition wl_output_event_description :: message_type where
  "wl_output_event_description =
     \<lparr>msg_interface = protocol_interface ''wl_output'', msg_kind = Event, msg_name = ''description'',
      msg_opcode = 5,
      msg_fields = [(''description'', TWstring)]\<rparr>"

section \<open>\<^verbatim>\<open>wl_region\<close>\<close>

definition wl_region_request_destroy :: message_type where
  "wl_region_request_destroy =
     \<lparr>msg_interface = protocol_interface ''wl_region'', msg_kind = Request, msg_name = ''destroy'',
      msg_opcode = 0,
      msg_fields = []\<rparr>"

definition wl_region_request_add :: message_type where
  "wl_region_request_add =
     \<lparr>msg_interface = protocol_interface ''wl_region'', msg_kind = Request, msg_name = ''add'',
      msg_opcode = 1,
      msg_fields = [(''x'', TWint), (''y'', TWint), (''width'', TWint), (''height'', TWint)]\<rparr>"

definition wl_region_request_subtract :: message_type where
  "wl_region_request_subtract =
     \<lparr>msg_interface = protocol_interface ''wl_region'', msg_kind = Request, msg_name = ''subtract'',
      msg_opcode = 2,
      msg_fields = [(''x'', TWint), (''y'', TWint), (''width'', TWint), (''height'', TWint)]\<rparr>"

section \<open>\<^verbatim>\<open>wl_subcompositor\<close>\<close>

definition wl_subcompositor_enum_error :: enum_type where
  "wl_subcompositor_enum_error =
     \<lparr>enum_interface = ''wl_subcompositor'', enum_name = ''error'', enum_underlying = Wint_underlying,
      enumerators = [(''Ebad_surface'', 0), (''Ebad_parent'', 1)]\<rparr>"

definition wl_subcompositor_request_destroy :: message_type where
  "wl_subcompositor_request_destroy =
     \<lparr>msg_interface = protocol_interface ''wl_subcompositor'', msg_kind = Request, msg_name = ''destroy'',
      msg_opcode = 0,
      msg_fields = []\<rparr>"

definition wl_subcompositor_request_get_subsurface :: message_type where
  "wl_subcompositor_request_get_subsurface =
     \<lparr>msg_interface = protocol_interface ''wl_subcompositor'', msg_kind = Request, msg_name = ''get_subsurface'',
      msg_opcode = 1,
      msg_fields = [(''id'', TWnew_id (protocol_interface ''wl_subsurface'')),
                    (''surface'', TWobject (protocol_interface ''wl_surface'')),
                    (''parent'', TWobject (protocol_interface ''wl_surface''))]\<rparr>"

section \<open>\<^verbatim>\<open>wl_subsurface\<close>\<close>

definition wl_subsurface_enum_error :: enum_type where
  "wl_subsurface_enum_error =
     \<lparr>enum_interface = ''wl_subsurface'', enum_name = ''error'', enum_underlying = Wint_underlying,
      enumerators = [(''Ebad_surface'', 0)]\<rparr>"

definition wl_subsurface_request_destroy :: message_type where
  "wl_subsurface_request_destroy =
     \<lparr>msg_interface = protocol_interface ''wl_subsurface'', msg_kind = Request, msg_name = ''destroy'',
      msg_opcode = 0,
      msg_fields = []\<rparr>"

definition wl_subsurface_request_set_position :: message_type where
  "wl_subsurface_request_set_position =
     \<lparr>msg_interface = protocol_interface ''wl_subsurface'', msg_kind = Request, msg_name = ''set_position'',
      msg_opcode = 1,
      msg_fields = [(''x'', TWint), (''y'', TWint)]\<rparr>"

definition wl_subsurface_request_place_above :: message_type where
  "wl_subsurface_request_place_above =
     \<lparr>msg_interface = protocol_interface ''wl_subsurface'', msg_kind = Request, msg_name = ''place_above'',
      msg_opcode = 2,
      msg_fields = [(''sibling'', TWobject (protocol_interface ''wl_surface''))]\<rparr>"

definition wl_subsurface_request_place_below :: message_type where
  "wl_subsurface_request_place_below =
     \<lparr>msg_interface = protocol_interface ''wl_subsurface'', msg_kind = Request, msg_name = ''place_below'',
      msg_opcode = 3,
      msg_fields = [(''sibling'', TWobject (protocol_interface ''wl_surface''))]\<rparr>"

definition wl_subsurface_request_set_sync :: message_type where
  "wl_subsurface_request_set_sync =
     \<lparr>msg_interface = protocol_interface ''wl_subsurface'', msg_kind = Request, msg_name = ''set_sync'',
      msg_opcode = 4,
      msg_fields = []\<rparr>"

definition wl_subsurface_request_set_desync :: message_type where
  "wl_subsurface_request_set_desync =
     \<lparr>msg_interface = protocol_interface ''wl_subsurface'', msg_kind = Request, msg_name = ''set_desync'',
      msg_opcode = 5,
      msg_fields = []\<rparr>"

section \<open>\<^verbatim>\<open>wl_fixes\<close>\<close>

definition wl_fixes_request_destroy :: message_type where
  "wl_fixes_request_destroy =
     \<lparr>msg_interface = protocol_interface ''wl_fixes'', msg_kind = Request, msg_name = ''destroy'',
      msg_opcode = 0,
      msg_fields = []\<rparr>"

definition wl_fixes_request_destroy_registry :: message_type where
  "wl_fixes_request_destroy_registry =
     \<lparr>msg_interface = protocol_interface ''wl_fixes'', msg_kind = Request, msg_name = ''destroy_registry'',
      msg_opcode = 1,
      msg_fields = [(''registry'', TWobject (protocol_interface ''wl_registry''))]\<rparr>"

section \<open>The interfaces with their definitions\<close>

definition wl_display_interface :: interface_def where
  "wl_display_interface =
     \<lparr>forward_decl = wl_display_decl,
      enum_definitions = [wl_display_enum_error],
      request_messages = [wl_display_request_sync, wl_display_request_get_registry],
      event_messages = [wl_display_event_error, wl_display_event_delete_id]\<rparr>"

definition wl_registry_interface :: interface_def where
  "wl_registry_interface =
     \<lparr>forward_decl = wl_registry_decl,
      enum_definitions = [],
      request_messages = [wl_registry_request_bind],
      event_messages = [wl_registry_event_global, wl_registry_event_global_remove]\<rparr>"

definition wl_callback_interface :: interface_def where
  "wl_callback_interface =
     \<lparr>forward_decl = wl_callback_decl,
      enum_definitions = [],
      request_messages = [],
      event_messages = [wl_callback_event_done]\<rparr>"

definition wl_compositor_interface :: interface_def where
  "wl_compositor_interface =
     \<lparr>forward_decl = wl_compositor_decl,
      enum_definitions = [],
      request_messages = [wl_compositor_request_create_surface, wl_compositor_request_create_region],
      event_messages = []\<rparr>"

definition wl_shm_pool_interface :: interface_def where
  "wl_shm_pool_interface =
     \<lparr>forward_decl = wl_shm_pool_decl,
      enum_definitions = [],
      request_messages = [wl_shm_pool_request_create_buffer, wl_shm_pool_request_destroy,
                          wl_shm_pool_request_resize],
      event_messages = []\<rparr>"

definition wl_shm_interface :: interface_def where
  "wl_shm_interface =
     \<lparr>forward_decl = wl_shm_decl,
      enum_definitions = [wl_shm_enum_error, wl_shm_enum_format],
      request_messages = [wl_shm_request_create_pool, wl_shm_request_release],
      event_messages = [wl_shm_event_format]\<rparr>"

definition wl_buffer_interface :: interface_def where
  "wl_buffer_interface =
     \<lparr>forward_decl = wl_buffer_decl,
      enum_definitions = [],
      request_messages = [wl_buffer_request_destroy],
      event_messages = [wl_buffer_event_release]\<rparr>"

definition wl_data_offer_interface :: interface_def where
  "wl_data_offer_interface =
     \<lparr>forward_decl = wl_data_offer_decl,
      enum_definitions = [wl_data_offer_enum_error],
      request_messages = [wl_data_offer_request_accept, wl_data_offer_request_receive,
                          wl_data_offer_request_destroy, wl_data_offer_request_finish,
                          wl_data_offer_request_set_actions],
      event_messages = [wl_data_offer_event_offer, wl_data_offer_event_source_actions,
                        wl_data_offer_event_action]\<rparr>"

definition wl_data_source_interface :: interface_def where
  "wl_data_source_interface =
     \<lparr>forward_decl = wl_data_source_decl,
      enum_definitions = [wl_data_source_enum_error],
      request_messages = [wl_data_source_request_offer, wl_data_source_request_destroy,
                          wl_data_source_request_set_actions],
      event_messages = [wl_data_source_event_target, wl_data_source_event_send,
                        wl_data_source_event_cancelled, wl_data_source_event_dnd_drop_performed,
                        wl_data_source_event_dnd_finished, wl_data_source_event_action]\<rparr>"

definition wl_data_device_interface :: interface_def where
  "wl_data_device_interface =
     \<lparr>forward_decl = wl_data_device_decl,
      enum_definitions = [wl_data_device_enum_error],
      request_messages = [wl_data_device_request_start_drag, wl_data_device_request_set_selection,
                          wl_data_device_request_release],
      event_messages = [wl_data_device_event_data_offer, wl_data_device_event_enter,
                        wl_data_device_event_leave, wl_data_device_event_motion,
                        wl_data_device_event_drop, wl_data_device_event_selection]\<rparr>"

definition wl_data_device_manager_interface :: interface_def where
  "wl_data_device_manager_interface =
     \<lparr>forward_decl = wl_data_device_manager_decl,
      enum_definitions = [wl_data_device_manager_enum_dnd_action],
      request_messages = [wl_data_device_manager_request_create_data_source,
                          wl_data_device_manager_request_get_data_device],
      event_messages = []\<rparr>"

definition wl_shell_interface :: interface_def where
  "wl_shell_interface =
     \<lparr>forward_decl = wl_shell_decl,
      enum_definitions = [wl_shell_enum_error],
      request_messages = [wl_shell_request_get_shell_surface],
      event_messages = []\<rparr>"

definition wl_shell_surface_interface :: interface_def where
  "wl_shell_surface_interface =
     \<lparr>forward_decl = wl_shell_surface_decl,
      enum_definitions = [wl_shell_surface_enum_resize, wl_shell_surface_enum_transient,
                          wl_shell_surface_enum_fullscreen_method],
      request_messages = [wl_shell_surface_request_pong, wl_shell_surface_request_move,
                          wl_shell_surface_request_resize, wl_shell_surface_request_set_toplevel,
                          wl_shell_surface_request_set_transient,
                          wl_shell_surface_request_set_fullscreen,
                          wl_shell_surface_request_set_popup,
                          wl_shell_surface_request_set_maximized,
                          wl_shell_surface_request_set_title, wl_shell_surface_request_set_class],
      event_messages = [wl_shell_surface_event_ping, wl_shell_surface_event_configure,
                        wl_shell_surface_event_popup_done]\<rparr>"

definition wl_surface_interface :: interface_def where
  "wl_surface_interface =
     \<lparr>forward_decl = wl_surface_decl,
      enum_definitions = [wl_surface_enum_error],
      request_messages = [wl_surface_request_destroy, wl_surface_request_attach,
                          wl_surface_request_damage, wl_surface_request_frame,
                          wl_surface_request_set_opaque_region,
                          wl_surface_request_set_input_region, wl_surface_request_commit,
                          wl_surface_request_set_buffer_transform,
                          wl_surface_request_set_buffer_scale, wl_surface_request_damage_buffer,
                          wl_surface_request_offset],
      event_messages = [wl_surface_event_enter, wl_surface_event_leave,
                        wl_surface_event_preferred_buffer_scale,
                        wl_surface_event_preferred_buffer_transform]\<rparr>"

definition wl_seat_interface :: interface_def where
  "wl_seat_interface =
     \<lparr>forward_decl = wl_seat_decl,
      enum_definitions = [wl_seat_enum_capability, wl_seat_enum_error],
      request_messages = [wl_seat_request_get_pointer, wl_seat_request_get_keyboard,
                          wl_seat_request_get_touch, wl_seat_request_release],
      event_messages = [wl_seat_event_capabilities, wl_seat_event_name]\<rparr>"

definition wl_pointer_interface :: interface_def where
  "wl_pointer_interface =
     \<lparr>forward_decl = wl_pointer_decl,
      enum_definitions = [wl_pointer_enum_error, wl_pointer_enum_button_state,
                          wl_pointer_enum_axis, wl_pointer_enum_axis_source,
                          wl_pointer_enum_axis_relative_direction],
      request_messages = [wl_pointer_request_set_cursor, wl_pointer_request_release],
      event_messages = [wl_pointer_event_enter, wl_pointer_event_leave, wl_pointer_event_motion,
                        wl_pointer_event_button, wl_pointer_event_axis, wl_pointer_event_frame,
                        wl_pointer_event_axis_source, wl_pointer_event_axis_stop,
                        wl_pointer_event_axis_discrete, wl_pointer_event_axis_value120,
                        wl_pointer_event_axis_relative_direction]\<rparr>"

definition wl_keyboard_interface :: interface_def where
  "wl_keyboard_interface =
     \<lparr>forward_decl = wl_keyboard_decl,
      enum_definitions = [wl_keyboard_enum_keymap_format, wl_keyboard_enum_key_state],
      request_messages = [wl_keyboard_request_release],
      event_messages = [wl_keyboard_event_keymap, wl_keyboard_event_enter, wl_keyboard_event_leave,
                        wl_keyboard_event_key, wl_keyboard_event_modifiers,
                        wl_keyboard_event_repeat_info]\<rparr>"

definition wl_touch_interface :: interface_def where
  "wl_touch_interface =
     \<lparr>forward_decl = wl_touch_decl,
      enum_definitions = [],
      request_messages = [wl_touch_request_release],
      event_messages = [wl_touch_event_down, wl_touch_event_up, wl_touch_event_motion,
                        wl_touch_event_frame, wl_touch_event_cancel, wl_touch_event_shape,
                        wl_touch_event_orientation]\<rparr>"

definition wl_output_interface :: interface_def where
  "wl_output_interface =
     \<lparr>forward_decl = wl_output_decl,
      enum_definitions = [wl_output_enum_subpixel, wl_output_enum_transform, wl_output_enum_mode],
      request_messages = [wl_output_request_release],
      event_messages = [wl_output_event_geometry, wl_output_event_mode, wl_output_event_done,
                        wl_output_event_scale, wl_output_event_name, wl_output_event_description]\<rparr>"

definition wl_region_interface :: interface_def where
  "wl_region_interface =
     \<lparr>forward_decl = wl_region_decl,
      enum_definitions = [],
      request_messages = [wl_region_request_destroy, wl_region_request_add,
                          wl_region_request_subtract],
      event_messages = []\<rparr>"

definition wl_subcompositor_interface :: interface_def where
  "wl_subcompositor_interface =
     \<lparr>forward_decl = wl_subcompositor_decl,
      enum_definitions = [wl_subcompositor_enum_error],
      request_messages = [wl_subcompositor_request_destroy, wl_subcompositor_request_get_subsurface],
      event_messages = []\<rparr>"

definition wl_subsurface_interface :: interface_def where
  "wl_subsurface_interface =
     \<lparr>forward_decl = wl_subsurface_decl,
      enum_definitions = [wl_subsurface_enum_error],
      request_messages = [wl_subsurface_request_destroy, wl_subsurface_request_set_position,
                          wl_subsurface_request_place_above, wl_subsurface_request_place_below,
                          wl_subsurface_request_set_sync, wl_subsurface_request_set_desync],
      event_messages = []\<rparr>"

definition wl_fixes_interface :: interface_def where
  "wl_fixes_interface =
     \<lparr>forward_decl = wl_fixes_decl,
      enum_definitions = [],
      request_messages = [wl_fixes_request_destroy, wl_fixes_request_destroy_registry],
      event_messages = []\<rparr>"

section \<open>The header\<close>

definition wayland_protocol :: protocol where
  "wayland_protocol =
     \<lparr>protocol_name = ''wayland'',
      protocol_interfaces = [wl_display_interface, wl_registry_interface, wl_callback_interface,
                             wl_compositor_interface, wl_shm_pool_interface, wl_shm_interface,
                             wl_buffer_interface, wl_data_offer_interface,
                             wl_data_source_interface, wl_data_device_interface,
                             wl_data_device_manager_interface, wl_shell_interface,
                             wl_shell_surface_interface, wl_surface_interface, wl_seat_interface,
                             wl_pointer_interface, wl_keyboard_interface, wl_touch_interface,
                             wl_output_interface, wl_region_interface, wl_subcompositor_interface,
                             wl_subsurface_interface, wl_fixes_interface]\<rparr>"

section \<open>Names and definitions\<close>

lemma wayland_protocol_interface_names:
  "interface_names wayland_protocol =
     [''wl_display'', ''wl_registry'', ''wl_callback'', ''wl_compositor'', ''wl_shm_pool'',
      ''wl_shm'', ''wl_buffer'', ''wl_data_offer'', ''wl_data_source'', ''wl_data_device'',
      ''wl_data_device_manager'', ''wl_shell'', ''wl_shell_surface'', ''wl_surface'', ''wl_seat'',
      ''wl_pointer'', ''wl_keyboard'', ''wl_touch'', ''wl_output'', ''wl_region'',
      ''wl_subcompositor'', ''wl_subsurface'', ''wl_fixes'']"
  by code_simp

lemma wayland_protocol_enum_names:
  "enum_names wayland_protocol =
     [(''wl_display'', ''error'', Wint_underlying), (''wl_shm'', ''error'', Wint_underlying),
      (''wl_shm'', ''format'', Wint_underlying), (''wl_data_offer'', ''error'', Wint_underlying),
      (''wl_data_source'', ''error'', Wint_underlying),
      (''wl_data_device'', ''error'', Wint_underlying),
      (''wl_data_device_manager'', ''dnd_action'', Wuint_underlying),
      (''wl_shell'', ''error'', Wint_underlying),
      (''wl_shell_surface'', ''resize'', Wuint_underlying),
      (''wl_shell_surface'', ''transient'', Wuint_underlying),
      (''wl_shell_surface'', ''fullscreen_method'', Wint_underlying),
      (''wl_surface'', ''error'', Wint_underlying),
      (''wl_seat'', ''capability'', Wuint_underlying), (''wl_seat'', ''error'', Wint_underlying),
      (''wl_pointer'', ''error'', Wint_underlying),
      (''wl_pointer'', ''button_state'', Wint_underlying),
      (''wl_pointer'', ''axis'', Wint_underlying),
      (''wl_pointer'', ''axis_source'', Wint_underlying),
      (''wl_pointer'', ''axis_relative_direction'', Wint_underlying),
      (''wl_keyboard'', ''keymap_format'', Wint_underlying),
      (''wl_keyboard'', ''key_state'', Wint_underlying),
      (''wl_output'', ''subpixel'', Wint_underlying),
      (''wl_output'', ''transform'', Wint_underlying), (''wl_output'', ''mode'', Wuint_underlying),
      (''wl_subcompositor'', ''error'', Wint_underlying),
      (''wl_subsurface'', ''error'', Wint_underlying)]"
  by code_simp

lemmas wayland_protocol_names [protocol_names] =
  all_declared [of wayland_protocol, unfolded wayland_protocol_interface_names list.pred_inject]
  all_declared_enums [of wayland_protocol, unfolded wayland_protocol_enum_names list.pred_inject]

lemmas wayland_protocol_interfaces =
  arg_cong [OF wayland_protocol_def, of protocol_interfaces, unfolded protocol.simps]

lemmas wayland_protocol_message_defs =
  wl_display_interface_def wl_registry_interface_def wl_callback_interface_def
  wl_compositor_interface_def wl_shm_pool_interface_def wl_shm_interface_def
  wl_buffer_interface_def wl_data_offer_interface_def wl_data_source_interface_def
  wl_data_device_interface_def wl_data_device_manager_interface_def wl_shell_interface_def
  wl_shell_surface_interface_def wl_surface_interface_def wl_seat_interface_def
  wl_pointer_interface_def wl_keyboard_interface_def wl_touch_interface_def
  wl_output_interface_def wl_region_interface_def wl_subcompositor_interface_def
  wl_subsurface_interface_def wl_fixes_interface_def wl_display_request_sync_def
  wl_display_request_get_registry_def wl_display_event_error_def wl_display_event_delete_id_def
  wl_registry_request_bind_def wl_registry_event_global_def wl_registry_event_global_remove_def
  wl_callback_event_done_def wl_compositor_request_create_surface_def
  wl_compositor_request_create_region_def wl_shm_pool_request_create_buffer_def
  wl_shm_pool_request_destroy_def wl_shm_pool_request_resize_def wl_shm_request_create_pool_def
  wl_shm_request_release_def wl_shm_event_format_def wl_buffer_request_destroy_def
  wl_buffer_event_release_def wl_data_offer_request_accept_def wl_data_offer_request_receive_def
  wl_data_offer_request_destroy_def wl_data_offer_request_finish_def
  wl_data_offer_request_set_actions_def wl_data_offer_event_offer_def
  wl_data_offer_event_source_actions_def wl_data_offer_event_action_def
  wl_data_source_request_offer_def wl_data_source_request_destroy_def
  wl_data_source_request_set_actions_def wl_data_source_event_target_def
  wl_data_source_event_send_def wl_data_source_event_cancelled_def
  wl_data_source_event_dnd_drop_performed_def wl_data_source_event_dnd_finished_def
  wl_data_source_event_action_def wl_data_device_request_start_drag_def
  wl_data_device_request_set_selection_def wl_data_device_request_release_def
  wl_data_device_event_data_offer_def wl_data_device_event_enter_def
  wl_data_device_event_leave_def wl_data_device_event_motion_def wl_data_device_event_drop_def
  wl_data_device_event_selection_def wl_data_device_manager_request_create_data_source_def
  wl_data_device_manager_request_get_data_device_def wl_shell_request_get_shell_surface_def
  wl_shell_surface_request_pong_def wl_shell_surface_request_move_def
  wl_shell_surface_request_resize_def wl_shell_surface_request_set_toplevel_def
  wl_shell_surface_request_set_transient_def wl_shell_surface_request_set_fullscreen_def
  wl_shell_surface_request_set_popup_def wl_shell_surface_request_set_maximized_def
  wl_shell_surface_request_set_title_def wl_shell_surface_request_set_class_def
  wl_shell_surface_event_ping_def wl_shell_surface_event_configure_def
  wl_shell_surface_event_popup_done_def wl_surface_request_destroy_def
  wl_surface_request_attach_def wl_surface_request_damage_def wl_surface_request_frame_def
  wl_surface_request_set_opaque_region_def wl_surface_request_set_input_region_def
  wl_surface_request_commit_def wl_surface_request_set_buffer_transform_def
  wl_surface_request_set_buffer_scale_def wl_surface_request_damage_buffer_def
  wl_surface_request_offset_def wl_surface_event_enter_def wl_surface_event_leave_def
  wl_surface_event_preferred_buffer_scale_def wl_surface_event_preferred_buffer_transform_def
  wl_seat_request_get_pointer_def wl_seat_request_get_keyboard_def wl_seat_request_get_touch_def
  wl_seat_request_release_def wl_seat_event_capabilities_def wl_seat_event_name_def
  wl_pointer_request_set_cursor_def wl_pointer_request_release_def wl_pointer_event_enter_def
  wl_pointer_event_leave_def wl_pointer_event_motion_def wl_pointer_event_button_def
  wl_pointer_event_axis_def wl_pointer_event_frame_def wl_pointer_event_axis_source_def
  wl_pointer_event_axis_stop_def wl_pointer_event_axis_discrete_def
  wl_pointer_event_axis_value120_def wl_pointer_event_axis_relative_direction_def
  wl_keyboard_request_release_def wl_keyboard_event_keymap_def wl_keyboard_event_enter_def
  wl_keyboard_event_leave_def wl_keyboard_event_key_def wl_keyboard_event_modifiers_def
  wl_keyboard_event_repeat_info_def wl_touch_request_release_def wl_touch_event_down_def
  wl_touch_event_up_def wl_touch_event_motion_def wl_touch_event_frame_def
  wl_touch_event_cancel_def wl_touch_event_shape_def wl_touch_event_orientation_def
  wl_output_request_release_def wl_output_event_geometry_def wl_output_event_mode_def
  wl_output_event_done_def wl_output_event_scale_def wl_output_event_name_def
  wl_output_event_description_def wl_region_request_destroy_def wl_region_request_add_def
  wl_region_request_subtract_def wl_subcompositor_request_destroy_def
  wl_subcompositor_request_get_subsurface_def wl_subsurface_request_destroy_def
  wl_subsurface_request_set_position_def wl_subsurface_request_place_above_def
  wl_subsurface_request_place_below_def wl_subsurface_request_set_sync_def
  wl_subsurface_request_set_desync_def wl_fixes_request_destroy_def
  wl_fixes_request_destroy_registry_def

end
