(* ===== verification/Xdg_Shell_Protocol.thy ===== *)
theory Xdg_Shell_Protocol
  imports Protocol_Tables
begin

text \<open>
  The declarations of \<^verbatim>\<open>xdg_shell_protocol.hpp\<close>, in the order of the header: its interfaces with what they
  declare, then per interface the enumerations, the requests and the events.
\<close>

section \<open>Interfaces\<close>

definition xdg_wm_base_decl :: interface_decl where
  "xdg_wm_base_decl =
     \<lparr>decl_name = ''xdg_wm_base'',
      decl_enums = [(''error'', Wint_underlying)],
      decl_requests = [''destroy'', ''create_positioner'', ''get_xdg_surface'', ''pong''],
      decl_events = [''ping'']\<rparr>"

definition xdg_positioner_decl :: interface_decl where
  "xdg_positioner_decl =
     \<lparr>decl_name = ''xdg_positioner'',
      decl_enums = [(''error'', Wint_underlying), (''anchor'', Wint_underlying),
                    (''gravity'', Wint_underlying), (''constraint_adjustment'', Wuint_underlying)],
      decl_requests = [''destroy'', ''set_size'', ''set_anchor_rect'', ''set_anchor'',
                       ''set_gravity'', ''set_constraint_adjustment'', ''set_offset'',
                       ''set_reactive'', ''set_parent_size'', ''set_parent_configure''],
      decl_events = []\<rparr>"

definition xdg_surface_decl :: interface_decl where
  "xdg_surface_decl =
     \<lparr>decl_name = ''xdg_surface'',
      decl_enums = [(''error'', Wint_underlying)],
      decl_requests = [''destroy'', ''get_toplevel'', ''get_popup'', ''set_window_geometry'',
                       ''ack_configure''],
      decl_events = [''configure'']\<rparr>"

definition xdg_toplevel_decl :: interface_decl where
  "xdg_toplevel_decl =
     \<lparr>decl_name = ''xdg_toplevel'',
      decl_enums = [(''error'', Wint_underlying), (''resize_edge'', Wint_underlying),
                    (''state'', Wint_underlying), (''wm_capabilities'', Wint_underlying)],
      decl_requests = [''destroy'', ''set_parent'', ''set_title'', ''set_app_id'',
                       ''show_window_menu'', ''move'', ''resize'', ''set_max_size'',
                       ''set_min_size'', ''set_maximized'', ''unset_maximized'',
                       ''set_fullscreen'', ''unset_fullscreen'', ''set_minimized''],
      decl_events = [''configure'', ''close'', ''configure_bounds'', ''wm_capabilities'']\<rparr>"

definition xdg_popup_decl :: interface_decl where
  "xdg_popup_decl =
     \<lparr>decl_name = ''xdg_popup'',
      decl_enums = [(''error'', Wint_underlying)],
      decl_requests = [''destroy'', ''grab'', ''reposition''],
      decl_events = [''configure'', ''popup_done'', ''repositioned'']\<rparr>"

section \<open>\<^verbatim>\<open>xdg_wm_base\<close>\<close>

definition xdg_wm_base_enum_error :: enum_type where
  "xdg_wm_base_enum_error =
     \<lparr>enum_interface = ''xdg_wm_base'', enum_name = ''error'', enum_underlying = Wint_underlying,
      enumerators = [(''Erole'', 0), (''Edefunct_surfaces'', 1), (''Enot_the_topmost_popup'', 2),
                     (''Einvalid_popup_parent'', 3), (''Einvalid_surface_state'', 4),
                     (''Einvalid_positioner'', 5), (''Eunresponsive'', 6)]\<rparr>"

definition xdg_wm_base_request_destroy :: message_type where
  "xdg_wm_base_request_destroy =
     \<lparr>msg_interface = protocol_interface ''xdg_wm_base'', msg_kind = Request, msg_name = ''destroy'',
      msg_opcode = 0,
      msg_fields = []\<rparr>"

definition xdg_wm_base_request_create_positioner :: message_type where
  "xdg_wm_base_request_create_positioner =
     \<lparr>msg_interface = protocol_interface ''xdg_wm_base'', msg_kind = Request, msg_name = ''create_positioner'',
      msg_opcode = 1,
      msg_fields = [(''id'', TWnew_id (protocol_interface ''xdg_positioner''))]\<rparr>"

definition xdg_wm_base_request_get_xdg_surface :: message_type where
  "xdg_wm_base_request_get_xdg_surface =
     \<lparr>msg_interface = protocol_interface ''xdg_wm_base'', msg_kind = Request, msg_name = ''get_xdg_surface'',
      msg_opcode = 2,
      msg_fields = [(''id'', TWnew_id (protocol_interface ''xdg_surface'')),
                    (''surface'', TWobject (protocol_interface ''wl_surface''))]\<rparr>"

definition xdg_wm_base_request_pong :: message_type where
  "xdg_wm_base_request_pong =
     \<lparr>msg_interface = protocol_interface ''xdg_wm_base'', msg_kind = Request, msg_name = ''pong'',
      msg_opcode = 3,
      msg_fields = [(''serial'', TWuint)]\<rparr>"

definition xdg_wm_base_event_ping :: message_type where
  "xdg_wm_base_event_ping =
     \<lparr>msg_interface = protocol_interface ''xdg_wm_base'', msg_kind = Event, msg_name = ''ping'',
      msg_opcode = 0,
      msg_fields = [(''serial'', TWuint)]\<rparr>"

section \<open>\<^verbatim>\<open>xdg_positioner\<close>\<close>

definition xdg_positioner_enum_error :: enum_type where
  "xdg_positioner_enum_error =
     \<lparr>enum_interface = ''xdg_positioner'', enum_name = ''error'', enum_underlying = Wint_underlying,
      enumerators = [(''Einvalid_input'', 0)]\<rparr>"

definition xdg_positioner_enum_anchor :: enum_type where
  "xdg_positioner_enum_anchor =
     \<lparr>enum_interface = ''xdg_positioner'', enum_name = ''anchor'', enum_underlying = Wint_underlying,
      enumerators = [(''Enone'', 0), (''Etop'', 1), (''Ebottom'', 2), (''Eleft'', 3),
                     (''Eright'', 4), (''Etop_left'', 5), (''Ebottom_left'', 6),
                     (''Etop_right'', 7), (''Ebottom_right'', 8)]\<rparr>"

definition xdg_positioner_enum_gravity :: enum_type where
  "xdg_positioner_enum_gravity =
     \<lparr>enum_interface = ''xdg_positioner'', enum_name = ''gravity'', enum_underlying = Wint_underlying,
      enumerators = [(''Enone'', 0), (''Etop'', 1), (''Ebottom'', 2), (''Eleft'', 3),
                     (''Eright'', 4), (''Etop_left'', 5), (''Ebottom_left'', 6),
                     (''Etop_right'', 7), (''Ebottom_right'', 8)]\<rparr>"

definition xdg_positioner_enum_constraint_adjustment :: enum_type where
  "xdg_positioner_enum_constraint_adjustment =
     \<lparr>enum_interface = ''xdg_positioner'', enum_name = ''constraint_adjustment'', enum_underlying = Wuint_underlying,
      enumerators = [(''Enone'', 0), (''Eslide_x'', 1), (''Eslide_y'', 2), (''Eflip_x'', 4),
                     (''Eflip_y'', 8), (''Eresize_x'', 16), (''Eresize_y'', 32)]\<rparr>"

definition xdg_positioner_request_destroy :: message_type where
  "xdg_positioner_request_destroy =
     \<lparr>msg_interface = protocol_interface ''xdg_positioner'', msg_kind = Request, msg_name = ''destroy'',
      msg_opcode = 0,
      msg_fields = []\<rparr>"

definition xdg_positioner_request_set_size :: message_type where
  "xdg_positioner_request_set_size =
     \<lparr>msg_interface = protocol_interface ''xdg_positioner'', msg_kind = Request, msg_name = ''set_size'',
      msg_opcode = 1,
      msg_fields = [(''width'', TWint), (''height'', TWint)]\<rparr>"

definition xdg_positioner_request_set_anchor_rect :: message_type where
  "xdg_positioner_request_set_anchor_rect =
     \<lparr>msg_interface = protocol_interface ''xdg_positioner'', msg_kind = Request, msg_name = ''set_anchor_rect'',
      msg_opcode = 2,
      msg_fields = [(''x'', TWint), (''y'', TWint), (''width'', TWint), (''height'', TWint)]\<rparr>"

definition xdg_positioner_request_set_anchor :: message_type where
  "xdg_positioner_request_set_anchor =
     \<lparr>msg_interface = protocol_interface ''xdg_positioner'', msg_kind = Request, msg_name = ''set_anchor'',
      msg_opcode = 3,
      msg_fields = [(''anchor'', TWenum Wint_underlying ''xdg_positioner'' ''anchor'')]\<rparr>"

definition xdg_positioner_request_set_gravity :: message_type where
  "xdg_positioner_request_set_gravity =
     \<lparr>msg_interface = protocol_interface ''xdg_positioner'', msg_kind = Request, msg_name = ''set_gravity'',
      msg_opcode = 4,
      msg_fields = [(''gravity'', TWenum Wint_underlying ''xdg_positioner'' ''gravity'')]\<rparr>"

definition xdg_positioner_request_set_constraint_adjustment :: message_type where
  "xdg_positioner_request_set_constraint_adjustment =
     \<lparr>msg_interface = protocol_interface ''xdg_positioner'', msg_kind = Request, msg_name = ''set_constraint_adjustment'',
      msg_opcode = 5,
      msg_fields = [(''constraint_adjustment'', TWenum Wuint_underlying ''xdg_positioner'' ''constraint_adjustment'')]\<rparr>"

definition xdg_positioner_request_set_offset :: message_type where
  "xdg_positioner_request_set_offset =
     \<lparr>msg_interface = protocol_interface ''xdg_positioner'', msg_kind = Request, msg_name = ''set_offset'',
      msg_opcode = 6,
      msg_fields = [(''x'', TWint), (''y'', TWint)]\<rparr>"

definition xdg_positioner_request_set_reactive :: message_type where
  "xdg_positioner_request_set_reactive =
     \<lparr>msg_interface = protocol_interface ''xdg_positioner'', msg_kind = Request, msg_name = ''set_reactive'',
      msg_opcode = 7,
      msg_fields = []\<rparr>"

definition xdg_positioner_request_set_parent_size :: message_type where
  "xdg_positioner_request_set_parent_size =
     \<lparr>msg_interface = protocol_interface ''xdg_positioner'', msg_kind = Request, msg_name = ''set_parent_size'',
      msg_opcode = 8,
      msg_fields = [(''parent_width'', TWint), (''parent_height'', TWint)]\<rparr>"

definition xdg_positioner_request_set_parent_configure :: message_type where
  "xdg_positioner_request_set_parent_configure =
     \<lparr>msg_interface = protocol_interface ''xdg_positioner'', msg_kind = Request, msg_name = ''set_parent_configure'',
      msg_opcode = 9,
      msg_fields = [(''serial'', TWuint)]\<rparr>"

section \<open>\<^verbatim>\<open>xdg_surface\<close>\<close>

definition xdg_surface_enum_error :: enum_type where
  "xdg_surface_enum_error =
     \<lparr>enum_interface = ''xdg_surface'', enum_name = ''error'', enum_underlying = Wint_underlying,
      enumerators = [(''Enot_constructed'', 1), (''Ealready_constructed'', 2),
                     (''Eunconfigured_buffer'', 3), (''Einvalid_serial'', 4),
                     (''Einvalid_size'', 5), (''Edefunct_role_object'', 6)]\<rparr>"

definition xdg_surface_request_destroy :: message_type where
  "xdg_surface_request_destroy =
     \<lparr>msg_interface = protocol_interface ''xdg_surface'', msg_kind = Request, msg_name = ''destroy'',
      msg_opcode = 0,
      msg_fields = []\<rparr>"

definition xdg_surface_request_get_toplevel :: message_type where
  "xdg_surface_request_get_toplevel =
     \<lparr>msg_interface = protocol_interface ''xdg_surface'', msg_kind = Request, msg_name = ''get_toplevel'',
      msg_opcode = 1,
      msg_fields = [(''id'', TWnew_id (protocol_interface ''xdg_toplevel''))]\<rparr>"

definition xdg_surface_request_get_popup :: message_type where
  "xdg_surface_request_get_popup =
     \<lparr>msg_interface = protocol_interface ''xdg_surface'', msg_kind = Request, msg_name = ''get_popup'',
      msg_opcode = 2,
      msg_fields = [(''id'', TWnew_id (protocol_interface ''xdg_popup'')),
                    (''parent'', TWobject (protocol_interface ''xdg_surface'')),
                    (''positioner'', TWobject (protocol_interface ''xdg_positioner''))]\<rparr>"

definition xdg_surface_request_set_window_geometry :: message_type where
  "xdg_surface_request_set_window_geometry =
     \<lparr>msg_interface = protocol_interface ''xdg_surface'', msg_kind = Request, msg_name = ''set_window_geometry'',
      msg_opcode = 3,
      msg_fields = [(''x'', TWint), (''y'', TWint), (''width'', TWint), (''height'', TWint)]\<rparr>"

definition xdg_surface_request_ack_configure :: message_type where
  "xdg_surface_request_ack_configure =
     \<lparr>msg_interface = protocol_interface ''xdg_surface'', msg_kind = Request, msg_name = ''ack_configure'',
      msg_opcode = 4,
      msg_fields = [(''serial'', TWuint)]\<rparr>"

definition xdg_surface_event_configure :: message_type where
  "xdg_surface_event_configure =
     \<lparr>msg_interface = protocol_interface ''xdg_surface'', msg_kind = Event, msg_name = ''configure'',
      msg_opcode = 0,
      msg_fields = [(''serial'', TWuint)]\<rparr>"

section \<open>\<^verbatim>\<open>xdg_toplevel\<close>\<close>

definition xdg_toplevel_enum_error :: enum_type where
  "xdg_toplevel_enum_error =
     \<lparr>enum_interface = ''xdg_toplevel'', enum_name = ''error'', enum_underlying = Wint_underlying,
      enumerators = [(''Einvalid_resize_edge'', 0), (''Einvalid_parent'', 1),
                     (''Einvalid_size'', 2)]\<rparr>"

definition xdg_toplevel_enum_resize_edge :: enum_type where
  "xdg_toplevel_enum_resize_edge =
     \<lparr>enum_interface = ''xdg_toplevel'', enum_name = ''resize_edge'', enum_underlying = Wint_underlying,
      enumerators = [(''Enone'', 0), (''Etop'', 1), (''Ebottom'', 2), (''Eleft'', 4),
                     (''Etop_left'', 5), (''Ebottom_left'', 6), (''Eright'', 8),
                     (''Etop_right'', 9), (''Ebottom_right'', 10)]\<rparr>"

definition xdg_toplevel_enum_state :: enum_type where
  "xdg_toplevel_enum_state =
     \<lparr>enum_interface = ''xdg_toplevel'', enum_name = ''state'', enum_underlying = Wint_underlying,
      enumerators = [(''Emaximized'', 1), (''Efullscreen'', 2), (''Eresizing'', 3),
                     (''Eactivated'', 4), (''Etiled_left'', 5), (''Etiled_right'', 6),
                     (''Etiled_top'', 7), (''Etiled_bottom'', 8), (''Esuspended'', 9)]\<rparr>"

definition xdg_toplevel_enum_wm_capabilities :: enum_type where
  "xdg_toplevel_enum_wm_capabilities =
     \<lparr>enum_interface = ''xdg_toplevel'', enum_name = ''wm_capabilities'', enum_underlying = Wint_underlying,
      enumerators = [(''Ewindow_menu'', 1), (''Emaximize'', 2), (''Efullscreen'', 3),
                     (''Eminimize'', 4)]\<rparr>"

definition xdg_toplevel_request_destroy :: message_type where
  "xdg_toplevel_request_destroy =
     \<lparr>msg_interface = protocol_interface ''xdg_toplevel'', msg_kind = Request, msg_name = ''destroy'',
      msg_opcode = 0,
      msg_fields = []\<rparr>"

definition xdg_toplevel_request_set_parent :: message_type where
  "xdg_toplevel_request_set_parent =
     \<lparr>msg_interface = protocol_interface ''xdg_toplevel'', msg_kind = Request, msg_name = ''set_parent'',
      msg_opcode = 1,
      msg_fields = [(''parent'', TWobject (protocol_interface ''xdg_toplevel''))]\<rparr>"

definition xdg_toplevel_request_set_title :: message_type where
  "xdg_toplevel_request_set_title =
     \<lparr>msg_interface = protocol_interface ''xdg_toplevel'', msg_kind = Request, msg_name = ''set_title'',
      msg_opcode = 2,
      msg_fields = [(''title'', TWstring)]\<rparr>"

definition xdg_toplevel_request_set_app_id :: message_type where
  "xdg_toplevel_request_set_app_id =
     \<lparr>msg_interface = protocol_interface ''xdg_toplevel'', msg_kind = Request, msg_name = ''set_app_id'',
      msg_opcode = 3,
      msg_fields = [(''app_id'', TWstring)]\<rparr>"

definition xdg_toplevel_request_show_window_menu :: message_type where
  "xdg_toplevel_request_show_window_menu =
     \<lparr>msg_interface = protocol_interface ''xdg_toplevel'', msg_kind = Request, msg_name = ''show_window_menu'',
      msg_opcode = 4,
      msg_fields = [(''seat'', TWobject (protocol_interface ''wl_seat'')), (''serial'', TWuint),
                    (''x'', TWint), (''y'', TWint)]\<rparr>"

definition xdg_toplevel_request_move :: message_type where
  "xdg_toplevel_request_move =
     \<lparr>msg_interface = protocol_interface ''xdg_toplevel'', msg_kind = Request, msg_name = ''move'',
      msg_opcode = 5,
      msg_fields = [(''seat'', TWobject (protocol_interface ''wl_seat'')), (''serial'', TWuint)]\<rparr>"

definition xdg_toplevel_request_resize :: message_type where
  "xdg_toplevel_request_resize =
     \<lparr>msg_interface = protocol_interface ''xdg_toplevel'', msg_kind = Request, msg_name = ''resize'',
      msg_opcode = 6,
      msg_fields = [(''seat'', TWobject (protocol_interface ''wl_seat'')), (''serial'', TWuint),
                    (''edges'', TWenum Wint_underlying ''xdg_toplevel'' ''resize_edge'')]\<rparr>"

definition xdg_toplevel_request_set_max_size :: message_type where
  "xdg_toplevel_request_set_max_size =
     \<lparr>msg_interface = protocol_interface ''xdg_toplevel'', msg_kind = Request, msg_name = ''set_max_size'',
      msg_opcode = 7,
      msg_fields = [(''width'', TWint), (''height'', TWint)]\<rparr>"

definition xdg_toplevel_request_set_min_size :: message_type where
  "xdg_toplevel_request_set_min_size =
     \<lparr>msg_interface = protocol_interface ''xdg_toplevel'', msg_kind = Request, msg_name = ''set_min_size'',
      msg_opcode = 8,
      msg_fields = [(''width'', TWint), (''height'', TWint)]\<rparr>"

definition xdg_toplevel_request_set_maximized :: message_type where
  "xdg_toplevel_request_set_maximized =
     \<lparr>msg_interface = protocol_interface ''xdg_toplevel'', msg_kind = Request, msg_name = ''set_maximized'',
      msg_opcode = 9,
      msg_fields = []\<rparr>"

definition xdg_toplevel_request_unset_maximized :: message_type where
  "xdg_toplevel_request_unset_maximized =
     \<lparr>msg_interface = protocol_interface ''xdg_toplevel'', msg_kind = Request, msg_name = ''unset_maximized'',
      msg_opcode = 10,
      msg_fields = []\<rparr>"

definition xdg_toplevel_request_set_fullscreen :: message_type where
  "xdg_toplevel_request_set_fullscreen =
     \<lparr>msg_interface = protocol_interface ''xdg_toplevel'', msg_kind = Request, msg_name = ''set_fullscreen'',
      msg_opcode = 11,
      msg_fields = [(''output'', TWobject (protocol_interface ''wl_output''))]\<rparr>"

definition xdg_toplevel_request_unset_fullscreen :: message_type where
  "xdg_toplevel_request_unset_fullscreen =
     \<lparr>msg_interface = protocol_interface ''xdg_toplevel'', msg_kind = Request, msg_name = ''unset_fullscreen'',
      msg_opcode = 12,
      msg_fields = []\<rparr>"

definition xdg_toplevel_request_set_minimized :: message_type where
  "xdg_toplevel_request_set_minimized =
     \<lparr>msg_interface = protocol_interface ''xdg_toplevel'', msg_kind = Request, msg_name = ''set_minimized'',
      msg_opcode = 13,
      msg_fields = []\<rparr>"

definition xdg_toplevel_event_configure :: message_type where
  "xdg_toplevel_event_configure =
     \<lparr>msg_interface = protocol_interface ''xdg_toplevel'', msg_kind = Event, msg_name = ''configure'',
      msg_opcode = 0,
      msg_fields = [(''width'', TWint), (''height'', TWint), (''states'', TWarray)]\<rparr>"

definition xdg_toplevel_event_close :: message_type where
  "xdg_toplevel_event_close =
     \<lparr>msg_interface = protocol_interface ''xdg_toplevel'', msg_kind = Event, msg_name = ''close'',
      msg_opcode = 1,
      msg_fields = []\<rparr>"

definition xdg_toplevel_event_configure_bounds :: message_type where
  "xdg_toplevel_event_configure_bounds =
     \<lparr>msg_interface = protocol_interface ''xdg_toplevel'', msg_kind = Event, msg_name = ''configure_bounds'',
      msg_opcode = 2,
      msg_fields = [(''width'', TWint), (''height'', TWint)]\<rparr>"

definition xdg_toplevel_event_wm_capabilities :: message_type where
  "xdg_toplevel_event_wm_capabilities =
     \<lparr>msg_interface = protocol_interface ''xdg_toplevel'', msg_kind = Event, msg_name = ''wm_capabilities'',
      msg_opcode = 3,
      msg_fields = [(''capabilities'', TWarray)]\<rparr>"

section \<open>\<^verbatim>\<open>xdg_popup\<close>\<close>

definition xdg_popup_enum_error :: enum_type where
  "xdg_popup_enum_error =
     \<lparr>enum_interface = ''xdg_popup'', enum_name = ''error'', enum_underlying = Wint_underlying,
      enumerators = [(''Einvalid_grab'', 0)]\<rparr>"

definition xdg_popup_request_destroy :: message_type where
  "xdg_popup_request_destroy =
     \<lparr>msg_interface = protocol_interface ''xdg_popup'', msg_kind = Request, msg_name = ''destroy'',
      msg_opcode = 0,
      msg_fields = []\<rparr>"

definition xdg_popup_request_grab :: message_type where
  "xdg_popup_request_grab =
     \<lparr>msg_interface = protocol_interface ''xdg_popup'', msg_kind = Request, msg_name = ''grab'',
      msg_opcode = 1,
      msg_fields = [(''seat'', TWobject (protocol_interface ''wl_seat'')), (''serial'', TWuint)]\<rparr>"

definition xdg_popup_request_reposition :: message_type where
  "xdg_popup_request_reposition =
     \<lparr>msg_interface = protocol_interface ''xdg_popup'', msg_kind = Request, msg_name = ''reposition'',
      msg_opcode = 2,
      msg_fields = [(''positioner'', TWobject (protocol_interface ''xdg_positioner'')),
                    (''token'', TWuint)]\<rparr>"

definition xdg_popup_event_configure :: message_type where
  "xdg_popup_event_configure =
     \<lparr>msg_interface = protocol_interface ''xdg_popup'', msg_kind = Event, msg_name = ''configure'',
      msg_opcode = 0,
      msg_fields = [(''x'', TWint), (''y'', TWint), (''width'', TWint), (''height'', TWint)]\<rparr>"

definition xdg_popup_event_popup_done :: message_type where
  "xdg_popup_event_popup_done =
     \<lparr>msg_interface = protocol_interface ''xdg_popup'', msg_kind = Event, msg_name = ''popup_done'',
      msg_opcode = 1,
      msg_fields = []\<rparr>"

definition xdg_popup_event_repositioned :: message_type where
  "xdg_popup_event_repositioned =
     \<lparr>msg_interface = protocol_interface ''xdg_popup'', msg_kind = Event, msg_name = ''repositioned'',
      msg_opcode = 2,
      msg_fields = [(''token'', TWuint)]\<rparr>"

section \<open>The interfaces with their definitions\<close>

definition xdg_wm_base_interface :: interface_def where
  "xdg_wm_base_interface =
     \<lparr>forward_decl = xdg_wm_base_decl,
      enum_definitions = [xdg_wm_base_enum_error],
      request_messages = [xdg_wm_base_request_destroy, xdg_wm_base_request_create_positioner,
                          xdg_wm_base_request_get_xdg_surface, xdg_wm_base_request_pong],
      event_messages = [xdg_wm_base_event_ping]\<rparr>"

definition xdg_positioner_interface :: interface_def where
  "xdg_positioner_interface =
     \<lparr>forward_decl = xdg_positioner_decl,
      enum_definitions = [xdg_positioner_enum_error, xdg_positioner_enum_anchor,
                          xdg_positioner_enum_gravity, xdg_positioner_enum_constraint_adjustment],
      request_messages = [xdg_positioner_request_destroy, xdg_positioner_request_set_size,
                          xdg_positioner_request_set_anchor_rect,
                          xdg_positioner_request_set_anchor, xdg_positioner_request_set_gravity,
                          xdg_positioner_request_set_constraint_adjustment,
                          xdg_positioner_request_set_offset, xdg_positioner_request_set_reactive,
                          xdg_positioner_request_set_parent_size,
                          xdg_positioner_request_set_parent_configure],
      event_messages = []\<rparr>"

definition xdg_surface_interface :: interface_def where
  "xdg_surface_interface =
     \<lparr>forward_decl = xdg_surface_decl,
      enum_definitions = [xdg_surface_enum_error],
      request_messages = [xdg_surface_request_destroy, xdg_surface_request_get_toplevel,
                          xdg_surface_request_get_popup, xdg_surface_request_set_window_geometry,
                          xdg_surface_request_ack_configure],
      event_messages = [xdg_surface_event_configure]\<rparr>"

definition xdg_toplevel_interface :: interface_def where
  "xdg_toplevel_interface =
     \<lparr>forward_decl = xdg_toplevel_decl,
      enum_definitions = [xdg_toplevel_enum_error, xdg_toplevel_enum_resize_edge,
                          xdg_toplevel_enum_state, xdg_toplevel_enum_wm_capabilities],
      request_messages = [xdg_toplevel_request_destroy, xdg_toplevel_request_set_parent,
                          xdg_toplevel_request_set_title, xdg_toplevel_request_set_app_id,
                          xdg_toplevel_request_show_window_menu, xdg_toplevel_request_move,
                          xdg_toplevel_request_resize, xdg_toplevel_request_set_max_size,
                          xdg_toplevel_request_set_min_size, xdg_toplevel_request_set_maximized,
                          xdg_toplevel_request_unset_maximized,
                          xdg_toplevel_request_set_fullscreen,
                          xdg_toplevel_request_unset_fullscreen, xdg_toplevel_request_set_minimized],
      event_messages = [xdg_toplevel_event_configure, xdg_toplevel_event_close,
                        xdg_toplevel_event_configure_bounds, xdg_toplevel_event_wm_capabilities]\<rparr>"

definition xdg_popup_interface :: interface_def where
  "xdg_popup_interface =
     \<lparr>forward_decl = xdg_popup_decl,
      enum_definitions = [xdg_popup_enum_error],
      request_messages = [xdg_popup_request_destroy, xdg_popup_request_grab,
                          xdg_popup_request_reposition],
      event_messages = [xdg_popup_event_configure, xdg_popup_event_popup_done,
                        xdg_popup_event_repositioned]\<rparr>"

section \<open>The header\<close>

definition xdg_shell_protocol :: protocol where
  "xdg_shell_protocol =
     \<lparr>protocol_name = ''xdg_shell'',
      protocol_interfaces = [xdg_wm_base_interface, xdg_positioner_interface,
                             xdg_surface_interface, xdg_toplevel_interface, xdg_popup_interface]\<rparr>"

section \<open>Names and definitions\<close>

lemma xdg_shell_protocol_interface_names:
  "interface_names xdg_shell_protocol =
     [''xdg_wm_base'', ''xdg_positioner'', ''xdg_surface'', ''xdg_toplevel'', ''xdg_popup'']"
  by code_simp

lemma xdg_shell_protocol_enum_names:
  "enum_names xdg_shell_protocol =
     [(''xdg_wm_base'', ''error'', Wint_underlying),
      (''xdg_positioner'', ''error'', Wint_underlying),
      (''xdg_positioner'', ''anchor'', Wint_underlying),
      (''xdg_positioner'', ''gravity'', Wint_underlying),
      (''xdg_positioner'', ''constraint_adjustment'', Wuint_underlying),
      (''xdg_surface'', ''error'', Wint_underlying),
      (''xdg_toplevel'', ''error'', Wint_underlying),
      (''xdg_toplevel'', ''resize_edge'', Wint_underlying),
      (''xdg_toplevel'', ''state'', Wint_underlying),
      (''xdg_toplevel'', ''wm_capabilities'', Wint_underlying),
      (''xdg_popup'', ''error'', Wint_underlying)]"
  by code_simp

lemmas xdg_shell_protocol_names [protocol_names] =
  all_declared [of xdg_shell_protocol, unfolded xdg_shell_protocol_interface_names list.pred_inject]
  all_declared_enums [of xdg_shell_protocol, unfolded xdg_shell_protocol_enum_names list.pred_inject]

lemmas xdg_shell_protocol_interfaces =
  arg_cong [OF xdg_shell_protocol_def, of protocol_interfaces, unfolded protocol.simps]

lemmas xdg_shell_protocol_message_defs =
  xdg_wm_base_interface_def xdg_positioner_interface_def xdg_surface_interface_def
  xdg_toplevel_interface_def xdg_popup_interface_def xdg_wm_base_request_destroy_def
  xdg_wm_base_request_create_positioner_def xdg_wm_base_request_get_xdg_surface_def
  xdg_wm_base_request_pong_def xdg_wm_base_event_ping_def xdg_positioner_request_destroy_def
  xdg_positioner_request_set_size_def xdg_positioner_request_set_anchor_rect_def
  xdg_positioner_request_set_anchor_def xdg_positioner_request_set_gravity_def
  xdg_positioner_request_set_constraint_adjustment_def xdg_positioner_request_set_offset_def
  xdg_positioner_request_set_reactive_def xdg_positioner_request_set_parent_size_def
  xdg_positioner_request_set_parent_configure_def xdg_surface_request_destroy_def
  xdg_surface_request_get_toplevel_def xdg_surface_request_get_popup_def
  xdg_surface_request_set_window_geometry_def xdg_surface_request_ack_configure_def
  xdg_surface_event_configure_def xdg_toplevel_request_destroy_def
  xdg_toplevel_request_set_parent_def xdg_toplevel_request_set_title_def
  xdg_toplevel_request_set_app_id_def xdg_toplevel_request_show_window_menu_def
  xdg_toplevel_request_move_def xdg_toplevel_request_resize_def
  xdg_toplevel_request_set_max_size_def xdg_toplevel_request_set_min_size_def
  xdg_toplevel_request_set_maximized_def xdg_toplevel_request_unset_maximized_def
  xdg_toplevel_request_set_fullscreen_def xdg_toplevel_request_unset_fullscreen_def
  xdg_toplevel_request_set_minimized_def xdg_toplevel_event_configure_def
  xdg_toplevel_event_close_def xdg_toplevel_event_configure_bounds_def
  xdg_toplevel_event_wm_capabilities_def xdg_popup_request_destroy_def
  xdg_popup_request_grab_def xdg_popup_request_reposition_def xdg_popup_event_configure_def
  xdg_popup_event_popup_done_def xdg_popup_event_repositioned_def

end
