(* ===== verification/Tablet_V2_Protocol.thy ===== *)
theory Tablet_V2_Protocol
  imports Protocol_Tables
begin

text \<open>
  The declarations of \<^verbatim>\<open>tablet_v2_protocol.hpp\<close>, in the order of the header: its interfaces with what they
  declare, then per interface the enumerations, the requests and the events.
\<close>

section \<open>Interfaces\<close>

definition zwp_tablet_manager_v2_decl :: interface_decl where
  "zwp_tablet_manager_v2_decl =
     \<lparr>decl_name = ''zwp_tablet_manager_v2'',
      decl_enums = [],
      decl_requests = [''get_tablet_seat'', ''destroy''],
      decl_events = []\<rparr>"

definition zwp_tablet_seat_v2_decl :: interface_decl where
  "zwp_tablet_seat_v2_decl =
     \<lparr>decl_name = ''zwp_tablet_seat_v2'',
      decl_enums = [],
      decl_requests = [''destroy''],
      decl_events = [''tablet_added'', ''tool_added'', ''pad_added'']\<rparr>"

definition zwp_tablet_tool_v2_decl :: interface_decl where
  "zwp_tablet_tool_v2_decl =
     \<lparr>decl_name = ''zwp_tablet_tool_v2'',
      decl_enums = [(''type'', Wint_underlying), (''capability'', Wint_underlying),
                    (''button_state'', Wint_underlying), (''error'', Wint_underlying)],
      decl_requests = [''set_cursor'', ''destroy''],
      decl_events = [''type'', ''hardware_serial'', ''hardware_id_wacom'', ''capability'',
                     ''done'', ''removed'', ''proximity_in'', ''proximity_out'', ''down'', ''up'',
                     ''motion'', ''pressure'', ''distance'', ''tilt'', ''rotation'', ''slider'',
                     ''wheel'', ''button'', ''frame'']\<rparr>"

definition zwp_tablet_v2_decl :: interface_decl where
  "zwp_tablet_v2_decl =
     \<lparr>decl_name = ''zwp_tablet_v2'',
      decl_enums = [],
      decl_requests = [''destroy''],
      decl_events = [''name'', ''id'', ''path'', ''done'', ''removed'']\<rparr>"

definition zwp_tablet_pad_ring_v2_decl :: interface_decl where
  "zwp_tablet_pad_ring_v2_decl =
     \<lparr>decl_name = ''zwp_tablet_pad_ring_v2'',
      decl_enums = [(''source'', Wint_underlying)],
      decl_requests = [''set_feedback'', ''destroy''],
      decl_events = [''source'', ''angle'', ''stop'', ''frame'']\<rparr>"

definition zwp_tablet_pad_strip_v2_decl :: interface_decl where
  "zwp_tablet_pad_strip_v2_decl =
     \<lparr>decl_name = ''zwp_tablet_pad_strip_v2'',
      decl_enums = [(''source'', Wint_underlying)],
      decl_requests = [''set_feedback'', ''destroy''],
      decl_events = [''source'', ''position'', ''stop'', ''frame'']\<rparr>"

definition zwp_tablet_pad_group_v2_decl :: interface_decl where
  "zwp_tablet_pad_group_v2_decl =
     \<lparr>decl_name = ''zwp_tablet_pad_group_v2'',
      decl_enums = [],
      decl_requests = [''destroy''],
      decl_events = [''buttons'', ''ring'', ''strip'', ''modes'', ''done'', ''mode_switch'']\<rparr>"

definition zwp_tablet_pad_v2_decl :: interface_decl where
  "zwp_tablet_pad_v2_decl =
     \<lparr>decl_name = ''zwp_tablet_pad_v2'',
      decl_enums = [(''button_state'', Wint_underlying)],
      decl_requests = [''set_feedback'', ''destroy''],
      decl_events = [''group'', ''path'', ''buttons'', ''done'', ''button'', ''enter'', ''leave'',
                     ''removed'']\<rparr>"

section \<open>\<^verbatim>\<open>zwp_tablet_manager_v2\<close>\<close>

definition zwp_tablet_manager_v2_request_get_tablet_seat :: message_type where
  "zwp_tablet_manager_v2_request_get_tablet_seat =
     \<lparr>msg_interface = protocol_interface ''zwp_tablet_manager_v2'', msg_kind = Request, msg_name = ''get_tablet_seat'',
      msg_opcode = 0,
      msg_fields = [(''tablet_seat'', TWnew_id (protocol_interface ''zwp_tablet_seat_v2'')),
                    (''seat'', TWobject (protocol_interface ''wl_seat''))]\<rparr>"

definition zwp_tablet_manager_v2_request_destroy :: message_type where
  "zwp_tablet_manager_v2_request_destroy =
     \<lparr>msg_interface = protocol_interface ''zwp_tablet_manager_v2'', msg_kind = Request, msg_name = ''destroy'',
      msg_opcode = 1,
      msg_fields = []\<rparr>"

section \<open>\<^verbatim>\<open>zwp_tablet_seat_v2\<close>\<close>

definition zwp_tablet_seat_v2_request_destroy :: message_type where
  "zwp_tablet_seat_v2_request_destroy =
     \<lparr>msg_interface = protocol_interface ''zwp_tablet_seat_v2'', msg_kind = Request, msg_name = ''destroy'',
      msg_opcode = 0,
      msg_fields = []\<rparr>"

definition zwp_tablet_seat_v2_event_tablet_added :: message_type where
  "zwp_tablet_seat_v2_event_tablet_added =
     \<lparr>msg_interface = protocol_interface ''zwp_tablet_seat_v2'', msg_kind = Event, msg_name = ''tablet_added'',
      msg_opcode = 0,
      msg_fields = [(''id'', TWnew_id (protocol_interface ''zwp_tablet_v2''))]\<rparr>"

definition zwp_tablet_seat_v2_event_tool_added :: message_type where
  "zwp_tablet_seat_v2_event_tool_added =
     \<lparr>msg_interface = protocol_interface ''zwp_tablet_seat_v2'', msg_kind = Event, msg_name = ''tool_added'',
      msg_opcode = 1,
      msg_fields = [(''id'', TWnew_id (protocol_interface ''zwp_tablet_tool_v2''))]\<rparr>"

definition zwp_tablet_seat_v2_event_pad_added :: message_type where
  "zwp_tablet_seat_v2_event_pad_added =
     \<lparr>msg_interface = protocol_interface ''zwp_tablet_seat_v2'', msg_kind = Event, msg_name = ''pad_added'',
      msg_opcode = 2,
      msg_fields = [(''id'', TWnew_id (protocol_interface ''zwp_tablet_pad_v2''))]\<rparr>"

section \<open>\<^verbatim>\<open>zwp_tablet_tool_v2\<close>\<close>

definition zwp_tablet_tool_v2_enum_type :: enum_type where
  "zwp_tablet_tool_v2_enum_type =
     \<lparr>enum_interface = ''zwp_tablet_tool_v2'', enum_name = ''type'', enum_underlying = Wint_underlying,
      enumerators = [(''Epen'', 320), (''Eeraser'', 321), (''Ebrush'', 322), (''Epencil'', 323),
                     (''Eairbrush'', 324), (''Efinger'', 325), (''Emouse'', 326), (''Elens'', 327)]\<rparr>"

definition zwp_tablet_tool_v2_enum_capability :: enum_type where
  "zwp_tablet_tool_v2_enum_capability =
     \<lparr>enum_interface = ''zwp_tablet_tool_v2'', enum_name = ''capability'', enum_underlying = Wint_underlying,
      enumerators = [(''Etilt'', 1), (''Epressure'', 2), (''Edistance'', 3), (''Erotation'', 4),
                     (''Eslider'', 5), (''Ewheel'', 6)]\<rparr>"

definition zwp_tablet_tool_v2_enum_button_state :: enum_type where
  "zwp_tablet_tool_v2_enum_button_state =
     \<lparr>enum_interface = ''zwp_tablet_tool_v2'', enum_name = ''button_state'', enum_underlying = Wint_underlying,
      enumerators = [(''Ereleased'', 0), (''Epressed'', 1)]\<rparr>"

definition zwp_tablet_tool_v2_enum_error :: enum_type where
  "zwp_tablet_tool_v2_enum_error =
     \<lparr>enum_interface = ''zwp_tablet_tool_v2'', enum_name = ''error'', enum_underlying = Wint_underlying,
      enumerators = [(''Erole'', 0)]\<rparr>"

definition zwp_tablet_tool_v2_request_set_cursor :: message_type where
  "zwp_tablet_tool_v2_request_set_cursor =
     \<lparr>msg_interface = protocol_interface ''zwp_tablet_tool_v2'', msg_kind = Request, msg_name = ''set_cursor'',
      msg_opcode = 0,
      msg_fields = [(''serial'', TWuint),
                    (''surface'', TWobject (protocol_interface ''wl_surface'')),
                    (''hotspot_x'', TWint), (''hotspot_y'', TWint)]\<rparr>"

definition zwp_tablet_tool_v2_request_destroy :: message_type where
  "zwp_tablet_tool_v2_request_destroy =
     \<lparr>msg_interface = protocol_interface ''zwp_tablet_tool_v2'', msg_kind = Request, msg_name = ''destroy'',
      msg_opcode = 1,
      msg_fields = []\<rparr>"

definition zwp_tablet_tool_v2_event_type :: message_type where
  "zwp_tablet_tool_v2_event_type =
     \<lparr>msg_interface = protocol_interface ''zwp_tablet_tool_v2'', msg_kind = Event, msg_name = ''type'',
      msg_opcode = 0,
      msg_fields = [(''tool_type'', TWenum Wint_underlying ''zwp_tablet_tool_v2'' ''type'')]\<rparr>"

definition zwp_tablet_tool_v2_event_hardware_serial :: message_type where
  "zwp_tablet_tool_v2_event_hardware_serial =
     \<lparr>msg_interface = protocol_interface ''zwp_tablet_tool_v2'', msg_kind = Event, msg_name = ''hardware_serial'',
      msg_opcode = 1,
      msg_fields = [(''hardware_serial_hi'', TWuint), (''hardware_serial_lo'', TWuint)]\<rparr>"

definition zwp_tablet_tool_v2_event_hardware_id_wacom :: message_type where
  "zwp_tablet_tool_v2_event_hardware_id_wacom =
     \<lparr>msg_interface = protocol_interface ''zwp_tablet_tool_v2'', msg_kind = Event, msg_name = ''hardware_id_wacom'',
      msg_opcode = 2,
      msg_fields = [(''hardware_id_hi'', TWuint), (''hardware_id_lo'', TWuint)]\<rparr>"

definition zwp_tablet_tool_v2_event_capability :: message_type where
  "zwp_tablet_tool_v2_event_capability =
     \<lparr>msg_interface = protocol_interface ''zwp_tablet_tool_v2'', msg_kind = Event, msg_name = ''capability'',
      msg_opcode = 3,
      msg_fields = [(''capability'', TWenum Wint_underlying ''zwp_tablet_tool_v2'' ''capability'')]\<rparr>"

definition zwp_tablet_tool_v2_event_done :: message_type where
  "zwp_tablet_tool_v2_event_done =
     \<lparr>msg_interface = protocol_interface ''zwp_tablet_tool_v2'', msg_kind = Event, msg_name = ''done'',
      msg_opcode = 4,
      msg_fields = []\<rparr>"

definition zwp_tablet_tool_v2_event_removed :: message_type where
  "zwp_tablet_tool_v2_event_removed =
     \<lparr>msg_interface = protocol_interface ''zwp_tablet_tool_v2'', msg_kind = Event, msg_name = ''removed'',
      msg_opcode = 5,
      msg_fields = []\<rparr>"

definition zwp_tablet_tool_v2_event_proximity_in :: message_type where
  "zwp_tablet_tool_v2_event_proximity_in =
     \<lparr>msg_interface = protocol_interface ''zwp_tablet_tool_v2'', msg_kind = Event, msg_name = ''proximity_in'',
      msg_opcode = 6,
      msg_fields = [(''serial'', TWuint),
                    (''tablet'', TWobject (protocol_interface ''zwp_tablet_v2'')),
                    (''surface'', TWobject (protocol_interface ''wl_surface''))]\<rparr>"

definition zwp_tablet_tool_v2_event_proximity_out :: message_type where
  "zwp_tablet_tool_v2_event_proximity_out =
     \<lparr>msg_interface = protocol_interface ''zwp_tablet_tool_v2'', msg_kind = Event, msg_name = ''proximity_out'',
      msg_opcode = 7,
      msg_fields = []\<rparr>"

definition zwp_tablet_tool_v2_event_down :: message_type where
  "zwp_tablet_tool_v2_event_down =
     \<lparr>msg_interface = protocol_interface ''zwp_tablet_tool_v2'', msg_kind = Event, msg_name = ''down'',
      msg_opcode = 8,
      msg_fields = [(''serial'', TWuint)]\<rparr>"

definition zwp_tablet_tool_v2_event_up :: message_type where
  "zwp_tablet_tool_v2_event_up =
     \<lparr>msg_interface = protocol_interface ''zwp_tablet_tool_v2'', msg_kind = Event, msg_name = ''up'',
      msg_opcode = 9,
      msg_fields = []\<rparr>"

definition zwp_tablet_tool_v2_event_motion :: message_type where
  "zwp_tablet_tool_v2_event_motion =
     \<lparr>msg_interface = protocol_interface ''zwp_tablet_tool_v2'', msg_kind = Event, msg_name = ''motion'',
      msg_opcode = 10,
      msg_fields = [(''x'', TWfixed), (''y'', TWfixed)]\<rparr>"

definition zwp_tablet_tool_v2_event_pressure :: message_type where
  "zwp_tablet_tool_v2_event_pressure =
     \<lparr>msg_interface = protocol_interface ''zwp_tablet_tool_v2'', msg_kind = Event, msg_name = ''pressure'',
      msg_opcode = 11,
      msg_fields = [(''pressure'', TWuint)]\<rparr>"

definition zwp_tablet_tool_v2_event_distance :: message_type where
  "zwp_tablet_tool_v2_event_distance =
     \<lparr>msg_interface = protocol_interface ''zwp_tablet_tool_v2'', msg_kind = Event, msg_name = ''distance'',
      msg_opcode = 12,
      msg_fields = [(''distance'', TWuint)]\<rparr>"

definition zwp_tablet_tool_v2_event_tilt :: message_type where
  "zwp_tablet_tool_v2_event_tilt =
     \<lparr>msg_interface = protocol_interface ''zwp_tablet_tool_v2'', msg_kind = Event, msg_name = ''tilt'',
      msg_opcode = 13,
      msg_fields = [(''tilt_x'', TWfixed), (''tilt_y'', TWfixed)]\<rparr>"

definition zwp_tablet_tool_v2_event_rotation :: message_type where
  "zwp_tablet_tool_v2_event_rotation =
     \<lparr>msg_interface = protocol_interface ''zwp_tablet_tool_v2'', msg_kind = Event, msg_name = ''rotation'',
      msg_opcode = 14,
      msg_fields = [(''degrees'', TWfixed)]\<rparr>"

definition zwp_tablet_tool_v2_event_slider :: message_type where
  "zwp_tablet_tool_v2_event_slider =
     \<lparr>msg_interface = protocol_interface ''zwp_tablet_tool_v2'', msg_kind = Event, msg_name = ''slider'',
      msg_opcode = 15,
      msg_fields = [(''position'', TWint)]\<rparr>"

definition zwp_tablet_tool_v2_event_wheel :: message_type where
  "zwp_tablet_tool_v2_event_wheel =
     \<lparr>msg_interface = protocol_interface ''zwp_tablet_tool_v2'', msg_kind = Event, msg_name = ''wheel'',
      msg_opcode = 16,
      msg_fields = [(''degrees'', TWfixed), (''clicks'', TWint)]\<rparr>"

definition zwp_tablet_tool_v2_event_button :: message_type where
  "zwp_tablet_tool_v2_event_button =
     \<lparr>msg_interface = protocol_interface ''zwp_tablet_tool_v2'', msg_kind = Event, msg_name = ''button'',
      msg_opcode = 17,
      msg_fields = [(''serial'', TWuint), (''button'', TWuint),
                    (''state'', TWenum Wint_underlying ''zwp_tablet_tool_v2'' ''button_state'')]\<rparr>"

definition zwp_tablet_tool_v2_event_frame :: message_type where
  "zwp_tablet_tool_v2_event_frame =
     \<lparr>msg_interface = protocol_interface ''zwp_tablet_tool_v2'', msg_kind = Event, msg_name = ''frame'',
      msg_opcode = 18,
      msg_fields = [(''time'', TWuint)]\<rparr>"

section \<open>\<^verbatim>\<open>zwp_tablet_v2\<close>\<close>

definition zwp_tablet_v2_request_destroy :: message_type where
  "zwp_tablet_v2_request_destroy =
     \<lparr>msg_interface = protocol_interface ''zwp_tablet_v2'', msg_kind = Request, msg_name = ''destroy'',
      msg_opcode = 0,
      msg_fields = []\<rparr>"

definition zwp_tablet_v2_event_name :: message_type where
  "zwp_tablet_v2_event_name =
     \<lparr>msg_interface = protocol_interface ''zwp_tablet_v2'', msg_kind = Event, msg_name = ''name'',
      msg_opcode = 0,
      msg_fields = [(''name'', TWstring)]\<rparr>"

definition zwp_tablet_v2_event_id :: message_type where
  "zwp_tablet_v2_event_id =
     \<lparr>msg_interface = protocol_interface ''zwp_tablet_v2'', msg_kind = Event, msg_name = ''id'',
      msg_opcode = 1,
      msg_fields = [(''vid'', TWuint), (''pid'', TWuint)]\<rparr>"

definition zwp_tablet_v2_event_path :: message_type where
  "zwp_tablet_v2_event_path =
     \<lparr>msg_interface = protocol_interface ''zwp_tablet_v2'', msg_kind = Event, msg_name = ''path'',
      msg_opcode = 2,
      msg_fields = [(''path'', TWstring)]\<rparr>"

definition zwp_tablet_v2_event_done :: message_type where
  "zwp_tablet_v2_event_done =
     \<lparr>msg_interface = protocol_interface ''zwp_tablet_v2'', msg_kind = Event, msg_name = ''done'',
      msg_opcode = 3,
      msg_fields = []\<rparr>"

definition zwp_tablet_v2_event_removed :: message_type where
  "zwp_tablet_v2_event_removed =
     \<lparr>msg_interface = protocol_interface ''zwp_tablet_v2'', msg_kind = Event, msg_name = ''removed'',
      msg_opcode = 4,
      msg_fields = []\<rparr>"

section \<open>\<^verbatim>\<open>zwp_tablet_pad_ring_v2\<close>\<close>

definition zwp_tablet_pad_ring_v2_enum_source :: enum_type where
  "zwp_tablet_pad_ring_v2_enum_source =
     \<lparr>enum_interface = ''zwp_tablet_pad_ring_v2'', enum_name = ''source'', enum_underlying = Wint_underlying,
      enumerators = [(''Efinger'', 1)]\<rparr>"

definition zwp_tablet_pad_ring_v2_request_set_feedback :: message_type where
  "zwp_tablet_pad_ring_v2_request_set_feedback =
     \<lparr>msg_interface = protocol_interface ''zwp_tablet_pad_ring_v2'', msg_kind = Request, msg_name = ''set_feedback'',
      msg_opcode = 0,
      msg_fields = [(''description'', TWstring), (''serial'', TWuint)]\<rparr>"

definition zwp_tablet_pad_ring_v2_request_destroy :: message_type where
  "zwp_tablet_pad_ring_v2_request_destroy =
     \<lparr>msg_interface = protocol_interface ''zwp_tablet_pad_ring_v2'', msg_kind = Request, msg_name = ''destroy'',
      msg_opcode = 1,
      msg_fields = []\<rparr>"

definition zwp_tablet_pad_ring_v2_event_source :: message_type where
  "zwp_tablet_pad_ring_v2_event_source =
     \<lparr>msg_interface = protocol_interface ''zwp_tablet_pad_ring_v2'', msg_kind = Event, msg_name = ''source'',
      msg_opcode = 0,
      msg_fields = [(''source'', TWenum Wint_underlying ''zwp_tablet_pad_ring_v2'' ''source'')]\<rparr>"

definition zwp_tablet_pad_ring_v2_event_angle :: message_type where
  "zwp_tablet_pad_ring_v2_event_angle =
     \<lparr>msg_interface = protocol_interface ''zwp_tablet_pad_ring_v2'', msg_kind = Event, msg_name = ''angle'',
      msg_opcode = 1,
      msg_fields = [(''degrees'', TWfixed)]\<rparr>"

definition zwp_tablet_pad_ring_v2_event_stop :: message_type where
  "zwp_tablet_pad_ring_v2_event_stop =
     \<lparr>msg_interface = protocol_interface ''zwp_tablet_pad_ring_v2'', msg_kind = Event, msg_name = ''stop'',
      msg_opcode = 2,
      msg_fields = []\<rparr>"

definition zwp_tablet_pad_ring_v2_event_frame :: message_type where
  "zwp_tablet_pad_ring_v2_event_frame =
     \<lparr>msg_interface = protocol_interface ''zwp_tablet_pad_ring_v2'', msg_kind = Event, msg_name = ''frame'',
      msg_opcode = 3,
      msg_fields = [(''time'', TWuint)]\<rparr>"

section \<open>\<^verbatim>\<open>zwp_tablet_pad_strip_v2\<close>\<close>

definition zwp_tablet_pad_strip_v2_enum_source :: enum_type where
  "zwp_tablet_pad_strip_v2_enum_source =
     \<lparr>enum_interface = ''zwp_tablet_pad_strip_v2'', enum_name = ''source'', enum_underlying = Wint_underlying,
      enumerators = [(''Efinger'', 1)]\<rparr>"

definition zwp_tablet_pad_strip_v2_request_set_feedback :: message_type where
  "zwp_tablet_pad_strip_v2_request_set_feedback =
     \<lparr>msg_interface = protocol_interface ''zwp_tablet_pad_strip_v2'', msg_kind = Request, msg_name = ''set_feedback'',
      msg_opcode = 0,
      msg_fields = [(''description'', TWstring), (''serial'', TWuint)]\<rparr>"

definition zwp_tablet_pad_strip_v2_request_destroy :: message_type where
  "zwp_tablet_pad_strip_v2_request_destroy =
     \<lparr>msg_interface = protocol_interface ''zwp_tablet_pad_strip_v2'', msg_kind = Request, msg_name = ''destroy'',
      msg_opcode = 1,
      msg_fields = []\<rparr>"

definition zwp_tablet_pad_strip_v2_event_source :: message_type where
  "zwp_tablet_pad_strip_v2_event_source =
     \<lparr>msg_interface = protocol_interface ''zwp_tablet_pad_strip_v2'', msg_kind = Event, msg_name = ''source'',
      msg_opcode = 0,
      msg_fields = [(''source'', TWenum Wint_underlying ''zwp_tablet_pad_strip_v2'' ''source'')]\<rparr>"

definition zwp_tablet_pad_strip_v2_event_position :: message_type where
  "zwp_tablet_pad_strip_v2_event_position =
     \<lparr>msg_interface = protocol_interface ''zwp_tablet_pad_strip_v2'', msg_kind = Event, msg_name = ''position'',
      msg_opcode = 1,
      msg_fields = [(''position'', TWuint)]\<rparr>"

definition zwp_tablet_pad_strip_v2_event_stop :: message_type where
  "zwp_tablet_pad_strip_v2_event_stop =
     \<lparr>msg_interface = protocol_interface ''zwp_tablet_pad_strip_v2'', msg_kind = Event, msg_name = ''stop'',
      msg_opcode = 2,
      msg_fields = []\<rparr>"

definition zwp_tablet_pad_strip_v2_event_frame :: message_type where
  "zwp_tablet_pad_strip_v2_event_frame =
     \<lparr>msg_interface = protocol_interface ''zwp_tablet_pad_strip_v2'', msg_kind = Event, msg_name = ''frame'',
      msg_opcode = 3,
      msg_fields = [(''time'', TWuint)]\<rparr>"

section \<open>\<^verbatim>\<open>zwp_tablet_pad_group_v2\<close>\<close>

definition zwp_tablet_pad_group_v2_request_destroy :: message_type where
  "zwp_tablet_pad_group_v2_request_destroy =
     \<lparr>msg_interface = protocol_interface ''zwp_tablet_pad_group_v2'', msg_kind = Request, msg_name = ''destroy'',
      msg_opcode = 0,
      msg_fields = []\<rparr>"

definition zwp_tablet_pad_group_v2_event_buttons :: message_type where
  "zwp_tablet_pad_group_v2_event_buttons =
     \<lparr>msg_interface = protocol_interface ''zwp_tablet_pad_group_v2'', msg_kind = Event, msg_name = ''buttons'',
      msg_opcode = 0,
      msg_fields = [(''buttons'', TWarray)]\<rparr>"

definition zwp_tablet_pad_group_v2_event_ring :: message_type where
  "zwp_tablet_pad_group_v2_event_ring =
     \<lparr>msg_interface = protocol_interface ''zwp_tablet_pad_group_v2'', msg_kind = Event, msg_name = ''ring'',
      msg_opcode = 1,
      msg_fields = [(''ring'', TWnew_id (protocol_interface ''zwp_tablet_pad_ring_v2''))]\<rparr>"

definition zwp_tablet_pad_group_v2_event_strip :: message_type where
  "zwp_tablet_pad_group_v2_event_strip =
     \<lparr>msg_interface = protocol_interface ''zwp_tablet_pad_group_v2'', msg_kind = Event, msg_name = ''strip'',
      msg_opcode = 2,
      msg_fields = [(''strip'', TWnew_id (protocol_interface ''zwp_tablet_pad_strip_v2''))]\<rparr>"

definition zwp_tablet_pad_group_v2_event_modes :: message_type where
  "zwp_tablet_pad_group_v2_event_modes =
     \<lparr>msg_interface = protocol_interface ''zwp_tablet_pad_group_v2'', msg_kind = Event, msg_name = ''modes'',
      msg_opcode = 3,
      msg_fields = [(''modes'', TWuint)]\<rparr>"

definition zwp_tablet_pad_group_v2_event_done :: message_type where
  "zwp_tablet_pad_group_v2_event_done =
     \<lparr>msg_interface = protocol_interface ''zwp_tablet_pad_group_v2'', msg_kind = Event, msg_name = ''done'',
      msg_opcode = 4,
      msg_fields = []\<rparr>"

definition zwp_tablet_pad_group_v2_event_mode_switch :: message_type where
  "zwp_tablet_pad_group_v2_event_mode_switch =
     \<lparr>msg_interface = protocol_interface ''zwp_tablet_pad_group_v2'', msg_kind = Event, msg_name = ''mode_switch'',
      msg_opcode = 5,
      msg_fields = [(''time'', TWuint), (''serial'', TWuint), (''mode'', TWuint)]\<rparr>"

section \<open>\<^verbatim>\<open>zwp_tablet_pad_v2\<close>\<close>

definition zwp_tablet_pad_v2_enum_button_state :: enum_type where
  "zwp_tablet_pad_v2_enum_button_state =
     \<lparr>enum_interface = ''zwp_tablet_pad_v2'', enum_name = ''button_state'', enum_underlying = Wint_underlying,
      enumerators = [(''Ereleased'', 0), (''Epressed'', 1)]\<rparr>"

definition zwp_tablet_pad_v2_request_set_feedback :: message_type where
  "zwp_tablet_pad_v2_request_set_feedback =
     \<lparr>msg_interface = protocol_interface ''zwp_tablet_pad_v2'', msg_kind = Request, msg_name = ''set_feedback'',
      msg_opcode = 0,
      msg_fields = [(''button'', TWuint), (''description'', TWstring), (''serial'', TWuint)]\<rparr>"

definition zwp_tablet_pad_v2_request_destroy :: message_type where
  "zwp_tablet_pad_v2_request_destroy =
     \<lparr>msg_interface = protocol_interface ''zwp_tablet_pad_v2'', msg_kind = Request, msg_name = ''destroy'',
      msg_opcode = 1,
      msg_fields = []\<rparr>"

definition zwp_tablet_pad_v2_event_group :: message_type where
  "zwp_tablet_pad_v2_event_group =
     \<lparr>msg_interface = protocol_interface ''zwp_tablet_pad_v2'', msg_kind = Event, msg_name = ''group'',
      msg_opcode = 0,
      msg_fields = [(''pad_group'', TWnew_id (protocol_interface ''zwp_tablet_pad_group_v2''))]\<rparr>"

definition zwp_tablet_pad_v2_event_path :: message_type where
  "zwp_tablet_pad_v2_event_path =
     \<lparr>msg_interface = protocol_interface ''zwp_tablet_pad_v2'', msg_kind = Event, msg_name = ''path'',
      msg_opcode = 1,
      msg_fields = [(''path'', TWstring)]\<rparr>"

definition zwp_tablet_pad_v2_event_buttons :: message_type where
  "zwp_tablet_pad_v2_event_buttons =
     \<lparr>msg_interface = protocol_interface ''zwp_tablet_pad_v2'', msg_kind = Event, msg_name = ''buttons'',
      msg_opcode = 2,
      msg_fields = [(''buttons'', TWuint)]\<rparr>"

definition zwp_tablet_pad_v2_event_done :: message_type where
  "zwp_tablet_pad_v2_event_done =
     \<lparr>msg_interface = protocol_interface ''zwp_tablet_pad_v2'', msg_kind = Event, msg_name = ''done'',
      msg_opcode = 3,
      msg_fields = []\<rparr>"

definition zwp_tablet_pad_v2_event_button :: message_type where
  "zwp_tablet_pad_v2_event_button =
     \<lparr>msg_interface = protocol_interface ''zwp_tablet_pad_v2'', msg_kind = Event, msg_name = ''button'',
      msg_opcode = 4,
      msg_fields = [(''time'', TWuint), (''button'', TWuint),
                    (''state'', TWenum Wint_underlying ''zwp_tablet_pad_v2'' ''button_state'')]\<rparr>"

definition zwp_tablet_pad_v2_event_enter :: message_type where
  "zwp_tablet_pad_v2_event_enter =
     \<lparr>msg_interface = protocol_interface ''zwp_tablet_pad_v2'', msg_kind = Event, msg_name = ''enter'',
      msg_opcode = 5,
      msg_fields = [(''serial'', TWuint),
                    (''tablet'', TWobject (protocol_interface ''zwp_tablet_v2'')),
                    (''surface'', TWobject (protocol_interface ''wl_surface''))]\<rparr>"

definition zwp_tablet_pad_v2_event_leave :: message_type where
  "zwp_tablet_pad_v2_event_leave =
     \<lparr>msg_interface = protocol_interface ''zwp_tablet_pad_v2'', msg_kind = Event, msg_name = ''leave'',
      msg_opcode = 6,
      msg_fields = [(''serial'', TWuint),
                    (''surface'', TWobject (protocol_interface ''wl_surface''))]\<rparr>"

definition zwp_tablet_pad_v2_event_removed :: message_type where
  "zwp_tablet_pad_v2_event_removed =
     \<lparr>msg_interface = protocol_interface ''zwp_tablet_pad_v2'', msg_kind = Event, msg_name = ''removed'',
      msg_opcode = 7,
      msg_fields = []\<rparr>"

section \<open>The interfaces with their definitions\<close>

definition zwp_tablet_manager_v2_interface :: interface_def where
  "zwp_tablet_manager_v2_interface =
     \<lparr>forward_decl = zwp_tablet_manager_v2_decl,
      enum_definitions = [],
      request_messages = [zwp_tablet_manager_v2_request_get_tablet_seat,
                          zwp_tablet_manager_v2_request_destroy],
      event_messages = []\<rparr>"

definition zwp_tablet_seat_v2_interface :: interface_def where
  "zwp_tablet_seat_v2_interface =
     \<lparr>forward_decl = zwp_tablet_seat_v2_decl,
      enum_definitions = [],
      request_messages = [zwp_tablet_seat_v2_request_destroy],
      event_messages = [zwp_tablet_seat_v2_event_tablet_added, zwp_tablet_seat_v2_event_tool_added,
                        zwp_tablet_seat_v2_event_pad_added]\<rparr>"

definition zwp_tablet_tool_v2_interface :: interface_def where
  "zwp_tablet_tool_v2_interface =
     \<lparr>forward_decl = zwp_tablet_tool_v2_decl,
      enum_definitions = [zwp_tablet_tool_v2_enum_type, zwp_tablet_tool_v2_enum_capability,
                          zwp_tablet_tool_v2_enum_button_state, zwp_tablet_tool_v2_enum_error],
      request_messages = [zwp_tablet_tool_v2_request_set_cursor, zwp_tablet_tool_v2_request_destroy],
      event_messages = [zwp_tablet_tool_v2_event_type, zwp_tablet_tool_v2_event_hardware_serial,
                        zwp_tablet_tool_v2_event_hardware_id_wacom,
                        zwp_tablet_tool_v2_event_capability, zwp_tablet_tool_v2_event_done,
                        zwp_tablet_tool_v2_event_removed, zwp_tablet_tool_v2_event_proximity_in,
                        zwp_tablet_tool_v2_event_proximity_out, zwp_tablet_tool_v2_event_down,
                        zwp_tablet_tool_v2_event_up, zwp_tablet_tool_v2_event_motion,
                        zwp_tablet_tool_v2_event_pressure, zwp_tablet_tool_v2_event_distance,
                        zwp_tablet_tool_v2_event_tilt, zwp_tablet_tool_v2_event_rotation,
                        zwp_tablet_tool_v2_event_slider, zwp_tablet_tool_v2_event_wheel,
                        zwp_tablet_tool_v2_event_button, zwp_tablet_tool_v2_event_frame]\<rparr>"

definition zwp_tablet_v2_interface :: interface_def where
  "zwp_tablet_v2_interface =
     \<lparr>forward_decl = zwp_tablet_v2_decl,
      enum_definitions = [],
      request_messages = [zwp_tablet_v2_request_destroy],
      event_messages = [zwp_tablet_v2_event_name, zwp_tablet_v2_event_id, zwp_tablet_v2_event_path,
                        zwp_tablet_v2_event_done, zwp_tablet_v2_event_removed]\<rparr>"

definition zwp_tablet_pad_ring_v2_interface :: interface_def where
  "zwp_tablet_pad_ring_v2_interface =
     \<lparr>forward_decl = zwp_tablet_pad_ring_v2_decl,
      enum_definitions = [zwp_tablet_pad_ring_v2_enum_source],
      request_messages = [zwp_tablet_pad_ring_v2_request_set_feedback,
                          zwp_tablet_pad_ring_v2_request_destroy],
      event_messages = [zwp_tablet_pad_ring_v2_event_source, zwp_tablet_pad_ring_v2_event_angle,
                        zwp_tablet_pad_ring_v2_event_stop, zwp_tablet_pad_ring_v2_event_frame]\<rparr>"

definition zwp_tablet_pad_strip_v2_interface :: interface_def where
  "zwp_tablet_pad_strip_v2_interface =
     \<lparr>forward_decl = zwp_tablet_pad_strip_v2_decl,
      enum_definitions = [zwp_tablet_pad_strip_v2_enum_source],
      request_messages = [zwp_tablet_pad_strip_v2_request_set_feedback,
                          zwp_tablet_pad_strip_v2_request_destroy],
      event_messages = [zwp_tablet_pad_strip_v2_event_source,
                        zwp_tablet_pad_strip_v2_event_position, zwp_tablet_pad_strip_v2_event_stop,
                        zwp_tablet_pad_strip_v2_event_frame]\<rparr>"

definition zwp_tablet_pad_group_v2_interface :: interface_def where
  "zwp_tablet_pad_group_v2_interface =
     \<lparr>forward_decl = zwp_tablet_pad_group_v2_decl,
      enum_definitions = [],
      request_messages = [zwp_tablet_pad_group_v2_request_destroy],
      event_messages = [zwp_tablet_pad_group_v2_event_buttons, zwp_tablet_pad_group_v2_event_ring,
                        zwp_tablet_pad_group_v2_event_strip, zwp_tablet_pad_group_v2_event_modes,
                        zwp_tablet_pad_group_v2_event_done,
                        zwp_tablet_pad_group_v2_event_mode_switch]\<rparr>"

definition zwp_tablet_pad_v2_interface :: interface_def where
  "zwp_tablet_pad_v2_interface =
     \<lparr>forward_decl = zwp_tablet_pad_v2_decl,
      enum_definitions = [zwp_tablet_pad_v2_enum_button_state],
      request_messages = [zwp_tablet_pad_v2_request_set_feedback, zwp_tablet_pad_v2_request_destroy],
      event_messages = [zwp_tablet_pad_v2_event_group, zwp_tablet_pad_v2_event_path,
                        zwp_tablet_pad_v2_event_buttons, zwp_tablet_pad_v2_event_done,
                        zwp_tablet_pad_v2_event_button, zwp_tablet_pad_v2_event_enter,
                        zwp_tablet_pad_v2_event_leave, zwp_tablet_pad_v2_event_removed]\<rparr>"

section \<open>The header\<close>

definition tablet_v2_protocol :: protocol where
  "tablet_v2_protocol =
     \<lparr>protocol_name = ''tablet_v2'',
      protocol_interfaces = [zwp_tablet_manager_v2_interface, zwp_tablet_seat_v2_interface,
                             zwp_tablet_tool_v2_interface, zwp_tablet_v2_interface,
                             zwp_tablet_pad_ring_v2_interface, zwp_tablet_pad_strip_v2_interface,
                             zwp_tablet_pad_group_v2_interface, zwp_tablet_pad_v2_interface]\<rparr>"

section \<open>Names and definitions\<close>

lemma tablet_v2_protocol_interface_names:
  "interface_names tablet_v2_protocol =
     [''zwp_tablet_manager_v2'', ''zwp_tablet_seat_v2'', ''zwp_tablet_tool_v2'', ''zwp_tablet_v2'',
      ''zwp_tablet_pad_ring_v2'', ''zwp_tablet_pad_strip_v2'', ''zwp_tablet_pad_group_v2'',
      ''zwp_tablet_pad_v2'']"
  by code_simp

lemma tablet_v2_protocol_enum_names:
  "enum_names tablet_v2_protocol =
     [(''zwp_tablet_tool_v2'', ''type'', Wint_underlying),
      (''zwp_tablet_tool_v2'', ''capability'', Wint_underlying),
      (''zwp_tablet_tool_v2'', ''button_state'', Wint_underlying),
      (''zwp_tablet_tool_v2'', ''error'', Wint_underlying),
      (''zwp_tablet_pad_ring_v2'', ''source'', Wint_underlying),
      (''zwp_tablet_pad_strip_v2'', ''source'', Wint_underlying),
      (''zwp_tablet_pad_v2'', ''button_state'', Wint_underlying)]"
  by code_simp

lemmas tablet_v2_protocol_names [protocol_names] =
  all_declared [of tablet_v2_protocol, unfolded tablet_v2_protocol_interface_names list.pred_inject]
  all_declared_enums [of tablet_v2_protocol, unfolded tablet_v2_protocol_enum_names list.pred_inject]

lemmas tablet_v2_protocol_interfaces =
  arg_cong [OF tablet_v2_protocol_def, of protocol_interfaces, unfolded protocol.simps]

lemmas tablet_v2_protocol_message_defs =
  zwp_tablet_manager_v2_interface_def zwp_tablet_seat_v2_interface_def
  zwp_tablet_tool_v2_interface_def zwp_tablet_v2_interface_def
  zwp_tablet_pad_ring_v2_interface_def zwp_tablet_pad_strip_v2_interface_def
  zwp_tablet_pad_group_v2_interface_def zwp_tablet_pad_v2_interface_def
  zwp_tablet_manager_v2_request_get_tablet_seat_def zwp_tablet_manager_v2_request_destroy_def
  zwp_tablet_seat_v2_request_destroy_def zwp_tablet_seat_v2_event_tablet_added_def
  zwp_tablet_seat_v2_event_tool_added_def zwp_tablet_seat_v2_event_pad_added_def
  zwp_tablet_tool_v2_request_set_cursor_def zwp_tablet_tool_v2_request_destroy_def
  zwp_tablet_tool_v2_event_type_def zwp_tablet_tool_v2_event_hardware_serial_def
  zwp_tablet_tool_v2_event_hardware_id_wacom_def zwp_tablet_tool_v2_event_capability_def
  zwp_tablet_tool_v2_event_done_def zwp_tablet_tool_v2_event_removed_def
  zwp_tablet_tool_v2_event_proximity_in_def zwp_tablet_tool_v2_event_proximity_out_def
  zwp_tablet_tool_v2_event_down_def zwp_tablet_tool_v2_event_up_def
  zwp_tablet_tool_v2_event_motion_def zwp_tablet_tool_v2_event_pressure_def
  zwp_tablet_tool_v2_event_distance_def zwp_tablet_tool_v2_event_tilt_def
  zwp_tablet_tool_v2_event_rotation_def zwp_tablet_tool_v2_event_slider_def
  zwp_tablet_tool_v2_event_wheel_def zwp_tablet_tool_v2_event_button_def
  zwp_tablet_tool_v2_event_frame_def zwp_tablet_v2_request_destroy_def
  zwp_tablet_v2_event_name_def zwp_tablet_v2_event_id_def zwp_tablet_v2_event_path_def
  zwp_tablet_v2_event_done_def zwp_tablet_v2_event_removed_def
  zwp_tablet_pad_ring_v2_request_set_feedback_def zwp_tablet_pad_ring_v2_request_destroy_def
  zwp_tablet_pad_ring_v2_event_source_def zwp_tablet_pad_ring_v2_event_angle_def
  zwp_tablet_pad_ring_v2_event_stop_def zwp_tablet_pad_ring_v2_event_frame_def
  zwp_tablet_pad_strip_v2_request_set_feedback_def zwp_tablet_pad_strip_v2_request_destroy_def
  zwp_tablet_pad_strip_v2_event_source_def zwp_tablet_pad_strip_v2_event_position_def
  zwp_tablet_pad_strip_v2_event_stop_def zwp_tablet_pad_strip_v2_event_frame_def
  zwp_tablet_pad_group_v2_request_destroy_def zwp_tablet_pad_group_v2_event_buttons_def
  zwp_tablet_pad_group_v2_event_ring_def zwp_tablet_pad_group_v2_event_strip_def
  zwp_tablet_pad_group_v2_event_modes_def zwp_tablet_pad_group_v2_event_done_def
  zwp_tablet_pad_group_v2_event_mode_switch_def zwp_tablet_pad_v2_request_set_feedback_def
  zwp_tablet_pad_v2_request_destroy_def zwp_tablet_pad_v2_event_group_def
  zwp_tablet_pad_v2_event_path_def zwp_tablet_pad_v2_event_buttons_def
  zwp_tablet_pad_v2_event_done_def zwp_tablet_pad_v2_event_button_def
  zwp_tablet_pad_v2_event_enter_def zwp_tablet_pad_v2_event_leave_def
  zwp_tablet_pad_v2_event_removed_def

end
