(* ===== verification/Linux_Dmabuf_V1_Protocol.thy ===== *)
theory Linux_Dmabuf_V1_Protocol
  imports Protocol_Tables
begin

text \<open>
  The declarations of \<^verbatim>\<open>linux_dmabuf_v1_protocol.hpp\<close>, in the order of the header: its interfaces with what they
  declare, then per interface the enumerations, the requests and the events.
\<close>

section \<open>Interfaces\<close>

definition zwp_linux_dmabuf_v1_decl :: interface_decl where
  "zwp_linux_dmabuf_v1_decl =
     \<lparr>decl_name = ''zwp_linux_dmabuf_v1'',
      decl_enums = [],
      decl_requests = [''destroy'', ''create_params'', ''get_default_feedback'',
                       ''get_surface_feedback''],
      decl_events = [''format'', ''modifier'']\<rparr>"

definition zwp_linux_buffer_params_v1_decl :: interface_decl where
  "zwp_linux_buffer_params_v1_decl =
     \<lparr>decl_name = ''zwp_linux_buffer_params_v1'',
      decl_enums = [(''error'', Wint_underlying), (''flags'', Wuint_underlying)],
      decl_requests = [''destroy'', ''add'', ''create'', ''create_immed''],
      decl_events = [''created'', ''failed'']\<rparr>"

definition zwp_linux_dmabuf_feedback_v1_decl :: interface_decl where
  "zwp_linux_dmabuf_feedback_v1_decl =
     \<lparr>decl_name = ''zwp_linux_dmabuf_feedback_v1'',
      decl_enums = [(''tranche_flags'', Wuint_underlying)],
      decl_requests = [''destroy''],
      decl_events = [''done'', ''format_table'', ''main_device'', ''tranche_done'',
                     ''tranche_target_device'', ''tranche_formats'', ''tranche_flags'']\<rparr>"

section \<open>\<^verbatim>\<open>zwp_linux_dmabuf_v1\<close>\<close>

definition zwp_linux_dmabuf_v1_request_destroy :: message_type where
  "zwp_linux_dmabuf_v1_request_destroy =
     \<lparr>msg_interface = protocol_interface ''zwp_linux_dmabuf_v1'', msg_kind = Request, msg_name = ''destroy'',
      msg_opcode = 0,
      msg_fields = []\<rparr>"

definition zwp_linux_dmabuf_v1_request_create_params :: message_type where
  "zwp_linux_dmabuf_v1_request_create_params =
     \<lparr>msg_interface = protocol_interface ''zwp_linux_dmabuf_v1'', msg_kind = Request, msg_name = ''create_params'',
      msg_opcode = 1,
      msg_fields = [(''params_id'', TWnew_id (protocol_interface ''zwp_linux_buffer_params_v1''))]\<rparr>"

definition zwp_linux_dmabuf_v1_request_get_default_feedback :: message_type where
  "zwp_linux_dmabuf_v1_request_get_default_feedback =
     \<lparr>msg_interface = protocol_interface ''zwp_linux_dmabuf_v1'', msg_kind = Request, msg_name = ''get_default_feedback'',
      msg_opcode = 2,
      msg_fields = [(''id'', TWnew_id (protocol_interface ''zwp_linux_dmabuf_feedback_v1''))]\<rparr>"

definition zwp_linux_dmabuf_v1_request_get_surface_feedback :: message_type where
  "zwp_linux_dmabuf_v1_request_get_surface_feedback =
     \<lparr>msg_interface = protocol_interface ''zwp_linux_dmabuf_v1'', msg_kind = Request, msg_name = ''get_surface_feedback'',
      msg_opcode = 3,
      msg_fields = [(''id'', TWnew_id (protocol_interface ''zwp_linux_dmabuf_feedback_v1'')),
                    (''surface'', TWobject (protocol_interface ''wl_surface''))]\<rparr>"

definition zwp_linux_dmabuf_v1_event_format :: message_type where
  "zwp_linux_dmabuf_v1_event_format =
     \<lparr>msg_interface = protocol_interface ''zwp_linux_dmabuf_v1'', msg_kind = Event, msg_name = ''format'',
      msg_opcode = 0,
      msg_fields = [(''format'', TWuint)]\<rparr>"

definition zwp_linux_dmabuf_v1_event_modifier :: message_type where
  "zwp_linux_dmabuf_v1_event_modifier =
     \<lparr>msg_interface = protocol_interface ''zwp_linux_dmabuf_v1'', msg_kind = Event, msg_name = ''modifier'',
      msg_opcode = 1,
      msg_fields = [(''format'', TWuint), (''modifier_hi'', TWuint), (''modifier_lo'', TWuint)]\<rparr>"

section \<open>\<^verbatim>\<open>zwp_linux_buffer_params_v1\<close>\<close>

definition zwp_linux_buffer_params_v1_enum_error :: enum_type where
  "zwp_linux_buffer_params_v1_enum_error =
     \<lparr>enum_interface = ''zwp_linux_buffer_params_v1'', enum_name = ''error'', enum_underlying = Wint_underlying,
      enumerators = [(''Ealready_used'', 0), (''Eplane_idx'', 1), (''Eplane_set'', 2),
                     (''Eincomplete'', 3), (''Einvalid_format'', 4), (''Einvalid_dimensions'', 5),
                     (''Eout_of_bounds'', 6), (''Einvalid_wl_buffer'', 7)]\<rparr>"

definition zwp_linux_buffer_params_v1_enum_flags :: enum_type where
  "zwp_linux_buffer_params_v1_enum_flags =
     \<lparr>enum_interface = ''zwp_linux_buffer_params_v1'', enum_name = ''flags'', enum_underlying = Wuint_underlying,
      enumerators = [(''Ey_invert'', 1), (''Einterlaced'', 2), (''Ebottom_first'', 4)]\<rparr>"

definition zwp_linux_buffer_params_v1_request_destroy :: message_type where
  "zwp_linux_buffer_params_v1_request_destroy =
     \<lparr>msg_interface = protocol_interface ''zwp_linux_buffer_params_v1'', msg_kind = Request, msg_name = ''destroy'',
      msg_opcode = 0,
      msg_fields = []\<rparr>"

definition zwp_linux_buffer_params_v1_request_add :: message_type where
  "zwp_linux_buffer_params_v1_request_add =
     \<lparr>msg_interface = protocol_interface ''zwp_linux_buffer_params_v1'', msg_kind = Request, msg_name = ''add'',
      msg_opcode = 1,
      msg_fields = [(''fd'', TWfd), (''plane_idx'', TWuint), (''offset'', TWuint),
                    (''stride'', TWuint), (''modifier_hi'', TWuint), (''modifier_lo'', TWuint)]\<rparr>"

definition zwp_linux_buffer_params_v1_request_create :: message_type where
  "zwp_linux_buffer_params_v1_request_create =
     \<lparr>msg_interface = protocol_interface ''zwp_linux_buffer_params_v1'', msg_kind = Request, msg_name = ''create'',
      msg_opcode = 2,
      msg_fields = [(''width'', TWint), (''height'', TWint), (''format'', TWuint),
                    (''flags'', TWenum Wuint_underlying ''zwp_linux_buffer_params_v1'' ''flags'')]\<rparr>"

definition zwp_linux_buffer_params_v1_request_create_immed :: message_type where
  "zwp_linux_buffer_params_v1_request_create_immed =
     \<lparr>msg_interface = protocol_interface ''zwp_linux_buffer_params_v1'', msg_kind = Request, msg_name = ''create_immed'',
      msg_opcode = 3,
      msg_fields = [(''buffer_id'', TWnew_id (protocol_interface ''wl_buffer'')),
                    (''width'', TWint), (''height'', TWint), (''format'', TWuint),
                    (''flags'', TWenum Wuint_underlying ''zwp_linux_buffer_params_v1'' ''flags'')]\<rparr>"

definition zwp_linux_buffer_params_v1_event_created :: message_type where
  "zwp_linux_buffer_params_v1_event_created =
     \<lparr>msg_interface = protocol_interface ''zwp_linux_buffer_params_v1'', msg_kind = Event, msg_name = ''created'',
      msg_opcode = 0,
      msg_fields = [(''buffer'', TWnew_id (protocol_interface ''wl_buffer''))]\<rparr>"

definition zwp_linux_buffer_params_v1_event_failed :: message_type where
  "zwp_linux_buffer_params_v1_event_failed =
     \<lparr>msg_interface = protocol_interface ''zwp_linux_buffer_params_v1'', msg_kind = Event, msg_name = ''failed'',
      msg_opcode = 1,
      msg_fields = []\<rparr>"

section \<open>\<^verbatim>\<open>zwp_linux_dmabuf_feedback_v1\<close>\<close>

definition zwp_linux_dmabuf_feedback_v1_enum_tranche_flags :: enum_type where
  "zwp_linux_dmabuf_feedback_v1_enum_tranche_flags =
     \<lparr>enum_interface = ''zwp_linux_dmabuf_feedback_v1'', enum_name = ''tranche_flags'', enum_underlying = Wuint_underlying,
      enumerators = [(''Escanout'', 1)]\<rparr>"

definition zwp_linux_dmabuf_feedback_v1_request_destroy :: message_type where
  "zwp_linux_dmabuf_feedback_v1_request_destroy =
     \<lparr>msg_interface = protocol_interface ''zwp_linux_dmabuf_feedback_v1'', msg_kind = Request, msg_name = ''destroy'',
      msg_opcode = 0,
      msg_fields = []\<rparr>"

definition zwp_linux_dmabuf_feedback_v1_event_done :: message_type where
  "zwp_linux_dmabuf_feedback_v1_event_done =
     \<lparr>msg_interface = protocol_interface ''zwp_linux_dmabuf_feedback_v1'', msg_kind = Event, msg_name = ''done'',
      msg_opcode = 0,
      msg_fields = []\<rparr>"

definition zwp_linux_dmabuf_feedback_v1_event_format_table :: message_type where
  "zwp_linux_dmabuf_feedback_v1_event_format_table =
     \<lparr>msg_interface = protocol_interface ''zwp_linux_dmabuf_feedback_v1'', msg_kind = Event, msg_name = ''format_table'',
      msg_opcode = 1,
      msg_fields = [(''fd'', TWfd), (''size'', TWuint)]\<rparr>"

definition zwp_linux_dmabuf_feedback_v1_event_main_device :: message_type where
  "zwp_linux_dmabuf_feedback_v1_event_main_device =
     \<lparr>msg_interface = protocol_interface ''zwp_linux_dmabuf_feedback_v1'', msg_kind = Event, msg_name = ''main_device'',
      msg_opcode = 2,
      msg_fields = [(''device'', TWarray)]\<rparr>"

definition zwp_linux_dmabuf_feedback_v1_event_tranche_done :: message_type where
  "zwp_linux_dmabuf_feedback_v1_event_tranche_done =
     \<lparr>msg_interface = protocol_interface ''zwp_linux_dmabuf_feedback_v1'', msg_kind = Event, msg_name = ''tranche_done'',
      msg_opcode = 3,
      msg_fields = []\<rparr>"

definition zwp_linux_dmabuf_feedback_v1_event_tranche_target_device :: message_type where
  "zwp_linux_dmabuf_feedback_v1_event_tranche_target_device =
     \<lparr>msg_interface = protocol_interface ''zwp_linux_dmabuf_feedback_v1'', msg_kind = Event, msg_name = ''tranche_target_device'',
      msg_opcode = 4,
      msg_fields = [(''device'', TWarray)]\<rparr>"

definition zwp_linux_dmabuf_feedback_v1_event_tranche_formats :: message_type where
  "zwp_linux_dmabuf_feedback_v1_event_tranche_formats =
     \<lparr>msg_interface = protocol_interface ''zwp_linux_dmabuf_feedback_v1'', msg_kind = Event, msg_name = ''tranche_formats'',
      msg_opcode = 5,
      msg_fields = [(''indices'', TWarray)]\<rparr>"

definition zwp_linux_dmabuf_feedback_v1_event_tranche_flags :: message_type where
  "zwp_linux_dmabuf_feedback_v1_event_tranche_flags =
     \<lparr>msg_interface = protocol_interface ''zwp_linux_dmabuf_feedback_v1'', msg_kind = Event, msg_name = ''tranche_flags'',
      msg_opcode = 6,
      msg_fields = [(''flags'', TWenum Wuint_underlying ''zwp_linux_dmabuf_feedback_v1'' ''tranche_flags'')]\<rparr>"

section \<open>The interfaces with their definitions\<close>

definition zwp_linux_dmabuf_v1_interface :: interface_def where
  "zwp_linux_dmabuf_v1_interface =
     \<lparr>forward_decl = zwp_linux_dmabuf_v1_decl,
      enum_definitions = [],
      request_messages = [zwp_linux_dmabuf_v1_request_destroy,
                          zwp_linux_dmabuf_v1_request_create_params,
                          zwp_linux_dmabuf_v1_request_get_default_feedback,
                          zwp_linux_dmabuf_v1_request_get_surface_feedback],
      event_messages = [zwp_linux_dmabuf_v1_event_format, zwp_linux_dmabuf_v1_event_modifier]\<rparr>"

definition zwp_linux_buffer_params_v1_interface :: interface_def where
  "zwp_linux_buffer_params_v1_interface =
     \<lparr>forward_decl = zwp_linux_buffer_params_v1_decl,
      enum_definitions = [zwp_linux_buffer_params_v1_enum_error,
                          zwp_linux_buffer_params_v1_enum_flags],
      request_messages = [zwp_linux_buffer_params_v1_request_destroy,
                          zwp_linux_buffer_params_v1_request_add,
                          zwp_linux_buffer_params_v1_request_create,
                          zwp_linux_buffer_params_v1_request_create_immed],
      event_messages = [zwp_linux_buffer_params_v1_event_created,
                        zwp_linux_buffer_params_v1_event_failed]\<rparr>"

definition zwp_linux_dmabuf_feedback_v1_interface :: interface_def where
  "zwp_linux_dmabuf_feedback_v1_interface =
     \<lparr>forward_decl = zwp_linux_dmabuf_feedback_v1_decl,
      enum_definitions = [zwp_linux_dmabuf_feedback_v1_enum_tranche_flags],
      request_messages = [zwp_linux_dmabuf_feedback_v1_request_destroy],
      event_messages = [zwp_linux_dmabuf_feedback_v1_event_done,
                        zwp_linux_dmabuf_feedback_v1_event_format_table,
                        zwp_linux_dmabuf_feedback_v1_event_main_device,
                        zwp_linux_dmabuf_feedback_v1_event_tranche_done,
                        zwp_linux_dmabuf_feedback_v1_event_tranche_target_device,
                        zwp_linux_dmabuf_feedback_v1_event_tranche_formats,
                        zwp_linux_dmabuf_feedback_v1_event_tranche_flags]\<rparr>"

section \<open>The header\<close>

definition linux_dmabuf_v1_protocol :: protocol where
  "linux_dmabuf_v1_protocol =
     \<lparr>protocol_name = ''linux_dmabuf_v1'',
      protocol_interfaces = [zwp_linux_dmabuf_v1_interface, zwp_linux_buffer_params_v1_interface,
                             zwp_linux_dmabuf_feedback_v1_interface]\<rparr>"

section \<open>Names and definitions\<close>

lemma linux_dmabuf_v1_protocol_interface_names:
  "interface_names linux_dmabuf_v1_protocol =
     [''zwp_linux_dmabuf_v1'', ''zwp_linux_buffer_params_v1'', ''zwp_linux_dmabuf_feedback_v1'']"
  by code_simp

lemma linux_dmabuf_v1_protocol_enum_names:
  "enum_names linux_dmabuf_v1_protocol =
     [(''zwp_linux_buffer_params_v1'', ''error'', Wint_underlying),
      (''zwp_linux_buffer_params_v1'', ''flags'', Wuint_underlying),
      (''zwp_linux_dmabuf_feedback_v1'', ''tranche_flags'', Wuint_underlying)]"
  by code_simp

lemmas linux_dmabuf_v1_protocol_names [protocol_names] =
  all_declared [of linux_dmabuf_v1_protocol, unfolded linux_dmabuf_v1_protocol_interface_names list.pred_inject]
  all_declared_enums [of linux_dmabuf_v1_protocol, unfolded linux_dmabuf_v1_protocol_enum_names list.pred_inject]

lemmas linux_dmabuf_v1_protocol_interfaces =
  arg_cong [OF linux_dmabuf_v1_protocol_def, of protocol_interfaces, unfolded protocol.simps]

lemmas linux_dmabuf_v1_protocol_message_defs =
  zwp_linux_dmabuf_v1_interface_def zwp_linux_buffer_params_v1_interface_def
  zwp_linux_dmabuf_feedback_v1_interface_def zwp_linux_dmabuf_v1_request_destroy_def
  zwp_linux_dmabuf_v1_request_create_params_def
  zwp_linux_dmabuf_v1_request_get_default_feedback_def
  zwp_linux_dmabuf_v1_request_get_surface_feedback_def zwp_linux_dmabuf_v1_event_format_def
  zwp_linux_dmabuf_v1_event_modifier_def zwp_linux_buffer_params_v1_request_destroy_def
  zwp_linux_buffer_params_v1_request_add_def zwp_linux_buffer_params_v1_request_create_def
  zwp_linux_buffer_params_v1_request_create_immed_def
  zwp_linux_buffer_params_v1_event_created_def zwp_linux_buffer_params_v1_event_failed_def
  zwp_linux_dmabuf_feedback_v1_request_destroy_def zwp_linux_dmabuf_feedback_v1_event_done_def
  zwp_linux_dmabuf_feedback_v1_event_format_table_def
  zwp_linux_dmabuf_feedback_v1_event_main_device_def
  zwp_linux_dmabuf_feedback_v1_event_tranche_done_def
  zwp_linux_dmabuf_feedback_v1_event_tranche_target_device_def
  zwp_linux_dmabuf_feedback_v1_event_tranche_formats_def
  zwp_linux_dmabuf_feedback_v1_event_tranche_flags_def

end
