(* ===== verification/Presentation_Time_Protocol.thy ===== *)
theory Presentation_Time_Protocol
  imports Protocol_Tables
begin

text \<open>
  The declarations of \<^verbatim>\<open>presentation_time_protocol.hpp\<close>, in the order of the header: its interfaces with what they
  declare, then per interface the enumerations, the requests and the events.
\<close>

section \<open>Interfaces\<close>

definition wp_presentation_decl :: interface_decl where
  "wp_presentation_decl =
     \<lparr>decl_name = ''wp_presentation'',
      decl_enums = [(''error'', Wint_underlying)],
      decl_requests = [''destroy'', ''feedback''],
      decl_events = [''clock_id'']\<rparr>"

definition wp_presentation_feedback_decl :: interface_decl where
  "wp_presentation_feedback_decl =
     \<lparr>decl_name = ''wp_presentation_feedback'',
      decl_enums = [(''kind'', Wuint_underlying)],
      decl_requests = [],
      decl_events = [''sync_output'', ''presented'', ''discarded'']\<rparr>"

section \<open>\<^verbatim>\<open>wp_presentation\<close>\<close>

definition wp_presentation_enum_error :: enum_type where
  "wp_presentation_enum_error =
     \<lparr>enum_interface = ''wp_presentation'', enum_name = ''error'', enum_underlying = Wint_underlying,
      enumerators = [(''Einvalid_timestamp'', 0), (''Einvalid_flag'', 1)]\<rparr>"

definition wp_presentation_request_destroy :: message_type where
  "wp_presentation_request_destroy =
     \<lparr>msg_interface = protocol_interface ''wp_presentation'', msg_kind = Request, msg_name = ''destroy'',
      msg_opcode = 0,
      msg_fields = []\<rparr>"

definition wp_presentation_request_feedback :: message_type where
  "wp_presentation_request_feedback =
     \<lparr>msg_interface = protocol_interface ''wp_presentation'', msg_kind = Request, msg_name = ''feedback'',
      msg_opcode = 1,
      msg_fields = [(''surface'', TWobject (protocol_interface ''wl_surface'')),
                    (''callback'', TWnew_id (protocol_interface ''wp_presentation_feedback''))]\<rparr>"

definition wp_presentation_event_clock_id :: message_type where
  "wp_presentation_event_clock_id =
     \<lparr>msg_interface = protocol_interface ''wp_presentation'', msg_kind = Event, msg_name = ''clock_id'',
      msg_opcode = 0,
      msg_fields = [(''clk_id'', TWuint)]\<rparr>"

section \<open>\<^verbatim>\<open>wp_presentation_feedback\<close>\<close>

definition wp_presentation_feedback_enum_kind :: enum_type where
  "wp_presentation_feedback_enum_kind =
     \<lparr>enum_interface = ''wp_presentation_feedback'', enum_name = ''kind'', enum_underlying = Wuint_underlying,
      enumerators = [(''Evsync'', 1), (''Ehw_clock'', 2), (''Ehw_completion'', 4),
                     (''Ezero_copy'', 8)]\<rparr>"

definition wp_presentation_feedback_event_sync_output :: message_type where
  "wp_presentation_feedback_event_sync_output =
     \<lparr>msg_interface = protocol_interface ''wp_presentation_feedback'', msg_kind = Event, msg_name = ''sync_output'',
      msg_opcode = 0,
      msg_fields = [(''output'', TWobject (protocol_interface ''wl_output''))]\<rparr>"

definition wp_presentation_feedback_event_presented :: message_type where
  "wp_presentation_feedback_event_presented =
     \<lparr>msg_interface = protocol_interface ''wp_presentation_feedback'', msg_kind = Event, msg_name = ''presented'',
      msg_opcode = 1,
      msg_fields = [(''tv_sec_hi'', TWuint), (''tv_sec_lo'', TWuint), (''tv_nsec'', TWuint),
                    (''refresh'', TWuint), (''seq_hi'', TWuint), (''seq_lo'', TWuint),
                    (''flags'', TWenum Wuint_underlying ''wp_presentation_feedback'' ''kind'')]\<rparr>"

definition wp_presentation_feedback_event_discarded :: message_type where
  "wp_presentation_feedback_event_discarded =
     \<lparr>msg_interface = protocol_interface ''wp_presentation_feedback'', msg_kind = Event, msg_name = ''discarded'',
      msg_opcode = 2,
      msg_fields = []\<rparr>"

section \<open>The interfaces with their definitions\<close>

definition wp_presentation_interface :: interface_def where
  "wp_presentation_interface =
     \<lparr>forward_decl = wp_presentation_decl,
      enum_definitions = [wp_presentation_enum_error],
      request_messages = [wp_presentation_request_destroy, wp_presentation_request_feedback],
      event_messages = [wp_presentation_event_clock_id]\<rparr>"

definition wp_presentation_feedback_interface :: interface_def where
  "wp_presentation_feedback_interface =
     \<lparr>forward_decl = wp_presentation_feedback_decl,
      enum_definitions = [wp_presentation_feedback_enum_kind],
      request_messages = [],
      event_messages = [wp_presentation_feedback_event_sync_output,
                        wp_presentation_feedback_event_presented,
                        wp_presentation_feedback_event_discarded]\<rparr>"

section \<open>The header\<close>

definition presentation_time_protocol :: protocol where
  "presentation_time_protocol =
     \<lparr>protocol_name = ''presentation_time'',
      protocol_interfaces = [wp_presentation_interface, wp_presentation_feedback_interface]\<rparr>"

section \<open>Names and definitions\<close>

lemma presentation_time_protocol_interface_names:
  "interface_names presentation_time_protocol =
     [''wp_presentation'', ''wp_presentation_feedback'']"
  by code_simp

lemma presentation_time_protocol_enum_names:
  "enum_names presentation_time_protocol =
     [(''wp_presentation'', ''error'', Wint_underlying),
      (''wp_presentation_feedback'', ''kind'', Wuint_underlying)]"
  by code_simp

lemmas presentation_time_protocol_names [protocol_names] =
  all_declared [of presentation_time_protocol, unfolded presentation_time_protocol_interface_names list.pred_inject]
  all_declared_enums [of presentation_time_protocol, unfolded presentation_time_protocol_enum_names list.pred_inject]

lemmas presentation_time_protocol_interfaces =
  arg_cong [OF presentation_time_protocol_def, of protocol_interfaces, unfolded protocol.simps]

lemmas presentation_time_protocol_message_defs =
  wp_presentation_interface_def wp_presentation_feedback_interface_def
  wp_presentation_request_destroy_def wp_presentation_request_feedback_def
  wp_presentation_event_clock_id_def wp_presentation_feedback_event_sync_output_def
  wp_presentation_feedback_event_presented_def wp_presentation_feedback_event_discarded_def

end
