(* ===== verification/Viewporter_Protocol.thy ===== *)
theory Viewporter_Protocol
  imports Protocol_Tables
begin

text \<open>
  The declarations of \<^verbatim>\<open>viewporter_protocol.hpp\<close>, in the order of the header: its interfaces with what they
  declare, then per interface the enumerations, the requests and the events.
\<close>

section \<open>Interfaces\<close>

definition wp_viewporter_decl :: interface_decl where
  "wp_viewporter_decl =
     \<lparr>decl_name = ''wp_viewporter'',
      decl_enums = [(''error'', Wint_underlying)],
      decl_requests = [''destroy'', ''get_viewport''],
      decl_events = []\<rparr>"

definition wp_viewport_decl :: interface_decl where
  "wp_viewport_decl =
     \<lparr>decl_name = ''wp_viewport'',
      decl_enums = [(''error'', Wint_underlying)],
      decl_requests = [''destroy'', ''set_source'', ''set_destination''],
      decl_events = []\<rparr>"

section \<open>\<^verbatim>\<open>wp_viewporter\<close>\<close>

definition wp_viewporter_enum_error :: enum_type where
  "wp_viewporter_enum_error =
     \<lparr>enum_interface = ''wp_viewporter'', enum_name = ''error'', enum_underlying = Wint_underlying,
      enumerators = [(''Eviewport_exists'', 0)]\<rparr>"

definition wp_viewporter_request_destroy :: message_type where
  "wp_viewporter_request_destroy =
     \<lparr>msg_interface = protocol_interface ''wp_viewporter'', msg_kind = Request, msg_name = ''destroy'',
      msg_opcode = 0,
      msg_fields = []\<rparr>"

definition wp_viewporter_request_get_viewport :: message_type where
  "wp_viewporter_request_get_viewport =
     \<lparr>msg_interface = protocol_interface ''wp_viewporter'', msg_kind = Request, msg_name = ''get_viewport'',
      msg_opcode = 1,
      msg_fields = [(''id'', TWnew_id (protocol_interface ''wp_viewport'')),
                    (''surface'', TWobject (protocol_interface ''wl_surface''))]\<rparr>"

section \<open>\<^verbatim>\<open>wp_viewport\<close>\<close>

definition wp_viewport_enum_error :: enum_type where
  "wp_viewport_enum_error =
     \<lparr>enum_interface = ''wp_viewport'', enum_name = ''error'', enum_underlying = Wint_underlying,
      enumerators = [(''Ebad_value'', 0), (''Ebad_size'', 1), (''Eout_of_buffer'', 2),
                     (''Eno_surface'', 3)]\<rparr>"

definition wp_viewport_request_destroy :: message_type where
  "wp_viewport_request_destroy =
     \<lparr>msg_interface = protocol_interface ''wp_viewport'', msg_kind = Request, msg_name = ''destroy'',
      msg_opcode = 0,
      msg_fields = []\<rparr>"

definition wp_viewport_request_set_source :: message_type where
  "wp_viewport_request_set_source =
     \<lparr>msg_interface = protocol_interface ''wp_viewport'', msg_kind = Request, msg_name = ''set_source'',
      msg_opcode = 1,
      msg_fields = [(''x'', TWfixed), (''y'', TWfixed), (''width'', TWfixed), (''height'', TWfixed)]\<rparr>"

definition wp_viewport_request_set_destination :: message_type where
  "wp_viewport_request_set_destination =
     \<lparr>msg_interface = protocol_interface ''wp_viewport'', msg_kind = Request, msg_name = ''set_destination'',
      msg_opcode = 2,
      msg_fields = [(''width'', TWint), (''height'', TWint)]\<rparr>"

section \<open>The interfaces with their definitions\<close>

definition wp_viewporter_interface :: interface_def where
  "wp_viewporter_interface =
     \<lparr>forward_decl = wp_viewporter_decl,
      enum_definitions = [wp_viewporter_enum_error],
      request_messages = [wp_viewporter_request_destroy, wp_viewporter_request_get_viewport],
      event_messages = []\<rparr>"

definition wp_viewport_interface :: interface_def where
  "wp_viewport_interface =
     \<lparr>forward_decl = wp_viewport_decl,
      enum_definitions = [wp_viewport_enum_error],
      request_messages = [wp_viewport_request_destroy, wp_viewport_request_set_source,
                          wp_viewport_request_set_destination],
      event_messages = []\<rparr>"

section \<open>The header\<close>

definition viewporter_protocol :: protocol where
  "viewporter_protocol =
     \<lparr>protocol_name = ''viewporter'',
      protocol_interfaces = [wp_viewporter_interface, wp_viewport_interface]\<rparr>"

section \<open>Names and definitions\<close>

lemma viewporter_protocol_interface_names:
  "interface_names viewporter_protocol =
     [''wp_viewporter'', ''wp_viewport'']"
  by code_simp

lemma viewporter_protocol_enum_names:
  "enum_names viewporter_protocol =
     [(''wp_viewporter'', ''error'', Wint_underlying),
      (''wp_viewport'', ''error'', Wint_underlying)]"
  by code_simp

lemmas viewporter_protocol_names [protocol_names] =
  all_declared [of viewporter_protocol, unfolded viewporter_protocol_interface_names list.pred_inject]
  all_declared_enums [of viewporter_protocol, unfolded viewporter_protocol_enum_names list.pred_inject]

lemmas viewporter_protocol_interfaces =
  arg_cong [OF viewporter_protocol_def, of protocol_interfaces, unfolded protocol.simps]

lemmas viewporter_protocol_message_defs =
  wp_viewporter_interface_def wp_viewport_interface_def wp_viewporter_request_destroy_def
  wp_viewporter_request_get_viewport_def wp_viewport_request_destroy_def
  wp_viewport_request_set_source_def wp_viewport_request_set_destination_def

end
