(* ===== verification/Protocol_Checks.thy ===== *)
theory Protocol_Checks
  imports Wayland_Protocol
    Xdg_Shell_Protocol
    Tablet_V2_Protocol
    Linux_Dmabuf_V1_Protocol
    Presentation_Time_Protocol
    Viewporter_Protocol
begin

text \<open>
  The six protocol headers are well-formed. Only \<^verbatim>\<open>wayland_protocol.hpp\<close> declares everything it names;
  the members of the other headers also name interfaces and enumerations of that header.
\<close>

definition protocols :: "protocol list" where
  "protocols =
     [wayland_protocol, xdg_shell_protocol, tablet_v2_protocol, linux_dmabuf_v1_protocol,
      presentation_time_protocol, viewporter_protocol]"

lemmas message_check_simps =
  message_ok_def field_types_def fd_count_def new_ids_ok_def upt_rec nth_Cons' protocol_names

section \<open>Declarations and definitions agree\<close>

lemma wayland_protocol_declarations: "list_all interface_ok (protocol_interfaces wayland_protocol)"
  unfolding wayland_protocol_interfaces list.pred_inject by (intro conjI; code_simp)

lemma xdg_shell_protocol_declarations: "list_all interface_ok (protocol_interfaces xdg_shell_protocol)"
  unfolding xdg_shell_protocol_interfaces list.pred_inject by (intro conjI; code_simp)

lemma tablet_v2_protocol_declarations: "list_all interface_ok (protocol_interfaces tablet_v2_protocol)"
  unfolding tablet_v2_protocol_interfaces list.pred_inject by (intro conjI; code_simp)

lemma linux_dmabuf_v1_protocol_declarations: "list_all interface_ok (protocol_interfaces linux_dmabuf_v1_protocol)"
  unfolding linux_dmabuf_v1_protocol_interfaces list.pred_inject by (intro conjI; code_simp)

lemma presentation_time_protocol_declarations: "list_all interface_ok (protocol_interfaces presentation_time_protocol)"
  unfolding presentation_time_protocol_interfaces list.pred_inject by (intro conjI; code_simp)

lemma viewporter_protocol_declarations: "list_all interface_ok (protocol_interfaces viewporter_protocol)"
  unfolding viewporter_protocol_interfaces list.pred_inject by (intro conjI; code_simp)

section \<open>The messages are within the limits of the library\<close>

lemma wayland_protocol_messages: "list_all (message_ok [wayland_protocol, wayland_protocol]) (message_types wayland_protocol)"
  unfolding all_messages wayland_protocol_interfaces list.pred_inject
  by (intro conjI; simp add: wayland_protocol_message_defs message_check_simps)

lemma xdg_shell_protocol_messages: "list_all (message_ok [wayland_protocol, xdg_shell_protocol]) (message_types xdg_shell_protocol)"
  unfolding all_messages xdg_shell_protocol_interfaces list.pred_inject
  by (intro conjI; simp add: xdg_shell_protocol_message_defs message_check_simps)

lemma tablet_v2_protocol_messages: "list_all (message_ok [wayland_protocol, tablet_v2_protocol]) (message_types tablet_v2_protocol)"
  unfolding all_messages tablet_v2_protocol_interfaces list.pred_inject
  by (intro conjI; simp add: tablet_v2_protocol_message_defs message_check_simps)

lemma linux_dmabuf_v1_protocol_messages: "list_all (message_ok [wayland_protocol, linux_dmabuf_v1_protocol]) (message_types linux_dmabuf_v1_protocol)"
  unfolding all_messages linux_dmabuf_v1_protocol_interfaces list.pred_inject
  by (intro conjI; simp add: linux_dmabuf_v1_protocol_message_defs message_check_simps)

lemma presentation_time_protocol_messages: "list_all (message_ok [wayland_protocol, presentation_time_protocol]) (message_types presentation_time_protocol)"
  unfolding all_messages presentation_time_protocol_interfaces list.pred_inject
  by (intro conjI; simp add: presentation_time_protocol_message_defs message_check_simps)

lemma viewporter_protocol_messages: "list_all (message_ok [wayland_protocol, viewporter_protocol]) (message_types viewporter_protocol)"
  unfolding all_messages viewporter_protocol_interfaces list.pred_inject
  by (intro conjI; simp add: viewporter_protocol_message_defs message_check_simps)

section \<open>Well-formed headers\<close>

lemma wayland_protocol_well_formed: "protocol_ok [wayland_protocol, wayland_protocol] wayland_protocol"
  unfolding protocol_ok_def wayland_protocol_interface_names
  by (simp add: wayland_protocol_declarations wayland_protocol_messages)

lemma xdg_shell_protocol_well_formed: "protocol_ok [wayland_protocol, xdg_shell_protocol] xdg_shell_protocol"
  unfolding protocol_ok_def xdg_shell_protocol_interface_names
  by (simp add: xdg_shell_protocol_declarations xdg_shell_protocol_messages)

lemma tablet_v2_protocol_well_formed: "protocol_ok [wayland_protocol, tablet_v2_protocol] tablet_v2_protocol"
  unfolding protocol_ok_def tablet_v2_protocol_interface_names
  by (simp add: tablet_v2_protocol_declarations tablet_v2_protocol_messages)

lemma linux_dmabuf_v1_protocol_well_formed: "protocol_ok [wayland_protocol, linux_dmabuf_v1_protocol] linux_dmabuf_v1_protocol"
  unfolding protocol_ok_def linux_dmabuf_v1_protocol_interface_names
  by (simp add: linux_dmabuf_v1_protocol_declarations linux_dmabuf_v1_protocol_messages)

lemma presentation_time_protocol_well_formed: "protocol_ok [wayland_protocol, presentation_time_protocol] presentation_time_protocol"
  unfolding protocol_ok_def presentation_time_protocol_interface_names
  by (simp add: presentation_time_protocol_declarations presentation_time_protocol_messages)

lemma viewporter_protocol_well_formed: "protocol_ok [wayland_protocol, viewporter_protocol] viewporter_protocol"
  unfolding protocol_ok_def viewporter_protocol_interface_names
  by (simp add: viewporter_protocol_declarations viewporter_protocol_messages)

lemma protocols_interfaces_distinct: "distinct (concat (map interface_names protocols))"
  by (simp add: protocols_def wayland_protocol_interface_names xdg_shell_protocol_interface_names
      tablet_v2_protocol_interface_names linux_dmabuf_v1_protocol_interface_names
      presentation_time_protocol_interface_names viewporter_protocol_interface_names)

lemma protocols_ok: "P \<in> set protocols \<Longrightarrow> protocol_ok [wayland_protocol, P] P"
  by (auto simp: protocols_def wayland_protocol_well_formed xdg_shell_protocol_well_formed
      tablet_v2_protocol_well_formed linux_dmabuf_v1_protocol_well_formed
      presentation_time_protocol_well_formed viewporter_protocol_well_formed)

section \<open>Properties\<close>

lemma field_ok_twice: "field_ok [P, P] T \<Longrightarrow> field_ok [P] T"
  by (induction "[P, P]" T rule: field_ok.induct) auto

lemma undeclared_interface:
  assumes "M \<in> set (message_types P)" and "T \<in> set (field_types M)" and "\<not> field_ok [P] T"
  shows "\<not> protocol_ok [P] P"
  using assms by (auto simp: protocol_ok_def message_ok_def list_all_iff)

text \<open>
  C12: in each of the six headers, interfaces are declared once; every enumeration, request and event
  that is declared is defined, in the order of the declarations, and nothing else is; the opcodes of
  the requests and of the events of an interface count from 0; enumerators have distinct names
  and fit the underlying type; the members of a message have distinct names and types that the
  header or \<^verbatim>\<open>wayland_protocol.hpp\<close> declares; a new id of unknown interface follows the name and version
  of its interface; and no message has more than 20 members, which is what \<^verbatim>\<open>to_tuple\<close> takes, or more
  than one descriptor. No two headers declare the same interface.
\<close>

theorem protocol_headers_well_formed:
  "list_all (\<lambda>P. protocol_ok [wayland_protocol, P] P) protocols \<and>
   distinct (concat (map interface_names protocols))"
  by (simp add: list_all_iff protocols_ok protocols_interfaces_distinct)

text \<open>
  Only \<^verbatim>\<open>wayland_protocol.hpp\<close> can be included alone: each of the other headers names an interface
  it does not declare, and includes nothing that does.
\<close>

theorem only_the_wayland_header_is_self_contained:
  "map (\<lambda>P. protocol_ok [P] P) protocols = [True, False, False, False, False, False]"
proof -
  have "protocol_ok [wayland_protocol] wayland_protocol"
    using wayland_protocol_well_formed
    by (simp add: protocol_ok_def list_all_iff message_ok_def) (metis field_ok_twice)
  moreover have "\<not> protocol_ok [xdg_shell_protocol] xdg_shell_protocol"
    by (rule undeclared_interface [of xdg_wm_base_request_get_xdg_surface _
          "TWobject (protocol_interface ''wl_surface'')"])
      (simp_all add: message_types_def xdg_shell_protocol_interfaces xdg_wm_base_interface_def field_types_def
        xdg_wm_base_request_get_xdg_surface_def declares_def xdg_shell_protocol_interface_names)
  moreover have "\<not> protocol_ok [tablet_v2_protocol] tablet_v2_protocol"
    by (rule undeclared_interface [of zwp_tablet_manager_v2_request_get_tablet_seat _
          "TWobject (protocol_interface ''wl_seat'')"])
      (simp_all add: message_types_def tablet_v2_protocol_interfaces zwp_tablet_manager_v2_interface_def
        field_types_def zwp_tablet_manager_v2_request_get_tablet_seat_def declares_def
        tablet_v2_protocol_interface_names)
  moreover have "\<not> protocol_ok [linux_dmabuf_v1_protocol] linux_dmabuf_v1_protocol"
    by (rule undeclared_interface [of zwp_linux_dmabuf_v1_request_get_surface_feedback _
          "TWobject (protocol_interface ''wl_surface'')"])
      (simp_all add: message_types_def linux_dmabuf_v1_protocol_interfaces zwp_linux_dmabuf_v1_interface_def
        field_types_def zwp_linux_dmabuf_v1_request_get_surface_feedback_def declares_def
        linux_dmabuf_v1_protocol_interface_names)
  moreover have "\<not> protocol_ok [presentation_time_protocol] presentation_time_protocol"
    by (rule undeclared_interface [of wp_presentation_request_feedback _
          "TWobject (protocol_interface ''wl_surface'')"])
      (simp_all add: message_types_def presentation_time_protocol_interfaces wp_presentation_interface_def
        field_types_def wp_presentation_request_feedback_def declares_def
        presentation_time_protocol_interface_names)
  moreover have "\<not> protocol_ok [viewporter_protocol] viewporter_protocol"
    by (rule undeclared_interface [of wp_viewporter_request_get_viewport _
          "TWobject (protocol_interface ''wl_surface'')"])
      (simp_all add: message_types_def viewporter_protocol_interfaces wp_viewporter_interface_def
        field_types_def wp_viewporter_request_get_viewport_def declares_def
        viewporter_protocol_interface_names)
  ultimately show ?thesis by (simp add: protocols_def)
qed

end
