(* ===== verification/Byte_Array.thy ===== *)
theory Byte_Array
  imports Prelude
begin

text \<open>
  \<^verbatim>\<open>byte_array.hpp\<close>: the class that packs values into an array of bytes, with its two constructors,
  the \<^verbatim>\<open>constexpr\<close> one that shifts the bytes out of unsigned integers and the one that copies object
  representations.
\<close>

section \<open>Operations\<close>

record byte_array =
  data :: bytes

text \<open>
  An unsigned integer of the pack: its size in bytes and its value. \<^verbatim>\<open>x >> 8 * Bytes\<close> is
  \<open>drop_bit\<close>; the conversion to \<^verbatim>\<open>std::byte\<close> keeps the low eight bits.
\<close>

type_synonym packed_uint = "nat \<times> u64"

definition write_bytes_to_pos :: "nat \<Rightarrow> packed_uint \<Rightarrow> bytes \<Rightarrow> bytes" where
  "write_bytes_to_pos pos x d =
     fold (\<lambda>Bytes d. d[pos + Bytes := ucast (drop_bit (8 * Bytes) (snd x))]) [0..<fst x] d"

fun write_uints :: "packed_uint list \<Rightarrow> nat \<Rightarrow> bytes \<Rightarrow> bytes" where
  "write_uints [] pos d = d"
| "write_uints (x # xs) pos d = write_uints xs (pos + fst x) (write_bytes_to_pos pos x d)"

text \<open>\<^verbatim>\<open>total_memory_usage_is\<close>; \<open>None\<close> is a pack the \<^verbatim>\<open>requires\<close> clause rejects.\<close>

definition total_memory_usage_is :: "nat \<Rightarrow> nat list \<Rightarrow> bool" where
  "total_memory_usage_is N sizes \<longleftrightarrow> N = sum_list sizes"

definition byte_array_of_uints :: "nat \<Rightarrow> packed_uint list \<Rightarrow> byte_array option" where
  "byte_array_of_uints N message =
     (if total_memory_usage_is N (map fst message)
      then Some \<lparr>data = write_uints message 0 (replicate N 0)\<rparr>
      else None)"

text \<open>The other constructor gets each value as the bytes of its object representation.\<close>

fun write_objects :: "bytes list \<Rightarrow> nat \<Rightarrow> bytes \<Rightarrow> bytes" where
  "write_objects [] pos d = d"
| "write_objects (x # xs) pos d = write_objects xs (pos + length x) (overwrite pos x d)"

definition byte_array_of_objects :: "nat \<Rightarrow> bytes list \<Rightarrow> byte_array option" where
  "byte_array_of_objects N message =
     (if total_memory_usage_is N (map length message)
      then Some \<lparr>data = write_objects message 0 (replicate N 0)\<rparr>
      else None)"

text \<open>The deduction guide takes the size from the integers; \<^verbatim>\<open>bytes\<close> and the defaulted comparison.\<close>

definition deduced_byte_array :: "packed_uint list \<Rightarrow> byte_array option" where
  "deduced_byte_array message = byte_array_of_uints (sum_list (map fst message)) message"

definition byte_array_bytes :: "byte_array \<Rightarrow> bytes" where
  "byte_array_bytes self = data self"

definition byte_array_equal :: "byte_array \<Rightarrow> byte_array \<Rightarrow> bool" where
  "byte_array_equal lhs rhs \<longleftrightarrow> list_all2 (=) (data lhs) (data rhs)"

section \<open>Both constructors lay the values out one after another\<close>

lemma write_objects_append:
  "length d = length pre + sum_list (map length xs) + n \<Longrightarrow> take (length pre) d = pre \<Longrightarrow>
     write_objects xs (length pre) d = pre @ concat xs @ drop (length pre + sum_list (map length xs)) d"
proof (induction xs arbitrary: pre d)
  case Nil
  then show ?case by (metis append_Nil append_take_drop_id concat.simps(1) list.simps(8)
      sum_list.Nil write_objects.simps(1) add.right_neutral)
next
  case (Cons x xs)
  have d: "overwrite (length pre) x d = (pre @ x) @ drop (length pre + length x) d"
    using Cons.prems(2) by (simp add: overwrite_def)
  have "write_objects xs (length (pre @ x)) (overwrite (length pre) x d)
      = (pre @ x) @ concat xs @ drop (length (pre @ x) + sum_list (map length xs)) (overwrite (length pre) x d)"
    by (rule Cons.IH) (use Cons.prems(1) d in simp_all)
  then show ?case using d Cons.prems(1) by (simp add: add_ac)
qed

lemma fold_update_prefix:
  "pos + n \<le> length d \<Longrightarrow>
    fold (\<lambda>i d. d[pos + i := f i]) [0..<n] d = overwrite pos (map f [0..<n]) d"
proof (induction n)
  case (Suc n)
  have "(take pos d @ map f [0..<n] @ drop (pos + n) d)[pos + n := f n]
      = take pos d @ map f [0..<n] @ f n # drop (Suc (pos + n)) d"
    using Suc.prems by (simp add: list_update_append Cons_nth_drop_Suc [symmetric])
  with Suc show ?case by (simp add: overwrite_def)
qed (simp add: overwrite_def)

lemma write_bytes_to_pos_eq:
  "pos + fst x \<le> length d \<Longrightarrow>
    write_bytes_to_pos pos x d = overwrite pos (le_bytes (fst x) (snd x)) d"
  by (simp add: write_bytes_to_pos_def fold_update_prefix le_bytes_def)

lemma write_uints_objects:
  "pos + sum_list (map fst xs) \<le> length d \<Longrightarrow>
    write_uints xs pos d = write_objects (map (\<lambda>x. le_bytes (fst x) (snd x)) xs) pos d"
  by (induction xs arbitrary: pos d) (simp_all add: write_bytes_to_pos_eq)

lemma byte_array_of_objects_eq:
  "byte_array_of_objects N xs =
     (if N = length (concat xs) then Some \<lparr>data = concat xs\<rparr> else None)"
  using write_objects_append [of "replicate N 0" "[]" xs 0]
  by (simp add: byte_array_of_objects_def total_memory_usage_is_def length_concat)

section \<open>Properties\<close>

text \<open>
  The two constructors agree: an array built at compile time from unsigned integers is the
  array built from their object representations, which is the representations one after another;
  both are rejected unless the sizes add up to the size of the array.
\<close>

theorem byte_array_constructors_agree:
  "byte_array_of_uints N xs = byte_array_of_objects N (map (\<lambda>x. le_bytes (fst x) (snd x)) xs) \<and>
   byte_array_of_objects N bs = (if N = length (concat bs) then Some \<lparr>data = concat bs\<rparr> else None)"
  by (rule conjI [OF _ byte_array_of_objects_eq])
    (simp add: byte_array_of_uints_def byte_array_of_objects_def total_memory_usage_is_def
      write_uints_objects comp_def)

lemma deduced_byte_array_bytes:
  "map_option byte_array_bytes (deduced_byte_array xs) = Some (concat (map (\<lambda>x. le_bytes (fst x) (snd x)) xs))"
proof -
  let ?bs = "map (\<lambda>x. le_bytes (fst x) (snd x)) xs"
  have "byte_array_of_uints N xs = byte_array_of_objects N ?bs" for N
    by (simp add: byte_array_of_uints_def byte_array_of_objects_def total_memory_usage_is_def
        write_uints_objects comp_def)
  moreover have "sum_list (map fst xs) = length (concat ?bs)" by (simp add: length_concat comp_def)
  ultimately show ?thesis by (simp add: deduced_byte_array_def byte_array_of_objects_eq byte_array_bytes_def)
qed

lemma byte_array_equal_iff: "byte_array_equal a b \<longleftrightarrow> a = b"
  by (cases a; cases b) (simp add: byte_array_equal_def list.rel_eq)

end
