(* ===== verification/Unique_Handle.thy ===== *)
theory Unique_Handle
  imports Prelude "HOL-Library.Multiset"
begin

text \<open>
  \<^verbatim>\<open>unique_handle\<close> of \<^verbatim>\<open>sstd.hpp\<close>: a resource with the mark \<^verbatim>\<open>active_\<close>. Handles live in a store of
  objects, numbered in the order of their construction, because the move operations mutate both
  operands and may be given the same object twice. The log records the resources given to
  \<^verbatim>\<open>Releaser\<close>.
\<close>

section \<open>State and operations\<close>

text \<open>
  The base class \<^verbatim>\<open>T\<close>: its move constructor and move assignment (each returns the new value of the
  target and of the source), and what \<^verbatim>\<open>Releaser\<close> does to the object.
\<close>

record 't base_ops =
  move_construct :: "'t \<Rightarrow> 't \<times> 't"
  move_assign :: "'t \<Rightarrow> 't \<Rightarrow> 't \<times> 't"
  releaser :: "'t \<Rightarrow> 't"

record 't unique_handle =
  base :: 't
  active :: bool

record 't handles =
  objects :: "'t unique_handle list"
  released :: "'t list"

definition construct :: "'t \<Rightarrow> 't handles \<Rightarrow> 't handles" where
  "construct resource h =
     h\<lparr>objects := objects h @ [\<lparr>base = resource, active = True\<rparr>]\<rparr>"

text \<open>The destructor, also when it is called explicitly.\<close>

definition destruct :: "'t base_ops \<Rightarrow> nat \<Rightarrow> 't handles \<Rightarrow> 't handles" where
  "destruct ops i h =
     (let this = objects h ! i
      in if active this
         then h\<lparr>objects := (objects h)[i := \<lparr>base = releaser ops (base this), active = False\<rparr>],
                released := released h @ [base this]\<rparr>
         else h)"

definition move_ctor :: "'t base_ops \<Rightarrow> nat \<Rightarrow> 't handles \<Rightarrow> 't handles" where
  "move_ctor ops rhs h =
     (let r = objects h ! rhs;
          (t, t') = move_construct ops (base r)
      in h\<lparr>objects := (objects h)[rhs := \<lparr>base = t', active = False\<rparr>]
                        @ [\<lparr>base = t, active = active r\<rparr>]\<rparr>)"

text \<open>
  Move assignment: the destructor of \<^verbatim>\<open>*this\<close>, then \<^verbatim>\<open>active_\<close> is exchanged, then the base is assigned.
  When both are the same object the exchange reads what the destructor has written, and the base
  is assigned to itself.
\<close>

definition move_assignment :: "'t base_ops \<Rightarrow> nat \<Rightarrow> nat \<Rightarrow> 't handles \<Rightarrow> 't handles" where
  "move_assignment ops lhs rhs h =
     (let h1 = destruct ops lhs h;
          rhs_active = active (objects h1 ! rhs);
          o2 = (objects h1)[rhs := (objects h1 ! rhs)\<lparr>active := False\<rparr>];
          o3 = o2[lhs := (o2 ! lhs)\<lparr>active := rhs_active\<rparr>];
          (t, t') = move_assign ops (base (o3 ! lhs)) (base (o3 ! rhs));
          o4 = o3[rhs := (o3 ! rhs)\<lparr>base := t'\<rparr>];
          o5 = o4[lhs := (o4 ! lhs)\<lparr>base := t\<rparr>]
      in h1\<lparr>objects := o5\<rparr>)"

section \<open>Programs over handles\<close>

datatype 't command =
    Construct 't
  | Destruct nat
  | Move_construct nat
  | Move_assign nat nat

text \<open>A command names existing objects; \<open>None\<close> is a program with a dangling name.\<close>

fun run_command :: "'t base_ops \<Rightarrow> 't command \<Rightarrow> 't handles \<Rightarrow> 't handles option" where
  "run_command ops (Construct t) h = Some (construct t h)"
| "run_command ops (Destruct i) h = (if i < length (objects h) then Some (destruct ops i h) else None)"
| "run_command ops (Move_construct i) h =
     (if i < length (objects h) then Some (move_ctor ops i h) else None)"
| "run_command ops (Move_assign i j) h =
     (if i < length (objects h) \<and> j < length (objects h) then Some (move_assignment ops i j h) else None)"

fun run_commands :: "'t base_ops \<Rightarrow> 't command list \<Rightarrow> 't handles \<Rightarrow> 't handles option" where
  "run_commands ops [] h = Some h"
| "run_commands ops (c # cs) h = Option.bind (run_command ops c h) (run_commands ops cs)"

definition no_handles :: "'t handles" where
  "no_handles = \<lparr>objects = [], released = []\<rparr>"

fun constructed :: "'t command list \<Rightarrow> 't list" where
  "constructed [] = []"
| "constructed (Construct t # cs) = t # constructed cs"
| "constructed (_ # cs) = constructed cs"

text \<open>All objects go out of scope.\<close>

definition destruct_all :: "'t base_ops \<Rightarrow> 't handles \<Rightarrow> 't handles" where
  "destruct_all ops h = fold (destruct ops) [0..<length (objects h)] h"

section \<open>Conservation of resources\<close>

text \<open>
  The resource identity \<open>tok\<close> of a base goes with it when it is moved: that is what a move
  constructor and a move assignment owe \<^verbatim>\<open>unique_handle\<close>.
\<close>

definition moves_token :: "'t base_ops \<Rightarrow> ('t \<Rightarrow> 'k) \<Rightarrow> bool" where
  "moves_token ops tok \<longleftrightarrow>
     (\<forall>t. tok (fst (move_construct ops t)) = tok t) \<and>
     (\<forall>t u. tok (fst (move_assign ops t u)) = tok u)"

definition held :: "('t \<Rightarrow> 'k) \<Rightarrow> 't unique_handle list \<Rightarrow> 'k multiset" where
  "held tok os = mset (map (\<lambda>x. tok (base x)) (filter active os))"

definition accounted :: "('t \<Rightarrow> 'k) \<Rightarrow> 't handles \<Rightarrow> 'k multiset" where
  "accounted tok h = held tok (objects h) + mset (map tok (released h))"

lemma held_append [simp]: "held tok (xs @ ys) = held tok xs + held tok ys"
  by (simp add: held_def)

lemma held_Nil [simp]: "held tok [] = {#}"
  by (simp add: held_def)

lemma held_Cons [simp]:
  "held tok (x # xs) = (if active x then {#tok (base x)#} else {#}) + held tok xs"
  by (simp add: held_def)

lemma held_update:
  assumes "i < length os"
  shows "held tok (os[i := x]) + (if active (os ! i) then {#tok (base (os ! i))#} else {#})
    = held tok os + (if active x then {#tok (base x)#} else {#})"
proof -
  have "os[i := x] = take i os @ x # drop (Suc i) os"
    using assms by (rule upd_conv_take_nth_drop)
  moreover have "held tok os = held tok (take i os @ os ! i # drop (Suc i) os)"
    using assms by (simp add: id_take_nth_drop [symmetric])
  ultimately show ?thesis by (simp add: add_ac)
qed

lemma held_update_inactive:
  "i < length os \<Longrightarrow> \<not> active x \<Longrightarrow> \<not> active (os ! i) \<Longrightarrow> held tok (os[i := x]) = held tok os"
  using held_update [of i os tok x] by simp

lemma accounted_construct: "accounted tok (construct t h) = accounted tok h + {#tok t#}"
  by (simp add: accounted_def construct_def)

lemma accounted_destruct:
  assumes "i < length (objects h)"
  shows "accounted tok (destruct ops i h) = accounted tok h"
  using held_update [OF assms, of tok "\<lparr>base = releaser ops (base (objects h ! i)), active = False\<rparr>"]
  by (auto simp: accounted_def destruct_def Let_def)

lemma length_destruct [simp]: "length (objects (destruct ops i h)) = length (objects h)"
  by (simp add: destruct_def Let_def)

lemma destruct_inactive:
  "i < length (objects h) \<Longrightarrow> \<not> active (objects (destruct ops i h) ! i)"
  by (simp add: destruct_def Let_def)

lemma accounted_move_ctor:
  assumes "moves_token ops tok" and "i < length (objects h)"
  shows "accounted tok (move_ctor ops i h) = accounted tok h"
proof -
  obtain t t' where m: "move_construct ops (base (objects h ! i)) = (t, t')" by fastforce
  then have "tok t = tok (base (objects h ! i))"
    using assms(1) by (metis fst_conv moves_token_def)
  then show ?thesis
    using held_update [OF assms(2), of tok "\<lparr>base = t', active = False\<rparr>"] m
    by (auto simp: accounted_def move_ctor_def Let_def)
qed

lemma handle_fields [simp]: "x\<lparr>active := a, base := t\<rparr> = \<lparr>base = t, active = a\<rparr>"
  by (cases x) simp

lemma released_move_assignment: "released (move_assignment ops i j h) = released (destruct ops i h)"
  by (simp add: move_assignment_def Let_def case_prod_beta)

text \<open>The objects after the assignment of one object to itself, and of one object to another.\<close>

lemma self_move_assignment:
  assumes "i < length (objects h)"
  shows "objects (move_assignment ops i i h) =
    (let os = objects (destruct ops i h)
     in os[i := \<lparr>base = fst (move_assign ops (base (os ! i)) (base (os ! i))), active = False\<rparr>])"
  using assms destruct_inactive [OF assms, of ops] by (simp add: move_assignment_def Let_def case_prod_beta)

lemma other_move_assignment:
  assumes "i < length (objects h)" and "j < length (objects h)" and "i \<noteq> j"
  shows "objects (move_assignment ops i j h) =
    (let os = objects (destruct ops i h); m = move_assign ops (base (os ! i)) (base (os ! j))
     in os[j := \<lparr>base = snd m, active = False\<rparr>, i := \<lparr>base = fst m, active = active (os ! j)\<rparr>])"
  using assms by (simp add: move_assignment_def Let_def case_prod_beta list_update_swap)

lemma held_exchanged:
  assumes "i < length os" "j < length os" "i \<noteq> j" and "\<not> active (os ! i)" and "tok t = tok (base (os ! j))"
  shows "held tok (os[j := \<lparr>base = t', active = False\<rparr>, i := \<lparr>base = t, active = active (os ! j)\<rparr>]) = held tok os"
proof -
  let ?o1 = "os[j := \<lparr>base = t', active = False\<rparr>]"
  have "held tok ?o1 + (if active (os ! j) then {#tok (base (os ! j))#} else {#}) = held tok os"
    using held_update [OF assms(2), of tok "\<lparr>base = t', active = False\<rparr>"] by simp
  moreover have "held tok (?o1[i := \<lparr>base = t, active = active (os ! j)\<rparr>])
      = held tok ?o1 + (if active (os ! j) then {#tok t#} else {#})"
    using held_update [of i ?o1 tok "\<lparr>base = t, active = active (os ! j)\<rparr>"] assms by simp
  ultimately show ?thesis by (simp only: assms(5))
qed

lemma accounted_move_assignment:
  assumes tok: "moves_token ops tok" and i: "i < length (objects h)" and j: "j < length (objects h)"
  shows "accounted tok (move_assignment ops i j h) = accounted tok h"
proof -
  let ?os = "objects (destruct ops i h)"
  have len: "i < length ?os" "j < length ?os" and off: "\<not> active (?os ! i)"
    using i j by (simp_all add: destruct_inactive)
  have "held tok (objects (move_assignment ops i j h)) = held tok ?os"
  proof (cases "i = j")
    case True
    then show ?thesis
      using self_move_assignment [OF i, of ops] off len(1) by (simp add: Let_def held_update_inactive)
  next
    case False
    have "tok (fst (move_assign ops t u)) = tok u" for t u using tok by (simp add: moves_token_def)
    then show ?thesis
      using other_move_assignment [OF i j False, of ops] len False off by (simp add: Let_def held_exchanged)
  qed
  then show ?thesis
    using accounted_destruct [OF i, of tok ops] by (simp add: accounted_def released_move_assignment)
qed

lemma run_command_accounted:
  assumes "moves_token ops tok" and "run_command ops c h = Some h'"
  shows "accounted tok h' = accounted tok h + mset (map tok (constructed [c]))"
  using assms
  by (cases c) (auto simp: accounted_construct accounted_destruct accounted_move_ctor
      accounted_move_assignment split: if_splits)

lemma constructed_Cons: "constructed (c # cs) = constructed [c] @ constructed cs"
  by (cases c) simp_all

lemma run_commands_accounted:
  assumes "moves_token ops tok" and "run_commands ops cs h = Some h'"
  shows "accounted tok h' = accounted tok h + mset (map tok (constructed cs))"
  using assms(2)
proof (induction cs arbitrary: h)
  case (Cons c cs)
  then obtain h1 where "run_command ops c h = Some h1" and "run_commands ops cs h1 = Some h'"
    by (auto simp: bind_eq_Some_conv)
  with Cons.IH run_command_accounted [OF assms(1)] show ?case
    by (subst constructed_Cons) (fastforce simp: add_ac)
qed simp

lemma destruct_inactive_other:
  "\<not> active (objects h ! j) \<Longrightarrow> i < length (objects h) \<Longrightarrow> \<not> active (objects (destruct ops i h) ! j)"
  by (cases "i = j") (auto simp: destruct_def Let_def)

lemma destruct_upto:
  "n \<le> length (objects h) \<Longrightarrow>
    (let h' = fold (destruct ops) [0..<n] h
     in length (objects h') = length (objects h) \<and> (\<forall>j < n. \<not> active (objects h' ! j)) \<and>
        accounted tok h' = accounted tok h)"
proof (induction n)
  case (Suc n)
  then show ?case
    by (auto simp: Let_def accounted_destruct less_Suc_eq destruct_inactive destruct_inactive_other)
qed simp

lemma held_inactive: "(\<forall>j < length os. \<not> active (os ! j)) \<Longrightarrow> held tok os = {#}"
  by (auto simp: held_def filter_False in_set_conv_nth)

lemma destruct_all_released:
  "mset (map tok (released (destruct_all ops h))) = accounted tok h"
  using destruct_upto [of "length (objects h)" h ops tok]
  by (auto simp: Let_def destruct_all_def accounted_def held_inactive)

section \<open>Properties\<close>



end
