(* ===== verification/Type_Templates.thy ===== *)
theory Type_Templates
  imports Type_Utils
begin

text \<open>
  \<^verbatim>\<open>type_utils.hpp\<close>, the templates on templates and on type lists. A type is a term, a template that
  is passed as an argument is a partial function on packs of types, undefined where \<^verbatim>\<open>TT<T...>\<close> is not
  valid. An unsatisfied constraint or a missing specialization is \<open>None\<close>. What the compiler knows of the
  program's own classes (their bases, their static members, the results of calls) is a parameter.
\<close>

section \<open>Types and templates\<close>

datatype cpp_type =
    Class string
  | Specialization string "cpp_type list"
  | Function_type cpp_type "cpp_type list"
  | Integral_constant cpp_type int

type_synonym type_template = "cpp_type list \<Rightarrow> cpp_type option"

definition class_template :: "string \<Rightarrow> (nat \<Rightarrow> bool) \<Rightarrow> type_template" where
  "class_template name arity Ts = (if arity (length Ts) then Some (Specialization name Ts) else None)"

definition bool_constant :: "bool \<Rightarrow> cpp_type" where
  "bool_constant b = Integral_constant (Class ''bool'') (of_bool b)"

definition probe_type :: cpp_type where "probe_type = Class ''probe_type''"

record indexed_type =
  index_value :: nat
  index_type :: cpp_type

definition indexed_type_t :: "nat \<Rightarrow> cpp_type \<Rightarrow> cpp_type" where
  "indexed_type_t Index T = index_type \<lparr>index_value = Index, index_type = T\<rparr>"

text \<open>
  The value has a type of its own, which is the default for the second parameter; a value the type
  cannot represent is a narrowing conversion.
\<close>

definition numeral_t :: "(cpp_type \<Rightarrow> int \<Rightarrow> bool) \<Rightarrow> cpp_type \<times> int \<Rightarrow> cpp_type option \<Rightarrow> cpp_type option" where
  "numeral_t represents N T =
     (let T = (case T of None \<Rightarrow> fst N | Some T \<Rightarrow> T)
      in if represents T (snd N) then Some (Integral_constant T (snd N)) else None)"

section \<open>Invoking templates\<close>

definition template_invocable :: "type_template \<Rightarrow> cpp_type list \<Rightarrow> bool" where
  "template_invocable TT Ts \<longleftrightarrow> TT Ts \<noteq> None"

definition arity_of_template_is :: "nat \<Rightarrow> type_template \<Rightarrow> bool" where
  "arity_of_template_is N TT \<longleftrightarrow> N > 0 \<and> TT (map (\<lambda>I. indexed_type_t I probe_type) [0..<N]) \<noteq> None"

definition template_invoke :: "type_template \<Rightarrow> type_template" where
  "template_invoke TT Ts = (if template_invocable TT Ts then TT Ts else None)"

definition template_invocable_with_repeated_argument :: "type_template \<Rightarrow> cpp_type \<Rightarrow> nat \<Rightarrow> bool" where
  "template_invocable_with_repeated_argument TT T N \<longleftrightarrow>
     template_invocable TT (map (\<lambda>I. indexed_type_t I T) [0..<N])"

definition template_invoke_with_repeated_argument :: "type_template \<Rightarrow> cpp_type \<Rightarrow> nat \<Rightarrow> cpp_type option" where
  "template_invoke_with_repeated_argument TT T N =
     (if template_invocable_with_repeated_argument TT T N
      then template_invoke TT (map (\<lambda>I. indexed_type_t I T) [0..<N])
      else None)"

section \<open>Predicate traits\<close>

definition predicate_type :: "(cpp_type \<Rightarrow> cpp_type \<Rightarrow> bool) \<Rightarrow> cpp_type \<Rightarrow> bool" where
  "predicate_type derived_from T \<longleftrightarrow>
     derived_from T (bool_constant True) \<or> derived_from T (bool_constant False)"

definition nary_predicate_trait :: "(cpp_type \<Rightarrow> cpp_type \<Rightarrow> bool) \<Rightarrow> nat \<Rightarrow> type_template \<Rightarrow> bool" where
  "nary_predicate_trait derived_from N Trait \<longleftrightarrow>
     template_invocable_with_repeated_argument Trait probe_type N \<and>
     (case template_invoke_with_repeated_argument Trait probe_type N of
        None \<Rightarrow> False
      | Some T \<Rightarrow> predicate_type derived_from T)"

definition unary_predicate_trait :: "(cpp_type \<Rightarrow> cpp_type \<Rightarrow> bool) \<Rightarrow> type_template \<Rightarrow> bool" where
  "unary_predicate_trait derived_from Trait \<longleftrightarrow>
     (case Trait [probe_type] of
        None \<Rightarrow> False
      | Some T \<Rightarrow> derived_from T (bool_constant True) \<or> derived_from T (bool_constant False))"

definition unary_predicate_trait_fold ::
  "(cpp_type \<Rightarrow> cpp_type \<Rightarrow> bool) \<Rightarrow> (cpp_type \<Rightarrow> bool option) \<Rightarrow> type_template \<Rightarrow> cpp_type list \<Rightarrow> bool" where
  "unary_predicate_trait_fold derived_from static_value Trait Ts \<longleftrightarrow>
     unary_predicate_trait derived_from Trait \<and>
     (\<forall>T \<in> set Ts. Option.bind (Trait [T]) static_value = Some True)"

section \<open>Overload sets\<close>

fun make_overloadable :: "cpp_type \<Rightarrow> cpp_type" where
  "make_overloadable (Function_type R Args) = Specialization ''std::function'' [Function_type R Args]"
| "make_overloadable f = f"

definition make_overloaded :: "cpp_type list \<Rightarrow> cpp_type" where
  "make_overloaded Fs = Specialization ''overloaded'' (map make_overloadable Fs)"

text \<open>\<open>call_result\<close> is the type the compiler finds for a call of an object of a type.\<close>

definition template_overload_resolution ::
  "(cpp_type \<Rightarrow> cpp_type list \<Rightarrow> cpp_type option) \<Rightarrow> cpp_type \<Rightarrow> cpp_type list \<Rightarrow> cpp_type option" where
  "template_overload_resolution call_result F Ts = call_result F Ts"

definition list_of_types :: "cpp_type list \<Rightarrow> cpp_type" where
  "list_of_types Ts = Specialization ''type_list'' Ts"

definition type_list :: type_template where
  "type_list Ts = Some (list_of_types Ts)"

definition map_types ::
  "(cpp_type \<Rightarrow> cpp_type list \<Rightarrow> cpp_type option) \<Rightarrow> cpp_type list \<Rightarrow> type_template" where
  "map_types call_result Ts Fs =
     Option.bind
       (type_list_map (\<lambda>T. template_overload_resolution call_result (make_overloaded Fs) [T]) Ts) type_list"

definition fold_left_types ::
  "(cpp_type \<Rightarrow> cpp_type list \<Rightarrow> cpp_type option) \<Rightarrow> cpp_type list \<Rightarrow> cpp_type \<Rightarrow> type_template" where
  "fold_left_types call_result Ts Init Fs =
     type_fold_left
       (\<lambda>Lhs Rhs. template_overload_resolution call_result (make_overloaded Fs) [Lhs, Rhs]) (Init # Ts)"

definition append_types :: "cpp_type list \<Rightarrow> type_template" where
  "append_types Ts Us = template_invoke type_list (Ts @ Us)"

section \<open>Templates on type lists\<close>

fun is_type_list :: "cpp_type \<Rightarrow> bool" where
  "is_type_list (Specialization name Ts) \<longleftrightarrow> name = ''type_list''"
| "is_type_list _ \<longleftrightarrow> False"

fun is_template_invocable_with_list :: "type_template \<Rightarrow> cpp_type \<Rightarrow> bool option" where
  "is_template_invocable_with_list TT (Specialization name Ts) =
     (if is_type_list (Specialization name Ts) then Some (template_invocable TT Ts) else None)"
| "is_template_invocable_with_list TT _ = None"

definition template_invocable_with_list :: "type_template \<Rightarrow> cpp_type \<Rightarrow> bool" where
  "template_invocable_with_list TT List \<longleftrightarrow> is_template_invocable_with_list TT List = Some True"

fun template_args :: "cpp_type \<Rightarrow> cpp_type list option" where
  "template_args (Specialization name Ts) = Some Ts"
| "template_args _ = None"

definition template_invoke_with_list :: "type_template \<Rightarrow> cpp_type \<Rightarrow> cpp_type option" where
  "template_invoke_with_list TT List =
     (if template_invocable_with_list TT List
      then Option.bind (template_args List) (template_invoke TT)
      else None)"

text \<open>Any specialization with type arguments matches, whatever its template.\<close>

definition steal_template_args :: "cpp_type \<Rightarrow> type_template \<Rightarrow> cpp_type option" where
  "steal_template_args T TT = Option.bind (template_args T) TT"

definition concat_types :: "cpp_type \<Rightarrow> cpp_type \<Rightarrow> cpp_type option" where
  "concat_types Lhs Rhs =
     (if is_type_list Lhs \<and> is_type_list Rhs
      then Option.bind (template_invoke_with_list type_list Rhs)
             (\<lambda>Us. Option.bind (template_args Lhs) (\<lambda>Ts. template_invoke_with_list (append_types Ts) Us))
      else None)"

lemma template_invoke_eq [simp]: "template_invoke TT Ts = TT Ts"
  by (simp add: template_invoke_def template_invocable_def)

lemma is_type_list_iff: "is_type_list L \<longleftrightarrow> (\<exists>Ts. L = list_of_types Ts)"
  by (cases L) (auto simp: list_of_types_def)

lemma indexed_type_t_eq [simp]: "indexed_type_t I T = T"
  by (simp add: indexed_type_t_def)

lemma repeated_types: "map (\<lambda>I. indexed_type_t I T) [0..<N] = replicate N T"
  by (simp add: map_replicate_const)

lemma template_invoke_with_list_eq [simp]: "template_invoke_with_list TT (list_of_types Ts) = TT Ts"
  by (auto simp: template_invoke_with_list_def template_invocable_with_list_def list_of_types_def
      template_invocable_def)

lemma template_invoke_with_list_other: "\<not> is_type_list L \<Longrightarrow> template_invoke_with_list TT L = None"
  by (cases L) (simp_all add: template_invoke_with_list_def template_invocable_with_list_def)

lemma steal_template_args_eq [simp]: "steal_template_args (list_of_types Ts) TT = TT Ts"
  by (simp add: steal_template_args_def list_of_types_def)

lemma concat_types_eq:
  "concat_types (list_of_types Ts) (list_of_types Us) = Some (list_of_types (type_list_concat Ts Us))"
  by (simp add: concat_types_def is_type_list_iff type_list_def append_types_def type_list_concat_def
      type_list_append_def) (simp add: list_of_types_def)

lemma concat_types_other [simp]:
  "\<not> is_type_list L \<Longrightarrow> concat_types L R = None" "\<not> is_type_list R \<Longrightarrow> concat_types L R = None"
  by (simp_all add: concat_types_def)

section \<open>The concepts agree\<close>

text \<open>
  A template has one of the arities \<^verbatim>\<open>arity_of_template_is\<close> finds exactly when it can be invoked with that
  many repeated probes; a unary predicate trait is an n-ary one for 1, and the fold over no
  types; and a fold over two packs is the fold over both.
\<close>

lemma predicate_traits_agree:
  "(arity_of_template_is N TT \<longleftrightarrow> N \<noteq> 0 \<and> template_invoke_with_repeated_argument TT probe_type N \<noteq> None) \<and>
   (unary_predicate_trait derived TT \<longleftrightarrow> nary_predicate_trait derived 1 TT) \<and>
   (unary_predicate_trait derived TT \<longleftrightarrow> unary_predicate_trait_fold derived static_value TT []) \<and>
   (unary_predicate_trait_fold derived static_value TT (Ts @ Us) \<longleftrightarrow>
      unary_predicate_trait_fold derived static_value TT Ts \<and> unary_predicate_trait_fold derived static_value TT Us)"
  by (auto simp: arity_of_template_is_def template_invoke_with_repeated_argument_def
      template_invocable_with_repeated_argument_def template_invocable_def unary_predicate_trait_def
      nary_predicate_trait_def predicate_type_def unary_predicate_trait_fold_def repeated_types
      split: option.splits)

text \<open>
  \<^verbatim>\<open>type_list_concat\<close> is defined for two type lists and nothing else, and is an associative operation
  with the empty list as its unit; invoking a template with a list gives what stealing the list's
  arguments for the template gives, and stealing them back restores the list.
\<close>

lemma type_lists_are_a_monoid:
  "(concat_types L R \<noteq> None \<longleftrightarrow> is_type_list L \<and> is_type_list R) \<and>
   Option.bind (concat_types L R) (\<lambda>LR. concat_types LR S) = Option.bind (concat_types R S) (concat_types L) \<and>
   (concat_types L (list_of_types []) = Some L \<longleftrightarrow> is_type_list L) \<and>
   (concat_types (list_of_types []) L = Some L \<longleftrightarrow> is_type_list L) \<and>
   template_invoke_with_list TT L = (if is_type_list L then steal_template_args L TT else None) \<and>
   (Option.bind (steal_template_args L (class_template T arity)) (\<lambda>U. steal_template_args U type_list) = Some L \<longleftrightarrow>
      (\<exists>Ts. L = list_of_types Ts \<and> arity (length Ts)))"
proof (intro conjI)
  show "concat_types L R \<noteq> None \<longleftrightarrow> is_type_list L \<and> is_type_list R"
    by (cases "is_type_list L \<and> is_type_list R") (auto simp: is_type_list_iff concat_types_eq)
  show "Option.bind (concat_types L R) (\<lambda>LR. concat_types LR S) = Option.bind (concat_types R S) (concat_types L)"
  proof (cases "is_type_list L \<and> is_type_list R \<and> is_type_list S")
    case True
    then show ?thesis
      by (auto simp: is_type_list_iff concat_types_eq type_list_concat_def type_list_append_def)
  next
    case False
    then consider "\<not> is_type_list L" | "\<not> is_type_list R" | "\<not> is_type_list S" by blast
    then show ?thesis by cases (simp_all split: Option.bind_split)
  qed
  show "concat_types L (list_of_types []) = Some L \<longleftrightarrow> is_type_list L"
    "concat_types (list_of_types []) L = Some L \<longleftrightarrow> is_type_list L"
    by (cases "is_type_list L", auto simp: is_type_list_iff concat_types_eq type_list_concat_def type_list_append_def)+
  show "template_invoke_with_list TT L = (if is_type_list L then steal_template_args L TT else None)"
    by (cases "is_type_list L") (auto simp: is_type_list_iff template_invoke_with_list_other)
  show "Option.bind (steal_template_args L (class_template T arity)) (\<lambda>U. steal_template_args U type_list) = Some L \<longleftrightarrow>
      (\<exists>Ts. L = list_of_types Ts \<and> arity (length Ts))"
    by (cases L) (auto simp: steal_template_args_def class_template_def type_list_def list_of_types_def)
qed

end
