(* ===== verification/Client_Programs.thy ===== *)
theory Client_Programs
  imports Client_Properties Wayland_Protocol
begin

text \<open>
  What the two example clients share: the client's operations on a world of the client and the
  program's own state, the text of a fatal error, and the vocabulary of their specifications. A
  request buffer is described by the list of the requests in it (\<open>queue\<close>), what a flush sends by the
  list of the requests sent (\<open>wire\<close>), a world between two operations by \<open>program_at\<close>. The socket is an
  interface, \<open>client_socket\<close>, whose laws the in-memory socket has.
\<close>

section \<open>Operations on the world\<close>

definition world_reserve :: "interface \<Rightarrow> ('s, 'fd, 'u) world \<Rightarrow> ('s, 'fd, 'u) world \<times> wobject" where
  "world_reserve T w = (case reserve_object_id T (fst w) of (obj, c) \<Rightarrow> ((c, snd w), obj))"

definition world_register ::
  "build \<Rightarrow> (nat \<Rightarrow> byte) \<Rightarrow> wobject \<Rightarrow> message_type \<Rightarrow> 'fd primitive list \<Rightarrow>
     ('s, 'fd, 'u) world \<Rightarrow> ('s, 'fd, 'u) world \<times> unit outcome" where
  "world_register cfg storage obj M args w =
     (case register_request cfg storage obj M args (fst w) of (c, r) \<Rightarrow> ((c, snd w), r))"

definition world_flush ::
  "build \<Rightarrow> ('s, 'fd) sock_ops \<Rightarrow> ('s, 'fd, 'u) world \<Rightarrow> ('s, 'fd, 'u) world \<times> unit outcome" where
  "world_flush cfg ops w =
     (case flush_registered_requests cfg ops (fst w) of (c, r) \<Rightarrow> ((c, snd w), r))"

section \<open>Fatal errors\<close>

definition enum_value :: "enum_type \<Rightarrow> string \<Rightarrow> int" where
  "enum_value E name = the (map_of (enumerators E) name)"

text \<open>The \<^verbatim>\<open>switch\<close> on the code, converted to the enumeration, whose underlying type is signed.\<close>

definition error_type_text :: "u32 \<Rightarrow> string" where
  "error_type_text code =
     (let err = sint code
      in if err = enum_value wl_display_enum_error ''Einvalid_object'' then ''invalid object''
         else if err = enum_value wl_display_enum_error ''Einvalid_method'' then ''invalid method''
         else if err = enum_value wl_display_enum_error ''Eno_memory'' then ''no memory''
         else if err = enum_value wl_display_enum_error ''Eimplementation'' then ''implementation''
         else ''non-global error'')"

definition text_of_bytes :: "bytes \<Rightarrow> string" where
  "text_of_bytes bs = map (\<lambda>b. char_of (unat b)) bs"

definition u8_literal :: "string \<Rightarrow> bytes" where
  "u8_literal s = map of_char s"

text \<open>The lines printed for a fatal error: its object, its code and its text.\<close>

definition display_error_lines :: "u32 \<Rightarrow> u32 \<Rightarrow> bytes \<Rightarrow> string list" where
  "display_error_lines err_object_id code message =
     [''Received global display object error event:'',
      ''    object id: '' @ decimal (unat err_object_id),
      ''    error type: '' @ error_type_text code,
      ''    desc: '' @ text_of_bytes message]"

section \<open>Queued requests\<close>

definition queue :: "(nat \<Rightarrow> byte) \<Rightarrow> 'fd request list \<Rightarrow> 'fd message_buffer" where
  "queue storage rs = \<lparr>buff = enc_requests storage 0 rs, fd_buff = fds_of_requests rs\<rparr>"

definition wire :: "(nat \<Rightarrow> byte) \<Rightarrow> 'fd request list \<Rightarrow> (byte \<times> 'fd option) list" where
  "wire storage rs = attach (enc_requests storage 0 rs) (fds_of_requests rs)"

definition view_register ::
  "(nat \<Rightarrow> byte) \<Rightarrow> wobject \<Rightarrow> message_type \<Rightarrow> 'fd primitive list \<Rightarrow>
     ('fd, 'u) request_view \<Rightarrow> ('fd, 'u) request_view" where
  "view_register storage obj M args v =
     (case v of (n, mb, u) \<Rightarrow>
        (n, \<lparr>buff = buff mb @ enc_message storage (length (buff mb)) obj M args,
             fd_buff = fd_buff mb @ fds_of_args args\<rparr>, u))"

lemma enc_requests_snoc:
  "enc_requests storage k (rs @ [(obj, M, args)]) =
     enc_requests storage k rs @ enc_message storage (k + length (enc_requests storage k rs)) obj M args"
  by (induction rs arbitrary: k) (auto simp: add.assoc)

lemma queue_snoc:
  "\<lparr>buff = buff (queue storage rs) @ enc_message storage (length (buff (queue storage rs))) obj M args,
    fd_buff = fd_buff (queue storage rs) @ fds_of_args args\<rparr> = queue storage (rs @ [(obj, M, args)])"
  by (simp add: queue_def enc_requests_snoc fds_of_requests_def)

lemma queue_Nil: "queue storage [] = empty_message_buffer"
  by (simp add: queue_def empty_message_buffer_def fds_of_requests_def)

lemma view_register_queue [simp]:
  "view_register storage obj M args (n, queue storage rs, u) = (n, queue storage (rs @ [(obj, M, args)]), u)"
  by (simp add: view_register_def queue_snoc)

lemma register_queue:
  "request_buff c = queue storage rs \<Longrightarrow> appendable cfg obj M args \<Longrightarrow>
     register_request cfg storage obj M args c =
       (c\<lparr>request_buff := queue storage (rs @ [(obj, M, args)])\<rparr>, Value ())"
  by (simp add: register_request_def append_message_value queue_snoc)

lemma world_register_view:
  "appendable cfg obj M args \<Longrightarrow>
     world_register cfg storage obj M args w =
       (set_view w (view_register storage obj M args (view_of_world w)), Value ())"
  by (simp add: world_register_def register_request_def append_message_value view_register_def
      view_of_world_def set_view_def)

lemma wire_Nil [simp]: "wire storage [] = []"
  by (simp add: wire_def fds_of_requests_def)

lemma queue_buffer_empty: "buffer_empty (queue storage rs) \<longleftrightarrow> rs = []"
proof (cases rs)
  case (Cons r rs')
  obtain obj M args where "r = (obj, M, args)" by (cases r)
  with Cons show ?thesis
    by (simp add: buffer_empty_def queue_def flip: length_greater_0_conv)
qed (simp add: buffer_empty_def queue_def fds_of_requests_def)

lemma queue_fd_bound:
  "\<forall>(obj, M, args) \<in> set rs. length (fds_of_args args) \<le> 7 \<Longrightarrow> fd_bound (queue storage rs)"
proof (induction rs rule: rev_induct)
  case Nil
  then show ?case by (simp add: queue_Nil)
next
  case (snoc r rs)
  obtain obj M args where r: "r = (obj, M, args)" by (cases r)
  with snoc have "fd_bound (queue storage rs)" "length (fds_of_args args) \<le> 7" by simp_all
  then show ?case
    by (simp add: fd_bound_def r flip: queue_snoc)
qed

section \<open>The socket\<close>

locale client_socket =
  fixes ops :: "('s, 'fd) sock_ops" and sent :: "'s \<Rightarrow> (byte \<times> 'fd option) list" and pending :: "'s \<Rightarrow> bytes"
  assumes sends: "sends_all ops sent" and reads: "reads_pending ops pending"
    and reads_keep_sent: "reads_keep ops sent" and sends_keep: "sends_keep_pending ops pending"

text \<open>
  The state of a program between two operations: the next id, the requests in the buffer, the
  program's own state, what has been sent and the messages the server has sent or will send and
  that are not visited yet.
\<close>

definition program_at ::
  "(nat \<Rightarrow> byte) \<Rightarrow> ('s \<Rightarrow> (byte \<times> 'fd option) list) \<Rightarrow> ('s \<Rightarrow> bytes) \<Rightarrow>
     u32 \<Rightarrow> 'fd request list \<Rightarrow> 'u \<Rightarrow> (byte \<times> 'fd option) list \<Rightarrow> parsed_message list \<Rightarrow>
     ('s, 'fd, 'u) world \<Rightarrow> bool" where
  "program_at storage sent pending n rs u tr ms w \<longleftrightarrow>
     view_of_world w = (n, queue storage rs, u) \<and> sent (server_sock (fst w)) = tr \<and>
     recv_buff (fst w) @ pending (server_sock (fst w)) = concat (map message_bytes ms) \<and> whole_words ms"

lemma program_at_start:
  "whole_words ms \<Longrightarrow> pending sock = concat (map message_bytes ms) \<Longrightarrow>
     program_at storage sent pending 2 [] u (sent sock) ms (make_connected_client sock, u)"
  by (simp add: program_at_def make_connected_client_def view_of_world_def queue_Nil)

lemma program_at_update:
  assumes "program_at storage sent pending n rs u tr ms w"
    and "next_new_id c = n'" "request_buff c = queue storage rs'"
      "server_sock c = server_sock (fst w)" "recv_buff c = recv_buff (fst w)"
  shows "program_at storage sent pending n' rs' u' tr ms (c, u')"
  using assms by (simp add: program_at_def view_of_world_def)

context client_socket
begin

lemma flush_program:
  assumes at: "program_at storage sent pending n rs u tr ms w"
    and "\<forall>(obj, M, args) \<in> set rs. length (fds_of_args args) \<le> 7"
  shows "\<exists>w'. world_flush cfg ops w = (w', Value ()) \<and>
    program_at storage sent pending n [] u (tr @ wire storage rs) ms w'"
proof (cases "rs = []")
  case True
  then have "buffer_empty (request_buff (fst w))"
    using at by (simp add: program_at_def view_of_world_def queue_Nil buffer_empty_def empty_message_buffer_def)
  with at True show ?thesis
    by (intro exI [of _ w]) (simp add: world_flush_def flush_registered_requests_def)
next
  case False
  let ?c = "fst w"
  have c: "request_buff ?c = queue storage rs" using at by (simp add: program_at_def view_of_world_def)
  then have less: "length (fd_buff (request_buff ?c)) < length (buff (request_buff ?c))"
    using False queue_fd_bound [OF assms(2), of storage] by (simp add: fd_bound_less queue_buffer_empty)
  obtain s' where f: "flush_registered_requests cfg ops ?c =
      (?c\<lparr>server_sock := s', request_buff := empty_message_buffer\<rparr>, Value ())"
    and s': "sent s' = sent (server_sock ?c) @ attach (buff (request_buff ?c)) (fd_buff (request_buff ?c))"
    using flush_value [OF sends less, of cfg] by blast
  have "pending s' = pending (server_sock ?c)"
    using f False c write_requests_pending [OF sends_keep, of cfg "buff (request_buff ?c)"
        "fd_buff (request_buff ?c)" "server_sock ?c"]
    by (auto simp: flush_registered_requests_def queue_buffer_empty release_data_def release_fds_def
        split: prod.splits dest: arg_cong [where f = server_sock])
  with f s' c at show ?thesis
    by (auto simp: world_flush_def program_at_def view_of_world_def queue_Nil wire_def)
      (simp_all add: queue_def)
qed

lemma until_program:
  assumes at: "program_at storage sent pending n rs u tr (pre @ m # post) w"
    and "\<forall>k \<in> set pre. \<not> matches i oc k" "matches i oc m"
    and V: "visits_as mos (set pre) V" and "acts_as cb m g"
    and "g (fold V pre (n, queue storage rs, u)) = (n', queue storage rs', u')"
  shows "\<exists>w'. try_again ops storage mos i oc cb w = Some (w', Value ()) \<and>
    program_at storage sent pending n' rs' u' tr post w'"
proof -
  have w: "whole_words (pre @ m # post)"
    "recv_buff (fst w) @ pending (server_sock (fst w)) = concat (map message_bytes (pre @ m # post))"
    using at by (simp_all add: program_at_def)
  from try_again_stream [OF reads whole_wordsD [OF w(1)] assms(2,3) V assms(5) w(2), of storage sent]
  show ?thesis
    using at w(1) assms(6) reads_keep_sent
    by (auto simp: program_at_def whole_words_def)
qed

lemma until_program_stopped:
  assumes at: "program_at storage sent pending n rs u tr (pre @ m # post) w"
    and "\<forall>k \<in> set (pre @ [m]). \<not> matches i oc k" and V: "visits_as mos (set pre) V"
    and "overload_resolution mos (pm_object_id m) (pm_opcode m) = Some f"
    and "\<And>w. f (pm_arguments m) w = (set_view w (g (view_of_world w)), r)" and "r \<noteq> Value ()"
  shows "\<exists>w'. try_again ops storage mos i oc cb w = Some (w', r) \<and>
    view_of_world w' = g (fold V pre (n, queue storage rs, u)) \<and> sent (server_sock (fst w')) = tr"
proof -
  have w: "whole_words (pre @ m # post)"
    "recv_buff (fst w) @ pending (server_sock (fst w)) = concat (map message_bytes (pre @ m # post))"
    using at by (simp_all add: program_at_def)
  from try_again_stream_stopped [OF reads whole_wordsD [OF w(1)] assms(2) V assms(4-6) w(2), of storage cb sent]
  show ?thesis
    using at reads_keep_sent by (auto simp: program_at_def)
qed

end

interpretation list_client: client_socket list_socket_ops outgoing incoming
  by (unfold_locales, rule list_socket_sends_all, rule list_socket_reads_pending)
    (simp_all add: reads_keep_def sends_keep_pending_def list_socket_ops_def)

end
