(* ===== verification/Cpp_Int.thy ===== *)
theory Cpp_Int
  imports Sstd "HOL-Library.Signed_Division"
begin

text \<open>
  The arithmetic the example programs use of the language and its standard library: \<^verbatim>\<open>int\<close> of 32 bits,
  where overflow and division by zero are undefined, the IEEE double nearest to a quotient of two
  \<^verbatim>\<open>int\<close>s, and \<^verbatim>\<open>std::stoi\<close>.
\<close>

section \<open>int\<close>

definition is_int :: "int \<Rightarrow> bool" where
  "is_int i \<longleftrightarrow> - (2 ^ 31) \<le> i \<and> i < 2 ^ 31"

definition int_outcome :: "int \<Rightarrow> int outcome" where
  "int_outcome i = (if is_int i then Value i else Undefined)"

definition int_add :: "int \<Rightarrow> int \<Rightarrow> int outcome" where
  "int_add a b = int_outcome (a + b)"

definition int_mult :: "int \<Rightarrow> int \<Rightarrow> int outcome" where
  "int_mult a b = int_outcome (a * b)"

text \<open>Division truncates; it is undefined with its remainder when the quotient is not representable.\<close>

definition int_div :: "int \<Rightarrow> int \<Rightarrow> int outcome" where
  "int_div a b = (if b = 0 then Undefined else int_outcome (a sdiv b))"

definition int_mod :: "int \<Rightarrow> int \<Rightarrow> int outcome" where
  "int_mod a b = bind_outcome (int_div a b) (\<lambda>_. Value (a smod b))"

text \<open>A conversion to \<^verbatim>\<open>int\<close> is modulo \<open>2 ^ 32\<close>.\<close>

definition to_int :: "int \<Rightarrow> int" where
  "to_int i = (i + 2 ^ 31) mod 2 ^ 32 - 2 ^ 31"

lemma int_outcome_Value [simp]: "int_outcome i = Value j \<longleftrightarrow> is_int i \<and> j = i"
  by (auto simp: int_outcome_def)

lemma int_outcome_is_int [simp]: "is_int i \<Longrightarrow> int_outcome i = Value i"
  by (simp add: int_outcome_def)

lemma to_int_is_int [simp]: "is_int i \<Longrightarrow> to_int i = i"
  by (simp add: to_int_def is_int_def)

lemma is_int_between: "is_int a \<Longrightarrow> is_int c \<Longrightarrow> a \<le> b \<Longrightarrow> b \<le> c \<Longrightarrow> is_int b"
  by (simp add: is_int_def)

lemma is_int_nonneg_le: "is_int c \<Longrightarrow> 0 \<le> b \<Longrightarrow> b \<le> c \<Longrightarrow> is_int b"
  by (simp add: is_int_def)

lemma sdiv_nonneg: "0 \<le> (a::int) \<Longrightarrow> 0 < b \<Longrightarrow> a sdiv b = a div b"
  by (simp add: signed_divide_int_def sgn_if)

lemma smod_nonneg: "0 \<le> (a::int) \<Longrightarrow> 0 < b \<Longrightarrow> a smod b = a mod b"
  by (simp add: signed_modulo_int_def sgn_if)

lemma int_div_nonneg: "is_int a \<Longrightarrow> 0 \<le> a \<Longrightarrow> 0 < b \<Longrightarrow> int_div a b = Value (a div b)"
  using is_int_nonneg_le [of a "a div b"] zdiv_mono2 [of a 1 b]
  by (simp add: int_div_def sdiv_nonneg pos_imp_zdiv_nonneg_iff)

lemma int_mod_nonneg: "is_int a \<Longrightarrow> 0 \<le> a \<Longrightarrow> 0 < b \<Longrightarrow> int_mod a b = Value (a mod b)"
  by (simp add: int_mod_def int_div_nonneg smod_nonneg)

section \<open>Quotients as double\<close>

text \<open>
  A double is a mantissa \<open>m\<close> and the power of two it is divided by: \<open>(m, k)\<close> is \<open>m / 2 ^ k\<close>. The
  quotient of two integers of at most 32 bits is neither subnormal nor infinite, so it is rounded to
  53 significant bits, to the nearest, in a tie to the even one. \<open>double_scale\<close> is the \<open>k\<close> for which the mantissa of a
  quotient below \<open>2 ^ 53\<close> has 53 bits.
\<close>

type_synonym double = "int \<times> nat"

function double_scale :: "int \<Rightarrow> int \<Rightarrow> nat" where
  "double_scale a b = (if a \<le> 0 \<or> 2 ^ 52 * b \<le> a then 0 else Suc (double_scale (2 * a) b))"
  by pat_completeness auto
termination
  by (relation "measure (\<lambda>(a, b). nat (2 ^ 52 * b - a))") auto

declare double_scale.simps [simp del]

definition round_half_even :: "int \<Rightarrow> int \<Rightarrow> int" where
  "round_half_even a b =
     (let q = a div b; r = a mod b
      in if 2 * r < b \<or> (2 * r = b \<and> even q) then q else q + 1)"

definition double_div :: "int \<Rightarrow> int \<Rightarrow> double" where
  "double_div a b =
     (let k = double_scale \<bar>a\<bar> \<bar>b\<bar>
      in (sgn a * sgn b * round_half_even (\<bar>a\<bar> * 2 ^ k) \<bar>b\<bar>, k))"

fun double_less :: "double \<Rightarrow> double \<Rightarrow> bool" where
  "double_less (m, k) (n, l) = (m * 2 ^ l < n * 2 ^ k)"

lemma double_scale_bounds:
  "0 < a \<Longrightarrow> a < 2 ^ 53 * b \<Longrightarrow>
     2 ^ 52 * b \<le> a * 2 ^ double_scale a b \<and> a * 2 ^ double_scale a b < 2 ^ 53 * b"
proof (induction a b rule: double_scale.induct)
  case (1 a b)
  show ?case
  proof (cases "2 ^ 52 * b \<le> a")
    case True
    with 1 show ?thesis by (simp add: double_scale.simps [of a b])
  next
    case False
    then have "2 * a < 2 ^ 53 * b" by simp
    with 1 False have "2 ^ 52 * b \<le> 2 * a * 2 ^ double_scale (2 * a) b \<and>
        2 * a * 2 ^ double_scale (2 * a) b < 2 ^ 53 * b" by simp
    with False 1(2) show ?thesis by (simp add: double_scale.simps [of a b] ac_simps)
  qed
qed

lemma round_half_even_nearest:
  assumes "0 < b"
  shows "\<bar>2 * (b * round_half_even a b - a)\<bar> \<le> b"
proof -
  let ?q = "round_half_even a b"
  have a: "a = b * (a div b) + a mod b" and r: "0 \<le> a mod b" "a mod b < b" using assms by simp_all
  consider "?q = a div b" "2 * (a mod b) \<le> b" | "?q = a div b + 1" "b \<le> 2 * (a mod b)"
    unfolding round_half_even_def Let_def by (cases "2 * (a mod b) < b \<or> (2 * (a mod b) = b \<and> even (a div b))") auto
  then show ?thesis
  proof cases
    case 1
    have "b * ?q - a = - (a mod b)" unfolding 1(1) using a by linarith
    with 1(2) r show ?thesis by simp
  next
    case 2
    have "b * ?q - a = b - a mod b" unfolding 2(1) distrib_left using a by linarith
    with 2(2) r show ?thesis by simp
  qed
qed

text \<open>
  The quotients \<open>1 / 3\<close> and \<open>2 / 3\<close> have the same mantissa, the integer below \<open>2 ^ 54 / 3\<close>. A quotient
  of two integers below \<open>2 ^ 31\<close> is a third exactly or further away from it than rounding moves it.
\<close>

definition third_mantissa :: int where
  "third_mantissa = 6004799503160661"

lemma double_thirds:
  "double_div 1 3 = (third_mantissa, 54)" "double_div 2 3 = (third_mantissa, 53)"
  by code_simp+

lemma near_third_products:
  fixes s K c L :: int
  assumes s: "0 < s" "s < 2 ^ 31" and K: "2 ^ 53 \<le> K"
    and L: "3 * third_mantissa = c * L - 1" "2 ^ 53 \<le> L"
  shows "6 * (s * (third_mantissa * K)) = 2 * c * L * (s * K) - 2 * (s * K)"
    and "2 * (s * K) < K * L" and "3 * (s * L) < K * L" and "0 \<le> s * K"
proof -
  have "6 * (s * (third_mantissa * K)) = 2 * (3 * third_mantissa) * (s * K)" by (simp add: algebra_simps)
  then show "6 * (s * (third_mantissa * K)) = 2 * c * L * (s * K) - 2 * (s * K)"
    unfolding L(1) by (simp add: algebra_simps)
  have KL: "2 ^ 53 * L \<le> K * L" "2 ^ 53 * K \<le> K * L" using K L(2) by simp_all
  have "2 * (s * K) \<le> 2 ^ 32 * K" "2 ^ 32 * K < 2 ^ 53 * K" using s K by simp_all
  with KL(2) show "2 * (s * K) < K * L" by linarith
  have "3 * (s * L) < 2 ^ 33 * L" using s L(2) by simp
  with KL(1) L(2) show "3 * (s * L) < K * L" by simp
  show "0 \<le> s * K" using s K by simp
qed

lemma quotient_near_third:
  fixes x s m K c L :: int
  assumes x: "x < s" and s: "0 < s" "s < 2 ^ 31" and K: "2 ^ 53 \<le> K"
    and m: "\<bar>2 * (s * m - x * K)\<bar> \<le> s"
    and L: "3 * third_mantissa = c * L - 1" "2 ^ 53 \<le> L" "c * L = 2 ^ 54"
  shows "c * s < 3 * x \<Longrightarrow> third_mantissa * K < m * L"
    and "3 * x < c * s \<Longrightarrow> m * L < third_mantissa * K"
proof -
  let ?t = third_mantissa
  note t = near_third_products [OF s K L(1,2)]
  { assume "c * s < 3 * x"
    then have "(c * s + 1) * K \<le> 3 * x * K" using K by (intro mult_right_mono) simp_all
    moreover have "2 * (x * K) - s \<le> 2 * (s * m)" using m by (simp add: abs_le_iff algebra_simps)
    ultimately have "2 * (c * (s * K)) + 2 * K - 3 * s \<le> 6 * (s * m)" by (simp add: algebra_simps)
    then have "(2 * (c * (s * K)) + 2 * K - 3 * s) * L \<le> 6 * (s * m) * L"
      using L(2) by (intro mult_right_mono) simp_all
    then have "2 * c * L * (s * K) + 2 * (K * L) - 3 * (s * L) \<le> 6 * (s * (m * L))"
      by (simp add: algebra_simps)
    then have "6 * (s * (?t * K)) < 6 * (s * (m * L))" using t by linarith
    then show "?t * K < m * L" using s by simp
  }
  { assume "3 * x < c * s"
    then have "3 * x * K \<le> (c * s - 1) * K" using K by (intro mult_right_mono) simp_all
    moreover have "2 * (s * m) \<le> 2 * (x * K) + s" using m by (simp add: abs_le_iff algebra_simps)
    ultimately have "6 * (s * m) \<le> 2 * (c * (s * K)) - 2 * K + 3 * s" by (simp add: algebra_simps)
    then have "6 * (s * m) * L \<le> (2 * (c * (s * K)) - 2 * K + 3 * s) * L"
      using L(2) by (intro mult_right_mono) simp_all
    then have "6 * (s * (m * L)) \<le> 2 * c * L * (s * K) - 2 * (K * L) + 3 * (s * L)"
      by (simp add: algebra_simps)
    then have "6 * (s * (m * L)) < 6 * (s * (?t * K))" using t by linarith
    then show "m * L < ?t * K" using s by simp
  }
qed

lemma double_div_0 [simp]: "double_div 0 s = (0, 0)"
  by (simp add: double_div_def double_scale.simps Let_def)

lemma double_div_bounds:
  assumes "0 < x" and "x < s" and "double_div x s = (m, k)"
  shows "2 ^ 52 * s \<le> x * 2 ^ k" and "x * 2 ^ k < 2 ^ 53 * s" and "\<bar>2 * (s * m - x * 2 ^ k)\<bar> \<le> s"
    and "(2 :: int) ^ 53 \<le> 2 ^ k"
proof -
  have k: "k = double_scale x s" and m: "m = round_half_even (x * 2 ^ k) s"
    using assms by (auto simp: double_div_def Let_def sgn_if)
  have "x < 2 ^ 53 * s" using assms by simp
  with double_scale_bounds [OF assms(1)] show b: "2 ^ 52 * s \<le> x * 2 ^ k" "x * 2 ^ k < 2 ^ 53 * s"
    by (simp_all add: k)
  show "\<bar>2 * (s * m - x * 2 ^ k)\<bar> \<le> s"
    unfolding m using assms by (intro round_half_even_nearest) simp
  have "x * 2 ^ k < s * 2 ^ k" using assms by simp
  with b(1) have "2 ^ 52 * s < 2 ^ k * s" unfolding mult.commute [of "2 ^ k" s] by linarith
  then have "(2 :: int) ^ 52 < 2 ^ k"
    by (rule mult_right_less_imp_less) (use assms in simp)
  then have "52 < k" by (rule power_less_imp_less_exp [rotated]) simp
  then show "(2 :: int) ^ 53 \<le> 2 ^ k" by (intro power_increasing) simp_all
qed

lemma pow2_less_exp: "(2 :: int) ^ m < 2 ^ n \<Longrightarrow> m < n"
  using power_strict_increasing_iff [of "2 :: int" m n] by simp

lemma quotient_is_third:
  assumes "0 < u" and x: "x = c * u" "s = 3 * u" and c: "c = 1 \<or> c = 2" and "x < s"
    and mk: "double_div x s = (m, k)"
  shows "m = third_mantissa" and "c * 2 ^ k = 2 ^ 54"
proof -
  have "0 < x" using assms(1) x c by auto
  note b = double_div_bounds [OF this assms(5) mk]
  have "u * (3 * 2 ^ 52) \<le> u * (c * 2 ^ k)" "u * (c * 2 ^ k) < u * (3 * 2 ^ 53)"
    using b(1,2) unfolding x by (simp_all add: ac_simps)
  then have k: "3 * 2 ^ 52 \<le> c * 2 ^ k" "c * 2 ^ k < 3 * 2 ^ 53"
    using assms(1) by (auto simp only: mult_le_cancel_left_pos mult_less_cancel_left_pos)
  from c show p: "c * 2 ^ k = 2 ^ 54"
  proof
    assume c: "c = 1"
    from k have "(2 :: int) ^ 53 < 2 ^ k" "(2 :: int) ^ k < 2 ^ 55" unfolding c mult_1 by simp_all
    then have "53 < k" "k < 55" by (blast intro: pow2_less_exp)+
    then have "k = 54" by simp
    with c show ?thesis by simp
  next
    assume c: "c = 2"
    from k have "(2 :: int) ^ 52 < 2 ^ k" "(2 :: int) ^ k < 2 ^ 54" unfolding c by simp_all
    then have "52 < k" "k < 54" by (blast intro: pow2_less_exp)+
    then have "k = 53" by simp
    with c show ?thesis by simp
  qed
  have "2 * (s * m - x * 2 ^ k) = u * (2 * (3 * m - 2 ^ 54))"
    unfolding x p [symmetric] by (simp add: algebra_simps)
  then have "u * \<bar>2 * (3 * m - 2 ^ 54)\<bar> \<le> u * 3"
    using b(3) assms(1) x by (simp only: abs_mult)
  then have "\<bar>2 * (3 * m - 2 ^ 54)\<bar> \<le> 3"
    by (rule mult_left_le_imp_le) (use assms(1) in simp)
  then show "m = third_mantissa" unfolding third_mantissa_def abs_le_iff by simp
qed

text \<open>The comparison of a quotient with \<open>1.0 / 3.0\<close> and \<open>2.0 / 3.0\<close> is that of the rational numbers.\<close>

lemma double_third_compare:
  assumes "0 < x" and "x < s" and "s < 2 ^ 31" and c: "c = 1 \<or> c = (2 :: int)" and "c * L = 2 ^ 54"
    and mk: "double_div x s = (m, k)"
  shows "third_mantissa * 2 ^ k < m * L \<longleftrightarrow> c * s < 3 * x"
    and "m * L < third_mantissa * 2 ^ k \<longleftrightarrow> 3 * x < c * s"
proof -
  note b = double_div_bounds [OF assms(1,2) mk]
  have t: "3 * third_mantissa = c * L - 1" unfolding assms(5) by (simp add: third_mantissa_def)
  have L: "2 ^ 53 \<le> L" using c assms(5) by auto
  have s: "0 < s" using assms(1,2) by simp
  note near = quotient_near_third [OF assms(2) s assms(3) b(4,3) t L assms(5)]
  have eq: "m * L = third_mantissa * 2 ^ k" if 3: "3 * x = c * s"
  proof -
    have "s = 3 * (if c = 1 then x else s - x)" using c 3 by auto
    then obtain u where u: "s = 3 * u" ..
    with 3 have "x = c * u" by simp
    from quotient_is_third [OF _ this u c assms(2) mk] s u
    have "m = third_mantissa" "c * 2 ^ k = c * L" using assms(5) by simp_all
    with c show ?thesis by auto
  qed
  show "third_mantissa * 2 ^ k < m * L \<longleftrightarrow> c * s < 3 * x"
    "m * L < third_mantissa * 2 ^ k \<longleftrightarrow> 3 * x < c * s"
    using near eq by (metis linorder_neqE_linordered_idom order_less_imp_not_less order_less_irrefl)+
qed

lemma double_middle_third:
  assumes "0 \<le> x" and "x < s" and "s < 2 ^ 31"
  shows "double_less (double_div 1 3) (double_div x s) \<longleftrightarrow> s < 3 * x"
    and "double_less (double_div x s) (double_div 2 3) \<longleftrightarrow> 3 * x < 2 * s"
proof -
  obtain m k where mk: "double_div x s = (m, k)" by (cases "double_div x s")
  note c = double_third_compare [OF _ assms(2,3) _ _ mk]
  show "double_less (double_div 1 3) (double_div x s) \<longleftrightarrow> s < 3 * x"
    using c(1) [of 1 "2 ^ 54"] assms by (cases "x = 0") (simp_all add: mk double_thirds, simp_all add: third_mantissa_def)
  show "double_less (double_div x s) (double_div 2 3) \<longleftrightarrow> 3 * x < 2 * s"
    using c(2) [of 2 "2 ^ 53"] assms by (cases "x = 0") (simp_all add: mk double_thirds, simp_all add: third_mantissa_def)
qed

section \<open>std::stoi and std::format\<close>

text \<open>
  \<^verbatim>\<open>std::stoi\<close> in base 10: white space is skipped, then an optional sign and the longest run of digits
  are read and what follows is ignored. No digit and a value outside of \<^verbatim>\<open>int\<close> are exceptions.
\<close>

definition is_space :: "char \<Rightarrow> bool" where
  "is_space c \<longleftrightarrow> c = CHR '' '' \<or> (9 \<le> (of_char c :: nat) \<and> (of_char c :: nat) \<le> 13)"

definition is_digit :: "char \<Rightarrow> bool" where
  "is_digit c \<longleftrightarrow> 48 \<le> (of_char c :: nat) \<and> (of_char c :: nat) \<le> 57"

definition digits_value :: "string \<Rightarrow> int" where
  "digits_value ds = foldl (\<lambda>n c. 10 * n + (of_char c - 48)) 0 ds"

fun split_sign :: "string \<Rightarrow> int \<times> string" where
  "split_sign [] = (1, [])"
| "split_sign (c # cs) =
     (if c = CHR ''-'' then (- 1, cs) else if c = CHR ''+'' then (1, cs) else (1, c # cs))"

definition stoi :: "string \<Rightarrow> int outcome" where
  "stoi str =
     (case split_sign (dropWhile is_space str) of (sign, rest) \<Rightarrow>
      let digits = takeWhile is_digit rest;
          value = sign * digits_value digits
      in if digits = [] then Raise (Foreign_error ''std::invalid_argument: stoi'')
         else if \<not> is_int value then Raise (Foreign_error ''std::out_of_range: stoi'')
         else Value value)"

text \<open>\<^verbatim>\<open>std::format\<close> of an \<^verbatim>\<open>int\<close> and of a \<^verbatim>\<open>bool\<close>.\<close>

definition decimal_int :: "int \<Rightarrow> string" where
  "decimal_int i = (if i < 0 then ''-'' @ decimal (nat (- i)) else decimal (nat i))"

definition format_bool :: "bool \<Rightarrow> string" where
  "format_bool b = (if b then ''true'' else ''false'')"

lemma stoi_is_int: "stoi str = Value i \<Longrightarrow> is_int i"
  by (auto simp: stoi_def Let_def split: prod.splits if_splits)

text \<open>Reading back what has been written.\<close>

lemma of_char_digit: "d < 10 \<Longrightarrow> (of_char (char_of (48 + d)) :: nat) = 48 + d"
  by simp

lemma decimal_digits: "list_all is_digit (decimal n) \<and> decimal n \<noteq> []"
proof (induction n rule: decimal.induct)
  case (1 n)
  have "is_digit (char_of (48 + d))" if "d < 10" for d :: nat
    using that by (simp add: is_digit_def)
  with 1 show ?case
    by (simp add: decimal.simps [of n])
qed

lemma digits_value_snoc: "digits_value (ds @ [c]) = 10 * digits_value ds + (of_char c - 48)"
  by (simp add: digits_value_def)

lemma digits_value_decimal: "digits_value (decimal n) = int n"
proof (induction n rule: decimal.induct)
  case (1 n)
  have "(of_char (char_of (48 + d)) :: int) = 48 + int d" if "d < 10" for d :: nat
    using of_char_digit [OF that] by (metis of_nat_of_char of_nat_add of_nat_numeral)
  note d = this
  show ?case
  proof (cases "n < 10")
    case True
    then show ?thesis using d by (simp add: decimal.simps [of n] digits_value_def)
  next
    case False
    then have "digits_value (decimal n) = 10 * int (n div 10) + int (n mod 10)"
      using d [of "n mod 10"] 1 by (simp add: decimal.simps [of n] digits_value_snoc)
    also have "\<dots> = int n" by (simp add: zdiv_int zmod_int)
    finally show ?thesis .
  qed
qed

lemma stoi_decimal_int:
  assumes "is_int i"
  shows "stoi (decimal_int i) = Value i"
proof -
  have digit: "\<not> is_space c" "c \<noteq> CHR ''-''" "c \<noteq> CHR ''+''" if "is_digit c" for c
    using that by (auto simp: is_digit_def is_space_def)
  obtain c cs where c: "decimal (nat \<bar>i\<bar>) = c # cs" "is_digit c" "takeWhile is_digit (c # cs) = c # cs"
    using decimal_digits [of "nat \<bar>i\<bar>"] by (cases "decimal (nat \<bar>i\<bar>)") (auto simp: list_all_iff)
  have v: "digits_value (c # cs) = \<bar>i\<bar>"
    using digits_value_decimal [of "nat \<bar>i\<bar>"] c(1) by simp
  have m: "\<not> is_space CHR ''-''" by (simp add: is_space_def)
  show ?thesis
  proof (cases "i < 0")
    case True
    then have "decimal_int i = CHR ''-'' # c # cs" using c(1) by (simp add: decimal_int_def)
    with True v assms show ?thesis by (simp only: stoi_def) (simp add: m c(3) Let_def del: takeWhile.simps)
  next
    case False
    then have "decimal_int i = c # cs" using c(1) by (simp add: decimal_int_def)
    with False v assms digit [OF c(2)] show ?thesis
      by (simp only: stoi_def) (simp add: c(3) Let_def del: takeWhile.simps)
  qed
qed

end
