(* ===== verification/System_Utils.thy ===== *)
theory System_Utils
  imports Prelude
begin

text \<open>
  \<^verbatim>\<open>system_utils.{hpp,cpp}\<close>: where the Wayland socket is, from the environment. A path is its native
  POSIX string; the parts of \<^verbatim>\<open>std::filesystem::path\<close> the function uses are written out.
\<close>

section \<open>Paths\<close>

type_synonym path = string

text \<open>POSIX: a path is absolute when it starts with a slash, otherwise relative.\<close>

definition is_absolute :: "path \<Rightarrow> bool" where
  "is_absolute p = (case p of [] \<Rightarrow> False | c # _ \<Rightarrow> c = CHR ''/'')"

definition is_relative :: "path \<Rightarrow> bool" where
  "is_relative p = (\<not> is_absolute p)"

text \<open>
  \<^verbatim>\<open>operator/\<close>: an absolute right operand replaces the left one; otherwise a separator is inserted
  when the left one has a file name (it is not empty and does not end in a slash), and the right one
  is appended.
\<close>

definition has_filename :: "path \<Rightarrow> bool" where
  "has_filename p = (p \<noteq> [] \<and> last p \<noteq> CHR ''/'')"

definition path_append :: "path \<Rightarrow> path \<Rightarrow> path" where
  "path_append p q =
     (if is_absolute q then q
      else if has_filename p then p @ ''/'' @ q
      else p @ q)"

section \<open>The socket path\<close>

type_synonym environment = "string \<rightharpoonup> string"

definition runtime_dir_path :: "environment \<Rightarrow> path \<Rightarrow> path outcome" where
  "runtime_dir_path getenv wayland_socket_name =
     (case getenv ''XDG_RUNTIME_DIR'' of
        None \<Rightarrow> Raise (Runtime_error
          ''XDG_RUNTIME_DIR is required if WAYLAND_DISPLAY is not absolute path!'')
      | Some runtime_dir \<Rightarrow> Value (path_append runtime_dir wayland_socket_name))"

definition wayland_socket_path :: "environment \<Rightarrow> path outcome" where
  "wayland_socket_path getenv =
     (case getenv ''WAYLAND_DISPLAY'' of
        None \<Rightarrow> runtime_dir_path getenv ''wayland-0''
      | Some wayland_display \<Rightarrow>
          if is_absolute wayland_display then Value wayland_display
          else if is_relative wayland_display then runtime_dir_path getenv wayland_display
          else Raise (Logic_error
                 (''Path '' @ [CHR 0x27] @ wayland_display @ [CHR 0x27] @
                  '' is neither absolute nor relative!?'')))"

text \<open>The determination the header documents, step by step.\<close>

fun documented_socket_path :: "string option \<Rightarrow> string option \<Rightarrow> path outcome" where
  "documented_socket_path display runtime_dir =
     (if (\<exists>d \<in> set_option display. is_absolute d) then Value (the display)
      else if runtime_dir = None
      then Raise (Runtime_error ''XDG_RUNTIME_DIR is required if WAYLAND_DISPLAY is not absolute path!'')
      else if display \<noteq> None then Value (path_append (the runtime_dir) (the display))
      else Value (path_append (the runtime_dir) ''wayland-0''))"

lemma is_absolute_append [simp]: "p \<noteq> [] \<Longrightarrow> is_absolute (p @ q) = is_absolute p"
  by (cases p) (simp_all add: is_absolute_def)

lemma path_append_absolute: "is_absolute p \<Longrightarrow> is_absolute (path_append p q)"
  by (cases p) (auto simp: path_append_def is_absolute_def split: list.splits)

section \<open>Properties\<close>

text \<open>
  \<open>wayland_socket_path\<close> determines the path as its comment says. It never throws its
  \<^verbatim>\<open>std::logic_error\<close>, and the path is absolute when \<^verbatim>\<open>XDG_RUNTIME_DIR\<close> is.
\<close>

lemma socket_path_as_documented:
  "wayland_socket_path getenv = documented_socket_path (getenv ''WAYLAND_DISPLAY'') (getenv ''XDG_RUNTIME_DIR'') \<and>
   wayland_socket_path getenv \<noteq> Raise (Logic_error s) \<and>
   (wayland_socket_path getenv = Value p \<longrightarrow> (\<forall>d. getenv ''XDG_RUNTIME_DIR'' = Some d \<longrightarrow> is_absolute d) \<longrightarrow>
     is_absolute p)"
  by (auto simp: wayland_socket_path_def runtime_dir_path_def is_relative_def path_append_absolute
      split: option.splits if_splits)

end
