(* ===== verification/Static_Picture.thy ===== *)
theory Static_Picture
  imports Cpp_Int System_Utils
begin

text \<open>
  \<^verbatim>\<open>display_static_picture.cpp\<close>, the picture: \<open>StaticPicture\<close> over shared memory, the view of its pixels
  with their coordinates, \<^verbatim>\<open>pow\<close>, and the part of \<^verbatim>\<open>main\<close> that draws Sierpinski's carpet. The memory
  block (\<^verbatim>\<open>gnulander::memory_block\<close>) is a parameter: creating, truncating and mapping it.
\<close>

section \<open>The picture\<close>

record pixel =
  blue :: byte
  green :: byte
  red :: byte
  alpha :: byte

definition sizeof_pixel :: nat where "sizeof_pixel = 4"

definition pixel_bytes :: "pixel \<Rightarrow> bytes" where
  "pixel_bytes p = [blue p, green p, red p, alpha p]"

record pixel_coord =
  coord_x :: int
  coord_y :: int

record 'blk memory_ops =
  create_block :: "'blk outcome"
  truncate_block :: "'blk \<Rightarrow> int \<Rightarrow> 'blk outcome"
  map_block :: "'blk \<Rightarrow> int \<Rightarrow> bytes outcome"

record 'blk static_picture =
  pic_width :: int
  pic_height :: int
  pic_buff :: 'blk
  pic_bytes :: bytes

text \<open>
  \<^verbatim>\<open>width * height\<close> is a product of \<^verbatim>\<open>int\<close>s, its product with \<^verbatim>\<open>sizeof\<close> one of 64-bit unsigned numbers,
  and the result is converted back to \<^verbatim>\<open>int\<close>.
\<close>

definition bytes_required :: "int \<Rightarrow> int \<Rightarrow> int outcome" where
  "bytes_required width height =
     bind_outcome (int_mult width height)
       (\<lambda>n. Value (to_int ((n mod 2 ^ 64 * int sizeof_pixel) mod 2 ^ 64)))"

definition make_static_picture :: "'blk memory_ops \<Rightarrow> int \<Rightarrow> int \<Rightarrow> 'blk static_picture outcome" where
  "make_static_picture mem width_arg height_arg =
     bind_outcome (create_block mem) (\<lambda>mem0.
     bind_outcome (bytes_required width_arg height_arg) (\<lambda>n.
     bind_outcome (truncate_block mem mem0 n) (\<lambda>buff.
     bind_outcome (bytes_required width_arg height_arg) (\<lambda>n.
     bind_outcome (map_block mem buff n) (\<lambda>bytes.
       Value \<lparr>pic_width = width_arg, pic_height = height_arg, pic_buff = buff, pic_bytes = bytes\<rparr>)))))"

text \<open>
  \<open>view_pixels\<close>: one element for each chunk of four bytes, with its coordinates, computed when the
  element is read, and where its pixel begins.
\<close>

definition view_coord :: "'blk static_picture \<Rightarrow> nat \<Rightarrow> pixel_coord outcome" where
  "view_coord pic i =
     (let index = to_int (int i)
      in bind_outcome (int_mod index (pic_width pic)) (\<lambda>x.
         bind_outcome (int_div index (pic_width pic)) (\<lambda>y.
           Value \<lparr>coord_x = x, coord_y = y\<rparr>)))"

definition view_pixels :: "'blk static_picture \<Rightarrow> (pixel_coord outcome \<times> nat) list" where
  "view_pixels pic =
     map (\<lambda>i. (view_coord pic i, 4 * i)) [0..<(length (pic_bytes pic) + 3) div 4]"

text \<open>Assigning through the reference to a pixel; a pixel that is not wholly in the memory is undefined.\<close>

definition assign_pixel :: "nat \<Rightarrow> pixel \<Rightarrow> bytes \<Rightarrow> bytes outcome" where
  "assign_pixel at p bytes =
     (if at + sizeof_pixel \<le> length bytes then Value (overwrite at (pixel_bytes p) bytes) else Undefined)"

definition assign_alpha :: "nat \<Rightarrow> byte \<Rightarrow> bytes \<Rightarrow> bytes outcome" where
  "assign_alpha at a bytes =
     (if at + sizeof_pixel \<le> length bytes then Value (bytes[at + 3 := a]) else Undefined)"

section \<open>pow\<close>

lemma abs_sdiv_2: "\<bar>e sdiv 2\<bar> = \<bar>e\<bar> div (2 :: int)"
  by (cases e "0 :: int" rule: linorder_cases) (simp_all add: signed_divide_int_def pos_imp_zdiv_nonneg_iff)

lemma smod_2_eq_0: "e smod 2 = 0 \<longleftrightarrow> even (e :: int)"
  by (auto simp: signed_modulo_int_def sgn_if abs_if)

text \<open>The template for \<^verbatim>\<open>int\<close>, the only type it is used with.\<close>

function cpp_pow :: "int \<Rightarrow> int \<Rightarrow> int outcome" where
  "cpp_pow base exp =
     (if exp = 0 then Value 1
      else if exp = 1 then Value base
      else bind_outcome (cpp_pow base (exp sdiv 2)) (\<lambda>base_to_half_floor_exp.
        if exp smod 2 = 0 then int_mult base_to_half_floor_exp base_to_half_floor_exp
        else bind_outcome (int_mult base base_to_half_floor_exp)
               (\<lambda>p. int_mult p base_to_half_floor_exp)))"
  by pat_completeness auto

termination
proof (relation "measure (\<lambda>(base, exp). nat \<bar>exp\<bar>)")
  fix base exp :: int
  assume "exp \<noteq> 0" "exp \<noteq> 1"
  then show "((base, exp sdiv 2), base, exp) \<in> measure (\<lambda>(base, exp). nat \<bar>exp\<bar>)"
    by (simp add: abs_sdiv_2)
qed simp

declare cpp_pow.simps [simp del]

section \<open>The carpet\<close>

text \<open>
  \<^verbatim>\<open>std::views::iota(a, b)\<close>: \<open>b\<close> must be reachable from \<open>a\<close>, which the checked library asserts.
\<close>

definition iota :: "build \<Rightarrow> int \<Rightarrow> int \<Rightarrow> int list outcome" where
  "iota cfg a b =
     (if a \<le> b then Value [a..b - 1]
      else if checked_subscript cfg then Aborted else Undefined)"

definition in_mid_third :: "int \<Rightarrow> int \<Rightarrow> bool" where
  "in_mid_third recursive_coord recursive_side_length =
     (let frac = double_div recursive_coord recursive_side_length
      in double_less (double_div 1 3) frac \<and> double_less frac (double_div 2 3))"

text \<open>The loop over \<open>n\<close> for one pixel; \<^verbatim>\<open>break\<close> at the first gap.\<close>

fun in_gap_loop :: "int \<Rightarrow> pixel_coord \<Rightarrow> int list \<Rightarrow> bool outcome" where
  "in_gap_loop base_length coords [] = Value False"
| "in_gap_loop base_length coords (n # ns) =
     bind_outcome (cpp_pow 3 n) (\<lambda>p.
     bind_outcome (int_mult base_length p) (\<lambda>recursive_side_length.
     bind_outcome (int_mod (coord_x coords) recursive_side_length) (\<lambda>recursive_x.
     bind_outcome (int_mod (coord_y coords) recursive_side_length) (\<lambda>recursive_y.
       if in_mid_third recursive_x recursive_side_length \<and>
          in_mid_third recursive_y recursive_side_length
       then Value True
       else in_gap_loop base_length coords ns))))"

definition in_gap :: "build \<Rightarrow> int \<Rightarrow> int \<Rightarrow> pixel_coord \<Rightarrow> bool outcome" where
  "in_gap cfg base_length recursions coords =
     bind_outcome (int_add recursions 1) (\<lambda>bound.
     bind_outcome (iota cfg 1 bound) (in_gap_loop base_length coords))"

fun draw_pixels ::
  "build \<Rightarrow> int \<Rightarrow> int \<Rightarrow> (pixel_coord outcome \<times> nat) list \<Rightarrow> bytes \<Rightarrow> bytes outcome" where
  "draw_pixels cfg base_length recursions [] bytes = Value bytes"
| "draw_pixels cfg base_length recursions ((coord, at) # vs) bytes =
     bind_outcome coord (\<lambda>coords.
     bind_outcome (in_gap cfg base_length recursions coords) (\<lambda>gap.
     bind_outcome
       (if gap then assign_alpha at 0 bytes
        else assign_pixel at \<lparr>blue = 0, green = 255, red = 0, alpha = 255\<rparr> bytes)
       (draw_pixels cfg base_length recursions vs)))"

definition side_length_of :: "int \<Rightarrow> int \<Rightarrow> int outcome" where
  "side_length_of base_length recursions =
     bind_outcome (cpp_pow 3 recursions) (\<lambda>p. int_mult base_length p)"

definition env_int :: "environment \<Rightarrow> string \<Rightarrow> int \<Rightarrow> int outcome" where
  "env_int getenv name otherwise =
     (case getenv name of None \<Rightarrow> Value otherwise | Some s \<Rightarrow> stoi s)"

text \<open>\<^verbatim>\<open>main\<close> up to the finished picture, with the lines it prints.\<close>

definition draw_carpet ::
  "build \<Rightarrow> 'blk memory_ops \<Rightarrow> environment \<Rightarrow> string list \<times> 'blk static_picture outcome" where
  "draw_carpet cfg mem getenv =
     state_bind ([], env_int getenv ''RECURSIONS'' 2) (\<lambda>recursions out.
     state_bind (out, env_int getenv ''BASE_LENGTH'' 20) (\<lambda>base_length out.
     state_bind (out, side_length_of base_length recursions) (\<lambda>side_length out.
     state_bind
       (out @
        [''Drawing Sierpinski'' @ [CHR 0x27] @ ''s Carpet with '' @ decimal_int recursions @
         '' recursion and '' @ decimal_int base_length @ '' pixels as base length.'',
         ''They can be controlled using enviroment variables RECURSIONS and BASE_LENGTH.''],
        make_static_picture mem side_length side_length) (\<lambda>picture out.
     state_bind (out, draw_pixels cfg base_length recursions (view_pixels picture) (pic_bytes picture))
       (\<lambda>bytes out. (out, Value (picture\<lparr>pic_bytes := bytes\<rparr>)))))))"

section \<open>pow computes powers\<close>

lemma pow_half_even:
  assumes "is_int (h * h)"
  shows "is_int (h :: int)"
proof -
  have "\<bar>h\<bar> < 2 ^ 31"
  proof (rule ccontr)
    assume "\<not> \<bar>h\<bar> < 2 ^ 31"
    then have "2 ^ 31 * 2 ^ 31 \<le> \<bar>h\<bar> * \<bar>h\<bar>" by (intro mult_mono) simp_all
    with assms show False by (simp add: is_int_def)
  qed
  then show ?thesis by (simp add: is_int_def abs_less_iff)
qed

lemma is_int_divisor:
  assumes "is_int (p * q)" and "1 < \<bar>q\<bar> \<or> \<bar>p\<bar> \<le> 1"
  shows "is_int (p :: int)"
  using assms(2)
proof
  assume "1 < \<bar>q\<bar>"
  then have "\<bar>p\<bar> * 2 \<le> \<bar>p\<bar> * \<bar>q\<bar>" by (intro mult_left_mono) simp_all
  also have "\<dots> = \<bar>p * q\<bar>" by (simp add: abs_mult)
  also have "\<dots> \<le> 2 ^ 31" using assms(1) by (auto simp: is_int_def abs_if)
  finally show ?thesis by (simp add: is_int_def abs_if split: if_splits)
qed (simp add: is_int_def abs_le_iff)

lemma is_int_small: "\<bar>i\<bar> \<le> 1 \<Longrightarrow> is_int i"
  by (simp add: is_int_def abs_le_iff)

lemma pow_half_odd:
  assumes "is_int base" and "is_int (base * base ^ k * base ^ k)"
  shows "is_int (base * base ^ k) \<and> is_int (base ^ k)"
proof (cases "\<bar>base\<bar> \<le> 1")
  case True
  then have "\<bar>base ^ k\<bar> \<le> 1" "\<bar>base * base ^ k\<bar> \<le> 1"
    by (simp_all add: power_abs power_le_one abs_mult mult_le_one)
  then show ?thesis by (simp add: is_int_small)
next
  case base: False
  show ?thesis
  proof (cases "k = 0")
    case True
    with assms(1) show ?thesis by (simp add: is_int_def)
  next
    case False
    with base have "1 < \<bar>base ^ k\<bar>" by (simp add: power_abs one_less_power)
    with assms(2) have b: "is_int (base * base ^ k)" using is_int_divisor by blast
    then have "is_int (base ^ k * base)" by (simp add: mult.commute)
    with base b show ?thesis using is_int_divisor [of "base ^ k" base] by simp
  qed
qed

lemma cpp_pow_value:
  "is_int base \<Longrightarrow> cpp_pow base exp = int_outcome (base ^ nat \<bar>exp\<bar>)"
proof (induction base exp rule: cpp_pow.induct)
  case (1 base exp)
  consider "exp = 0" | "exp = 1" | "exp \<noteq> 0" "exp \<noteq> 1" by blast
  then show ?case
  proof cases
    case 1
    then show ?thesis by (simp add: cpp_pow.simps is_int_def)
  next
    case 2
    with 1(2) show ?thesis by (simp add: cpp_pow.simps)
  next
    case 3
    let ?k = "nat \<bar>exp sdiv 2\<bar>"
    define h where "h = base ^ ?k"
    have IH: "cpp_pow base (exp sdiv 2) = int_outcome h"
      using 1 3 by (simp add: h_def)
    have n: "nat \<bar>exp\<bar> = 2 * ?k + (if even exp then 0 else 1)"
      unfolding abs_sdiv_2 by (auto simp: nat_eq_iff)
    show ?thesis
    proof (cases "even exp")
      case True
      have "base ^ nat \<bar>exp\<bar> = h * h"
        using n True by (simp add: h_def power_add mult_2)
      with True 3 pow_half_even [of h] show ?thesis
        by (subst cpp_pow.simps) (auto simp: IH smod_2_eq_0 int_mult_def int_outcome_def)
    next
      case False
      have "base ^ nat \<bar>exp\<bar> = base * h * h"
        using n False by (simp add: h_def power_add mult_2)
      with False 3 pow_half_odd [OF 1(2), of ?k] show ?thesis
        by (subst cpp_pow.simps) (auto simp: IH smod_2_eq_0 int_mult_def int_outcome_def h_def)
    qed
  qed
qed

section \<open>What is drawn\<close>

text \<open>
  The carpet: a pixel is in a gap of the level with cells of \<open>t\<close> pixels when the cell is the middle
  one of its three, in both directions, and the pixel is not on the cell's first column or row.
\<close>

definition carpet_gap :: "int \<Rightarrow> nat \<Rightarrow> int \<Rightarrow> int \<Rightarrow> bool" where
  "carpet_gap base_length levels x y \<longleftrightarrow>
     (\<exists>n < levels. let t = base_length * 3 ^ n
        in (x div t) mod 3 = 1 \<and> (y div t) mod 3 = 1 \<and> \<not> t dvd x \<and> \<not> t dvd y)"

lemma mid_third_cell:
  assumes "0 < (t :: int)"
  shows "3 * t < 3 * (x mod (3 * t)) \<and> 3 * (x mod (3 * t)) < 2 * (3 * t) \<longleftrightarrow>
    (x div t) mod 3 = 1 \<and> \<not> t dvd x"
proof -
  define d r where d: "d = (x div t) mod 3" and r: "r = x mod t"
  have e: "x mod (3 * t) = t * d + r"
    using zmod_zmult2_eq [of 3 x t] by (simp add: mult.commute d r)
  have "0 \<le> r" "r < t" using assms by (simp_all add: r)
  moreover have "d = 0 \<or> d = 1 \<or> d = 2"
    using pos_mod_bound [of 3 "x div t"] pos_mod_sign [of 3 "x div t"] unfolding d by linarith
  ultimately have "3 * t < 3 * (t * d + r) \<and> 3 * (t * d + r) < 2 * (3 * t) \<longleftrightarrow> d = 1 \<and> r \<noteq> 0"
    by auto
  then show ?thesis
    unfolding e dvd_eq_mod_eq_0 d r .
qed

lemma in_mid_third_cell:
  assumes "0 < t" and "3 * t < 2 ^ 31"
  shows "in_mid_third (x mod (3 * t)) (3 * t) \<longleftrightarrow> (x div t) mod 3 = 1 \<and> \<not> t dvd x"
proof -
  have "0 \<le> x mod (3 * t)" "x mod (3 * t) < 3 * t" using assms by simp_all
  then show ?thesis
    using assms unfolding in_mid_third_def Let_def
    by (simp only: double_middle_third mid_third_cell [OF assms(1), symmetric])
qed

lemma cpp_pow_3:
  assumes "0 < base" and "is_int (base * 3 ^ R)" and "n \<le> R"
  shows "cpp_pow 3 (int n) = Value (3 ^ n)" and "is_int (base * 3 ^ n)" and "base * 3 ^ n < 2 ^ 31"
proof -
  have "(3 :: int) ^ n \<le> 3 ^ R" using assms(3) by (intro power_increasing) simp_all
  then have le: "base * 3 ^ n \<le> base * 3 ^ R" using assms(1) by simp
  with assms(1,2) show b: "is_int (base * 3 ^ n)" using is_int_nonneg_le [of "base * 3 ^ R"] by simp
  then show "base * 3 ^ n < 2 ^ 31" by (simp add: is_int_def)
  have "1 * (3 :: int) ^ n \<le> base * 3 ^ n" using assms(1) by (intro mult_right_mono) simp_all
  then have "is_int (3 ^ n)" using is_int_nonneg_le [OF b] by simp
  then show "cpp_pow 3 (int n) = Value (3 ^ n)"
    by (simp add: cpp_pow_value is_int_def)
qed

lemma in_gap_loop_value:
  assumes base: "0 < base" and R: "is_int (base * 3 ^ R)"
    and c: "0 \<le> coord_x c" "is_int (coord_x c)" "0 \<le> coord_y c" "is_int (coord_y c)"
  shows "\<forall>n \<in> set ns. n < R \<Longrightarrow>
    in_gap_loop base c (map (\<lambda>n. int n + 1) ns) = Value (\<exists>n \<in> set ns. let t = base * 3 ^ n
      in (coord_x c div t) mod 3 = 1 \<and> (coord_y c div t) mod 3 = 1 \<and>
         \<not> t dvd coord_x c \<and> \<not> t dvd coord_y c)"
proof (induction ns)
  case (Cons n ns)
  then have "Suc n \<le> R" by simp
  note p = cpp_pow_3 [OF base R this]
  let ?t = "base * 3 ^ n"
  have t: "base * 3 ^ Suc n = 3 * ?t" "0 < ?t" using base by simp_all
  have s: "is_int (3 * ?t)" "3 * ?t < 2 ^ 31" using p(2,3) unfolding t(1) by simp_all
  have m: "int_mult base (3 ^ Suc n) = Value (3 * ?t)" using s(1) by (simp add: int_mult_def t(1) del: power_Suc)
  have "cpp_pow 3 (int n + 1) = Value (3 ^ Suc n)" using p(1) by (simp add: add.commute)
  with Cons show ?case
    using t(2) c by (simp add: m int_mod_nonneg in_mid_third_cell [OF t(2) s(2)] Let_def del: power_Suc) blast
qed simp

lemma levels_less: "0 < base \<Longrightarrow> is_int (base * 3 ^ R) \<Longrightarrow> R < 2 ^ 31 - 1"
proof -
  assume "0 < base" and "is_int (base * 3 ^ R)"
  moreover have "1 * (3 :: int) ^ R \<le> base * 3 ^ R"
    using \<open>0 < base\<close> by (intro mult_right_mono) simp_all
  ultimately have "(3 :: int) ^ R < 2 ^ 31" unfolding is_int_def by linarith
  also have "(2 :: int) ^ 31 < 3 ^ 21" by simp
  finally have "R < 21" using power_strict_increasing_iff [of "3 :: int" R 21] by simp
  then show ?thesis by simp
qed

lemma in_gap_value:
  assumes "0 < base" and "is_int (base * 3 ^ R)"
    and "0 \<le> coord_x c" "is_int (coord_x c)" "0 \<le> coord_y c" "is_int (coord_y c)"
  shows "in_gap cfg base (int R) c = Value (carpet_gap base R (coord_x c) (coord_y c))"
proof -
  have "[1..int R] = map (\<lambda>n. int n + 1) [0..<R]"
    by (induction R) (simp_all add: upto_rec2 add.commute)
  moreover have "is_int (int R + 1)" using levels_less [OF assms(1,2)] by (simp add: is_int_def)
  ultimately show ?thesis
    using in_gap_loop_value [OF assms, of "[0..<R]"]
    by (simp add: in_gap_def int_add_def iota_def carpet_gap_def Bex_def atLeast0LessThan lessThan_def)
qed

text \<open>The loop over the pixels, on memory whose pixels from \<open>k\<close> on are still zero.\<close>

definition carpet_pixel :: "int \<Rightarrow> nat \<Rightarrow> int \<Rightarrow> int \<Rightarrow> pixel" where
  "carpet_pixel base_length levels x y =
     (if carpet_gap base_length levels x y
      then \<lparr>blue = 0, green = 0, red = 0, alpha = 0\<rparr>
      else \<lparr>blue = 0, green = 255, red = 0, alpha = 255\<rparr>)"

lemma length_pixel_bytes [simp]: "length (pixel_bytes p) = 4"
  by (simp add: pixel_bytes_def)

lemma replicate_pixels: "0 < n \<Longrightarrow> replicate (4 * n) (0 :: byte) = [0, 0, 0, 0] @ replicate (4 * (n - 1)) 0"
  by (cases n) (simp_all add: numeral_eq_Suc)

lemma draw_pixels_value:
  assumes base: "0 < base" "is_int (base * 3 ^ R)" and w: "0 < pic_width pic" "is_int (int N)"
  shows "k + m = N \<Longrightarrow> length done = 4 * k \<Longrightarrow>
    draw_pixels cfg base (int R) (map (\<lambda>i. (view_coord pic i, 4 * i)) [k..<N]) (done @ replicate (4 * m) 0) =
    Value (done @ concat (map (\<lambda>i. pixel_bytes (carpet_pixel base R (int i mod pic_width pic) (int i div pic_width pic)))
      [k..<N]))"
proof (induction m arbitrary: k "done")
  case 0
  then show ?case by simp
next
  case (Suc m)
  let ?x = "int k mod pic_width pic" and ?y = "int k div pic_width pic"
  let ?p = "pixel_bytes (carpet_pixel base R ?x ?y)"
  have k: "is_int (int k)" using Suc.prems(1) is_int_nonneg_le [OF w(2)] by simp
  have "is_int ?x" "is_int ?y"
    using is_int_nonneg_le [OF k] w(1) zdiv_mono2 [of "int k" 1 "pic_width pic"]
    by (simp_all add: zmod_le_nonneg_dividend pos_imp_zdiv_nonneg_iff)
  then have g: "in_gap cfg base (int R) \<lparr>coord_x = ?x, coord_y = ?y\<rparr> = Value (carpet_gap base R ?x ?y)"
    using in_gap_value [OF base, of "\<lparr>coord_x = ?x, coord_y = ?y\<rparr>"] w(1)
    by (simp add: pos_imp_zdiv_nonneg_iff)
  have c: "view_coord pic k = Value \<lparr>coord_x = ?x, coord_y = ?y\<rparr>"
    using k w(1) by (simp add: view_coord_def int_mod_nonneg int_div_nonneg Let_def)
  have z: "replicate (4 * Suc m) (0 :: byte) = [0, 0, 0, 0] @ replicate (4 * m) 0"
    using replicate_pixels [of "Suc m"] by simp
  have u: "[k..<N] = k # [Suc k..<N]" using Suc.prems(1) by (simp add: upt_conv_Cons)
  have "(if carpet_gap base R ?x ?y then assign_alpha (4 * k) 0 (done @ replicate (4 * Suc m) 0)
      else assign_pixel (4 * k) \<lparr>blue = 0, green = 255, red = 0, alpha = 255\<rparr> (done @ replicate (4 * Suc m) 0))
    = Value ((done @ ?p) @ replicate (4 * m) 0)"
    unfolding z using Suc.prems(2)
    by (auto simp: assign_alpha_def assign_pixel_def sizeof_pixel_def carpet_pixel_def pixel_bytes_def
        overwrite_def list_update_append)
  moreover have "Suc k + m = N" "length (done @ ?p) = 4 * Suc k" using Suc.prems by simp_all
  ultimately show ?case
    using Suc.IH [of "Suc k" "done @ ?p"]
    by (simp add: u c g del: mult_Suc_right replicate_Suc)
qed

lemma subspan_concat:
  "\<forall>xs \<in> set xss. length xs = n \<Longrightarrow> i < length xss \<Longrightarrow> subspan (n * i) n (concat xss) = xss ! i"
proof (induction xss arbitrary: i)
  case (Cons xs xss)
  then show ?case by (cases i) (auto simp: subspan_def)
qed simp

text \<open>
  What is assumed of the memory block: truncating the new block to a size that is not negative and
  mapping it gives that many zero bytes.
\<close>

definition zeroed_memory :: "'blk memory_ops \<Rightarrow> bool" where
  "zeroed_memory mem \<longleftrightarrow>
     (\<exists>b0. create_block mem = Value b0 \<and>
       (\<forall>n. 0 \<le> n \<longrightarrow> (\<exists>b. truncate_block mem b0 n = Value b \<and>
          map_block mem b n = Value (replicate (nat n) 0))))"

lemma bytes_required_eq:
  "bytes_required w h = (if is_int (w * h) then Value (to_int (4 * (w * h))) else Undefined)"
proof -
  have to_int: "to_int (n mod 2 ^ 64) = to_int n" for n :: int
  proof -
    have "n mod 2 ^ 64 mod 2 ^ 32 = n mod 2 ^ 32" by (rule mod_mod_cancel) simp
    then show ?thesis unfolding to_int_def by (metis mod_add_left_eq)
  qed
  then show ?thesis
    unfolding bytes_required_def int_mult_def int_outcome_def sizeof_pixel_def
    by (simp only: bind_outcome.simps mod_mult_left_eq of_nat_numeral split: if_split)
      (simp add: mult.commute)
qed

lemma make_static_picture_value:
  assumes "zeroed_memory mem" and "0 \<le> w * h" and "is_int (4 * (w * h))"
  shows "\<exists>buff. make_static_picture mem w h =
    Value \<lparr>pic_width = w, pic_height = h, pic_buff = buff, pic_bytes = replicate (4 * nat (w * h)) 0\<rparr>"
proof -
  have i: "is_int (w * h)"
    by (rule is_int_nonneg_le [OF assms(3,2)]) (use assms(2) in linarith)
  then have "bytes_required w h = Value (4 * (w * h))"
    using assms(3) by (simp add: bytes_required_eq)
  moreover obtain b0 b where "create_block mem = Value b0" "truncate_block mem b0 (4 * (w * h)) = Value b"
    "map_block mem b (4 * (w * h)) = Value (replicate (nat (4 * (w * h))) 0)"
    using assms(1,2) unfolding zeroed_memory_def by (metis mult_nonneg_nonneg zero_le_numeral)
  ultimately show ?thesis
    by (simp add: make_static_picture_def nat_mult_distrib)
qed

section \<open>Properties\<close>

text \<open>
  C30: \<^verbatim>\<open>main\<close> draws the carpet: on zeroed memory, and with a side whose bytes an \<^verbatim>\<open>int\<close> can count, the
  finished picture is the square of that side, and every pixel is transparent black in a gap and
  opaque green elsewhere, whatever the rounding of the quotients. A gap is a third of its square
  without its first column and row, so with a base length of 1 the smallest gaps are missing.
\<close>

theorem carpet_is_drawn:
  assumes "zeroed_memory mem"
    and "env_int getenv ''RECURSIONS'' 2 = Value (int R)" and "env_int getenv ''BASE_LENGTH'' 20 = Value base"
    and base: "0 < base" and side: "side = base * 3 ^ R" and "is_int (4 * (side * side))"
  shows "\<exists>pic. snd (draw_carpet cfg mem getenv) = Value pic \<and> pic_width pic = side \<and> pic_height pic = side \<and>
    length (pic_bytes pic) = nat (4 * (side * side)) \<and>
    (\<forall>x y. 0 \<le> x \<longrightarrow> x < side \<longrightarrow> 0 \<le> y \<longrightarrow> y < side \<longrightarrow>
      subspan (nat (4 * (y * side + x))) 4 (pic_bytes pic) = pixel_bytes (carpet_pixel base R x y))"
proof -
  have s: "0 < side" using base by (simp add: side)
  then have ss: "0 \<le> side * side" "side * 1 \<le> side * side" by (simp, intro mult_left_mono) simp_all
  then have i: "is_int side" "is_int (side * side)"
    using is_int_nonneg_le [OF assms(6)] s by simp_all
  then have R: "is_int (base * 3 ^ R)" by (simp add: side)
  obtain buff where m: "make_static_picture mem side side =
      Value \<lparr>pic_width = side, pic_height = side, pic_buff = buff, pic_bytes = replicate (4 * nat (side * side)) 0\<rparr>"
      (is "_ = Value ?pic")
    using make_static_picture_value [OF assms(1) ss(1) assms(6)] by blast
  define N where "N = nat (side * side)"
  let ?pix = "\<lambda>i. pixel_bytes (carpet_pixel base R (int i mod side) (int i div side))"
  let ?bs = "concat (map ?pix [0..<N])"
  have "is_int (int N)" using i ss by (simp add: N_def)
  have N: "(4 * N + 3) div 4 = N" by presburger
  from draw_pixels_value [OF base R _ \<open>is_int (int N)\<close>, of ?pic 0 N "[]" cfg] s
  have d: "draw_pixels cfg base (int R) (view_pixels ?pic) (pic_bytes ?pic) = Value ?bs"
    by (simp add: view_pixels_def N_def [symmetric] N)
  have "side_length_of base (int R) = Value side"
    using cpp_pow_3(1) [OF base R order_refl] i(1) by (simp add: side_length_of_def int_mult_def side)
  then have v: "snd (draw_carpet cfg mem getenv) = Value (?pic\<lparr>pic_bytes := ?bs\<rparr>)"
    by (simp add: draw_carpet_def assms(2,3) m d [simplified])
  have l: "length ?bs = 4 * N" by (simp add: length_concat comp_def sum_list_triv)
  have "subspan (nat (4 * (y * side + x))) 4 ?bs = pixel_bytes (carpet_pixel base R x y)"
    if "0 \<le> x" "x < side" "0 \<le> y" "y < side" for x y
  proof -
    let ?i = "nat (y * side + x)"
    have "(y + 1) * side \<le> side * side" using that s by (intro mult_right_mono) simp_all
    then have "y * side + x < side * side" using that by (simp add: algebra_simps)
    then have "?i < N" using that s by (simp add: N_def)
    moreover have "int ?i mod side = x" "int ?i div side = y" using that s by simp_all
    ultimately show ?thesis
      using subspan_concat [of "map ?pix [0..<N]" 4 ?i] by (simp only: nat_mult_distrib) simp
  qed
  with v l ss show ?thesis
    by (intro exI [of _ "?pic\<lparr>pic_bytes := ?bs\<rparr>"]) (simp add: N_def nat_mult_distrib)
qed

text \<open>Memory in which a block is its size.\<close>

definition list_memory :: "int memory_ops" where
  "list_memory =
     \<lparr>create_block = Value 0, truncate_block = (\<lambda>b n. Value n),
      map_block = (\<lambda>b n. Value (replicate (nat n) 0))\<rparr>"

lemma list_memory_zeroed: "zeroed_memory list_memory"
  by (simp add: zeroed_memory_def list_memory_def)

theorem carpet_is_drawn_witness:
  "\<exists>pic. snd (draw_carpet \<lparr>ndebug = False, checked_subscript = True\<rparr> list_memory [''RECURSIONS'' \<mapsto> ''1'', ''BASE_LENGTH'' \<mapsto> ''3'']) = Value pic \<and>
    subspan 160 4 (pic_bytes pic) = [0, 0, 0, 0] \<and> subspan 120 4 (pic_bytes pic) = [0, 255, 0, 255]"
proof -
  let ?cfg = "\<lparr>ndebug = False, checked_subscript = True\<rparr>"
  let ?env = "[''RECURSIONS'' \<mapsto> ''1'', ''BASE_LENGTH'' \<mapsto> ''3'']"
  have e: "env_int ?env ''RECURSIONS'' 2 = Value (int 1)" "env_int ?env ''BASE_LENGTH'' 20 = Value 3"
    by code_simp+
  have p: "pixel_bytes (carpet_pixel 3 1 4 4) = [0, 0, 0, 0]" "pixel_bytes (carpet_pixel 3 1 3 3) = [0, 255, 0, 255]"
    by (simp_all add: carpet_pixel_def carpet_gap_def pixel_bytes_def)
  obtain pic where d: "snd (draw_carpet ?cfg list_memory ?env) = Value pic"
    and a: "\<forall>x y. 0 \<le> x \<longrightarrow> x < 9 \<longrightarrow> 0 \<le> y \<longrightarrow> y < 9 \<longrightarrow>
      subspan (nat (4 * (y * 9 + x))) 4 (pic_bytes pic) = pixel_bytes (carpet_pixel 3 1 x y)"
    using carpet_is_drawn [OF list_memory_zeroed e, of 9 ?cfg] by (auto simp: is_int_def)
  have "subspan 160 4 (pic_bytes pic) = [0, 0, 0, 0]" "subspan 120 4 (pic_bytes pic) = [0, 255, 0, 255]"
    using a [rule_format, of 4 4] a [rule_format, of 3 3] p by simp_all
  with d show ?thesis by blast
qed

text \<open>
  \<^verbatim>\<open>pow\<close> returns, and what it returns is the power with the magnitude of the exponent whenever that is an
  \<^verbatim>\<open>int\<close>; otherwise it overflows. No intermediate product overflows when the result does not. For a
  negative exponent it is not the power (or its integral part) but that of the positive one.
\<close>

lemma pow_of_the_magnitude:
  assumes "is_int base"
  shows "cpp_pow base exp =
    (if is_int (base ^ nat \<bar>exp\<bar>) then Value (base ^ nat \<bar>exp\<bar>) else Undefined)"
  using cpp_pow_value [OF assms] by (simp add: int_outcome_def)

text \<open>
  C38: the size asked for the memory of a picture is its four bytes per pixel modulo \<open>2 ^ 32\<close>, as a
  signed number: already when width times height is an \<^verbatim>\<open>int\<close> it can be wrong, as for the picture of
  seven recursions with the default base length, whose size comes out negative.
\<close>

theorem picture_size_wraps:
  "bytes_required w h = (if is_int (w * h) then Value (to_int (4 * (w * h))) else Undefined) \<and>
   (bytes_required w h = Value (4 * (w * h)) \<longleftrightarrow> is_int (w * h) \<and> is_int (4 * (w * h))) \<and>
   side_length_of 20 7 = Value 43740 \<and> bytes_required 43740 43740 = Value (- 937184192)"
proof (intro conjI)
  show "bytes_required w h = (if is_int (w * h) then Value (to_int (4 * (w * h))) else Undefined)"
    by (rule bytes_required_eq)
  note b = bytes_required_eq
  have "is_int (to_int n)" for n by (simp add: to_int_def is_int_def)
  then have "to_int n = n \<longleftrightarrow> is_int n" for n using to_int_is_int by metis
  then show "bytes_required w h = Value (4 * (w * h)) \<longleftrightarrow> is_int (w * h) \<and> is_int (4 * (w * h))"
    unfolding b by simp
  show "side_length_of 20 7 = Value 43740"
    by (simp add: side_length_of_def cpp_pow_value is_int_def int_mult_def int_outcome_def)
  show "bytes_required 43740 43740 = Value (- 937184192)"
    unfolding b by (simp add: is_int_def to_int_def)
qed

end
