(* ===== verification/Picture_Window.thy ===== *)
theory Picture_Window
  imports Client_Programs Static_Picture Xdg_Shell_Protocol
begin

text \<open>
  \<^verbatim>\<open>display_static_picture.cpp\<close>, the window: \<open>static_picture_window\<close> connects, binds the globals it
  needs, creates the surface and shows the picture; then it waits for the close event. Its
  operations act on a world of the client and the window's other members, to which the local
  variables its callbacks capture and the lines it has printed are added.
\<close>

section \<open>State\<close>

text \<open>The members of type \<^verbatim>\<open>Wobject<T>\<close> are their ids here; the type is given where they are used.\<close>

definition object_of :: "string \<Rightarrow> u32 \<Rightarrow> wobject" where
  "object_of T i = \<lparr>wobject_interface = protocol_interface T, wobject_value = i\<rparr>"

record 'blk static_picture_window =
  display_obj :: u32
  registry_obj :: u32
  sync_obj :: u32
  compositor_obj :: u32
  shm_obj :: u32
  buffer_obj :: u32
  surface_obj :: u32
  wm_base_obj :: u32
  xdg_surface_obj :: u32
  toplevel_obj :: u32
  picture :: "'blk static_picture"

record 'blk window_run = "'blk static_picture_window" +
  wl_shm_found :: bool
  wl_compositor_found :: bool
  xdg_wm_base_found :: bool
  printed :: "string list"

text \<open>The members before the constructor's body: but for the display, the object ids are not initialised.\<close>

definition window_members :: "(nat \<Rightarrow> u32) \<Rightarrow> 'blk static_picture \<Rightarrow> string list \<Rightarrow> 'blk window_run" where
  "window_members uninit pic out =
     \<lparr>display_obj = wobject_value global_display_object, registry_obj = uninit 1, sync_obj = uninit 2,
      compositor_obj = uninit 3, shm_obj = uninit 4, buffer_obj = uninit 5, surface_obj = uninit 6,
      wm_base_obj = uninit 7, xdg_surface_obj = uninit 8, toplevel_obj = uninit 9,
      picture = pic,
      wl_shm_found = False, wl_compositor_found = False, xdg_wm_base_found = False, printed = out\<rparr>"

type_synonym ('s, 'fd, 'blk) window_world = "('s, 'fd, 'blk window_run) world"

text \<open>\<^verbatim>\<open>member.reserve_id(client_)\<close>: the member is given by its interface, its selector and its update.\<close>

definition reserve_member ::
  "string \<Rightarrow> ('blk window_run \<Rightarrow> u32) \<Rightarrow> ((u32 \<Rightarrow> u32) \<Rightarrow> 'blk window_run \<Rightarrow> 'blk window_run) \<Rightarrow>
     ('s, 'fd, 'blk) window_world \<Rightarrow> ('s, 'fd, 'blk) window_world \<times> u32" where
  "reserve_member T member_of member_update w =
     (case reserve_id (object_of T (member_of (snd w))) (fst w) of
        (self, obj, c) \<Rightarrow> ((c, member_update (\<lambda>_. wobject_value self) (snd w)), wobject_value obj))"

definition print_lines ::
  "string list \<Rightarrow> ('s, 'fd, 'blk) window_world \<Rightarrow> ('s, 'fd, 'blk) window_world" where
  "print_lines lines w = (fst w, (snd w)\<lparr>printed := printed (snd w) @ lines\<rparr>)"

section \<open>Overloads\<close>

definition window_fatal_error ::
  "'fd primitive list \<Rightarrow> ('s, 'fd, 'blk) window_world \<Rightarrow> ('s, 'fd, 'blk) window_world \<times> unit outcome" where
  "window_fatal_error args w =
     (case args of
        [Wobject err_object_id, Wuint code, Wstring message] \<Rightarrow>
          (print_lines (display_error_lines err_object_id code message) w, Exited 1)
      | _ \<Rightarrow> (w, Ill_formed))"

definition fatal_error_overloads ::
  "build \<Rightarrow> ('s, 'fd, 'blk) window_world \<Rightarrow>
     ('s, 'fd, 'blk) window_world message_overload_set \<times> unit outcome" where
  "fatal_error_overloads cfg w =
     add_overload cfg (object_of ''wl_display'' (display_obj (snd w))) wl_display_event_error window_fatal_error empty_overload_set"

definition answer_ping ::
  "build \<Rightarrow> (nat \<Rightarrow> byte) \<Rightarrow> 'fd primitive list \<Rightarrow> ('s, 'fd, 'blk) window_world \<Rightarrow>
     ('s, 'fd, 'blk) window_world \<times> unit outcome" where
  "answer_ping cfg storage args w =
     (case args of
        [Wuint serial] \<Rightarrow>
          world_register cfg storage (object_of ''xdg_wm_base'' (wm_base_obj (snd w))) xdg_wm_base_request_pong [Wuint serial] w
      | _ \<Rightarrow> (w, Ill_formed))"

definition default_overloads ::
  "build \<Rightarrow> (nat \<Rightarrow> byte) \<Rightarrow> ('s, 'fd, 'blk) window_world \<Rightarrow>
     ('s, 'fd, 'blk) window_world message_overload_set \<times> unit outcome" where
  "default_overloads cfg storage w =
     state_bind (fatal_error_overloads cfg w) (\<lambda>_ vis.
       add_overload cfg (object_of ''xdg_wm_base'' (wm_base_obj (snd w))) xdg_wm_base_event_ping (answer_ping cfg storage) vis)"

text \<open>The overload for globals, first the lambda that decides what to bind.\<close>

definition reserve_wanted ::
  "bytes \<Rightarrow> ('s, 'fd, 'blk) window_world \<Rightarrow> ('s, 'fd, 'blk) window_world \<times> u32 option" where
  "reserve_wanted interface w =
     (if interface = u8_literal ''wl_shm'' then
        apsnd Some (reserve_member ''wl_shm'' shm_obj shm_obj_update (fst w, (snd w)\<lparr>wl_shm_found := True\<rparr>))
      else if interface = u8_literal ''wl_compositor'' then
        apsnd Some (reserve_member ''wl_compositor'' compositor_obj compositor_obj_update
          (fst w, (snd w)\<lparr>wl_compositor_found := True\<rparr>))
      else if \<not> xdg_wm_base_found (snd w) \<and> interface = u8_literal ''xdg_wm_base'' then
        apsnd Some (reserve_member ''xdg_wm_base'' wm_base_obj wm_base_obj_update
          (fst w, (snd w)\<lparr>xdg_wm_base_found := True\<rparr>))
      else (w, None))"

definition bind_global ::
  "build \<Rightarrow> (nat \<Rightarrow> byte) \<Rightarrow> 'fd primitive list \<Rightarrow> ('s, 'fd, 'blk) window_world \<Rightarrow>
     ('s, 'fd, 'blk) window_world \<times> unit outcome" where
  "bind_global cfg storage args w =
     (case args of
        [Wuint name, Wstring interface, Wuint version] \<Rightarrow>
          (case reserve_wanted interface w of
             (w, None) \<Rightarrow> (w, Value ())
           | (w, Some new_id) \<Rightarrow>
               world_register cfg storage (object_of ''wl_registry'' (registry_obj (snd w))) wl_registry_request_bind
                 [Wuint name, Wstring interface, Wuint version, Wnew_id new_id] w)
      | _ \<Rightarrow> (w, Ill_formed))"

section \<open>The constructor\<close>

definition initial_stage ::
  "build \<Rightarrow> ('s, 'fd) sock_ops \<Rightarrow> (nat \<Rightarrow> byte) \<Rightarrow> ('s, 'fd, 'blk) window_world \<Rightarrow>
     ('s, 'fd, 'blk) window_world \<times> unit outcome" where
  "initial_stage cfg ops storage w =
     (let (w, registry_id) = reserve_member ''wl_registry'' registry_obj registry_obj_update w;
          (w, sync_id) = reserve_member ''wl_callback'' sync_obj sync_obj_update w
      in state_bind (world_register cfg storage (object_of ''wl_display'' (display_obj (snd w))) wl_display_request_get_registry
           [Wnew_id registry_id] w) (\<lambda>_ w.
         state_bind (world_register cfg storage (object_of ''wl_display'' (display_obj (snd w))) wl_display_request_sync
           [Wnew_id sync_id] w) (\<lambda>_ w.
         world_flush cfg ops w)))"

definition missing_lines :: "'blk window_run \<Rightarrow> string list" where
  "missing_lines u =
     [''fatal error: not all wanted globals found!'',
      ''found (wl_shm, wl_compositor, xdg_wm_base): ('' @ format_bool (wl_shm_found u) @ '', '' @
      format_bool (wl_compositor_found u) @ '', '' @ format_bool (xdg_wm_base_found u) @ '')'']"

definition globals_binder ::
  "build \<Rightarrow> (nat \<Rightarrow> byte) \<Rightarrow> ('s, 'fd, 'blk) window_world \<Rightarrow>
     ('s, 'fd, 'blk) window_world message_overload_set \<times> unit outcome" where
  "globals_binder cfg storage w =
     state_bind (fatal_error_overloads cfg w) (\<lambda>_ vis.
       add_overload cfg (object_of ''wl_registry'' (registry_obj (snd w))) wl_registry_event_global (bind_global cfg storage) vis)"

definition bind_globals_stage ::
  "build \<Rightarrow> ('s, 'fd) sock_ops \<Rightarrow> (nat \<Rightarrow> byte) \<Rightarrow> ('s, 'fd, 'blk) window_world \<Rightarrow>
     (('s, 'fd, 'blk) window_world \<times> unit outcome) option" where
  "bind_globals_stage cfg ops storage w =
     (let w = (fst w, (snd w)\<lparr>wl_shm_found := False, wl_compositor_found := False, xdg_wm_base_found := False\<rparr>)
      in case globals_binder cfg storage w of (binder, added) \<Rightarrow>
         run_bind (Some (w, added)) (\<lambda>_ w.
         run_bind
           (until_message ops storage (closure_mos (recv_and_visit_events binder)) (object_of ''wl_callback'' (sync_obj (snd w)))
              wl_callback_event_done w) (\<lambda>_ w.
           if \<not> (wl_shm_found (snd w) \<and> wl_compositor_found (snd w) \<and> xdg_wm_base_found (snd w))
           then Some (print_lines (missing_lines (snd w)) w, Exited 1)
           else Some (world_flush cfg ops w))))"

definition color_format :: u32 where
  "color_format = word_of_int (enum_value wl_shm_enum_format ''Eargb8888'')"

text \<open>The requests of the config stage; \<open>block_fd\<close> is the descriptor of the picture's memory block.\<close>

definition request_surface_stage ::
  "build \<Rightarrow> ('s, 'fd) sock_ops \<Rightarrow> (nat \<Rightarrow> byte) \<Rightarrow> ('blk \<Rightarrow> 'fd) \<Rightarrow> ('s, 'fd, 'blk) window_world \<Rightarrow>
     ('s, 'fd, 'blk) window_world \<times> unit outcome" where
  "request_surface_stage cfg ops storage block_fd w =
     (let (w, shm_pool) = world_reserve (protocol_interface ''wl_shm_pool'') w;
          pic = picture (snd w)
      in state_bind (w, bytes_required (pic_width pic) (pic_height pic)) (\<lambda>size_of_pool w.
         let (w, buffer_id) = reserve_member ''wl_buffer'' buffer_obj buffer_obj_update w
         in state_bind (w, int_mult (pic_width pic) (int sizeof_pixel)) (\<lambda>stride w.
         state_bind (world_register cfg storage (object_of ''wl_shm'' (shm_obj (snd w))) wl_shm_request_create_pool
           [Wnew_id (wobject_value shm_pool), Wfd (block_fd (pic_buff pic)), Wint (word_of_int size_of_pool)] w) (\<lambda>_ w.
         state_bind (world_register cfg storage shm_pool wl_shm_pool_request_create_buffer
           [Wnew_id buffer_id, Wint 0, Wint (word_of_int (pic_width pic)),
            Wint (word_of_int (pic_height pic)), Wint (word_of_int stride), Wenum color_format] w) (\<lambda>_ w.
         state_bind (world_register cfg storage shm_pool wl_shm_pool_request_destroy [] w) (\<lambda>_ w.
         let (w, surface_id) = reserve_member ''wl_surface'' surface_obj surface_obj_update w;
             (w, xdg_surface_id) = reserve_member ''xdg_surface'' xdg_surface_obj xdg_surface_obj_update w;
             xdg_surface_args = [Wnew_id xdg_surface_id, Wobject (surface_obj (snd w))];
             (w, toplevel_id) = reserve_member ''xdg_toplevel'' toplevel_obj toplevel_obj_update w
         in state_bind (world_register cfg storage (object_of ''wl_compositor'' (compositor_obj (snd w))) wl_compositor_request_create_surface
           [Wnew_id surface_id] w) (\<lambda>_ w.
         state_bind (world_register cfg storage (object_of ''xdg_wm_base'' (wm_base_obj (snd w))) xdg_wm_base_request_get_xdg_surface
           xdg_surface_args w) (\<lambda>_ w.
         state_bind (world_register cfg storage (object_of ''xdg_surface'' (xdg_surface_obj (snd w))) xdg_surface_request_get_toplevel
           [Wnew_id toplevel_id] w) (\<lambda>_ w.
         state_bind (world_register cfg storage (object_of ''wl_surface'' (surface_obj (snd w))) wl_surface_request_commit [] w) (\<lambda>_ w.
         world_flush cfg ops w))))))))))"

definition acknowledge_configure ::
  "build \<Rightarrow> (nat \<Rightarrow> byte) \<Rightarrow> 'fd primitive list \<Rightarrow> ('s, 'fd, 'blk) window_world \<Rightarrow>
     ('s, 'fd, 'blk) window_world \<times> unit outcome" where
  "acknowledge_configure cfg storage args w =
     (case args of
        [Wuint serial] \<Rightarrow>
          world_register cfg storage (object_of ''xdg_surface'' (xdg_surface_obj (snd w))) xdg_surface_request_ack_configure [Wuint serial] w
      | _ \<Rightarrow> (w, Ill_formed))"

definition configure_stage ::
  "build \<Rightarrow> ('s, 'fd) sock_ops \<Rightarrow> (nat \<Rightarrow> byte) \<Rightarrow> ('s, 'fd, 'blk) window_world \<Rightarrow>
     (('s, 'fd, 'blk) window_world \<times> unit outcome) option" where
  "configure_stage cfg ops storage w =
     (case default_overloads cfg storage w of (config_stage_handler, added) \<Rightarrow>
      run_bind (Some (w, added)) (\<lambda>_ w.
      run_bind
        (until_message_with cfg ops storage (closure_mos (recv_and_visit_events config_stage_handler))
           (object_of ''xdg_surface'' (xdg_surface_obj (snd w))) xdg_surface_event_configure (acknowledge_configure cfg storage) w) (\<lambda>_ w.
      Some
        (state_bind (world_register cfg storage (object_of ''wl_surface'' (surface_obj (snd w))) wl_surface_request_attach
           [Wobject (buffer_obj (snd w)), Wint 0, Wint 0] w) (\<lambda>_ w.
         state_bind (world_register cfg storage (object_of ''wl_surface'' (surface_obj (snd w))) wl_surface_request_commit [] w) (\<lambda>_ w.
         world_flush cfg ops w))))))"

definition construct_window ::
  "build \<Rightarrow> ('s, 'fd) sock_ops \<Rightarrow> (nat \<Rightarrow> byte) \<Rightarrow> ('blk \<Rightarrow> 'fd) \<Rightarrow> ('s, 'fd, 'blk) window_world \<Rightarrow>
     (('s, 'fd, 'blk) window_world \<times> unit outcome) option" where
  "construct_window cfg ops storage block_fd w =
     run_bind (Some (initial_stage cfg ops storage w)) (\<lambda>_ w.
     run_bind (bind_globals_stage cfg ops storage w) (\<lambda>_ w.
     run_bind (Some (request_surface_stage cfg ops storage block_fd w)) (\<lambda>_ w.
     configure_stage cfg ops storage w)))"

definition wait_for_close_event ::
  "build \<Rightarrow> ('s, 'fd) sock_ops \<Rightarrow> (nat \<Rightarrow> byte) \<Rightarrow> ('s, 'fd, 'blk) window_world \<Rightarrow>
     (('s, 'fd, 'blk) window_world \<times> unit outcome) option" where
  "wait_for_close_event cfg ops storage w =
     (case default_overloads cfg storage w of (vis, added) \<Rightarrow>
      run_bind (Some (w, added)) (\<lambda>_ w.
        until_message_with cfg ops storage (closure_mos (recv_and_visit_events vis))
          (object_of ''xdg_toplevel'' (toplevel_obj (snd w))) xdg_toplevel_event_close (\<lambda>_ w. (w, Value ())) w))"

section \<open>main\<close>

text \<open>
  The picture is drawn, the client of the window connects, the window is constructed and waits. The
  result has the lines printed and, when there is one, the world.
\<close>

definition display_static_picture_main ::
  "build \<Rightarrow> ('s, 'fd) sock_ops \<Rightarrow> (nat \<Rightarrow> byte) \<Rightarrow> (nat \<Rightarrow> u32) \<Rightarrow> 'blk memory_ops \<Rightarrow> ('blk \<Rightarrow> 'fd) \<Rightarrow>
     environment \<Rightarrow> (path \<Rightarrow> 's outcome) \<Rightarrow>
     ((string list \<times> ('s, 'fd, 'blk) window_world option) \<times> unit outcome) option" where
  "display_static_picture_main cfg ops storage uninit mem block_fd getenv open_local_stream_socket =
     (case draw_carpet cfg mem getenv of
        (out, Value pic) \<Rightarrow>
          (case bind_outcome (wayland_socket_path getenv) (connect_client open_local_stream_socket) of
             Value client \<Rightarrow>
               map_option (\<lambda>(w, r). ((printed (snd w), Some w), r))
                 (run_bind (construct_window cfg ops storage block_fd (client, window_members uninit pic out))
                    (\<lambda>_ w. wait_for_close_event cfg ops storage w))
           | r \<Rightarrow> Some ((out, None), bind_outcome r (\<lambda>_. Undefined)))
      | (out, r) \<Rightarrow> Some ((out, None), bind_outcome r (\<lambda>_. Undefined)))"

end
