(* ===== verification/List_Registry_Globals.thy ===== *)
theory List_Registry_Globals
  imports Client_Programs System_Utils
begin

text \<open>
  \<^verbatim>\<open>list_registry_globals.cpp\<close>: the program that asks for the registry, prints each global it is told
  of and ends at the answer to a \<^verbatim>\<open>sync\<close>, or at a fatal error. Its own state is the lines it has printed.
\<close>

section \<open>The program\<close>

definition print_line :: "string \<Rightarrow> ('s, 'fd, string list) world \<Rightarrow> ('s, 'fd, string list) world" where
  "print_line line w = (fst w, snd w @ [line])"

text \<open>The two overloads.\<close>

definition global_line :: "u32 \<times> bytes \<times> u32 \<Rightarrow> string" where
  "global_line = (\<lambda>(name, interface, version).
     decimal (unat name) @ '' version '' @ decimal (unat version) @ '': '' @ text_of_bytes interface)"

definition print_global ::
  "'fd primitive list \<Rightarrow> ('s, 'fd, string list) world \<Rightarrow> ('s, 'fd, string list) world \<times> unit outcome" where
  "print_global args w =
     (case args of
        [Wuint name, Wstring interface, Wuint version] \<Rightarrow>
          (print_line (global_line (name, interface, version)) w, Value ())
      | _ \<Rightarrow> (w, Ill_formed))"

definition print_fatal_error ::
  "'fd primitive list \<Rightarrow> ('s, 'fd, string list) world \<Rightarrow> ('s, 'fd, string list) world \<times> unit outcome" where
  "print_fatal_error args w =
     (case args of
        [Wobject err_object_id, Wuint code, Wstring message] \<Rightarrow>
          (fold print_line (display_error_lines err_object_id code message) w, Exited 1)
      | _ \<Rightarrow> (w, Ill_formed))"

definition list_overloads ::
  "build \<Rightarrow> wobject \<Rightarrow>
     ('s, 'fd, string list) world message_overload_set \<times> unit outcome" where
  "list_overloads cfg registery =
     state_bind (add_overload cfg registery wl_registry_event_global print_global empty_overload_set)
       (\<lambda>_ ov. add_overload cfg global_display_object wl_display_event_error print_fatal_error ov)"

text \<open>\<^verbatim>\<open>main\<close> after the client has been constructed.\<close>

definition list_registry_globals ::
  "build \<Rightarrow> ('s, 'fd) sock_ops \<Rightarrow> (nat \<Rightarrow> byte) \<Rightarrow> ('s, 'fd) connected_client \<Rightarrow>
     (('s, 'fd, string list) world \<times> unit outcome) option" where
  "list_registry_globals cfg ops storage client =
     (let (w, registery) = world_reserve (protocol_interface ''wl_registry'') (client, []);
          (w, sync_callback) = world_reserve (protocol_interface ''wl_callback'') w
      in run_bind (Some
           (state_bind (world_register cfg storage global_display_object wl_display_request_get_registry
              [Wnew_id (wobject_value registery)] w) (\<lambda>_ w.
            state_bind (world_register cfg storage global_display_object wl_display_request_sync
              [Wnew_id (wobject_value sync_callback)] w) (\<lambda>_ w.
            world_flush cfg ops
              (print_line ''Sending requests get_registery and sync to global display object...'' w))))) (\<lambda>_ w.
         case list_overloads cfg registery of (ov, added) \<Rightarrow>
         run_bind (Some (w, added)) (\<lambda>_ w.
           until_message ops storage (closure_mos (recv_and_visit_events ov)) sync_callback
             wl_callback_event_done (print_line ''Registry globals:'' w))))"

definition list_registry_globals_main ::
  "build \<Rightarrow> ('s, 'fd) sock_ops \<Rightarrow> (nat \<Rightarrow> byte) \<Rightarrow> environment \<Rightarrow> (path \<Rightarrow> 's outcome) \<Rightarrow>
     (('s, 'fd, string list) world option \<times> unit outcome) option" where
  "list_registry_globals_main cfg ops storage getenv open_local_stream_socket =
     (case bind_outcome (wayland_socket_path getenv) (connect_client open_local_stream_socket) of
        Value client \<Rightarrow>
          map_option (\<lambda>(w, r). (Some w, r)) (list_registry_globals cfg ops storage client)
      | r \<Rightarrow> Some (None, bind_outcome r (\<lambda>_. Undefined)))"

section \<open>Up to the loop\<close>

abbreviation "registry_requests \<equiv>
  [(global_display_object, wl_display_request_get_registry, [Wnew_id 2]),
   (global_display_object, wl_display_request_sync, [Wnew_id 3])]"

definition list_header :: "string list" where
  "list_header =
     [''Sending requests get_registery and sync to global display object...'', ''Registry globals:'']"

definition listing_overloads :: "build \<Rightarrow> ('s, 'fd, string list) world message_overload_set" where
  "listing_overloads cfg = \<lparr>overloads =
     [(2, 0) \<mapsto> erase_overload cfg wl_registry_event_global print_global,
      (1, 0) \<mapsto> erase_overload cfg wl_display_event_error print_fatal_error]\<rparr>"

lemma list_overloads_value:
  "list_overloads cfg \<lparr>wobject_interface = T, wobject_value = 2\<rparr> = (listing_overloads cfg, Value ())"
  by (simp add: list_overloads_def listing_overloads_def add_overload_def insert_overload_def
      empty_overload_set_def wl_registry_event_global_def wl_display_event_error_def
      global_display_object_def)

lemma registry_requests_appendable:
  "appendable cfg global_display_object wl_display_request_get_registry [Wnew_id i]"
  "appendable cfg global_display_object wl_display_request_sync [Wnew_id i]"
  by (simp_all add: wire_simps global_display_object_def wl_display_request_get_registry_def
      wl_display_request_sync_def)

lemma list_registry_globals_loop:
  assumes "client_socket ops sent pending" and "whole_words ms" and "pending sock = concat (map message_bytes ms)"
  shows "\<exists>w. program_at storage sent pending 4 [] list_header (sent sock @ wire storage registry_requests) ms w \<and>
    list_registry_globals cfg ops storage (make_connected_client sock) =
      try_again ops storage (listing_overloads cfg) 3 0 None w"
proof -
  let ?c = "make_connected_client sock"
  let ?w = "(?c\<lparr>next_new_id := 4, request_buff := queue storage registry_requests\<rparr>, [hd list_header])"
  have "program_at storage sent pending 4 registry_requests [hd list_header] (sent sock) ms ?w"
    by (rule program_at_update [OF program_at_start [where pending = pending, OF assms(2,3)]])
      (simp_all add: make_connected_client_def)
  from client_socket.flush_program [OF assms(1) this, of cfg] obtain w where
    f: "world_flush cfg ops ?w = (w, Value ())"
    and at: "program_at storage sent pending 4 [] [hd list_header] (sent sock @ wire storage registry_requests) ms w"
    by (auto simp: fds_of_args_def)
  have q: "request_buff ?c = queue storage []" by (simp add: make_connected_client_def queue_Nil)
  have "list_registry_globals cfg ops storage ?c =
      try_again ops storage (listing_overloads cfg) 3 0 None (print_line ''Registry globals:'' w)"
    using f by (simp add: list_registry_globals_def world_reserve_def reserve_object_id_def world_register_def
        q register_queue registry_requests_appendable print_line_def list_header_def
        list_overloads_value until_message_def recv_and_visit_events_def wl_callback_event_done_def
        make_connected_client_def [of sock, THEN arg_cong [where f = next_new_id], simplified])
  moreover have "program_at storage sent pending 4 [] list_header (sent sock @ wire storage registry_requests) ms
      (print_line ''Registry globals:'' w)"
    using at by (simp add: program_at_def print_line_def list_header_def view_of_world_def)
  ultimately show ?thesis by blast
qed

section \<open>Visiting the globals\<close>

text \<open>
  \<open>G m\<close> is what the payload of the event \<open>m\<close> of the registry says, as name, interface and version.
\<close>

definition announces ::
  "'fd itself \<Rightarrow> build \<Rightarrow> (parsed_message \<Rightarrow> u32 \<times> bytes \<times> u32) \<Rightarrow> parsed_message list \<Rightarrow> bool" where
  "announces fd cfg G ms \<longleftrightarrow>
     (\<forall>m \<in> set ms. matches 2 0 m \<longrightarrow>
        (case G m of (name, interface, version) \<Rightarrow>
          interpert_message_payload cfg wl_registry_event_global (pm_arguments m)
            = Value [Wuint name, Wstring interface, Wuint version :: 'fd primitive]))"

definition list_view ::
  "(parsed_message \<Rightarrow> u32 \<times> bytes \<times> u32) \<Rightarrow> parsed_message \<Rightarrow>
     ('fd, string list) request_view \<Rightarrow> ('fd, string list) request_view" where
  "list_view G m v =
     (if matches 2 0 m then (case v of (n, mb, out) \<Rightarrow> (n, mb, out @ [global_line (G m)])) else v)"

lemma fold_list_view:
  "fold (list_view G) ms (n, mb, out) = (n, mb, out @ map (\<lambda>m. global_line (G m)) (filter (matches 2 0) ms))"
  by (induction ms arbitrary: out) (simp_all add: list_view_def)

lemma listing_visits:
  assumes "announces TYPE('fd) cfg G ms" and "\<forall>m \<in> set ms. \<not> matches 1 0 m"
  shows "visits_as (listing_overloads cfg :: ('s, 'fd, string list) world message_overload_set) (set ms) (list_view G)"
  unfolding visits_as_def
proof
  let ?ov = "listing_overloads cfg :: ('s, 'fd, string list) world message_overload_set"
  fix m assume m: "m \<in> set ms"
  show "acts_as (overload_resolution ?ov (pm_object_id m) (pm_opcode m)) m (list_view G m)"
  proof (cases "matches 2 0 m")
    case True
    obtain a b c where G: "G m = (a, b, c)" by (cases "G m")
    with assms(1) m True have
      "interpert_message_payload cfg wl_registry_event_global (pm_arguments m)
        = Value [Wuint a, Wstring b, Wuint c :: 'fd primitive]"
      by (auto simp: announces_def)
    then have "erase_overload cfg wl_registry_event_global print_global (pm_arguments m) w
        = (set_view w (list_view G m (view_of_world w)), Value ())" for w :: "('s, 'fd, string list) world"
      using True G
      by (simp add: erase_overload_def print_global_def print_line_def list_view_def set_view_def view_of_world_def)
    with True show ?thesis
      by (simp add: acts_as_def overload_resolution_def listing_overloads_def matches_def)
  next
    case False
    with assms(2) m have "overload_resolution ?ov (pm_object_id m) (pm_opcode m) = None"
      by (auto simp: overload_resolution_def listing_overloads_def matches_def)
    with False show ?thesis by (simp add: list_view_def [abs_def])
  qed
qed

lemma fatal_error_view:
  assumes "interpert_message_payload cfg wl_display_event_error payload
      = Value [Wobject i, Wuint code, Wstring message :: 'fd primitive]"
  shows "erase_overload cfg wl_display_event_error print_fatal_error payload (w :: ('s, 'fd, string list) world)
    = (set_view w (case view_of_world w of (n, mb, out) \<Rightarrow> (n, mb, out @ display_error_lines i code message)),
       Exited 1)"
  using assms
  by (simp add: erase_overload_def print_fatal_error_def print_line_def display_error_lines_def
      set_view_def view_of_world_def)

section \<open>Properties\<close>

text \<open>The events the witnesses receive: a global, the answer to the \<^verbatim>\<open>sync\<close> and a fatal error.\<close>

definition shm_global :: parsed_message where
  "shm_global = \<lparr>pm_object_id = 2, pm_opcode = 0, pm_arguments =
     enc_args (\<lambda>_. 0) 0 [Wuint 1, Wstring (u8_literal ''wl_shm''), Wuint 2 :: nat primitive]\<rparr>"

definition sync_done :: parsed_message where
  "sync_done = \<lparr>pm_object_id = 3, pm_opcode = 0, pm_arguments =
     enc_args (\<lambda>_. 0) 0 [Wuint 0 :: nat primitive]\<rparr>"

definition no_memory :: parsed_message where
  "no_memory = \<lparr>pm_object_id = 1, pm_opcode = 0, pm_arguments =
     enc_args (\<lambda>_. 0) 0 [Wobject 7, Wuint 2, Wstring (u8_literal ''oom'') :: nat primitive]\<rparr>"

lemma example_events:
  "matches i oc shm_global \<longleftrightarrow> i = 2 \<and> oc = 0" "matches i oc sync_done \<longleftrightarrow> i = 3 \<and> oc = 0"
  "matches i oc no_memory \<longleftrightarrow> i = 1 \<and> oc = 0"
  "whole_words [shm_global, sync_done]" "whole_words [shm_global, no_memory]"
  by (auto simp: matches_def shm_global_def sync_done_def no_memory_def whole_words_def fits_def wire_sizes_def
      u8_literal_def pad_of_eq)

lemma shm_global_payload:
  "interpert_message_payload cfg wl_registry_event_global (pm_arguments shm_global)
    = Value [Wuint 1, Wstring (u8_literal ''wl_shm''), Wuint 2 :: nat primitive]"
  unfolding shm_global_def parsed_message.simps
  by (rule interpert_enc_args) (simp add: wire_simps wl_registry_event_global_def u8_literal_def)

lemma no_memory_payload:
  "interpert_message_payload cfg wl_display_event_error (pm_arguments no_memory)
    = Value [Wobject 7, Wuint 2, Wstring (u8_literal ''oom'') :: nat primitive]"
  unfolding no_memory_def parsed_message.simps
  by (rule interpert_enc_args) (simp add: wire_simps wl_display_event_error_def u8_literal_def)

lemma shm_announced:
  "announces TYPE(nat) cfg (\<lambda>_. (1, u8_literal ''wl_shm'', 2)) [shm_global]"
  by (simp add: announces_def shm_global_payload)

lemma shm_line: "global_line (1, u8_literal ''wl_shm'', 2) = ''1 version 2: wl_shm''"
  by code_simp

text \<open>
  C33: the program sends the two requests, with the object ids 2 and 3, prints one line for each global
  the server announces before the answer to the \<^verbatim>\<open>sync\<close>, in the order of the announcements, and
  ends there, with the later messages unvisited, however the socket cuts the stream. Other events
  are skipped.
\<close>

theorem registry_globals_are_listed:
  fixes ops :: "('s, 'fd) sock_ops"
  assumes "client_socket ops sent pending" and "whole_words (pre @ m # post)"
    and "pending sock = concat (map message_bytes (pre @ m # post))"
    and "matches 3 0 m" and "\<forall>k \<in> set pre. \<not> matches 3 0 k \<and> \<not> matches 1 0 k"
    and "announces TYPE('fd) cfg G pre"
  shows "\<exists>w. list_registry_globals cfg ops storage (make_connected_client sock) = Some (w, Value ()) \<and>
    snd w = list_header @ map (\<lambda>m. global_line (G m)) (filter (matches 2 0) pre) \<and>
    sent (server_sock (fst w)) = sent sock @ wire storage
      [(global_display_object, wl_display_request_get_registry, [Wnew_id 2]),
       (global_display_object, wl_display_request_sync, [Wnew_id 3])] \<and>
    recv_buff (fst w) @ pending (server_sock (fst w)) = concat (map message_bytes post)"
proof -
  obtain w0 where at: "program_at storage sent pending 4 [] list_header (sent sock @ wire storage registry_requests)
      (pre @ m # post) w0"
    and run: "list_registry_globals cfg ops storage (make_connected_client sock) =
      try_again ops storage (listing_overloads cfg) 3 0 None w0"
    using list_registry_globals_loop [OF assms(1-3)] by blast
  have "visits_as (listing_overloads cfg :: ('s, 'fd, string list) world message_overload_set) (set pre) (list_view G)"
    using assms(5,6) by (intro listing_visits) simp_all
  from client_socket.until_program [OF assms(1) at _ assms(4) this acts_as_none] assms(5)
  show ?thesis
    unfolding run by (auto simp: fold_list_view program_at_def view_of_world_def)
qed

theorem registry_globals_are_listed_witness:
  "\<exists>w. list_registry_globals \<lparr>ndebug = False, checked_subscript = True\<rparr> list_socket_ops (\<lambda>_. 0)
      (make_connected_client (list_socket (message_bytes shm_global @ message_bytes sync_done)
        :: nat list_socket)) = Some (w, Value ()) \<and>
    snd w = list_header @ [''1 version 2: wl_shm'']"
  using registry_globals_are_listed [OF list_client.client_socket_axioms, of "[shm_global]" sync_done "[]"
      "list_socket (message_bytes shm_global @ message_bytes sync_done)", OF _ _ _ _ shm_announced,
      where storage = "\<lambda>_. 0"]
  by (auto simp: example_events shm_line)

text \<open>
  A fatal error before the answer ends the program with status 1: the globals announced
  before it and then the error have been printed, and nothing else has been sent.
\<close>

lemma fatal_error_ends_the_listing:
  fixes ops :: "('s, 'fd) sock_ops"
  assumes "client_socket ops sent pending" and "whole_words (pre @ m # post)"
    and "pending sock = concat (map message_bytes (pre @ m # post))"
    and "matches 1 0 m" and "\<forall>k \<in> set pre. \<not> matches 3 0 k \<and> \<not> matches 1 0 k"
    and "announces TYPE('fd) cfg G pre"
    and "interpert_message_payload cfg wl_display_event_error (pm_arguments m)
      = Value [Wobject i, Wuint code, Wstring message :: 'fd primitive]"
  shows "\<exists>w. list_registry_globals cfg ops storage (make_connected_client sock) = Some (w, Exited 1) \<and>
    snd w = list_header @ map (\<lambda>m. global_line (G m)) (filter (matches 2 0) pre) @
      display_error_lines i code message \<and>
    sent (server_sock (fst w)) = sent sock @ wire storage
      [(global_display_object, wl_display_request_get_registry, [Wnew_id 2]),
       (global_display_object, wl_display_request_sync, [Wnew_id 3])]"
proof -
  obtain w0 where at: "program_at storage sent pending 4 [] list_header (sent sock @ wire storage registry_requests)
      (pre @ m # post) w0"
    and run: "list_registry_globals cfg ops storage (make_connected_client sock) =
      try_again ops storage (listing_overloads cfg) 3 0 None w0"
    using list_registry_globals_loop [OF assms(1-3)] by blast
  have V: "visits_as (listing_overloads cfg :: ('s, 'fd, string list) world message_overload_set)
      (set pre) (list_view G)"
    using assms(5,6) by (intro listing_visits) simp_all
  have "overload_resolution (listing_overloads cfg) (pm_object_id m) (pm_opcode m)
      = Some (erase_overload cfg wl_display_event_error print_fatal_error)"
    using assms(4) by (simp add: overload_resolution_def listing_overloads_def matches_def)
  from client_socket.until_program_stopped [OF assms(1) at _ V this fatal_error_view [OF assms(7)]] assms(4,5)
  show ?thesis
    unfolding run by (fastforce simp: fold_list_view view_of_world_def matches_def)
qed

end
