(* ===== verification/Picture_Session.thy ===== *)
theory Picture_Session
  imports Picture_Window List_Registry_Globals
begin

text \<open>
  What a run of \<open>static_picture_window\<close> does on the wire, for any messages of the server and however the
  socket cuts them: which requests are sent, with which ids, and which messages are left. The
  requests are computed from the globals the server announces by \<open>wanted_globals\<close>, \<open>bind_requests\<close> and
  \<open>surface_requests\<close>; the pings it is sent are answered by \<open>pongs\<close>.
\<close>

section \<open>Binding the wanted globals\<close>

type_synonym global_event = "u32 \<times> bytes \<times> u32"

text \<open>Every \<^verbatim>\<open>wl_shm\<close> and \<^verbatim>\<open>wl_compositor\<close> is bound, and the first \<^verbatim>\<open>xdg_wm_base\<close>.\<close>

definition is_wanted :: "global_event list \<Rightarrow> global_event \<Rightarrow> bool" where
  "is_wanted ws g \<longleftrightarrow>
     (let i = fst (snd g)
      in i = u8_literal ''wl_shm'' \<or> i = u8_literal ''wl_compositor'' \<or>
         (i = u8_literal ''xdg_wm_base'' \<and> i \<notin> set (map (\<lambda>g. fst (snd g)) ws)))"

definition wanted_globals :: "global_event list \<Rightarrow> global_event list" where
  "wanted_globals gs = foldl (\<lambda>ws g. if is_wanted ws g then ws @ [g] else ws) [] gs"

text \<open>The new ids are 4, 5, ... in the order of the announcements.\<close>

definition bind_requests :: "global_event list \<Rightarrow> 'fd request list" where
  "bind_requests ws = map (\<lambda>(k, name, interface, version).
     (object_of ''wl_registry'' 2, wl_registry_request_bind,
      [Wuint name, Wstring interface, Wuint version, Wnew_id (4 + of_nat k)])) (enumerate 0 ws)"

text \<open>The position of the last global of an interface, whose id the member for it ends up with.\<close>

definition bound_index :: "string \<Rightarrow> global_event list \<Rightarrow> nat option" where
  "bound_index T ws =
     (let ks = filter (\<lambda>k. fst (snd (ws ! k)) = u8_literal T) [0..<length ws]
      in if ks = [] then None else Some (last ks))"

definition bound_obj :: "string \<Rightarrow> global_event list \<Rightarrow> u32 \<Rightarrow> u32" where
  "bound_obj T ws i =
     (case bound_index T ws of None \<Rightarrow> i | Some k \<Rightarrow> 4 + of_nat k)"

definition bound_members :: "global_event list \<Rightarrow> 'blk window_run \<Rightarrow> 'blk window_run" where
  "bound_members ws u =
     u\<lparr>shm_obj := bound_obj ''wl_shm'' ws (shm_obj u),
       compositor_obj := bound_obj ''wl_compositor'' ws (compositor_obj u),
       wm_base_obj := bound_obj ''xdg_wm_base'' ws (wm_base_obj u),
       wl_shm_found := (bound_index ''wl_shm'' ws \<noteq> None),
       wl_compositor_found := (bound_index ''wl_compositor'' ws \<noteq> None),
       xdg_wm_base_found := (bound_index ''xdg_wm_base'' ws \<noteq> None)\<rparr>"

lemma bound_index_snoc:
  "bound_index T (ws @ [g]) = (if fst (snd g) = u8_literal T then Some (length ws) else bound_index T ws)"
proof -
  have "filter (\<lambda>k. fst (snd ((ws @ [g]) ! k)) = u8_literal T) [0..<length ws]
      = filter (\<lambda>k. fst (snd (ws ! k)) = u8_literal T) [0..<length ws]"
    by (rule filter_cong) (simp_all add: nth_append)
  then show ?thesis by (simp add: bound_index_def Let_def)
qed

lemma bound_index_Nil [simp]: "bound_index T [] = None"
  by (simp add: bound_index_def)

lemma bound_index_None: "bound_index T ws = None \<longleftrightarrow> u8_literal T \<notin> set (map (\<lambda>g. fst (snd g)) ws)"
  by (induction ws rule: rev_induct) (auto simp: bound_index_snoc)

lemma bound_index_less: "bound_index T ws = Some k \<Longrightarrow> k < length ws"
  by (induction ws rule: rev_induct) (auto simp: bound_index_snoc split: if_splits)

lemma bound_index_interface: "bound_index T ws = Some k \<Longrightarrow> fst (snd (ws ! k)) = u8_literal T"
proof (induction ws rule: rev_induct)
  case (snoc g ws)
  then show ?case
    using bound_index_less [of T ws k] by (auto simp: bound_index_snoc nth_append split: if_splits)
qed simp

lemma bind_requests_snoc:
  "bind_requests (ws @ [(name, interface, version)]) = bind_requests ws @
     [(object_of ''wl_registry'' 2, wl_registry_request_bind,
       [Wuint name, Wstring interface, Wuint version, Wnew_id (4 + of_nat (length ws))])]"
  by (simp add: bind_requests_def enumerate_append_eq)

lemma bind_requests_Nil [simp]: "bind_requests [] = []"
  by (simp add: bind_requests_def)

lemma wanted_globals_snoc:
  "wanted_globals (gs @ [g]) =
     (if is_wanted (wanted_globals gs) g then wanted_globals gs @ [g] else wanted_globals gs)"
  by (simp add: wanted_globals_def)

lemma length_wanted_globals: "length (wanted_globals gs) \<le> length gs"
  by (induction gs rule: rev_induct) (simp_all add: wanted_globals_snoc, simp add: wanted_globals_def)

lemma wanted_literals:
  "u8_literal ''wl_compositor'' \<noteq> u8_literal ''wl_shm''" "u8_literal ''xdg_wm_base'' \<noteq> u8_literal ''wl_shm''"
  "u8_literal ''xdg_wm_base'' \<noteq> u8_literal ''wl_compositor''"
  by code_simp+

section \<open>The overload for globals acts on the view\<close>

definition reserve_view ::
  "bytes \<Rightarrow> ('fd, 'blk window_run) request_view \<Rightarrow> ('fd, 'blk window_run) request_view \<times> u32 option" where
  "reserve_view interface v = (case v of (n, mb, u) \<Rightarrow>
     if interface = u8_literal ''wl_shm'' then
       ((n + 1, mb, u\<lparr>wl_shm_found := True, shm_obj := n\<rparr>), Some n)
     else if interface = u8_literal ''wl_compositor'' then
       ((n + 1, mb, u\<lparr>wl_compositor_found := True, compositor_obj := n\<rparr>), Some n)
     else if \<not> xdg_wm_base_found u \<and> interface = u8_literal ''xdg_wm_base'' then
       ((n + 1, mb, u\<lparr>xdg_wm_base_found := True, wm_base_obj := n\<rparr>), Some n)
     else (v, None))"

definition bind_view ::
  "(nat \<Rightarrow> byte) \<Rightarrow> (parsed_message \<Rightarrow> global_event) \<Rightarrow> parsed_message \<Rightarrow>
     ('fd, 'blk window_run) request_view \<Rightarrow> ('fd, 'blk window_run) request_view" where
  "bind_view storage G m v =
     (if \<not> matches 2 0 m then v
      else case G m of (name, interface, version) \<Rightarrow>
        (case reserve_view interface v of
           (v, None) \<Rightarrow> v
         | (v, Some i) \<Rightarrow> view_register storage (object_of ''wl_registry'' (registry_obj (snd (snd v))))
             wl_registry_request_bind [Wuint name, Wstring interface, Wuint version, Wnew_id i] v))"

lemma reserve_wanted_view:
  "reserve_wanted interface w =
     (case reserve_view interface (view_of_world w) of (v, obj) \<Rightarrow> (set_view w v, obj))"
  by (auto simp: reserve_wanted_def reserve_view_def view_of_world_def set_view_def reserve_member_def
      reserve_id_def reserve_object_id_def Let_def)

lemma bind_appendable:
  "interface \<in> {u8_literal ''wl_shm'', u8_literal ''wl_compositor'', u8_literal ''xdg_wm_base''} \<Longrightarrow>
    appendable cfg (object_of ''wl_registry'' obj) wl_registry_request_bind
      [Wuint name, Wstring interface, Wuint version, Wnew_id i]"
  by (auto simp: wire_simps wl_registry_request_bind_def u8_literal_def object_of_def)

lemma bind_global_view:
  assumes "matches 2 0 m" and "G m = (name, interface, version)"
  shows "bind_global cfg storage [Wuint name, Wstring interface, Wuint version] w =
    (set_view w (bind_view storage G m (view_of_world w)), Value ())"
proof (cases "reserve_view interface (view_of_world w)")
  case (Pair v obj)
  show ?thesis
  proof (cases obj)
    case None
    with Pair assms show ?thesis by (simp add: bind_global_def reserve_wanted_view bind_view_def)
  next
    case (Some obj')
    with Pair have "interface \<in> {u8_literal ''wl_shm'', u8_literal ''wl_compositor'', u8_literal ''xdg_wm_base''}"
      "registry_obj (snd (set_view w v)) = registry_obj (snd (snd v))"
      by (auto simp: reserve_view_def view_of_world_def set_view_def split: if_splits)
    with Pair Some assms show ?thesis
      by (simp add: bind_global_def reserve_wanted_view world_register_view bind_appendable bind_view_def)
  qed
qed

lemma bound_members_snoc:
  "fst (snd g) = u8_literal ''wl_shm'' \<Longrightarrow> bound_members (ws @ [g]) u =
     (bound_members ws u)\<lparr>wl_shm_found := True, shm_obj := 4 + of_nat (length ws)\<rparr>"
  "fst (snd g) = u8_literal ''wl_compositor'' \<Longrightarrow> bound_members (ws @ [g]) u =
     (bound_members ws u)\<lparr>wl_compositor_found := True, compositor_obj := 4 + of_nat (length ws)\<rparr>"
  "fst (snd g) = u8_literal ''xdg_wm_base'' \<Longrightarrow> bound_members (ws @ [g]) u =
     (bound_members ws u)\<lparr>xdg_wm_base_found := True, wm_base_obj := 4 + of_nat (length ws)\<rparr>"
  by (simp_all add: bound_members_def bound_index_snoc bound_obj_def wanted_literals wanted_literals [symmetric])

text \<open>One announced global: bound when it is wanted, with the next id.\<close>

lemma bind_view_wanted:
  assumes m: "matches 2 0 m" and u: "registry_obj u = 2" and "\<not> xdg_wm_base_found u"
  shows "bind_view storage G m (4 + of_nat (length ws), queue storage (bind_requests ws) :: 'fd message_buffer,
      bound_members ws u) =
    (let ws' = if is_wanted ws (G m) then ws @ [G m] else ws
     in (4 + of_nat (length ws'), queue storage (bind_requests ws'), bound_members ws' u))"
proof -
  obtain name interface version where G: "G m = (name, interface, version)" by (cases "G m")
  let ?found = "xdg_wm_base_found (bound_members ws u)"
  have r: "registry_obj (bound_members ws u) = 2" for ws
    using u by (simp add: bound_members_def)
  have "?found \<longleftrightarrow> u8_literal ''xdg_wm_base'' \<in> set (map (\<lambda>g. fst (snd g)) ws)"
    using assms(3) bound_index_None [of "''xdg_wm_base''" ws] by (simp add: bound_members_def)
  then have w: "is_wanted ws (G m) \<longleftrightarrow> interface = u8_literal ''wl_shm'' \<or> interface = u8_literal ''wl_compositor'' \<or>
      (interface = u8_literal ''xdg_wm_base'' \<and> \<not> ?found)"
    by (auto simp: is_wanted_def G)
  note step = bind_view_def m G r bind_requests_snoc Let_def bound_members_snoc reserve_view_def wanted_literals
  consider "interface = u8_literal ''wl_shm''" | "interface = u8_literal ''wl_compositor''"
    | "interface = u8_literal ''xdg_wm_base''" "\<not> ?found" | "\<not> is_wanted ws (G m)"
    using w by blast
  then show ?thesis
  proof cases
    case 4
    then have "interface \<noteq> u8_literal ''wl_shm''" "interface \<noteq> u8_literal ''wl_compositor''"
      "?found \<or> interface \<noteq> u8_literal ''xdg_wm_base''" by (auto simp: w)
    with 4 show ?thesis by (auto simp: step)
  qed (use w in \<open>simp_all add: step\<close>)
qed

lemma fold_bind_view:
  assumes "registry_obj u = 2" and "\<not> xdg_wm_base_found u" and "\<not> wl_shm_found u" and "\<not> wl_compositor_found u"
  shows "fold (bind_view storage G) ms (4, queue storage [] :: 'fd message_buffer, u) =
    (let ws = wanted_globals (map G (filter (matches 2 0) ms))
     in (4 + of_nat (length ws), queue storage (bind_requests ws), bound_members ws u))"
proof (induction ms rule: rev_induct)
  case Nil
  then show ?case using assms by (simp add: wanted_globals_def bound_members_def bound_obj_def)
next
  case (snoc m ms)
  show ?case
  proof (cases "matches 2 0 m")
    case False
    with snoc show ?thesis by (simp add: bind_view_def)
  next
    case True
    with snoc show ?thesis
      by (simp add: Let_def wanted_globals_snoc bind_view_wanted [OF True assms(1,2)])
  qed
qed

section \<open>The stages\<close>

definition opened_members :: "(nat \<Rightarrow> u32) \<Rightarrow> 'blk static_picture \<Rightarrow> string list \<Rightarrow> 'blk window_run" where
  "opened_members uninit pic out = (window_members uninit pic out)\<lparr>registry_obj := 2, sync_obj := 3\<rparr>"

lemma program_atD:
  assumes "program_at storage sent pending n rs u tr ms w"
  shows "snd w = u" "next_new_id (fst w) = n" "request_buff (fst w) = queue storage rs"
  using assms by (simp_all add: program_at_def view_of_world_def)

lemma object_of_value [simp]: "wobject_value (object_of T i) = i"
  by (simp add: object_of_def)

lemma object_of_display: "object_of ''wl_display'' 1 = global_display_object"
  by (simp add: object_of_def global_display_object_def)

lemma initial_stage_at:
  assumes "client_socket ops sent pending" and "whole_words ms" and "pending sock = concat (map message_bytes ms)"
  shows "\<exists>w. initial_stage cfg ops storage (make_connected_client sock, window_members uninit pic out) = (w, Value ()) \<and>
    program_at storage sent pending 4 [] (opened_members uninit pic out)
      (sent sock @ wire storage registry_requests) ms w"
proof -
  let ?c = "make_connected_client sock"
  let ?w = "(?c\<lparr>next_new_id := 4, request_buff := queue storage registry_requests\<rparr>, opened_members uninit pic out)"
  have "program_at storage sent pending 4 registry_requests (opened_members uninit pic out) (sent sock) ms ?w"
    by (rule program_at_update [OF program_at_start [where pending = pending, OF assms(2,3)]])
      (simp_all add: make_connected_client_def)
  from client_socket.flush_program [OF assms(1) this, of cfg] obtain w where
    f: "world_flush cfg ops ?w = (w, Value ())"
    and at: "program_at storage sent pending 4 [] (opened_members uninit pic out)
      (sent sock @ wire storage registry_requests) ms w"
    by (auto simp: fds_of_args_def)
  have q: "request_buff ?c = queue storage []" by (simp add: make_connected_client_def queue_Nil)
  have "initial_stage cfg ops storage (?c, window_members uninit pic out) = (w, Value ())"
    using f by (simp add: initial_stage_def reserve_member_def reserve_id_def reserve_object_id_def world_register_def
        q register_queue registry_requests_appendable opened_members_def window_members_def object_of_display
        global_display_object_def [THEN arg_cong [where f = wobject_value], simplified]
        make_connected_client_def [of sock, THEN arg_cong [where f = next_new_id], simplified])
  with at show ?thesis by blast
qed

text \<open>Binding the globals.\<close>

definition binding_overloads ::
  "build \<Rightarrow> (nat \<Rightarrow> byte) \<Rightarrow> ('s, 'fd, 'blk) window_world message_overload_set" where
  "binding_overloads cfg storage = \<lparr>overloads =
     [(1, 0) \<mapsto> erase_overload cfg wl_display_event_error window_fatal_error,
      (2, 0) \<mapsto> erase_overload cfg wl_registry_event_global (bind_global cfg storage)]\<rparr>"

lemma globals_binder_value:
  assumes "display_obj (snd w) = 1" and "registry_obj (snd w) = 2"
  shows "globals_binder cfg storage w = (binding_overloads cfg storage, Value ())"
  using assms
  by (simp add: globals_binder_def fatal_error_overloads_def binding_overloads_def add_overload_def
      insert_overload_def empty_overload_set_def wl_registry_event_global_def wl_display_event_error_def
      object_of_def)

lemma binding_visits:
  assumes "announces TYPE('fd) cfg G ms" and "\<forall>m \<in> set ms. \<not> matches 1 0 m"
  shows "visits_as (binding_overloads cfg storage :: ('s, 'fd, 'blk) window_world message_overload_set)
    (set ms) (bind_view storage G)"
  unfolding visits_as_def
proof
  let ?ov = "binding_overloads cfg storage :: ('s, 'fd, 'blk) window_world message_overload_set"
  fix m assume m: "m \<in> set ms"
  show "acts_as (overload_resolution ?ov (pm_object_id m) (pm_opcode m)) m (bind_view storage G m)"
  proof (cases "matches 2 0 m")
    case True
    obtain a b c where G: "G m = (a, b, c)" by (cases "G m")
    with assms(1) m True have
      "interpert_message_payload cfg wl_registry_event_global (pm_arguments m)
        = Value [Wuint a, Wstring b, Wuint c :: 'fd primitive]"
      by (auto simp: announces_def)
    then have "erase_overload cfg wl_registry_event_global (bind_global cfg storage) (pm_arguments m) w
        = (set_view w (bind_view storage G m (view_of_world w)), Value ())" for w :: "('s, 'fd, 'blk) window_world"
      using bind_global_view [of m G, OF True G] by (simp add: erase_overload_def)
    with True show ?thesis
      by (simp add: acts_as_def overload_resolution_def binding_overloads_def matches_def)
  next
    case False
    with assms(2) m have "overload_resolution ?ov (pm_object_id m) (pm_opcode m) = None"
      by (auto simp: overload_resolution_def binding_overloads_def matches_def)
    with False show ?thesis by (simp add: bind_view_def [abs_def])
  qed
qed

lemma bind_requests_fds: "\<forall>(obj, M, args) \<in> set (bind_requests ws). length (fds_of_args args) \<le> 7"
  by (auto simp: bind_requests_def fds_of_args_def)

lemma opened_members_simps [simp]:
  "display_obj (opened_members uninit pic out) = 1" "registry_obj (opened_members uninit pic out) = 2"
  "sync_obj (opened_members uninit pic out) = 3" "picture (opened_members uninit pic out) = pic"
  "printed (opened_members uninit pic out) = out"
  "\<not> wl_shm_found (opened_members uninit pic out)" "\<not> wl_compositor_found (opened_members uninit pic out)"
  "\<not> xdg_wm_base_found (opened_members uninit pic out)"
  by (simp_all add: opened_members_def window_members_def global_display_object_def)

lemma opened_members_flags:
  "(opened_members uninit pic out)\<lparr>wl_shm_found := False, wl_compositor_found := False, xdg_wm_base_found := False\<rparr>
    = opened_members uninit pic out"
  by (simp add: opened_members_def window_members_def)

lemma bind_globals_stage_loop:
  fixes ops :: "('s, 'fd) sock_ops" and w :: "('s, 'fd, 'blk) window_world"
  assumes "client_socket ops sent pending"
    and at: "program_at storage sent pending 4 [] (opened_members uninit pic out) tr (pre @ m # post) w"
    and "\<forall>k \<in> set pre. \<not> matches 3 0 k \<and> \<not> matches 1 0 k" and "matches 3 0 m"
    and "announces TYPE('fd) cfg G pre"
    and ws: "ws = wanted_globals (map G (filter (matches 2 0) pre))"
  shows "\<exists>w'. program_at storage sent pending (4 + of_nat (length ws)) (bind_requests ws)
      (bound_members ws (opened_members uninit pic out)) tr post w' \<and>
    bind_globals_stage cfg ops storage w =
      (let u = bound_members ws (opened_members uninit pic out)
       in if \<not> (wl_shm_found u \<and> wl_compositor_found u \<and> xdg_wm_base_found u)
          then Some (print_lines (missing_lines u) w', Exited 1)
          else Some (world_flush cfg ops w'))"
proof -
  let ?u = "opened_members uninit pic out"
  obtain c where w: "w = (c, ?u)" using program_atD(1) [OF at] by (cases w) simp
  have V: "visits_as (binding_overloads cfg storage :: ('s, 'fd, 'blk) window_world message_overload_set)
      (set pre) (bind_view storage G)"
    using assms(3,5) by (intro binding_visits) simp_all
  have "fold (bind_view storage G) pre (4, queue storage [], ?u) =
      (4 + of_nat (length ws), queue storage (bind_requests ws), bound_members ws ?u)"
    by (simp add: fold_bind_view Let_def ws)
  from client_socket.until_program [OF assms(1) at _ assms(4) V acts_as_none this] assms(3)
  obtain w' where u: "try_again ops storage (binding_overloads cfg storage) 3 0 None w = Some (w', Value ())"
    and at': "program_at storage sent pending (4 + of_nat (length ws)) (bind_requests ws) (bound_members ws ?u) tr post w'"
    by auto
  have "bind_globals_stage cfg ops storage w = (let u = bound_members ws ?u
       in if \<not> (wl_shm_found u \<and> wl_compositor_found u \<and> xdg_wm_base_found u)
          then Some (print_lines (missing_lines u) w', Exited 1)
          else Some (world_flush cfg ops w'))"
    using u program_atD(1) [OF at'] unfolding w
    by (simp add: bind_globals_stage_def opened_members_flags globals_binder_value until_message_def
        recv_and_visit_events_def wl_callback_event_done_def object_of_def Let_def prod_eq_iff)
  with at' show ?thesis by blast
qed

section \<open>Creating the surface\<close>

text \<open>
  The requests of the config stage, with the ids \<open>n\<close>, \<open>n + 1\<close>, ... for the pool, the buffer, the
  surface, its xdg surface and the toplevel.
\<close>

definition surface_requests :: "'fd \<Rightarrow> 'blk window_run \<Rightarrow> u32 \<Rightarrow> 'fd request list" where
  "surface_requests fd u n =
     (let w = pic_width (picture u); h = pic_height (picture u)
      in [(object_of ''wl_shm'' (shm_obj u), wl_shm_request_create_pool,
             [Wnew_id n, Wfd fd, Wint (word_of_int (4 * (w * h)))]),
          (object_of ''wl_shm_pool'' n, wl_shm_pool_request_create_buffer,
             [Wnew_id (n + 1), Wint 0, Wint (word_of_int w), Wint (word_of_int h),
              Wint (word_of_int (4 * w)), Wenum 0]),
          (object_of ''wl_shm_pool'' n, wl_shm_pool_request_destroy, []),
          (object_of ''wl_compositor'' (compositor_obj u), wl_compositor_request_create_surface, [Wnew_id (n + 2)]),
          (object_of ''xdg_wm_base'' (wm_base_obj u), xdg_wm_base_request_get_xdg_surface,
             [Wnew_id (n + 3), Wobject (n + 2)]),
          (object_of ''xdg_surface'' (n + 3), xdg_surface_request_get_toplevel, [Wnew_id (n + 4)]),
          (object_of ''wl_surface'' (n + 2), wl_surface_request_commit, [])])"

definition surface_members :: "'blk window_run \<Rightarrow> u32 \<Rightarrow> 'blk window_run" where
  "surface_members u n =
     u\<lparr>buffer_obj := n + 1, surface_obj := n + 2, xdg_surface_obj := n + 3, toplevel_obj := n + 4\<rparr>"

text \<open>The pictures whose numbers the requests can carry.\<close>

definition picture_fits :: "'blk static_picture \<Rightarrow> bool" where
  "picture_fits pic \<longleftrightarrow>
     is_int (pic_width pic * pic_height pic) \<and> is_int (4 * (pic_width pic * pic_height pic)) \<and>
     is_int (4 * pic_width pic)"

lemma surface_appendable:
  "appendable cfg (object_of ''wl_shm'' i) wl_shm_request_create_pool [Wnew_id a, Wfd fd, Wint x]"
  "appendable cfg (object_of ''wl_shm_pool'' i) wl_shm_pool_request_create_buffer
     [Wnew_id a, Wint x1, Wint x2, Wint x3, Wint x4, Wenum e]"
  "appendable cfg (object_of ''wl_shm_pool'' i) wl_shm_pool_request_destroy []"
  "appendable cfg (object_of ''wl_compositor'' i) wl_compositor_request_create_surface [Wnew_id a]"
  "appendable cfg (object_of ''xdg_wm_base'' i) xdg_wm_base_request_get_xdg_surface [Wnew_id a, Wobject b]"
  "appendable cfg (object_of ''xdg_surface'' i) xdg_surface_request_get_toplevel [Wnew_id a]"
  "appendable cfg (object_of ''wl_surface'' i) wl_surface_request_commit []"
  "appendable cfg (object_of ''wl_surface'' i) wl_surface_request_attach [Wobject b, Wint x1, Wint x2]"
  "appendable cfg (object_of ''xdg_surface'' i) xdg_surface_request_ack_configure [Wuint s]"
  "appendable cfg (object_of ''xdg_wm_base'' i) xdg_wm_base_request_pong [Wuint s]"
  by (simp_all add: wire_simps object_of_def wl_shm_request_create_pool_def wl_shm_pool_request_create_buffer_def
      wl_shm_pool_request_destroy_def wl_compositor_request_create_surface_def
      xdg_wm_base_request_get_xdg_surface_def xdg_surface_request_get_toplevel_def
      wl_surface_request_commit_def wl_surface_request_attach_def xdg_surface_request_ack_configure_def
      xdg_wm_base_request_pong_def)

lemma picture_fits_sizes:
  assumes "picture_fits pic"
  shows "bytes_required (pic_width pic) (pic_height pic) = Value (4 * (pic_width pic * pic_height pic))"
    and "int_mult (pic_width pic) (int sizeof_pixel) = Value (4 * pic_width pic)"
  using assms
  by (simp_all add: bytes_required_eq picture_fits_def int_mult_def sizeof_pixel_def mult.commute [of _ 4])

lemma color_format_value: "color_format = 0"
  by (simp add: color_format_def enum_value_def wl_shm_enum_format_def wl_shm_enum_format_low_def)

lemma reserve_member_value:
  "reserve_member T member_of member_update (c, u) =
     ((c\<lparr>next_new_id := next_new_id c + 1\<rparr>, member_update (\<lambda>_. next_new_id c) u), next_new_id c)"
  by (simp add: reserve_member_def reserve_id_def reserve_object_id_def)

lemma request_surface_stage_at:
  assumes "client_socket ops sent pending" and at: "program_at storage sent pending n [] u tr ms w"
    and "picture_fits (picture u)"
  shows "\<exists>w'. request_surface_stage cfg ops storage block_fd w = (w', Value ()) \<and>
    program_at storage sent pending (n + 5) [] (surface_members u n)
      (tr @ wire storage (surface_requests (block_fd (pic_buff (picture u))) u n)) ms w'"
proof -
  obtain c where w: "w = (c, u)" using program_atD(1) [OF at] by (cases w) simp
  have c: "next_new_id c = n" "request_buff c = queue storage []"
    using program_atD(2,3) [OF at] by (simp_all add: w)
  let ?rs = "surface_requests (block_fd (pic_buff (picture u))) u n"
  let ?w = "(c\<lparr>next_new_id := n + 5, request_buff := queue storage ?rs\<rparr>, surface_members u n)"
  have a: "program_at storage sent pending (n + 5) ?rs (surface_members u n) tr ms ?w"
    by (rule program_at_update [OF at]) (simp_all add: w)
  have b: "\<forall>(obj, M, args) \<in> set ?rs. length (fds_of_args args) \<le> 7"
    by (simp add: surface_requests_def Let_def fds_of_args_def)
  from client_socket.flush_program [OF assms(1) a b, of cfg]
  obtain w' where f: "world_flush cfg ops ?w = (w', Value ())"
    and at': "program_at storage sent pending (n + 5) [] (surface_members u n) (tr @ wire storage ?rs) ms w'"
    by blast
  have "request_surface_stage cfg ops storage block_fd w = (w', Value ())"
    using f unfolding w
    by (simp add: request_surface_stage_def world_reserve_def reserve_object_id_def reserve_member_value
        world_register_def c register_queue surface_appendable picture_fits_sizes [OF assms(3)] color_format_value
        surface_requests_def surface_members_def Let_def object_of_def [symmetric] add.assoc)
  with at' show ?thesis by blast
qed

section \<open>Waiting with the default overloads\<close>

definition waiting_overloads ::
  "build \<Rightarrow> (nat \<Rightarrow> byte) \<Rightarrow> u32 \<Rightarrow> ('s, 'fd, 'blk) window_world message_overload_set" where
  "waiting_overloads cfg storage wm = \<lparr>overloads =
     [(1, 0) \<mapsto> erase_overload cfg wl_display_event_error window_fatal_error,
      (wm, 0) \<mapsto> erase_overload cfg xdg_wm_base_event_ping (answer_ping cfg storage)]\<rparr>"

lemma default_overloads_value:
  assumes "display_obj (snd w) = 1" and "wm_base_obj (snd w) \<noteq> 1"
  shows "default_overloads cfg storage w = (waiting_overloads cfg storage (wm_base_obj (snd w)), Value ())"
  using assms
  by (simp add: default_overloads_def fatal_error_overloads_def waiting_overloads_def add_overload_def
      insert_overload_def empty_overload_set_def xdg_wm_base_event_ping_def wl_display_event_error_def)

text \<open>\<open>P m\<close> is the serial the ping \<open>m\<close> of the object \<open>wm\<close> carries, and \<open>pongs\<close> the answers to the pings.\<close>

definition pinged ::
  "'fd itself \<Rightarrow> build \<Rightarrow> u32 \<Rightarrow> (parsed_message \<Rightarrow> u32) \<Rightarrow> parsed_message list \<Rightarrow> bool" where
  "pinged fd cfg wm P ms \<longleftrightarrow>
     (\<forall>m \<in> set ms. matches wm 0 m \<longrightarrow>
        interpert_message_payload cfg xdg_wm_base_event_ping (pm_arguments m) = Value [Wuint (P m) :: 'fd primitive])"

definition pongs :: "u32 \<Rightarrow> (parsed_message \<Rightarrow> u32) \<Rightarrow> parsed_message list \<Rightarrow> 'fd request list" where
  "pongs wm P ms = map (\<lambda>m. (object_of ''xdg_wm_base'' wm, xdg_wm_base_request_pong, [Wuint (P m)]))
     (filter (matches wm 0) ms)"

definition pong_view ::
  "(nat \<Rightarrow> byte) \<Rightarrow> u32 \<Rightarrow> (parsed_message \<Rightarrow> u32) \<Rightarrow> parsed_message \<Rightarrow>
     ('fd, 'blk window_run) request_view \<Rightarrow> ('fd, 'blk window_run) request_view" where
  "pong_view storage wm P m v =
     (if matches wm 0 m
      then view_register storage (object_of ''xdg_wm_base'' (wm_base_obj (snd (snd v))))
             xdg_wm_base_request_pong [Wuint (P m)] v
      else v)"

lemma fold_pong_view:
  "wm_base_obj u = wm \<Longrightarrow>
     fold (pong_view storage wm P) ms (n, queue storage rs, u) = (n, queue storage (rs @ pongs wm P ms), u)"
  by (induction ms arbitrary: rs) (simp_all add: pong_view_def pongs_def)

lemma waiting_visits:
  assumes "pinged TYPE('fd) cfg wm P ms" and "\<forall>m \<in> set ms. \<not> matches 1 0 m"
  shows "visits_as (waiting_overloads cfg storage wm :: ('s, 'fd, 'blk) window_world message_overload_set)
    (set ms) (pong_view storage wm P)"
  unfolding visits_as_def
proof
  let ?ov = "waiting_overloads cfg storage wm :: ('s, 'fd, 'blk) window_world message_overload_set"
  fix m assume m: "m \<in> set ms"
  show "acts_as (overload_resolution ?ov (pm_object_id m) (pm_opcode m)) m (pong_view storage wm P m)"
  proof (cases "matches wm 0 m")
    case True
    with assms(1) m have
      "interpert_message_payload cfg xdg_wm_base_event_ping (pm_arguments m) = Value [Wuint (P m) :: 'fd primitive]"
      by (simp add: pinged_def)
    then have "erase_overload cfg xdg_wm_base_event_ping (answer_ping cfg storage) (pm_arguments m) w
        = (set_view w (pong_view storage wm P m (view_of_world w)), Value ())" for w :: "('s, 'fd, 'blk) window_world"
      using True by (simp add: erase_overload_def answer_ping_def world_register_view surface_appendable
          pong_view_def view_of_world_def)
    with True show ?thesis
      by (simp add: acts_as_def overload_resolution_def waiting_overloads_def matches_def)
  next
    case False
    with assms(2) m have "overload_resolution ?ov (pm_object_id m) (pm_opcode m) = None"
      by (auto simp: overload_resolution_def waiting_overloads_def matches_def)
    with False show ?thesis by (simp add: pong_view_def [abs_def])
  qed
qed

lemma pongs_fds: "\<forall>(obj, M, args) \<in> set (pongs wm P ms). length (fds_of_args args) \<le> 7"
  by (auto simp: pongs_def fds_of_args_def)

lemma configure_stage_at:
  fixes ops :: "('s, 'fd) sock_ops" and w :: "('s, 'fd, 'blk) window_world"
  assumes "client_socket ops sent pending" and at: "program_at storage sent pending n [] u tr (pre @ m # post) w"
    and u: "display_obj u = 1" "wm_base_obj u = wm" "wm \<noteq> 1"
    and "\<forall>k \<in> set pre. \<not> matches (xdg_surface_obj u) 0 k \<and> \<not> matches 1 0 k"
    and "matches (xdg_surface_obj u) 0 m" and "pinged TYPE('fd) cfg wm P pre"
    and payload: "interpert_message_payload cfg xdg_surface_event_configure (pm_arguments m)
      = Value [Wuint serial :: 'fd primitive]"
  shows "\<exists>w'. configure_stage cfg ops storage w = Some (w', Value ()) \<and>
    program_at storage sent pending n [] u (tr @ wire storage (pongs wm P pre @
      [(object_of ''xdg_surface'' (xdg_surface_obj u), xdg_surface_request_ack_configure, [Wuint serial]),
       (object_of ''wl_surface'' (surface_obj u), wl_surface_request_attach, [Wobject (buffer_obj u), Wint 0, Wint 0]),
       (object_of ''wl_surface'' (surface_obj u), wl_surface_request_commit, [])])) post w'"
    (is "\<exists>w'. _ \<and> program_at _ _ _ _ _ _ (tr @ wire storage (_ @ [?ack, ?attach, ?commit])) _ _")
proof -
  obtain c where w: "w = (c, u)" using program_atD(1) [OF at] by (cases w) simp
  have V: "visits_as (waiting_overloads cfg storage wm :: ('s, 'fd, 'blk) window_world message_overload_set)
      (set pre) (pong_view storage wm P)"
    using assms(6,8) by (intro waiting_visits) simp_all
  let ?g = "\<lambda>v :: ('fd, 'blk window_run) request_view. view_register storage
      (object_of ''xdg_surface'' (xdg_surface_obj (snd (snd v)))) xdg_surface_request_ack_configure [Wuint serial] v"
  have cb: "acts_as (Some (erase_overload cfg xdg_surface_event_configure (acknowledge_configure cfg storage))
      :: ('s, 'fd, 'blk window_run) world erased_overload option) m ?g"
    by (simp add: acts_as_def erase_overload_def payload acknowledge_configure_def world_register_view
        surface_appendable view_of_world_def)
  have g: "?g (fold (pong_view storage wm P) pre (n, queue storage [], u)) =
      (n, queue storage (pongs wm P pre @ [?ack]), u)"
    by (simp add: fold_pong_view [OF u(2)])
  from client_socket.until_program [OF assms(1) at _ assms(7) V cb g] assms(6) obtain w1 where
    run: "try_again ops storage (waiting_overloads cfg storage wm) (xdg_surface_obj u) 0
        (Some (erase_overload cfg xdg_surface_event_configure (acknowledge_configure cfg storage))) w = Some (w1, Value ())"
    and at1: "program_at storage sent pending n (pongs wm P pre @ [?ack]) u tr post w1"
    by auto
  obtain c1 where w1: "w1 = (c1, u)" using program_atD(1) [OF at1] by (cases w1) simp
  have c1: "next_new_id c1 = n" "request_buff c1 = queue storage (pongs wm P pre @ [?ack])"
    using program_atD(2,3) [OF at1] by (simp_all add: w1)
  let ?rs = "pongs wm P pre @ [?ack, ?attach, ?commit]"
  have a: "program_at storage sent pending n ?rs u tr post (c1\<lparr>request_buff := queue storage ?rs\<rparr>, u)"
    by (rule program_at_update [OF at1]) (simp_all add: w1 c1)
  have b: "\<forall>(obj, M, args) \<in> set ?rs. length (fds_of_args args) \<le> 7"
    using pongs_fds [of wm P pre] by (auto simp: fds_of_args_def)
  from client_socket.flush_program [OF assms(1) a b, of cfg] obtain w' where
    f: "world_flush cfg ops (c1\<lparr>request_buff := queue storage ?rs\<rparr>, u) = (w', Value ())"
    and at': "program_at storage sent pending n [] u (tr @ wire storage ?rs) post w'" by blast
  have "configure_stage cfg ops storage w = Some (w', Value ())"
    using run f u unfolding w w1
    by (simp add: configure_stage_def default_overloads_value until_message_with_def recv_and_visit_events_def
        xdg_surface_event_configure_def [THEN arg_cong [where f = msg_opcode], simplified] world_register_def
        register_queue c1 surface_appendable)
  with at' show ?thesis by blast
qed

lemma wait_for_close_event_at:
  fixes ops :: "('s, 'fd) sock_ops" and w :: "('s, 'fd, 'blk) window_world"
  assumes "client_socket ops sent pending" and at: "program_at storage sent pending n [] u tr (pre @ m # post) w"
    and u: "display_obj u = 1" "wm_base_obj u = wm" "wm \<noteq> 1"
    and "\<forall>k \<in> set pre. \<not> matches (toplevel_obj u) 1 k \<and> \<not> matches 1 0 k"
    and "matches (toplevel_obj u) 1 m" and "pinged TYPE('fd) cfg wm P pre"
    and payload: "pm_arguments m = []"
  shows "\<exists>w'. wait_for_close_event cfg ops storage w = Some (w', Value ()) \<and>
    program_at storage sent pending n (pongs wm P pre) u tr post w'"
proof -
  obtain c where w: "w = (c, u)" using program_atD(1) [OF at] by (cases w) simp
  have V: "visits_as (waiting_overloads cfg storage wm :: ('s, 'fd, 'blk) window_world message_overload_set)
      (set pre) (pong_view storage wm P)"
    using assms(6,8) by (intro waiting_visits) simp_all
  have p: "interpert_message_payload cfg xdg_toplevel_event_close [] = Value ([] :: 'fd primitive list)"
    by (simp add: interpert_message_payload_def xdg_toplevel_event_close_def field_types_def to_tuple_eq)
  have cb: "acts_as (Some (erase_overload cfg xdg_toplevel_event_close
        (\<lambda>(_ :: 'fd primitive list) w. (w, Value ())))
      :: ('s, 'fd, 'blk window_run) world erased_overload option) m (\<lambda>v. v)"
    by (simp add: acts_as_def erase_overload_def payload p)
  have "fold (pong_view storage wm P) pre (n, queue storage [], u) = (n, queue storage (pongs wm P pre), u)"
    by (simp add: fold_pong_view [OF u(2)])
  from client_socket.until_program [OF assms(1) at _ assms(7) V cb this] assms(6)
  show ?thesis
    using u unfolding w
    by (auto simp: wait_for_close_event_def default_overloads_value until_message_with_def recv_and_visit_events_def
        xdg_toplevel_event_close_def [THEN arg_cong [where f = msg_opcode], simplified])
qed

section \<open>The whole constructor\<close>

lemma bound_members_simps [simp]:
  "display_obj (bound_members ws u) = display_obj u" "registry_obj (bound_members ws u) = registry_obj u"
  "picture (bound_members ws u) = picture u" "printed (bound_members ws u) = printed u"
  "shm_obj (bound_members ws u) = bound_obj ''wl_shm'' ws (shm_obj u)"
  "compositor_obj (bound_members ws u) = bound_obj ''wl_compositor'' ws (compositor_obj u)"
  "wm_base_obj (bound_members ws u) = bound_obj ''xdg_wm_base'' ws (wm_base_obj u)"
  "wl_shm_found (bound_members ws u) \<longleftrightarrow> bound_index ''wl_shm'' ws \<noteq> None"
  "wl_compositor_found (bound_members ws u) \<longleftrightarrow> bound_index ''wl_compositor'' ws \<noteq> None"
  "xdg_wm_base_found (bound_members ws u) \<longleftrightarrow> bound_index ''xdg_wm_base'' ws \<noteq> None"
  by (simp_all add: bound_members_def)

lemma surface_members_simps [simp]:
  "display_obj (surface_members u n) = display_obj u" "wm_base_obj (surface_members u n) = wm_base_obj u"
  "buffer_obj (surface_members u n) = n + 1" "surface_obj (surface_members u n) = n + 2"
  "xdg_surface_obj (surface_members u n) = n + 3" "toplevel_obj (surface_members u n) = n + 4"
  "picture (surface_members u n) = picture u" "printed (surface_members u n) = printed u"
  by (simp_all add: surface_members_def)

lemma bound_id_not_1:
  assumes "bound_index T (wanted_globals gs) = Some k" and "length gs < 2 ^ 31"
  shows "4 + of_nat k \<noteq> (1 :: u32)"
proof
  assume "4 + of_nat k = (1 :: u32)"
  then have "of_nat (4 + k) = (1 :: u32)" by simp
  moreover have "k < length gs"
    using bound_index_less [OF assms(1)] length_wanted_globals [of gs] by simp
  then have "unat (of_nat (4 + k) :: u32) = 4 + k"
    using assms(2) by (intro unat_of_nat_u32) simp
  ultimately have "4 + k = unat (1 :: u32)" by metis
  then show False by simp
qed

text \<open>The last requests of the constructor.\<close>

definition show_requests :: "u32 \<Rightarrow> u32 \<Rightarrow> 'fd request list" where
  "show_requests n serial =
     [(object_of ''xdg_surface'' (n + 3), xdg_surface_request_ack_configure, [Wuint serial]),
      (object_of ''wl_surface'' (n + 2), wl_surface_request_attach, [Wobject (n + 1), Wint 0, Wint 0]),
      (object_of ''wl_surface'' (n + 2), wl_surface_request_commit, [])]"

lemma construct_window_at:
  fixes ops :: "('s, 'fd) sock_ops" and storage :: "nat \<Rightarrow> byte"
  assumes "client_socket ops sent pending"
    and "whole_words (ms1 @ don # ms2 @ conf # ms3)"
    and "pending sock = concat (map message_bytes (ms1 @ don # ms2 @ conf # ms3))"
    and "\<forall>k \<in> set ms1. \<not> matches 3 0 k \<and> \<not> matches 1 0 k" and "matches 3 0 don"
    and "announces TYPE('fd) cfg G ms1" and "length ms1 < 2 ^ 31"
    and ws: "ws = wanted_globals (map G (filter (matches 2 0) ms1))" and n: "n = 4 + of_nat (length ws)"
    and found: "bound_index ''wl_shm'' ws = Some a" "bound_index ''wl_compositor'' ws = Some b"
      "bound_index ''xdg_wm_base'' ws = Some c"
    and "\<forall>k \<in> set ms2. \<not> matches (n + 3) 0 k \<and> \<not> matches 1 0 k" and "matches (n + 3) 0 conf"
    and "pinged TYPE('fd) cfg (4 + of_nat c) P ms2"
    and "interpert_message_payload cfg xdg_surface_event_configure (pm_arguments conf)
      = Value [Wuint serial :: 'fd primitive]"
    and "picture_fits pic"
    and u: "u = bound_members ws (opened_members uninit pic out)"
  shows "\<exists>w. construct_window cfg ops storage block_fd (make_connected_client sock, window_members uninit pic out)
      = Some (w, Value ()) \<and>
    program_at storage sent pending (n + 5) [] (surface_members u n)
      (sent sock @ wire storage registry_requests @ wire storage (bind_requests ws) @
       wire storage (surface_requests (block_fd (pic_buff pic)) u n) @
       wire storage (pongs (4 + of_nat c) P ms2 @ show_requests n serial)) ms3 w"
proof -
  let ?wm = "4 + of_nat c :: u32"
  from initial_stage_at [where pending = pending, OF assms(1-3), of cfg storage uninit pic out] obtain w0 where
    w0: "initial_stage cfg ops storage (make_connected_client sock, window_members uninit pic out) = (w0, Value ())"
    and at0: "program_at storage sent pending 4 [] (opened_members uninit pic out)
      (sent sock @ wire storage registry_requests) (ms1 @ don # ms2 @ conf # ms3) w0" by blast
  have f: "wl_shm_found u" "wl_compositor_found u" "xdg_wm_base_found u" using found by (simp_all add: u)
  from bind_globals_stage_loop [OF assms(1) at0 assms(4-6) ws] f [unfolded u] obtain w1 where
    w1: "bind_globals_stage cfg ops storage w0 = Some (world_flush cfg ops w1)"
    and at1: "program_at storage sent pending n (bind_requests ws) u (sent sock @ wire storage registry_requests)
      (ms2 @ conf # ms3) w1" by (auto simp: n u Let_def)
  from client_socket.flush_program [OF assms(1) at1 bind_requests_fds, of cfg] obtain w2 where
    w2: "world_flush cfg ops w1 = (w2, Value ())"
    and at2: "program_at storage sent pending n [] u ((sent sock @ wire storage registry_requests) @
      wire storage (bind_requests ws)) (ms2 @ conf # ms3) w2" by blast
  have pic: "picture u = pic" by (simp add: u)
  from request_surface_stage_at [OF assms(1) at2, of cfg block_fd] assms(17) obtain w3 where
    w3: "request_surface_stage cfg ops storage block_fd w2 = (w3, Value ())"
    and at3: "program_at storage sent pending (n + 5) [] (surface_members u n)
      (((sent sock @ wire storage registry_requests) @ wire storage (bind_requests ws)) @
       wire storage (surface_requests (block_fd (pic_buff pic)) u n)) (ms2 @ conf # ms3) w3" by (auto simp: pic)
  have "length (map G (filter (matches 2 0) ms1)) < 2 ^ 31"
    using assms(7) by (simp add: le_less_trans [OF length_filter_le])
  with found(3) have wm: "?wm \<noteq> 1" unfolding ws by (intro bound_id_not_1)
  from configure_stage_at [OF assms(1) at3 _ _ wm _ _ assms(15,16)] assms(13,14) found(3) obtain w4 where
    w4: "configure_stage cfg ops storage w3 = Some (w4, Value ())"
    and at4: "program_at storage sent pending (n + 5) [] (surface_members u n)
      ((((sent sock @ wire storage registry_requests) @ wire storage (bind_requests ws)) @
       wire storage (surface_requests (block_fd (pic_buff pic)) u n)) @
       wire storage (pongs ?wm P ms2 @ show_requests n serial)) ms3 w4"
    by (auto simp: u bound_obj_def show_requests_def)
  from w0 w1 w2 w3 w4 have "construct_window cfg ops storage block_fd
      (make_connected_client sock, window_members uninit pic out) = Some (w4, Value ())"
    by (simp add: construct_window_def)
  with at4 show ?thesis by (auto simp only: append_assoc)
qed

end
