(* ===== verification/Picture_Properties.thy ===== *)
theory Picture_Properties
  imports Picture_Session
begin

text \<open>
  The properties of the program \<^verbatim>\<open>display_static_picture\<close>: what a whole run sends and shows, what it does
  with pings while it waits, and how it ends when a global is missing.
\<close>

section \<open>Sessions\<close>

text \<open>The messages of the server in a run, up to each message the program waits for.\<close>

record server_session =
  before_done :: "parsed_message list"
  done_event :: parsed_message
  before_configure :: "parsed_message list"
  configure_event :: parsed_message
  before_close :: "parsed_message list"
  close_event :: parsed_message
  after_close :: "parsed_message list"

definition session_messages :: "server_session \<Rightarrow> parsed_message list" where
  "session_messages s = before_done s @ done_event s # before_configure s @ configure_event s #
     before_close s @ close_event s # after_close s"

text \<open>
  The globals the program binds, the first id after theirs, and the id of the \<^verbatim>\<open>xdg_wm_base\<close>, when \<open>G\<close>
  gives what the announcements say.
\<close>

definition session_globals :: "(parsed_message \<Rightarrow> global_event) \<Rightarrow> server_session \<Rightarrow> global_event list" where
  "session_globals G s = wanted_globals (map G (filter (matches 2 0) (before_done s)))"

definition first_free_id :: "global_event list \<Rightarrow> u32" where
  "first_free_id ws = 4 + of_nat (length ws)"

definition wm_base_id :: "global_event list \<Rightarrow> u32" where
  "wm_base_id ws = bound_obj ''xdg_wm_base'' ws 0"

text \<open>
  A session as the program expects it: no fatal error, each awaited message is the first of its kind,
  the three globals are announced, and the payloads the program reads are those of their types. Any
  other messages may stand in between.
\<close>

definition session_ok ::
  "'fd itself \<Rightarrow> build \<Rightarrow> (parsed_message \<Rightarrow> global_event) \<Rightarrow> (parsed_message \<Rightarrow> u32) \<Rightarrow> u32 \<Rightarrow>
     server_session \<Rightarrow> bool" where
  "session_ok fd cfg G P serial s \<longleftrightarrow>
     (let ws = session_globals G s; n = first_free_id ws
      in whole_words (session_messages s) \<and> length (before_done s) < 2 ^ 31 \<and>
         (\<forall>k \<in> set (before_done s @ before_configure s @ before_close s). \<not> matches 1 0 k) \<and>
         (\<forall>k \<in> set (before_done s). \<not> matches 3 0 k) \<and> matches 3 0 (done_event s) \<and>
         (\<forall>k \<in> set (before_configure s). \<not> matches (n + 3) 0 k) \<and> matches (n + 3) 0 (configure_event s) \<and>
         (\<forall>k \<in> set (before_close s). \<not> matches (n + 4) 1 k) \<and> matches (n + 4) 1 (close_event s) \<and>
         pm_arguments (close_event s) = [] \<and>
         announces fd cfg G (before_done s) \<and>
         pinged fd cfg (wm_base_id ws) P (before_configure s) \<and> pinged fd cfg (wm_base_id ws) P (before_close s) \<and>
         interpert_message_payload cfg xdg_surface_event_configure (pm_arguments (configure_event s))
           = Value [Wuint serial :: 'fd primitive] \<and>
         (\<forall>T \<in> {''wl_shm'', ''wl_compositor'', ''xdg_wm_base''}. bound_index T ws \<noteq> None))"

text \<open>What the program sends, one list for each flush.\<close>

definition session_flushes ::
  "'fd \<Rightarrow> 'blk static_picture \<Rightarrow> (parsed_message \<Rightarrow> global_event) \<Rightarrow> (parsed_message \<Rightarrow> u32) \<Rightarrow> u32 \<Rightarrow>
     server_session \<Rightarrow> 'fd request list list" where
  "session_flushes fd pic G P serial s =
     (let ws = session_globals G s; n = first_free_id ws;
          u = bound_members ws (opened_members (\<lambda>_. 0) pic [])
      in [[(global_display_object, wl_display_request_get_registry, [Wnew_id 2]),
           (global_display_object, wl_display_request_sync, [Wnew_id 3])],
          bind_requests ws,
          surface_requests fd u n,
          pongs (wm_base_id ws) P (before_configure s) @ show_requests n serial])"

lemma surface_requests_cong:
  assumes "bound_index ''wl_shm'' ws \<noteq> None" "bound_index ''wl_compositor'' ws \<noteq> None"
    "bound_index ''xdg_wm_base'' ws \<noteq> None"
  shows "surface_requests fd (bound_members ws (opened_members uninit pic out)) n =
    surface_requests fd (bound_members ws (opened_members uninit' pic out')) n"
  using assms by (auto simp: surface_requests_def bound_obj_def)

text \<open>What a run sends, with the members the window has when it requests its surface.\<close>

lemma session_flushes_wired:
  assumes "bound_index ''wl_shm'' (session_globals G s) \<noteq> None" "bound_index ''wl_compositor'' (session_globals G s) \<noteq> None"
    "bound_index ''xdg_wm_base'' (session_globals G s) \<noteq> None"
  shows "wire storage registry_requests @ wire storage (bind_requests (session_globals G s)) @
      wire storage (surface_requests fd (bound_members (session_globals G s) (opened_members uninit pic out))
        (first_free_id (session_globals G s))) @
      wire storage (pongs (wm_base_id (session_globals G s)) P (before_configure s) @
        show_requests (first_free_id (session_globals G s)) serial) =
    concat (map (wire storage) (session_flushes fd pic G P serial s))"
  using surface_requests_cong [OF assms, of fd uninit pic out _ "\<lambda>_. 0" "[]"]
  by (simp add: session_flushes_def Let_def)

lemma session_constructed:
  fixes ops :: "('s, 'fd) sock_ops" and storage :: "nat \<Rightarrow> byte"
  assumes "client_socket ops sent pending"
    and "pending sock = concat (map message_bytes (session_messages s))"
    and ok: "session_ok TYPE('fd) cfg G P serial s" and "picture_fits pic"
  shows "\<exists>w. construct_window cfg ops storage block_fd (make_connected_client sock, window_members uninit pic out)
      = Some (w, Value ()) \<and>
    program_at storage sent pending (first_free_id (session_globals G s) + 5) []
      (surface_members (bound_members (session_globals G s) (opened_members uninit pic out))
        (first_free_id (session_globals G s)))
      (sent sock @ concat (map (wire storage) (session_flushes (block_fd (pic_buff pic)) pic G P serial s)))
      (before_close s @ close_event s # after_close s) w"
proof -
  define ws where "ws = session_globals G s"
  note ok' = ok [unfolded session_ok_def Let_def, folded ws_def]
  obtain a b c where found: "bound_index ''wl_shm'' ws = Some a" "bound_index ''wl_compositor'' ws = Some b"
      "bound_index ''xdg_wm_base'' ws = Some c"
    using ok' by auto
  have wm: "wm_base_id ws = 4 + of_nat c" by (simp add: wm_base_id_def bound_obj_def found)
  have flushes: "wire storage registry_requests @ wire storage (bind_requests ws) @
      wire storage (surface_requests (block_fd (pic_buff pic)) (bound_members ws (opened_members uninit pic out))
        (first_free_id ws)) @
      wire storage (pongs (4 + of_nat c) P (before_configure s) @ show_requests (first_free_id ws) serial) =
    concat (map (wire storage) (session_flushes (block_fd (pic_buff pic)) pic G P serial s))"
    using session_flushes_wired [of G s] found by (simp add: ws_def wm [unfolded ws_def])
  show ?thesis
    unfolding ws_def [symmetric] flushes [symmetric]
    using ok' assms(2,4) wm
    by (intro construct_window_at [OF assms(1) _ _ _ _ _ _ _ _ found, where G = G and ?ms1.0 = "before_done s"
        and ?ms2.0 = "before_configure s" and don = "done_event s" and conf = "configure_event s"])
      (simp_all add: session_messages_def session_globals_def ws_def first_free_id_def)
qed

lemma session_run:
  fixes ops :: "('s, 'fd) sock_ops" and storage :: "nat \<Rightarrow> byte"
  assumes "client_socket ops sent pending"
    and "pending sock = concat (map message_bytes (session_messages s))"
    and ok: "session_ok TYPE('fd) cfg G P serial s" and "picture_fits pic"
  shows "\<exists>w. run_bind (construct_window cfg ops storage block_fd
        (make_connected_client sock, window_members uninit pic out)) (\<lambda>_ w. wait_for_close_event cfg ops storage w)
      = Some (w, Value ()) \<and>
    program_at storage sent pending (first_free_id (session_globals G s) + 5)
      (pongs (wm_base_id (session_globals G s)) P (before_close s))
      (surface_members (bound_members (session_globals G s) (opened_members uninit pic out))
        (first_free_id (session_globals G s)))
      (sent sock @ concat (map (wire storage) (session_flushes (block_fd (pic_buff pic)) pic G P serial s)))
      (after_close s) w"
proof -
  note ok' = ok [unfolded session_ok_def Let_def]
  obtain c where c: "bound_index ''xdg_wm_base'' (session_globals G s) = Some c" using ok' by auto
  have wm: "wm_base_id (session_globals G s) = 4 + of_nat c" by (simp add: wm_base_id_def bound_obj_def c)
  from session_constructed [OF assms, of storage block_fd uninit out] obtain w where
    run: "construct_window cfg ops storage block_fd (make_connected_client sock, window_members uninit pic out)
      = Some (w, Value ())"
    and at: "program_at storage sent pending (first_free_id (session_globals G s) + 5) []
      (surface_members (bound_members (session_globals G s) (opened_members uninit pic out))
        (first_free_id (session_globals G s)))
      (sent sock @ concat (map (wire storage) (session_flushes (block_fd (pic_buff pic)) pic G P serial s)))
      (before_close s @ close_event s # after_close s) w" by blast
  have "length (map G (filter (matches 2 0) (before_done s))) < 2 ^ 31"
    using ok' by (simp add: le_less_trans [OF length_filter_le])
  with c have "4 + of_nat c \<noteq> (1 :: u32)" unfolding session_globals_def by (intro bound_id_not_1)
  then show ?thesis
    using wait_for_close_event_at [OF assms(1) at, where wm = "4 + of_nat c" and P = P and cfg = cfg] ok' wm c run
    by (auto simp: bound_obj_def)
qed

section \<open>An example session\<close>

text \<open>What the payload of an event says.\<close>

definition global_payload :: "parsed_message \<Rightarrow> global_event" where
  "global_payload m =
     (case interpert_message_payload \<lparr>ndebug = False, checked_subscript = True\<rparr> wl_registry_event_global (pm_arguments m)
        :: nat primitive list outcome of
        Value [Wuint name, Wstring interface, Wuint version] \<Rightarrow> (name, interface, version)
      | _ \<Rightarrow> (0, [], 0))"

definition serial_payload :: "parsed_message \<Rightarrow> u32" where
  "serial_payload m =
     (case interpert_message_payload \<lparr>ndebug = False, checked_subscript = True\<rparr> xdg_wm_base_event_ping (pm_arguments m)
        :: nat primitive list outcome of
        Value [Wuint serial] \<Rightarrow> serial
      | _ \<Rightarrow> 0)"

definition example_global :: "u32 \<Rightarrow> string \<Rightarrow> parsed_message" where
  "example_global name T = \<lparr>pm_object_id = 2, pm_opcode = 0, pm_arguments =
     enc_args (\<lambda>_. 0) 0 [Wuint name, Wstring (u8_literal T), Wuint 1 :: nat primitive]\<rparr>"

definition example_serial :: "u32 \<Rightarrow> u32 \<Rightarrow> parsed_message" where
  "example_serial i serial = \<lparr>pm_object_id = i, pm_opcode = 0, pm_arguments =
     enc_args (\<lambda>_. 0) 0 [Wuint serial :: nat primitive]\<rparr>"

definition example_session :: server_session where
  "example_session =
     \<lparr>before_done = [example_global 1 ''wl_shm'', example_global 2 ''wl_compositor'', example_global 3 ''xdg_wm_base''],
      done_event = sync_done,
      before_configure = [example_serial 6 70], configure_event = example_serial 10 71,
      before_close = [example_serial 6 72],
      close_event = \<lparr>pm_object_id = 11, pm_opcode = 1, pm_arguments = []\<rparr>,
      after_close = []\<rparr>"

abbreviation "checked_build \<equiv> \<lparr>ndebug = False, checked_subscript = True\<rparr>"

lemma example_payloads:
  "length T < 20 \<Longrightarrow> interpert_message_payload cfg wl_registry_event_global (pm_arguments (example_global name T))
    = Value [Wuint name, Wstring (u8_literal T), Wuint 1 :: nat primitive]"
  "interpert_message_payload cfg xdg_wm_base_event_ping (pm_arguments (example_serial i serial))
    = Value [Wuint serial :: nat primitive]"
  "interpert_message_payload cfg xdg_surface_event_configure (pm_arguments (example_serial i serial))
    = Value [Wuint serial :: nat primitive]"
  unfolding example_global_def example_serial_def parsed_message.simps
  by (rule interpert_enc_args, simp add: wire_simps wl_registry_event_global_def xdg_wm_base_event_ping_def
      xdg_surface_event_configure_def u8_literal_def)+

lemma example_global_payload [simp]:
  "length T < 20 \<Longrightarrow> global_payload (example_global name T) = (name, u8_literal T, 1)"
  by (simp add: global_payload_def example_payloads)

lemma example_serial_payload [simp]: "serial_payload (example_serial i serial) = serial"
  by (simp add: serial_payload_def example_payloads)

lemma example_matches [simp]:
  "matches i oc (example_global name T) \<longleftrightarrow> i = 2 \<and> oc = 0"
  "matches i oc (example_serial j serial) \<longleftrightarrow> i = j \<and> oc = 0"
  "matches i oc \<lparr>pm_object_id = j, pm_opcode = k, pm_arguments = bs\<rparr> \<longleftrightarrow> i = j \<and> oc = k"
  by (auto simp: matches_def example_global_def example_serial_def)

lemma example_globals:
  "wanted_globals [(1, u8_literal ''wl_shm'', 1), (2, u8_literal ''wl_compositor'', 1), (3, u8_literal ''xdg_wm_base'', 1)]
    = [(1, u8_literal ''wl_shm'', 1), (2, u8_literal ''wl_compositor'', 1), (3, u8_literal ''xdg_wm_base'', 1)]"
  "bound_index ''wl_shm'' [(1, u8_literal ''wl_shm'', 1), (2, u8_literal ''wl_compositor'', 1), (3, u8_literal ''xdg_wm_base'', 1)] = Some 0"
  "bound_index ''wl_compositor'' [(1, u8_literal ''wl_shm'', 1), (2, u8_literal ''wl_compositor'', 1), (3, u8_literal ''xdg_wm_base'', 1)] = Some 1"
  "bound_index ''xdg_wm_base'' [(1, u8_literal ''wl_shm'', 1), (2, u8_literal ''wl_compositor'', 1), (3, u8_literal ''xdg_wm_base'', 1)] = Some 2"
  by (simp_all add: wanted_globals_def is_wanted_def bound_index_def wanted_literals wanted_literals [symmetric]
      upt_conv_Cons)

lemma example_session_globals:
  "session_globals global_payload example_session =
    [(1, u8_literal ''wl_shm'', 1), (2, u8_literal ''wl_compositor'', 1), (3, u8_literal ''xdg_wm_base'', 1)]"
  by (simp add: session_globals_def example_session_def example_globals)

lemma example_whole: "whole_words (session_messages example_session)"
  by (simp add: session_messages_def example_session_def whole_words_def fits_def wire_sizes_def
      example_global_def example_serial_def sync_done_def u8_literal_def pad_of_eq)

lemma example_session_ok:
  "session_ok TYPE(nat) cfg global_payload serial_payload 71 example_session"
  using example_whole
  unfolding session_ok_def Let_def example_session_globals first_free_id_def wm_base_id_def bound_obj_def
  by (simp add: example_globals example_session_def example_events
      announces_def pinged_def example_payloads)

text \<open>The smallest picture, and its environment.\<close>

lemma smallest_carpet:
  "draw_carpet checked_build list_memory
      [''RECURSIONS'' \<mapsto> ''0'', ''BASE_LENGTH'' \<mapsto> ''1'', ''WAYLAND_DISPLAY'' \<mapsto> ''/w''] =
    (fst (draw_carpet checked_build list_memory
      [''RECURSIONS'' \<mapsto> ''0'', ''BASE_LENGTH'' \<mapsto> ''1'', ''WAYLAND_DISPLAY'' \<mapsto> ''/w'']),
     Value \<lparr>pic_width = 1, pic_height = 1, pic_buff = 4, pic_bytes = [0, 255, 0, 255]\<rparr>)"
proof -
  have "snd (draw_carpet checked_build list_memory
      [''RECURSIONS'' \<mapsto> ''0'', ''BASE_LENGTH'' \<mapsto> ''1'', ''WAYLAND_DISPLAY'' \<mapsto> ''/w'']) =
    Value \<lparr>pic_width = 1, pic_height = 1, pic_buff = 4, pic_bytes = [0, 255, 0, 255]\<rparr>" by code_simp
  then show ?thesis by (metis prod.collapse)
qed

lemma smallest_carpet_fits:
  "picture_fits \<lparr>pic_width = 1, pic_height = 1, pic_buff = (4 :: int), pic_bytes = [0, 255, 0, 255]\<rparr>"
  by (simp add: picture_fits_def is_int_def)

section \<open>Properties\<close>

text \<open>
  C18: a whole run of \<^verbatim>\<open>main\<close>. Once the picture is drawn and the socket is open, a session as expected
  makes the program bind the announced globals with the ids 4, 5, ..., create the buffer of the
  picture and the toplevel surface with the ids after them, answer the pings it got before the first
  configure event, acknowledge that event, attach the buffer and commit, in exactly these four
  flushes, and return at the close event, however the socket cuts the server's messages.
\<close>

theorem main_shows_the_picture:
  fixes ops :: "('s, 'fd) sock_ops"
  assumes "client_socket ops sent pending"
    and "pending sock = concat (map message_bytes (session_messages s))"
    and "session_ok TYPE('fd) cfg G P serial s"
    and "draw_carpet cfg mem getenv = (out, Value pic)" and "picture_fits pic"
    and "wayland_socket_path getenv = Value path" and "open_local_stream_socket path = Value sock"
  shows "\<exists>w. display_static_picture_main cfg ops storage uninit mem block_fd getenv open_local_stream_socket
      = Some ((out, Some w), Value ()) \<and>
    sent (server_sock (fst w)) =
      sent sock @ concat (map (wire storage) (session_flushes (block_fd (pic_buff pic)) pic G P serial s)) \<and>
    recv_buff (fst w) @ pending (server_sock (fst w)) = concat (map message_bytes (after_close s)) \<and>
    picture (snd w) = pic"
  using session_run [OF assms(1-3,5), of storage block_fd uninit out] assms(4,6,7)
  by (auto simp: display_static_picture_main_def connect_client_def program_at_def view_of_world_def)

theorem main_shows_the_picture_witness:
  "\<exists>w out. display_static_picture_main checked_build list_socket_ops (\<lambda>_. 0) (\<lambda>_. 0) list_memory nat
      [''RECURSIONS'' \<mapsto> ''0'', ''BASE_LENGTH'' \<mapsto> ''1'', ''WAYLAND_DISPLAY'' \<mapsto> ''/w'']
      (\<lambda>_. Value (list_socket (concat (map message_bytes (session_messages example_session))) :: nat list_socket))
      = Some ((out, Some w), Value ()) \<and> pic_width (picture (snd w)) = 1"
proof -
  let ?env = "[''RECURSIONS'' \<mapsto> ''0'', ''BASE_LENGTH'' \<mapsto> ''1'', ''WAYLAND_DISPLAY'' \<mapsto> ''/w'']"
  have path: "wayland_socket_path ?env = Value ''/w''" by (simp add: wayland_socket_path_def is_absolute_def)
  show ?thesis
    using main_shows_the_picture [OF list_client.client_socket_axioms _ example_session_ok smallest_carpet smallest_carpet_fits path,
        where sock = "list_socket (concat (map message_bytes (session_messages example_session)))"
        and storage = "\<lambda>_. 0" and block_fd = nat and uninit = "\<lambda>_. 0" and open_local_stream_socket =
          "\<lambda>_. Value (list_socket (concat (map message_bytes (session_messages example_session))))"]
    by auto
qed

text \<open>
  C34: while the program waits for the close event it sends nothing. The answers to the pings of that time
  are registered, in order, and are still in the request buffer when the wait ends: nothing flushes
  them, so the compositor never gets them.
\<close>

theorem pings_while_waiting_are_never_answered:
  fixes ops :: "('s, 'fd) sock_ops"
  assumes "client_socket ops sent pending"
    and "program_at storage sent pending n [] u tr (pre @ m # post) w"
    and "display_obj u = 1" "wm_base_obj u = wm" "wm \<noteq> 1"
    and "\<forall>k \<in> set pre. \<not> matches (toplevel_obj u) 1 k \<and> \<not> matches 1 0 k"
    and "matches (toplevel_obj u) 1 m" and "pinged TYPE('fd) cfg wm P pre" and "pm_arguments m = []"
  shows "\<exists>w'. wait_for_close_event cfg ops storage w = Some (w', Value ()) \<and>
    sent (server_sock (fst w')) = sent (server_sock (fst w)) \<and>
    request_buff (fst w') = queue storage (pongs wm P pre) \<and>
    (has_registered_requests (fst w') \<longleftrightarrow> (\<exists>k \<in> set pre. matches wm 0 k))"
proof -
  obtain w' where w': "wait_for_close_event cfg ops storage w = Some (w', Value ())"
    and at: "program_at storage sent pending n (pongs wm P pre) u tr post w'"
    using wait_for_close_event_at [OF assms] by blast
  have "pongs wm P pre = [] \<longleftrightarrow> \<not> (\<exists>k \<in> set pre. matches wm 0 k)"
    by (auto simp: pongs_def filter_empty_conv)
  with w' at assms(2) show ?thesis
    by (auto simp: program_at_def view_of_world_def has_registered_requests_def queue_buffer_empty)
qed

theorem pings_while_waiting_are_never_answered_witness:
  "\<exists>w. wait_for_close_event checked_build list_socket_ops (\<lambda>_. 0)
      (make_connected_client (list_socket (concat (map message_bytes (before_close example_session @
          [close_event example_session]))) :: nat list_socket),
        window_members (\<lambda>n. if n = 7 then 6 else 11) \<lparr>pic_width = 1, pic_height = 1, pic_buff = (), pic_bytes = []\<rparr> [])
      = Some (w, Value ()) \<and> has_registered_requests (fst w)"
    (is "\<exists>w. wait_for_close_event _ _ _ (make_connected_client ?sock, ?u) = _ \<and> _")
proof -
  have at: "program_at (\<lambda>_. 0) outgoing incoming 2 [] ?u (outgoing ?sock)
      (before_close example_session @ close_event example_session # []) (make_connected_client ?sock, ?u)"
    by (rule program_at_start)
      (use example_whole in \<open>simp_all add: session_messages_def whole_words_def\<close>)
  show ?thesis
    using pings_while_waiting_are_never_answered [OF list_client.client_socket_axioms at,
        where wm = 6 and P = serial_payload and cfg = checked_build]
    by (auto simp: window_members_def example_session_def global_display_object_def pinged_def example_payloads)
qed

text \<open>
  C36: when the answer to the \<^verbatim>\<open>sync\<close> comes before all three globals have been announced, the program says which
  it found and exits with status 1. The bind requests of those it did find are not sent.
\<close>

theorem missing_global_ends_the_program:
  fixes ops :: "('s, 'fd) sock_ops"
  assumes "client_socket ops sent pending" and "whole_words (pre @ m # post)"
    and "pending sock = concat (map message_bytes (pre @ m # post))"
    and "\<forall>k \<in> set pre. \<not> matches 3 0 k \<and> \<not> matches 1 0 k" and "matches 3 0 m"
    and "announces TYPE('fd) cfg G pre"
    and ws: "ws = wanted_globals (map G (filter (matches 2 0) pre))"
    and "\<exists>T \<in> {''wl_shm'', ''wl_compositor'', ''xdg_wm_base''}. bound_index T ws = None"
  shows "\<exists>w. construct_window cfg ops storage block_fd (make_connected_client sock, window_members uninit pic out)
      = Some (w, Exited 1) \<and>
    printed (snd w) = out @ [''fatal error: not all wanted globals found!'',
      ''found (wl_shm, wl_compositor, xdg_wm_base): ('' @ format_bool (bound_index ''wl_shm'' ws \<noteq> None) @ '', '' @
      format_bool (bound_index ''wl_compositor'' ws \<noteq> None) @ '', '' @
      format_bool (bound_index ''xdg_wm_base'' ws \<noteq> None) @ '')''] \<and>
    sent (server_sock (fst w)) = sent sock @ wire storage
      [(global_display_object, wl_display_request_get_registry, [Wnew_id 2]),
       (global_display_object, wl_display_request_sync, [Wnew_id 3])] \<and>
    request_buff (fst w) = queue storage (bind_requests ws)"
proof -
  from initial_stage_at [where pending = pending, OF assms(1-3), of cfg storage uninit pic out] obtain w0 where
    w0: "initial_stage cfg ops storage (make_connected_client sock, window_members uninit pic out) = (w0, Value ())"
    and at0: "program_at storage sent pending 4 [] (opened_members uninit pic out)
      (sent sock @ wire storage registry_requests) (pre @ m # post) w0" by blast
  let ?u = "bound_members ws (opened_members uninit pic out)"
  have "\<not> (wl_shm_found ?u \<and> wl_compositor_found ?u \<and> xdg_wm_base_found ?u)" using assms(8) by auto
  with bind_globals_stage_loop [OF assms(1) at0 assms(4-6) ws] obtain w1 where
    "bind_globals_stage cfg ops storage w0 = Some (print_lines (missing_lines ?u) w1, Exited 1)"
    and at1: "program_at storage sent pending (4 + of_nat (length ws)) (bind_requests ws) ?u
      (sent sock @ wire storage registry_requests) post w1" by (auto simp: Let_def)
  with w0 have "construct_window cfg ops storage block_fd (make_connected_client sock, window_members uninit pic out)
      = Some (print_lines (missing_lines ?u) w1, Exited 1)"
    by (simp add: construct_window_def)
  with at1 show ?thesis
    by (simp add: program_at_def view_of_world_def print_lines_def missing_lines_def)
qed

theorem missing_global_ends_the_program_witness:
  "\<exists>w. construct_window checked_build list_socket_ops (\<lambda>_. 0) (\<lambda>_. 0)
      (make_connected_client (list_socket (message_bytes shm_global @ message_bytes sync_done) :: nat list_socket),
        window_members (\<lambda>_. 0) \<lparr>pic_width = 1, pic_height = 1, pic_buff = (), pic_bytes = []\<rparr> [])
      = Some (w, Exited 1) \<and>
    printed (snd w) = [''fatal error: not all wanted globals found!'',
      ''found (wl_shm, wl_compositor, xdg_wm_base): (true, false, false)'']"
proof -
  let ?ws = "[(1, u8_literal ''wl_shm'', 2)] :: global_event list"
  have ws: "?ws = wanted_globals (map (\<lambda>_. (1, u8_literal ''wl_shm'', 2)) (filter (matches 2 0) [shm_global]))"
    by (simp add: wanted_globals_def is_wanted_def example_events)
  have b: "bound_index ''wl_shm'' ?ws = Some 0" "bound_index ''wl_compositor'' ?ws = None"
    "bound_index ''xdg_wm_base'' ?ws = None"
    by (simp_all add: bound_index_def wanted_literals [symmetric])
  show ?thesis
    using missing_global_ends_the_program [OF list_client.client_socket_axioms _ _ _ _ shm_announced ws,
        where sock = "list_socket (message_bytes shm_global @ message_bytes sync_done)" and m = sync_done
        and post = "[]" and storage = "\<lambda>_. 0" and out = "[]" and cfg = checked_build and block_fd = "\<lambda>_. 0"
        and uninit = "\<lambda>_. 0" and pic = "\<lparr>pic_width = 1, pic_height = 1, pic_buff = (), pic_bytes = []\<rparr>"]
    by (auto simp: example_events b format_bool_def)
qed

end
