(* ===== verification/Wayland_Xml.thy ===== *)
theory Wayland_Xml
  imports Cpp_Int
begin

text \<open>
  The input of the header generator \<^verbatim>\<open>generate_cxx_header_from_wayland_xml.py\<close> and the Python it is
  written with: XML elements as \<^verbatim>\<open>lxml\<close> presents them, the exceptions of the script, list
  comprehensions over functions that may raise, \<^verbatim>\<open>int\<close> on text. Text is ASCII.
\<close>

section \<open>Exceptions\<close>

datatype py_error =
    Assertion_error string
  | Py_runtime_error string
  | Key_error string
  | Value_error string
  | Attribute_error string

type_synonym 'a py = "py_error + 'a"

fun py_bind :: "'a py \<Rightarrow> ('a \<Rightarrow> 'b py) \<Rightarrow> 'b py" where
  "py_bind (Inl e) f = Inl e"
| "py_bind (Inr x) f = f x"

lemma py_bind_Inr [simp]: "py_bind r f = Inr y \<longleftrightarrow> (\<exists>x. r = Inr x \<and> f x = Inr y)"
  by (cases r) simp_all

lemma py_bind_cong [fundef_cong]:
  "r = r' \<Longrightarrow> (\<And>x. r' = Inr x \<Longrightarrow> f x = f' x) \<Longrightarrow> py_bind r f = py_bind r' f'"
  by (cases r') simp_all

text \<open>\<^verbatim>\<open>[f(x) for x in xs]\<close>: the first exception ends it.\<close>

fun py_map :: "('a \<Rightarrow> 'b py) \<Rightarrow> 'a list \<Rightarrow> 'b list py" where
  "py_map f [] = Inr []"
| "py_map f (x # xs) = py_bind (f x) (\<lambda>y. py_bind (py_map f xs) (\<lambda>ys. Inr (y # ys)))"

lemma py_map_Inr: "py_map f xs = Inr ys \<longleftrightarrow> list_all2 (\<lambda>x y. f x = Inr y) xs ys"
  by (induction xs arbitrary: ys) (auto simp: list_all2_Cons1)

lemma py_map_source: "py_map f xs = Inr ys \<Longrightarrow> y \<in> set ys \<Longrightarrow> \<exists>x \<in> set xs. f x = Inr y"
  by (induction xs arbitrary: ys) auto

lemma py_map_map: "(\<And>x. x \<in> set xs \<Longrightarrow> f (g x) = Inr (h x)) \<Longrightarrow> py_map f (map g xs) = Inr (map h xs)"
  by (induction xs) simp_all

definition py_assert :: "bool \<Rightarrow> string \<Rightarrow> unit py" where
  "py_assert b message = (if b then Inr () else Inl (Assertion_error message))"

text \<open>\<^verbatim>\<open>[y for x in xs for y in f(x)]\<close>.\<close>

definition py_concat_map :: "('a \<Rightarrow> 'b list py) \<Rightarrow> 'a list \<Rightarrow> 'b list py" where
  "py_concat_map f xs = py_bind (py_map f xs) (\<lambda>yss. Inr (concat yss))"

text \<open>An optional text counts as true when it is there and not empty.\<close>

fun truthy :: "string option \<Rightarrow> bool" where
  "truthy None \<longleftrightarrow> False"
| "truthy (Some s) \<longleftrightarrow> s \<noteq> []"

lemma truthy_iff: "truthy s \<longleftrightarrow> s \<noteq> None \<and> s \<noteq> Some []"
  by (cases s) simp_all

section \<open>Elements\<close>

text \<open>
  An element with \<^verbatim>\<open>node.tag\<close>, \<^verbatim>\<open>node.attrib\<close>, \<^verbatim>\<open>node.text\<close> (the text before the first child) and the
  children. Comments are children too, until they are removed: they have no attribute and no child,
  and their tag is no text, so that it equals none.
\<close>

datatype xml =
    Element string "(string \<times> string) list" "string option" "xml list"
  | Comment string

fun has_tag :: "string \<Rightarrow> xml \<Rightarrow> bool" where
  "has_tag t (Element tag _ _ _) \<longleftrightarrow> tag = t"
| "has_tag t (Comment _) \<longleftrightarrow> False"

fun children_of :: "xml \<Rightarrow> xml list" where
  "children_of (Element _ _ _ children) = children"
| "children_of (Comment _) = []"

fun text_of :: "xml \<Rightarrow> string option" where
  "text_of (Element _ _ words _) = words"
| "text_of (Comment c) = Some c"

text \<open>\<^verbatim>\<open>node.attrib.get(key)\<close> and \<^verbatim>\<open>node.attrib[key]\<close>.\<close>

fun attrib_get :: "xml \<Rightarrow> string \<Rightarrow> string option" where
  "attrib_get (Element _ attribs _ _) key = map_of attribs key"
| "attrib_get (Comment _) key = None"

definition attrib :: "xml \<Rightarrow> string \<Rightarrow> string py" where
  "attrib node key = (case attrib_get node key of None \<Rightarrow> Inl (Key_error key) | Some v \<Rightarrow> Inr v)"

lemma attrib_Inr: "attrib node key = Inr v \<longleftrightarrow> attrib_get node key = Some v"
  by (simp add: attrib_def split: option.split)

fun is_comment :: "xml \<Rightarrow> bool" where
  "is_comment (Comment _) \<longleftrightarrow> True"
| "is_comment (Element _ _ _ _) \<longleftrightarrow> False"

text \<open>Every comment below a node is removed from its parent.\<close>

primrec without_comments :: "xml \<Rightarrow> xml" where
  "without_comments (Element tag attribs words children) =
     Element tag attribs words (filter (\<lambda>c. \<not> is_comment c) (map without_comments children))"
| "without_comments (Comment c) = Comment c"

primrec comment_free :: "xml \<Rightarrow> bool" where
  "comment_free (Element tag attribs words children) \<longleftrightarrow> list_all comment_free children"
| "comment_free (Comment c) \<longleftrightarrow> False"

lemma is_comment_without [simp]: "is_comment (without_comments x) \<longleftrightarrow> is_comment x"
  by (cases x) simp_all

lemma without_comments_free: "\<not> is_comment x \<Longrightarrow> comment_free (without_comments x)"
  by (induction x) (auto simp: list_all_iff)

lemma comment_free_without: "comment_free x \<Longrightarrow> without_comments x = x"
proof (induction x)
  case (Element tag attribs words children)
  have "comment_free c \<Longrightarrow> \<not> is_comment c" for c by (cases c) simp_all
  with Element show ?case by (auto simp: list_all_iff filter_id_conv map_idI)
qed simp

text \<open>
  A document: its root element and the comments beside it. \<^verbatim>\<open>root.xpath('//comment()')\<close> finds all
  comments of the document; those beside the root have no parent to be removed from.
\<close>

record xml_document =
  outer_comments :: "string list"
  document_root :: xml

definition remove_comment_nodes :: "xml_document \<Rightarrow> xml py" where
  "remove_comment_nodes d =
     (if outer_comments d = [] then Inr (without_comments (document_root d))
      else Inl (Attribute_error ''NoneType has no attribute remove''))"

section \<open>int() on text\<close>

text \<open>
  The white space \<^verbatim>\<open>str.lstrip\<close> removes, of the ASCII characters, and the one \<^verbatim>\<open>int\<close> passes over at both
  ends of a literal.
\<close>

definition py_space :: "char \<Rightarrow> bool" where
  "py_space c \<longleftrightarrow> is_space c \<or> (28 \<le> (of_char c :: nat) \<and> (of_char c :: nat) \<le> 31)"

definition lstrip :: "string \<Rightarrow> string" where
  "lstrip s = dropWhile py_space s"


definition trim :: "string \<Rightarrow> string" where
  "trim s = rev (dropWhile is_space (rev (dropWhile is_space s)))"

definition digit_value :: "char \<Rightarrow> nat option" where
  "digit_value c =
     (let n = of_char c
      in if 48 \<le> n \<and> n \<le> 57 then Some (n - 48)
         else if 65 \<le> n \<and> n \<le> 90 then Some (n - 55)
         else if 97 \<le> n \<and> n \<le> 122 then Some (n - 87)
         else None)"

text \<open>
  The digits of a literal, from a digit on, with single underscores between them; \<open>acc\<close> is the
  value of the digits before.
\<close>

fun digits_in_base :: "nat \<Rightarrow> int \<Rightarrow> string \<Rightarrow> int option" where
  "digits_in_base b acc [] = None"
| "digits_in_base b acc (c # cs) =
     (case digit_value c of
        None \<Rightarrow> None
      | Some d \<Rightarrow>
          if b \<le> d then None
          else
            (let acc = int b * acc + int d
             in case cs of
                  [] \<Rightarrow> Some acc
                | c' # cs' \<Rightarrow> digits_in_base b acc (if c' = CHR ''_'' then cs' else cs)))"

declare digits_in_base.simps [simp del]

definition base_prefix :: "string \<Rightarrow> nat option" where
  "base_prefix s =
     (if s \<in> {''0x'', ''0X''} then Some 16
      else if s \<in> {''0o'', ''0O''} then Some 8
      else if s \<in> {''0b'', ''0B''} then Some 2
      else None)"

text \<open>
  With base 0 the literal has the base of its prefix; without one it is decimal and may begin with
  \<^verbatim>\<open>0\<close> only when it is zero.
\<close>

fun unsigned_literal :: "nat \<Rightarrow> string \<Rightarrow> int option" where
  "unsigned_literal b s =
     (if b \<noteq> 0 then digits_in_base b 0 s
      else case base_prefix (take 2 s) of
          Some p \<Rightarrow> digits_in_base p 0 (if take 1 (drop 2 s) = ''_'' then drop 3 s else drop 2 s)
        | None \<Rightarrow>
            (case digits_in_base 10 0 s of
               None \<Rightarrow> None
             | Some v \<Rightarrow> if take 1 s = ''0'' \<and> v \<noteq> 0 then None else Some v))"

definition py_int :: "nat \<Rightarrow> string \<Rightarrow> int py" where
  "py_int b s =
     (case split_sign (trim s) of (sign, rest) \<Rightarrow>
        (case unsigned_literal b rest of
           None \<Rightarrow> Inl (Value_error s)
         | Some v \<Rightarrow> Inr (sign * v)))"

text \<open>Python reads back what it writes.\<close>

lemma digit_value_digit: "is_digit c \<Longrightarrow> digit_value c = Some (of_char c - 48)"
  by (simp add: digit_value_def is_digit_def Let_def)

lemma digits_in_base_digits:
  "list_all is_digit ds \<Longrightarrow> ds \<noteq> [] \<Longrightarrow>
     digits_in_base 10 acc ds = Some (foldl (\<lambda>n c. 10 * n + (of_char c - 48)) acc ds)"
proof (induction ds arbitrary: acc)
  case (Cons c cs)
  have d: "digit_value c = Some (of_char c - 48)" "of_char c - 48 < (10 :: nat)"
    "int (of_char c - 48) = of_char c - 48"
    using Cons.prems by (auto simp: digit_value_digit is_digit_def of_nat_diff of_nat_of_char)
  show ?case
  proof (cases cs)
    case Nil
    show ?thesis unfolding Nil using d by (simp add: digits_in_base.simps(2) [of _ _ c "[]"])
  next
    case (Cons c' cs')
    then have "c' \<noteq> CHR ''_''" using Cons.prems by (auto simp: is_digit_def)
    moreover have "digits_in_base 10 (10 * acc + (of_char c - 48)) cs =
        Some (foldl (\<lambda>n c. 10 * n + (of_char c - 48)) (10 * acc + (of_char c - 48)) cs)"
      using Cons.IH Cons.prems Cons by simp
    ultimately show ?thesis using d by (simp add: Cons digits_in_base.simps(2) [of _ _ c "c' # cs'"])
  qed
qed simp

lemma digit_not_space: "is_digit c \<Longrightarrow> \<not> is_space c"
  by (auto simp: is_digit_def is_space_def)

lemma trim_id: "(\<And>c. c \<in> set s \<Longrightarrow> \<not> is_space c) \<Longrightarrow> trim s = s"
  using hd_in_set [of s] last_in_set [of s]
  by (cases "s = []") (simp_all add: trim_def dropWhile_eq_self_iff [THEN iffD2] hd_rev)

lemma decimal_int_not_space: "c \<in> set (decimal_int i) \<Longrightarrow> \<not> is_space c"
  using decimal_digits [of "nat i"] decimal_digits [of "nat (- i)"] digit_not_space
  by (auto simp: decimal_int_def list_all_iff is_space_def split: if_splits)

lemma decimal_Cons: "\<exists>c cs. decimal n = c # cs \<and> is_digit c \<and> (c = CHR ''0'' \<longrightarrow> n = 0)"
proof (induction n rule: decimal.induct)
  case (1 n)
  show ?case
  proof (cases "n < 10")
    case True
    then have c: "(of_char (char_of (48 + n)) :: nat) = 48 + n" by (rule of_char_digit)
    have "n = 0" if "char_of (48 + n) = CHR ''0''" using c unfolding that by simp
    moreover have "is_digit (char_of (48 + n))" using c True by (simp add: is_digit_def)
    moreover have "decimal n = [char_of (48 + n)]" using True by (subst decimal.simps) simp
    ultimately show ?thesis by blast
  next
    case False
    with 1 obtain c cs where "decimal (n div 10) = c # cs" "is_digit c" "c = CHR ''0'' \<longrightarrow> n div 10 = 0"
      by blast
    moreover from this(1) False have "decimal n = c # cs @ [char_of (48 + n mod 10)]"
      by (subst decimal.simps) simp
    moreover have "n div 10 \<noteq> 0" using False by simp
    ultimately show ?thesis by blast
  qed
qed

lemma unsigned_literal_decimal:
  assumes "b \<in> {0, 10}"
  shows "unsigned_literal b (decimal n) = Some (int n)"
proof -
  obtain c cs where c: "decimal n = c # cs" "is_digit c" "c = CHR ''0'' \<longrightarrow> n = 0"
    using decimal_Cons by blast
  have v: "digits_in_base 10 0 (c # cs) = Some (int n)"
    using digits_in_base_digits [of "decimal n" 0] decimal_digits [of n] digits_value_decimal [of n]
    by (simp add: digits_value_def c(1))
  have "base_prefix (take 2 (c # cs)) = None"
  proof (cases cs)
    case (Cons d ds)
    have "is_digit d" using decimal_digits [of n] by (simp add: c(1) Cons)
    then show ?thesis by (auto simp: base_prefix_def Cons is_digit_def)
  qed (simp add: base_prefix_def)
  with assms v c(3) show ?thesis by (auto simp: c(1))
qed

lemma py_int_decimal_int: "b \<in> {0, 10} \<Longrightarrow> py_int b (decimal_int i) = Inr i"
proof -
  assume b: "b \<in> {0, 10}"
  obtain c cs where c: "decimal (nat \<bar>i\<bar>) = c # cs" "is_digit c" using decimal_Cons by blast
  then have d: "c \<noteq> CHR ''-''" "c \<noteq> CHR ''+''" by (auto simp: is_digit_def)
  have u: "unsigned_literal b (c # cs) = Some \<bar>i\<bar>"
    using unsigned_literal_decimal [OF b, of "nat \<bar>i\<bar>"] c(1) by simp
  have "trim (decimal_int i) = decimal_int i" by (rule trim_id) (rule decimal_int_not_space)
  then show ?thesis
    using c(1) d u by (cases "i < 0") (simp_all add: py_int_def decimal_int_def del: unsigned_literal.simps)
qed

end
