(* ===== verification/Protocol_Xml.thy ===== *)
theory Protocol_Xml
  imports Wayland_Xml
begin

text \<open>
  The first half of \<^verbatim>\<open>generate_cxx_header_from_wayland_xml.py\<close>: the classes that hold a protocol and the
  functions that read one from its XML, with the exceptions they raise.
\<close>

section \<open>Protocols\<close>

datatype wl_arg_type = wl_int | wl_uint | wl_fixed | wl_string | wl_object | wl_new_id | wl_array | linux_fd

record wl_description =
  desc_summary :: string
  desc_text :: "string option"

record wl_arg =
  arg_name :: string
  arg_wtype :: wl_arg_type
  arg_summary :: "string option"
  arg_interface :: "string option"
  arg_allow_null :: "bool option"
  arg_enum :: "string option"
  arg_description :: "wl_description option"

record wl_enum_entry =
  entry_name :: string
  entry_value :: int
  entry_summary :: "string option"
  entry_since :: "int option"
  entry_description :: "wl_description option"

record wl_enum =
  wl_enum_name :: string
  wl_enum_since :: "int option"
  is_bitfield :: bool
  wl_enum_description :: "wl_description option"
  wl_enum_entries :: "wl_enum_entry list"

record wl_event =
  event_name :: string
  event_type :: "string option"
  event_since :: "int option"
  event_description :: "wl_description option"
  event_args :: "wl_arg list"

record wl_request =
  request_name :: string
  request_type :: "string option"
  request_since :: "int option"
  request_description :: "wl_description option"
  request_args :: "wl_arg list"

record wl_interface =
  interface_name :: string
  interface_version :: int
  interface_description :: "wl_description option"
  interface_requests :: "wl_request list"
  interface_events :: "wl_event list"
  interface_enums :: "wl_enum list"
  request_opcodes :: "int list"
  event_opcodes :: "int list"

record wl_protocol =
  wl_protocol_name :: string
  wl_copyright :: "string option"
  wl_protocol_description :: "wl_description option"
  wl_interfaces :: "wl_interface list"

section \<open>Reading them\<close>

definition parse_wl_description :: "xml \<Rightarrow> wl_description py" where
  "parse_wl_description node =
     py_bind (py_assert (has_tag ''description'' node) ''Expected description node'') (\<lambda>_.
     py_bind (attrib node ''summary'') (\<lambda>summary.
       Inr \<lparr>desc_summary = summary, desc_text = text_of node\<rparr>))"

text \<open>At most one child, a description.\<close>

definition only_description :: "string \<Rightarrow> xml \<Rightarrow> wl_description option py" where
  "only_description what node =
     (case children_of node of
        [] \<Rightarrow> Inr None
      | [child] \<Rightarrow> py_bind (parse_wl_description child) (\<lambda>d. Inr (Some d))
      | _ \<Rightarrow> Inl (Py_runtime_error (what @ '' xml node contained more than one children'')))"

definition preceding_arg :: "string \<Rightarrow> wl_arg_type \<Rightarrow> string \<Rightarrow> wl_arg" where
  "preceding_arg name T summary =
     \<lparr>arg_name = name, arg_wtype = T, arg_summary = Some summary, arg_interface = None,
      arg_allow_null = None, arg_enum = None, arg_description = None\<rparr>"

definition new_id_preceding_args :: "wl_arg list" where
  "new_id_preceding_args =
     [preceding_arg ''new_id_interface'' wl_string
        ''Interface name, e.g. from registry::global event, for following Wnew_id<>.'',
      preceding_arg ''new_id_interface_version'' wl_uint
        ''Interface version, e.g. from registry::global event, for following Wnew_id<>.'']"

definition parse_wl_arg_type :: "string \<Rightarrow> wl_arg_type py" where
  "parse_wl_arg_type type_str =
     (if type_str = ''int'' then Inr wl_int
      else if type_str = ''uint'' then Inr wl_uint
      else if type_str = ''fixed'' then Inr wl_fixed
      else if type_str = ''string'' then Inr wl_string
      else if type_str = ''object'' then Inr wl_object
      else if type_str = ''new_id'' then Inr wl_new_id
      else if type_str = ''array'' then Inr wl_array
      else if type_str = ''fd'' then Inr linux_fd
      else Inl (Py_runtime_error ''could not parse type of wl_arg''))"

definition parse_wl_arg :: "xml \<Rightarrow> wl_arg list py" where
  "parse_wl_arg node =
     py_bind (py_assert (has_tag ''arg'' node) ''Expected arg node'') (\<lambda>_.
     py_bind (only_description ''arg'' node) (\<lambda>parsed_desc.
     py_bind (attrib node ''type'') (\<lambda>type_str.
     py_bind (parse_wl_arg_type type_str) (\<lambda>parsed_type.
     py_bind (attrib node ''name'') (\<lambda>name.
       Inr ((if parsed_type = wl_new_id \<and> \<not> truthy (attrib_get node ''interface'')
             then new_id_preceding_args else []) @
            [\<lparr>arg_name = name, arg_wtype = parsed_type,
              arg_summary = attrib_get node ''summary'',
              arg_interface = attrib_get node ''interface'',
              arg_allow_null = Some (attrib_get node ''allow-null'' = Some ''true''),
              arg_enum = attrib_get node ''enum'',
              arg_description = parsed_desc\<rparr>]))))))"

text \<open>The version since which something is there, an optional attribute.\<close>

definition parse_since :: "xml \<Rightarrow> int option py" where
  "parse_since node =
     (case attrib_get node ''since'' of
        None \<Rightarrow> Inr None
      | Some s \<Rightarrow> py_bind (py_int 10 s) (\<lambda>v. Inr (Some v)))"

definition parse_wl_enum_entry :: "xml \<Rightarrow> wl_enum_entry py" where
  "parse_wl_enum_entry node =
     py_bind (py_assert (has_tag ''entry'' node) ''Expected entry node'') (\<lambda>_.
     py_bind (only_description ''entry'' node) (\<lambda>parsed_desc.
     py_bind (parse_since node) (\<lambda>since.
     py_bind (attrib node ''name'') (\<lambda>name.
     py_bind (attrib node ''value'') (\<lambda>v.
     py_bind (py_int 0 v) (\<lambda>v.
       Inr \<lparr>entry_name = name, entry_value = v, entry_summary = attrib_get node ''summary'',
            entry_since = since, entry_description = parsed_desc\<rparr>))))))"

definition parse_wl_enum :: "xml \<Rightarrow> wl_enum py" where
  "parse_wl_enum node =
     py_bind (py_assert (has_tag ''enum'' node) ''Expected enum node'') (\<lambda>_.
     py_bind (parse_since node) (\<lambda>since.
     py_bind (case children_of node of
                child # _ \<Rightarrow> if has_tag ''description'' child
                             then py_bind (parse_wl_description child) (\<lambda>d. Inr (Some d)) else Inr None
              | [] \<Rightarrow> Inr None) (\<lambda>parsed_desc.
     py_bind (py_map parse_wl_enum_entry (drop (of_bool (parsed_desc \<noteq> None)) (children_of node))) (\<lambda>entries.
     py_bind (attrib node ''name'') (\<lambda>name.
       Inr \<lparr>wl_enum_name = name, wl_enum_since = since,
            is_bitfield = (attrib_get node ''bitfield'' = Some ''true''),
            wl_enum_description = parsed_desc, wl_enum_entries = entries\<rparr>)))))"

text \<open>The children of a message: the first one is read as the description.\<close>

definition message_children :: "xml \<Rightarrow> (wl_description option \<times> wl_arg list) py" where
  "message_children node =
     py_bind (case children_of node of
                [] \<Rightarrow> Inr None
              | child # _ \<Rightarrow> py_bind (parse_wl_description child) (\<lambda>d. Inr (Some d))) (\<lambda>parsed_desc.
     py_bind (py_concat_map parse_wl_arg (drop (of_bool (parsed_desc \<noteq> None)) (children_of node))) (\<lambda>args.
       Inr (parsed_desc, args)))"

definition parse_wl_event :: "xml \<Rightarrow> wl_event py" where
  "parse_wl_event node =
     py_bind (py_assert (has_tag ''event'' node) ''Expected event node'') (\<lambda>_.
     py_bind (parse_since node) (\<lambda>since.
     py_bind (message_children node) (\<lambda>(parsed_desc, args).
     py_bind (attrib node ''name'') (\<lambda>name.
       Inr \<lparr>event_name = name, event_type = attrib_get node ''type'', event_since = since,
            event_description = parsed_desc, event_args = args\<rparr>))))"

definition parse_wl_request :: "xml \<Rightarrow> wl_request py" where
  "parse_wl_request node =
     py_bind (py_assert (has_tag ''request'' node) ''Expected request node'') (\<lambda>_.
     py_bind (parse_since node) (\<lambda>since.
     py_bind (message_children node) (\<lambda>(parsed_desc, args).
     py_bind (attrib node ''name'') (\<lambda>name.
       Inr \<lparr>request_name = name, request_type = attrib_get node ''type'', request_since = since,
            request_description = parsed_desc, request_args = args\<rparr>))))"

text \<open>
  The loop over the children of an interface: what has been found and the next opcodes. Other
  elements are passed over.
\<close>

record found_members =
  parsed_requests :: "wl_request list"
  parsed_events :: "wl_event list"
  parsed_enums :: "wl_enum list"
  request_opcode_counter :: int
  event_opcode_counter :: int
  found_request_opcodes :: "int list"
  found_event_opcodes :: "int list"

definition no_members :: found_members where
  "no_members =
     \<lparr>parsed_requests = [], parsed_events = [], parsed_enums = [], request_opcode_counter = 0,
      event_opcode_counter = 0, found_request_opcodes = [], found_event_opcodes = []\<rparr>"

definition parse_member :: "xml \<Rightarrow> found_members \<Rightarrow> found_members py" where
  "parse_member child s =
     (if has_tag ''request'' child then
        py_bind (parse_wl_request child) (\<lambda>r.
          Inr (s\<lparr>parsed_requests := parsed_requests s @ [r],
                 found_request_opcodes := found_request_opcodes s @ [request_opcode_counter s],
                 request_opcode_counter := request_opcode_counter s + 1\<rparr>))
      else if has_tag ''event'' child then
        py_bind (parse_wl_event child) (\<lambda>e.
          Inr (s\<lparr>parsed_events := parsed_events s @ [e],
                 found_event_opcodes := found_event_opcodes s @ [event_opcode_counter s],
                 event_opcode_counter := event_opcode_counter s + 1\<rparr>))
      else if has_tag ''enum'' child then
        py_bind (parse_wl_enum child) (\<lambda>e. Inr (s\<lparr>parsed_enums := parsed_enums s @ [e]\<rparr>))
      else Inr s)"

fun parse_members :: "xml list \<Rightarrow> found_members \<Rightarrow> found_members py" where
  "parse_members [] s = Inr s"
| "parse_members (child # children) s = py_bind (parse_member child s) (parse_members children)"

definition parse_wl_interface :: "xml \<Rightarrow> wl_interface py" where
  "parse_wl_interface node =
     py_bind (py_assert (has_tag ''interface'' node) ''Expected interface node'') (\<lambda>_.
     (if length (children_of node) \<le> 1 then Inl (Py_runtime_error ''interface xml node contains no children'')
      else
        py_bind (if has_tag ''description'' (children_of node ! 0)
                 then py_bind (parse_wl_description (children_of node ! 0)) (\<lambda>d. Inr (Some d))
                 else Inr None) (\<lambda>parsed_desc.
        py_bind (parse_members (drop (of_bool (parsed_desc \<noteq> None)) (children_of node)) no_members) (\<lambda>s.
        py_bind (attrib node ''name'') (\<lambda>name.
        py_bind (attrib node ''version'') (\<lambda>version.
        py_bind (py_int 10 version) (\<lambda>version.
          Inr \<lparr>interface_name = name, interface_version = version, interface_description = parsed_desc,
               interface_requests = parsed_requests s, interface_events = parsed_events s,
               interface_enums = parsed_enums s, request_opcodes = found_request_opcodes s,
               event_opcodes = found_event_opcodes s\<rparr>)))))))"

text \<open>
  A copyright without text leaves \<^verbatim>\<open>parsed_copyright\<close> at \<^verbatim>\<open>None\<close>, as if there were none.
\<close>

definition parse_wl_protocol :: "xml \<Rightarrow> wl_protocol py" where
  "parse_wl_protocol node =
     py_bind (py_assert (has_tag ''protocol'' node) ''Expected protocol node'') (\<lambda>_.
     (if children_of node = [] then Inl (Py_runtime_error ''protocol xml node contains no children'')
      else
        (let cs = children_of node;
             parsed_copyright = (if has_tag ''copyright'' (cs ! 0) then text_of (cs ! 0) else None);
             index_of_desc = of_bool (parsed_copyright \<noteq> None)
         in py_bind (if index_of_desc < length cs \<and> has_tag ''description'' (cs ! index_of_desc)
                     then py_bind (parse_wl_description (cs ! index_of_desc)) (\<lambda>d. Inr (Some d))
                     else Inr None) (\<lambda>parsed_desc.
            py_bind (py_map parse_wl_interface
                (drop (of_bool (parsed_copyright \<noteq> None) + of_bool (parsed_desc \<noteq> None)) cs)) (\<lambda>interfaces.
            py_bind (attrib node ''name'') (\<lambda>name.
              Inr \<lparr>wl_protocol_name = name, wl_copyright = parsed_copyright,
                   wl_protocol_description = parsed_desc, wl_interfaces = interfaces\<rparr>))))))"

text \<open>\<^verbatim>\<open>ET.fromstring\<close> is a parameter.\<close>

definition parse_wayland_xml :: "('bytes \<Rightarrow> xml_document py) \<Rightarrow> 'bytes \<Rightarrow> wl_protocol py" where
  "parse_wayland_xml fromstring bytes =
     py_bind (fromstring bytes) (\<lambda>d. py_bind (remove_comment_nodes d) parse_wl_protocol)"

end
