(* ===== verification/Header_Writer.thy ===== *)
theory Header_Writer
  imports Protocol_Xml
begin

text \<open>
  The second half of \<^verbatim>\<open>generate_cxx_header_from_wayland_xml.py\<close>: the methods that write a protocol as the
  text of a C++ header.
\<close>

section \<open>Text\<close>

definition nl :: string where
  "nl = [CHR 0x0A]"

abbreviation quote :: char where
  "quote \<equiv> CHR 0x22"

text \<open>\<^verbatim>\<open>s.split("\n")\<close>.\<close>

fun split_lines :: "string \<Rightarrow> string list" where
  "split_lines [] = [[]]"
| "split_lines (c # cs) =
     (if c = CHR 0x0A then [] # split_lines cs
      else case split_lines cs of l # ls \<Rightarrow> (c # l) # ls | [] \<Rightarrow> [[c]])"

definition spaces :: "nat \<Rightarrow> string" where
  "spaces n = replicate n (CHR '' '')"

text \<open>\<^verbatim>\<open>s.replace(".", "::")\<close>.\<close>

definition dots_to_colons :: "string \<Rightarrow> string" where
  "dots_to_colons s = concat (map (\<lambda>c. if c = CHR ''.'' then ''::'' else [c]) s)"

definition comment_line :: "string \<Rightarrow> string \<Rightarrow> string" where
  "comment_line comment_symbol line =
     comment_symbol @ (if lstrip line \<noteq> [] then '' '' @ lstrip line else []) @ nl"

definition commentify :: "string \<Rightarrow> string \<Rightarrow> string" where
  "commentify comment_symbol s =
     (let lines = split_lines s;
          skip_first = (lstrip (hd lines) = []);
          skip_last = (lstrip (last lines) = [])
      in concat (map (comment_line comment_symbol)
           (drop (of_bool skip_first) (take (length lines - of_bool skip_last) lines))))"

section \<open>Types\<close>

text \<open>An interface that is there and not empty, and nothing otherwise.\<close>

definition interface_or_nothing :: "string option \<Rightarrow> string" where
  "interface_or_nothing i = (if truthy i then the i else [])"

fun get_cxx_Wtype :: "wl_arg_type \<Rightarrow> string option \<Rightarrow> string" where
  "get_cxx_Wtype wl_int i = ''Wint''"
| "get_cxx_Wtype wl_uint i = ''Wuint''"
| "get_cxx_Wtype wl_fixed i = ''Wfixed''"
| "get_cxx_Wtype wl_string i = ''Wstring''"
| "get_cxx_Wtype wl_object i = ''Wobject<'' @ interface_or_nothing i @ ''>''"
| "get_cxx_Wtype wl_new_id i = ''Wnew_id<'' @ interface_or_nothing i @ ''>''"
| "get_cxx_Wtype wl_array i = ''Warray''"
| "get_cxx_Wtype linux_fd i = ''Wfd''"

section \<open>Descriptions, members and enumerators\<close>

definition as_sphinx_comment :: "string \<Rightarrow> nat \<Rightarrow> wl_description \<Rightarrow> string" where
  "as_sphinx_comment summary_prefix indent_in_spaces d =
     (let indent = spaces indent_in_spaces;
          header = indent @ ''/// '' @ summary_prefix @ desc_summary d @ nl
      in if \<not> truthy (desc_text d) then header
         else header @ (indent @ ''///'' @ nl) @ commentify (indent @ ''///'') (the (desc_text d)))"

text \<open>
  The comment above a member or an enumerator. With a description, what the summary has put into
  \<^verbatim>\<open>desc\<close> is overwritten.
\<close>

definition summary_or_description :: "string option \<Rightarrow> wl_description option \<Rightarrow> nat \<Rightarrow> string" where
  "summary_or_description summary description indent_in_spaces =
     (case description of
        None \<Rightarrow> if truthy summary then spaces indent_in_spaces @ ''/// '' @ the summary @ nl else []
      | Some d \<Rightarrow> as_sphinx_comment [] indent_in_spaces d @ nl)"

definition cxx_member_type :: "string \<Rightarrow> wl_arg \<Rightarrow> string" where
  "cxx_member_type interface a =
     (if truthy (arg_enum a)
      then if CHR ''.'' \<in> set (the (arg_enum a)) then dots_to_colons (the (arg_enum a))
           else interface @ ''::'' @ the (arg_enum a)
      else get_cxx_Wtype (arg_wtype a) (arg_interface a))"

definition as_cxx_data_member :: "string \<Rightarrow> wl_arg \<Rightarrow> string" where
  "as_cxx_data_member interface a =
     summary_or_description (arg_summary a) (arg_description a) 4 @
     spaces 4 @ cxx_member_type interface a @ '' '' @ arg_name a @ '';'' @ nl"

definition as_cxx_enum_class_entry :: "nat \<Rightarrow> bool \<Rightarrow> wl_enum_entry \<Rightarrow> string" where
  "as_cxx_enum_class_entry indent_in_spaces is_last e =
     summary_or_description (entry_summary e) (entry_description e) indent_in_spaces @
     spaces indent_in_spaces @ (''E'' @ entry_name e) @ '' = '' @ decimal_int (entry_value e) @
     (if is_last then [] else '','') @ nl"

section \<open>Enumerations\<close>

definition enum_underlying_text :: "wl_enum \<Rightarrow> string" where
  "enum_underlying_text e =
     get_cxx_Wtype (if is_bitfield e then wl_uint else wl_int) None @ ''::integral_type''"

definition as_cxx_enum_class_decleration :: "nat \<Rightarrow> wl_enum \<Rightarrow> string" where
  "as_cxx_enum_class_decleration indent_in_spaces e =
     spaces indent_in_spaces @ ''enum class '' @ wl_enum_name e @ '' : '' @ enum_underlying_text e @ '';'' @ nl"

definition as_cxx_enum_class_definition :: "string \<Rightarrow> nat \<Rightarrow> wl_enum \<Rightarrow> string py" where
  "as_cxx_enum_class_definition interface indent_in_spaces e =
     (let indent = spaces indent_in_spaces;
          sphinx_comment = (case wl_enum_description e of
              None \<Rightarrow> [] | Some d \<Rightarrow> as_sphinx_comment [] indent_in_spaces d);
          header = indent @ ''enum class '' @ interface @ ''::'' @ wl_enum_name e @ '' : '' @
              enum_underlying_text e @ '' {'' @ nl
      in if wl_enum_entries e = []
         then Inl (Py_runtime_error (''wl_enum '' @ wl_enum_name e @ '' has no entries!''))
         else Inr (sphinx_comment @ header @
           concat (map (as_cxx_enum_class_entry (4 + indent_in_spaces) False) (butlast (wl_enum_entries e))) @
           as_cxx_enum_class_entry (4 + indent_in_spaces) True (last (wl_enum_entries e)) @
           indent @ ''};'' @ nl @ nl))"

section \<open>Messages\<close>

definition cxx_opcode_static_member :: "string \<Rightarrow> int \<Rightarrow> string" where
  "cxx_opcode_static_member interface opcode =
     spaces 4 @ ''static constexpr Wopcode<'' @ interface @ ''> opcode{ '' @ decimal_int opcode @ '' };'' @ nl"

definition member_struct_decleration :: "nat \<Rightarrow> string \<Rightarrow> string" where
  "member_struct_decleration indent_in_spaces name = spaces indent_in_spaces @ ''struct '' @ name @ '';'' @ nl"

definition description_comment :: "wl_description option \<Rightarrow> string" where
  "description_comment d = (case d of None \<Rightarrow> [] | Some d \<Rightarrow> as_sphinx_comment [] 0 d)"

definition event_struct_definition :: "string \<Rightarrow> int \<Rightarrow> wl_event \<Rightarrow> string" where
  "event_struct_definition interface opcode e =
     description_comment (event_description e) @
     (''struct '' @ interface @ ''::event::'' @ event_name e @ '' {'' @ nl) @
     cxx_opcode_static_member interface opcode @
     concat (map (as_cxx_data_member interface) (event_args e)) @
     ''};'' @ nl @ nl"

definition request_struct_definition :: "string \<Rightarrow> int \<Rightarrow> wl_request \<Rightarrow> string" where
  "request_struct_definition interface opcode r =
     description_comment (request_description r) @
     (''struct '' @ interface @ ''::request::'' @ request_name r @ '' {'' @ nl) @
     cxx_opcode_static_member interface opcode @
     concat (map (as_cxx_data_member interface) (request_args r)) @
     ''};'' @ nl @ nl"

section \<open>Interfaces and the header\<close>

definition as_cxx_struct_without_definitions :: "wl_interface \<Rightarrow> string" where
  "as_cxx_struct_without_definitions i =
     (''struct '' @ interface_name i @ '' {'' @ nl) @
     concat (map (as_cxx_enum_class_decleration 4) (interface_enums i)) @
     (if interface_enums i \<noteq> [] then nl else []) @
     (spaces 4 @ ''struct request {'' @ nl) @
     concat (map (\<lambda>r. member_struct_decleration 8 (request_name r)) (interface_requests i)) @
     (spaces 4 @ ''};'' @ nl @ nl) @
     (spaces 4 @ ''struct event {'' @ nl) @
     concat (map (\<lambda>e. member_struct_decleration 8 (event_name e)) (interface_events i)) @
     (spaces 4 @ ''};'' @ nl) @
     (''};'' @ nl)"

definition as_cxx_definitions :: "wl_interface \<Rightarrow> string py" where
  "as_cxx_definitions i =
     py_bind (py_map (as_cxx_enum_class_definition (interface_name i) 0) (interface_enums i)) (\<lambda>enums.
       Inr (concat enums @
         concat (map (\<lambda>(opcode, r). request_struct_definition (interface_name i) opcode r)
           (zip (request_opcodes i) (interface_requests i))) @
         concat (map (\<lambda>(opcode, e). event_struct_definition (interface_name i) opcode e)
           (zip (event_opcodes i) (interface_events i)))))"

definition file_comment :: "wl_protocol \<Rightarrow> string" where
  "file_comment p =
     (''// Generated from Wayland xml protocol: '' @ wl_protocol_name p @ nl @ nl) @
     (case wl_protocol_description p of
        Some d \<Rightarrow> as_sphinx_comment (''@file'' @ nl @ ''/// '') 0 d
      | None \<Rightarrow> ''/// @file'' @ nl @ ''/// '' @ wl_protocol_name p @ '' xml protocol'' @ nl) @
     (if truthy (wl_copyright p)
      then ''///'' @ nl @ commentify ''///'' (the (wl_copyright p)) @ nl else [])"

definition cxx_header_content :: "wl_protocol \<Rightarrow> string py" where
  "cxx_header_content p =
     (if wl_interfaces p = []
      then Inl (Py_runtime_error (''Protocol '' @ wl_protocol_name p @ '' has no interfaces!''))
      else py_bind (py_map as_cxx_definitions (wl_interfaces p)) (\<lambda>definitions.
        Inr (file_comment p @
          (''#pragma once'' @ nl @ nl) @
          (''#include '' @ [quote] @ ''waylander/wayland/protocol_primitives.hpp'' @ [quote] @ nl @ nl) @
          (''namespace waylander {'' @ nl) @
          (''namespace wl {'' @ nl) @
          (''namespace protocols {'' @ nl @ nl) @
          (''/// Declare everything before they might be used.'' @ nl @ nl) @
          concat (map as_cxx_struct_without_definitions (wl_interfaces p)) @
          concat definitions @
          (''} // namespace protocols'' @ nl) @
          (''} // namespace wl'' @ nl) @
          (''} // namespace waylander'' @ nl))))"

text \<open>The file written and its content.\<close>

definition write_cxx_header :: "string \<Rightarrow> wl_protocol \<Rightarrow> (string \<times> string) py" where
  "write_cxx_header path_prefix p =
     py_bind (cxx_header_content p) (\<lambda>content.
       Inr (path_prefix @ wl_protocol_name p @ ''_protocol.hpp'', content))"

end
