(* ===== verification/Header_Text.thy ===== *)
theory Header_Text
  imports Header_Writer Protocol_Tables
begin

text \<open>
  What a compiler keeps of a header: the lines of code. A backslash at the end of a line joins it
  with the next one; then blank lines and lines that are a comment are left out, and the indentation
  of the others. \<open>emits s ls\<close> says that the text \<open>s\<close> adds the code lines \<open>ls\<close>, whatever follows it.
\<close>

section \<open>Lines of code\<close>

abbreviation newline :: char where
  "newline \<equiv> CHR 0x0A"

abbreviation backslash :: char where
  "backslash \<equiv> CHR 0x5C"

fun splice :: "string \<Rightarrow> string" where
  "splice (c # c' # s) =
     (if c = backslash \<and> c' = newline then splice s else c # splice (c' # s))"
| "splice s = s"

definition is_code :: "string \<Rightarrow> bool" where
  "is_code l \<longleftrightarrow> lstrip l \<noteq> [] \<and> take 2 (lstrip l) \<noteq> ''//''"

definition code_lines :: "string \<Rightarrow> string list" where
  "code_lines s = map lstrip (filter is_code (split_lines (splice s)))"

definition ends_plain :: "string \<Rightarrow> bool" where
  "ends_plain l \<longleftrightarrow> l = [] \<or> last l \<noteq> backslash"

definition one_line :: "string \<Rightarrow> bool" where
  "one_line l \<longleftrightarrow> newline \<notin> set l \<and> ends_plain l"

lemma split_lines_not_Nil [simp]: "split_lines s \<noteq> []"
  by (induction s) (auto split: list.split)

lemma split_lines_line: "newline \<notin> set l \<Longrightarrow> split_lines (l @ newline # s) = l # split_lines s"
  by (induction l) auto

lemma split_lines_newline: "l \<in> set (split_lines s) \<Longrightarrow> newline \<notin> set l"
proof (induction s arbitrary: l)
  case (Cons c s)
  then show ?case by (cases "split_lines s") (auto split: if_splits)
qed simp

lemma splice_line: "one_line l \<Longrightarrow> splice (l @ newline # s) = l @ newline # splice s"
proof (induction l)
  case Nil
  then show ?case by (cases s) simp_all
next
  case (Cons c l)
  then show ?case by (cases l) (auto simp: one_line_def ends_plain_def)
qed

lemma code_lines_Nil [simp]: "code_lines [] = []"
  by (simp add: code_lines_def is_code_def lstrip_def)

lemma code_lines_line:
  "one_line l \<Longrightarrow> code_lines (l @ newline # s) = (if is_code l then [lstrip l] else []) @ code_lines s"
  by (simp add: code_lines_def splice_line split_lines_line one_line_def)

section \<open>Texts that add lines\<close>

definition emits :: "string \<Rightarrow> string list \<Rightarrow> bool" where
  "emits s ls \<longleftrightarrow> (\<forall>rest. code_lines (s @ rest) = ls @ code_lines rest)"

lemma emits_code_lines: "emits s ls \<Longrightarrow> code_lines s = ls"
  by (auto simp: emits_def dest: spec [of _ "[]"])

lemma emits_Nil [intro]: "emits [] []"
  by (simp add: emits_def)

lemma emits_append [intro]: "emits s ls \<Longrightarrow> emits t ms \<Longrightarrow> emits (s @ t) (ls @ ms)"
  by (simp add: emits_def)

lemma emits_silent: "emits s [] \<Longrightarrow> emits t ms \<Longrightarrow> emits (s @ t) ms"
  by (simp add: emits_def)

lemma emits_concat:
  "(\<And>x. x \<in> set xs \<Longrightarrow> emits (f x) (g x)) \<Longrightarrow> emits (concat (map f xs)) (concat (map g xs))"
  by (induction xs) auto

lemma emits_concat_lines:
  "(\<And>x. x \<in> set xs \<Longrightarrow> emits (f x) [g x]) \<Longrightarrow> emits (concat (map f xs)) (map g xs)"
  using emits_concat [of xs f "\<lambda>x. [g x]"] by (simp add: concat_map_singleton)

lemma emits_concat_silent: "(\<And>x. x \<in> set xs \<Longrightarrow> emits (f x) []) \<Longrightarrow> emits (concat (map f xs)) []"
  by (induction xs) (auto intro: emits_silent)

lemma py_space_blank [simp]: "py_space (CHR '' '')"
  by (simp add: py_space_def is_space_def)

lemma lstrip_spaces [simp]: "lstrip (spaces n @ s) = lstrip s"
  by (induction n) (simp_all add: spaces_def lstrip_def)

lemma set_spaces [simp]: "set (spaces n) = (if n = 0 then {} else {CHR '' ''})"
  by (simp add: spaces_def)

lemma spaces_0 [simp]: "spaces 0 = []"
  by (simp add: spaces_def)

lemma one_line_prefix: "newline \<notin> set s \<Longrightarrow> backslash \<notin> set s \<Longrightarrow> one_line t \<Longrightarrow> one_line (s @ t)"
  by (induction s) (auto simp: one_line_def ends_plain_def)

lemma one_line_indent: "one_line s \<Longrightarrow> one_line (spaces n @ s)"
  by (rule one_line_prefix) simp_all

lemma emits_newline: "emits nl []"
  using code_lines_line [of "[]"] by (simp add: emits_def nl_def one_line_def ends_plain_def is_code_def lstrip_def)

text \<open>A line of code begins with neither white space nor a slash.\<close>

definition code_line :: "string \<Rightarrow> bool" where
  "code_line l \<longleftrightarrow> l \<noteq> [] \<and> \<not> py_space (hd l) \<and> hd l \<noteq> CHR ''/'' \<and> one_line l"

lemma emits_code_line:
  assumes "code_line l"
  shows "emits (spaces n @ l @ nl) [l]"
proof -
  have l: "lstrip l = l" using assms by (cases l) (simp_all add: code_line_def lstrip_def)
  have "is_code (spaces n @ l)" using assms l by (cases l) (auto simp: code_line_def is_code_def)
  with assms l one_line_indent [of l n] code_lines_line [of "spaces n @ l"] show ?thesis
    by (simp add: emits_def nl_def code_line_def)
qed

lemma emits_comment_line:
  assumes "one_line s"
  shows "emits (spaces n @ ''//'' @ s @ nl) []"
proof -
  have "lstrip (''//'' @ s) = ''//'' @ s" by (simp add: lstrip_def py_space_def is_space_def)
  then have "\<not> is_code (spaces n @ ''//'' @ s)" by (simp add: is_code_def)
  moreover have "one_line (spaces n @ ''//'' @ s)"
    using assms by (intro one_line_indent) (auto simp: one_line_def ends_plain_def)
  ultimately show ?thesis using code_lines_line [of "spaces n @ ''//'' @ s"] by (simp add: emits_def nl_def)
qed

section \<open>Names\<close>

definition name_char :: "char \<Rightarrow> bool" where
  "name_char c \<longleftrightarrow> c = CHR ''_'' \<or> (\<exists>d. digit_value c = Some d)"

definition is_name :: "string \<Rightarrow> bool" where
  "is_name s \<longleftrightarrow> s \<noteq> [] \<and> list_all name_char s"

lemma name_char_code [code]: "name_char c \<longleftrightarrow> c = CHR ''_'' \<or> digit_value c \<noteq> None"
  by (auto simp: name_char_def)

lemma name_char_plain:
  "name_char c \<Longrightarrow> \<not> py_space c \<and> c \<noteq> newline \<and> c \<noteq> backslash \<and> c \<noteq> CHR ''/'' \<and> c \<noteq> CHR ''.''"
  by (auto simp: name_char_def digit_value_def py_space_def is_space_def Let_def split: if_splits)

lemma is_name_hd: "is_name s \<Longrightarrow> s \<noteq> [] \<and> \<not> py_space (hd s) \<and> hd s \<noteq> CHR ''/''"
  using name_char_plain [of "hd s"] by (cases s) (simp_all add: is_name_def)

lemma is_name_set: "is_name s \<Longrightarrow> newline \<notin> set s \<and> backslash \<notin> set s \<and> CHR ''.'' \<notin> set s \<and> CHR ''/'' \<notin> set s"
  using name_char_plain by (auto simp: is_name_def list_all_iff)

lemma is_name_one_line: "is_name s \<Longrightarrow> one_line s"
  using one_line_prefix [of s "[]"] is_name_set [of s] by (simp add: one_line_def ends_plain_def)

lemma one_line_append: "newline \<notin> set s \<Longrightarrow> one_line t \<Longrightarrow> t \<noteq> [] \<Longrightarrow> one_line (s @ t)"
  by (simp add: one_line_def ends_plain_def)

end
