(* ===== verification/Header_Generator.thy ===== *)
theory Header_Generator
  imports Header_Text
begin

text \<open>
  What the header generator promises. \<open>header_of\<close> is the table a protocol describes, in the types of
  the protocol headers, and \<open>cxx_lines\<close> the C++ of a table: the code lines of the file the
  generator writes are those of the table, whatever the descriptions say. The types of enumerations
  of other interfaces are looked up in \<open>env\<close>.
\<close>

section \<open>The C++ of a table\<close>

fun interface_text :: "interface \<Rightarrow> string" where
  "interface_text (protocol_interface i) = i"
| "interface_text generic_object = []"

fun underlying_text :: "underlying_type \<Rightarrow> string" where
  "underlying_text Wint_underlying = ''Wint::integral_type''"
| "underlying_text Wuint_underlying = ''Wuint::integral_type''"

fun type_text :: "arg_type \<Rightarrow> string" where
  "type_text TWint = ''Wint''"
| "type_text TWuint = ''Wuint''"
| "type_text TWfixed = ''Wfixed''"
| "type_text (TWobject i) = ''Wobject<'' @ interface_text i @ ''>''"
| "type_text (TWnew_id i) = ''Wnew_id<'' @ interface_text i @ ''>''"
| "type_text (TWenum _ i n) = i @ ''::'' @ n"
| "type_text TWstring = ''Wstring''"
| "type_text TWarray = ''Warray''"
| "type_text TWfd = ''Wfd''"

fun kind_text :: "message_kind \<Rightarrow> string" where
  "kind_text Request = ''request''"
| "kind_text Event = ''event''"

definition field_line :: "string \<times> arg_type \<Rightarrow> string" where
  "field_line f = type_text (snd f) @ '' '' @ fst f @ '';''"

definition message_lines :: "message_type \<Rightarrow> string list" where
  "message_lines M =
     [''struct '' @ interface_text (msg_interface M) @ ''::'' @ kind_text (msg_kind M) @ ''::'' @ msg_name M @ '' {'',
      ''static constexpr Wopcode<'' @ interface_text (msg_interface M) @ ''> opcode{ '' @
        decimal (unat (msg_opcode M)) @ '' };''] @
     map field_line (msg_fields M) @ [''};'']"

fun enumerator_lines :: "(string \<times> int) list \<Rightarrow> string list" where
  "enumerator_lines [] = []"
| "enumerator_lines [(n, v)] = [n @ '' = '' @ decimal_int v]"
| "enumerator_lines ((n, v) # e # es) = (n @ '' = '' @ decimal_int v @ '','') # enumerator_lines (e # es)"

definition enum_lines :: "enum_type \<Rightarrow> string list" where
  "enum_lines E =
     [''enum class '' @ enum_interface E @ ''::'' @ enum_name E @ '' : '' @ underlying_text (enum_underlying E) @ '' {''] @
     enumerator_lines (enumerators E) @ [''};'']"

definition struct_line :: "string \<Rightarrow> string" where
  "struct_line n = ''struct '' @ n @ '';''"

definition decl_lines :: "interface_decl \<Rightarrow> string list" where
  "decl_lines d =
     [''struct '' @ decl_name d @ '' {''] @
     map (\<lambda>(e, u). ''enum class '' @ e @ '' : '' @ underlying_text u @ '';'') (decl_enums d) @
     [''struct request {''] @ map struct_line (decl_requests d) @ [''};''] @
     [''struct event {''] @ map struct_line (decl_events d) @ [''};'', ''};'']"

definition interface_lines :: "interface_def \<Rightarrow> string list" where
  "interface_lines I =
     concat (map enum_lines (enum_definitions I)) @ concat (map message_lines (request_messages I)) @
     concat (map message_lines (event_messages I))"

definition cxx_lines :: "protocol \<Rightarrow> string list" where
  "cxx_lines P =
     [''#pragma once'',
      ''#include '' @ [quote] @ ''waylander/wayland/protocol_primitives.hpp'' @ [quote],
      ''namespace waylander {'', ''namespace wl {'', ''namespace protocols {''] @
     concat (map (\<lambda>I. decl_lines (forward_decl I)) (protocol_interfaces P)) @
     concat (map interface_lines (protocol_interfaces P)) @
     [''} // namespace protocols'', ''} // namespace wl'', ''} // namespace waylander'']"

section \<open>The table of a protocol\<close>

definition interface_of :: "string option \<Rightarrow> interface" where
  "interface_of i = (if truthy i then protocol_interface (the i) else generic_object)"

text \<open>An enumeration is named with the interface that declares it, or alone.\<close>

definition enum_reference :: "string \<Rightarrow> string \<Rightarrow> string \<times> string" where
  "enum_reference interface e =
     (if CHR ''.'' \<in> set e then (takeWhile ((\<noteq>) (CHR ''.'')) e, drop 1 (dropWhile ((\<noteq>) (CHR ''.'')) e))
      else (interface, e))"

definition arg_field_type :: "(string \<times> string \<Rightarrow> underlying_type) \<Rightarrow> string \<Rightarrow> wl_arg \<Rightarrow> arg_type" where
  "arg_field_type env interface a =
     (if truthy (arg_enum a)
      then (let r = enum_reference interface (the (arg_enum a)) in TWenum (env r) (fst r) (snd r))
      else case arg_wtype a of
          wl_int \<Rightarrow> TWint
        | wl_uint \<Rightarrow> TWuint
        | wl_fixed \<Rightarrow> TWfixed
        | wl_string \<Rightarrow> TWstring
        | wl_object \<Rightarrow> TWobject (interface_of (arg_interface a))
        | wl_new_id \<Rightarrow> TWnew_id (interface_of (arg_interface a))
        | wl_array \<Rightarrow> TWarray
        | linux_fd \<Rightarrow> TWfd)"

definition arg_field :: "(string \<times> string \<Rightarrow> underlying_type) \<Rightarrow> string \<Rightarrow> wl_arg \<Rightarrow> string \<times> arg_type" where
  "arg_field env interface a = (arg_name a, arg_field_type env interface a)"

definition enum_underlying_of :: "wl_enum \<Rightarrow> underlying_type" where
  "enum_underlying_of e = (if is_bitfield e then Wuint_underlying else Wint_underlying)"

definition enum_of :: "string \<Rightarrow> wl_enum \<Rightarrow> enum_type" where
  "enum_of interface e =
     \<lparr>enum_interface = interface, enum_name = wl_enum_name e, enum_underlying = enum_underlying_of e,
      enumerators = map (\<lambda>x. (''E'' @ entry_name x, entry_value x)) (wl_enum_entries e)\<rparr>"

definition message_of ::
    "(string \<times> string \<Rightarrow> underlying_type) \<Rightarrow> string \<Rightarrow> message_kind \<Rightarrow> string \<Rightarrow> int \<Rightarrow> wl_arg list \<Rightarrow> message_type" where
  "message_of env interface k name n args =
     \<lparr>msg_interface = protocol_interface interface, msg_kind = k, msg_name = name,
      msg_opcode = word_of_int n, msg_fields = map (arg_field env interface) args\<rparr>"

definition interface_def_of :: "(string \<times> string \<Rightarrow> underlying_type) \<Rightarrow> wl_interface \<Rightarrow> interface_def" where
  "interface_def_of env i =
     \<lparr>forward_decl =
        \<lparr>decl_name = interface_name i,
         decl_enums = map (\<lambda>e. (wl_enum_name e, enum_underlying_of e)) (interface_enums i),
         decl_requests = map request_name (interface_requests i),
         decl_events = map event_name (interface_events i)\<rparr>,
      enum_definitions = map (enum_of (interface_name i)) (interface_enums i),
      request_messages =
        map (\<lambda>(n, r). message_of env (interface_name i) Request (request_name r) n (request_args r))
          (zip (request_opcodes i) (interface_requests i)),
      event_messages =
        map (\<lambda>(n, e). message_of env (interface_name i) Event (event_name e) n (event_args e))
          (zip (event_opcodes i) (interface_events i))\<rparr>"

definition header_of :: "(string \<times> string \<Rightarrow> underlying_type) \<Rightarrow> wl_protocol \<Rightarrow> protocol" where
  "header_of env p =
     \<lparr>protocol_name = wl_protocol_name p,
      protocol_interfaces = map (interface_def_of env) (wl_interfaces p)\<rparr>"

section \<open>Plain protocols\<close>

text \<open>
  Names are identifiers (the one of the protocol is a line), an enumeration has at most one dot, summaries are one line, no line of a
  text ends with a backslash and opcodes fit. Without interfaces, or with an enumeration that has no
  entries, nothing is written.
\<close>

definition plain_text :: "string option \<Rightarrow> bool" where
  "plain_text s \<longleftrightarrow> (case s of None \<Rightarrow> True | Some s \<Rightarrow> list_all ends_plain (split_lines s))"

definition plain_summary :: "string option \<Rightarrow> bool" where
  "plain_summary s \<longleftrightarrow> (case s of None \<Rightarrow> True | Some s \<Rightarrow> one_line s)"

definition plain_description :: "wl_description option \<Rightarrow> bool" where
  "plain_description d \<longleftrightarrow>
     (case d of None \<Rightarrow> True | Some d \<Rightarrow> one_line (desc_summary d) \<and> plain_text (desc_text d))"

definition plain_arg :: "wl_arg \<Rightarrow> bool" where
  "plain_arg a \<longleftrightarrow>
     is_name (arg_name a) \<and> plain_summary (arg_summary a) \<and> plain_description (arg_description a) \<and>
     (truthy (arg_interface a) \<longrightarrow> is_name (the (arg_interface a))) \<and>
     (truthy (arg_enum a) \<longrightarrow>
        is_name (fst (enum_reference ''i'' (the (arg_enum a)))) \<and>
        is_name (snd (enum_reference ''i'' (the (arg_enum a)))))"

definition plain_entry :: "wl_enum_entry \<Rightarrow> bool" where
  "plain_entry e \<longleftrightarrow>
     is_name (entry_name e) \<and> plain_summary (entry_summary e) \<and> plain_description (entry_description e)"

definition plain_enum :: "wl_enum \<Rightarrow> bool" where
  "plain_enum e \<longleftrightarrow>
     is_name (wl_enum_name e) \<and> plain_description (wl_enum_description e) \<and>
     wl_enum_entries e \<noteq> [] \<and> list_all plain_entry (wl_enum_entries e)"

definition plain_request :: "wl_request \<Rightarrow> bool" where
  "plain_request r \<longleftrightarrow>
     is_name (request_name r) \<and> plain_description (request_description r) \<and> list_all plain_arg (request_args r)"

definition plain_event :: "wl_event \<Rightarrow> bool" where
  "plain_event e \<longleftrightarrow>
     is_name (event_name e) \<and> plain_description (event_description e) \<and> list_all plain_arg (event_args e)"

definition plain_interface :: "wl_interface \<Rightarrow> bool" where
  "plain_interface i \<longleftrightarrow>
     is_name (interface_name i) \<and> plain_description (interface_description i) \<and>
     list_all plain_enum (interface_enums i) \<and> list_all plain_request (interface_requests i) \<and>
     list_all plain_event (interface_events i) \<and>
     list_all (\<lambda>n. 0 \<le> n \<and> n < 2 ^ 16) (request_opcodes i @ event_opcodes i)"

definition plain_protocol :: "wl_protocol \<Rightarrow> bool" where
  "plain_protocol p \<longleftrightarrow>
     one_line (wl_protocol_name p) \<and> plain_text (wl_copyright p) \<and>
     plain_description (wl_protocol_description p) \<and>
     wl_interfaces p \<noteq> [] \<and> list_all plain_interface (wl_interfaces p)"

section \<open>Comments emit nothing\<close>

lemma one_line_suffix: "one_line (s @ t) \<Longrightarrow> one_line t"
  by (auto simp: one_line_def ends_plain_def)

lemma one_line_lstrip: "one_line l \<Longrightarrow> one_line (lstrip l)"
  using one_line_suffix [of "takeWhile py_space l" "dropWhile py_space l"] by (simp add: lstrip_def)

lemma emits_commentify:
  assumes "list_all ends_plain (split_lines s)"
  shows "emits (commentify (spaces n @ ''///'') s) []"
proof -
  let ?comment = "comment_line (spaces n @ ''///'')"
  have silent: "emits (?comment l) []" if "l \<in> set (split_lines s)" for l
  proof -
    have "one_line l" using that assms split_lines_newline [of l s] by (simp add: one_line_def list_all_iff)
    then have "one_line (''/ '' @ lstrip l)" by (intro one_line_prefix one_line_lstrip) simp_all
    moreover have "one_line ''/''" by (simp add: one_line_def ends_plain_def)
    ultimately show ?thesis
      using emits_comment_line [of "''/ '' @ lstrip l" n] emits_comment_line [of "''/''" n]
      by (simp add: comment_line_def)
  qed
  have "emits (concat (map ?comment ls)) []" if "set ls \<subseteq> set (split_lines s)" for ls
    using that silent by (intro emits_concat_silent) auto
  then show ?thesis
    by (simp add: commentify_def Let_def) (meson order_trans set_drop_subset set_take_subset)
qed

lemma emits_slashes: "one_line s \<Longrightarrow> emits (spaces n @ ''/// '' @ s @ nl) []"
  using emits_comment_line [of "''/ '' @ s" n] one_line_prefix [of "''/ ''" s] by simp

lemma emits_spacer: "emits (spaces n @ ''///'' @ nl) []"
  using emits_comment_line [of "''/''" n] by (simp add: one_line_def ends_plain_def)

lemma emits_sphinx:
  assumes "plain_description (Some d)"
  shows "emits (as_sphinx_comment [] n d) []"
proof -
  have header: "emits (spaces n @ ''/// '' @ desc_summary d @ nl) []"
    using assms by (intro emits_slashes) (simp add: plain_description_def)
  have body: "emits (commentify (spaces n @ ''///'') t) []" if "desc_text d = Some t" for t
    using assms that by (intro emits_commentify) (simp add: plain_description_def plain_text_def)
  show ?thesis
    using header emits_silent [OF header emits_silent [OF emits_spacer [of n] body]]
    by (cases "desc_text d") (simp_all add: as_sphinx_comment_def Let_def)
qed

lemma emits_description_comment: "plain_description d \<Longrightarrow> emits (description_comment d) []"
  using emits_sphinx [of _ 0] by (auto simp: description_comment_def split: option.split)

lemma emits_summary_or_description:
  "plain_summary s \<Longrightarrow> plain_description d \<Longrightarrow> emits (summary_or_description s d n) []"
  using emits_slashes [of "the s" n] emits_sphinx [of "the d" n]
  by (auto simp: summary_or_description_def plain_summary_def intro!: emits_silent emits_newline
      split: option.splits)

section \<open>Code emits its lines\<close>

lemma code_line_text:
  "c \<noteq> CHR ''/'' \<Longrightarrow> \<not> py_space c \<Longrightarrow> c \<noteq> newline \<Longrightarrow> newline \<notin> set s \<Longrightarrow> one_line t \<Longrightarrow> t \<noteq> [] \<Longrightarrow>
     code_line (c # s @ t)"
  by (simp add: code_line_def one_line_def ends_plain_def)

lemma code_line_name:
  "is_name w \<Longrightarrow> newline \<notin> set s \<Longrightarrow> one_line t \<Longrightarrow> t \<noteq> [] \<Longrightarrow> code_line (w @ s @ t)"
  using is_name_hd [of w] is_name_set [of w] by (simp add: code_line_def one_line_def ends_plain_def)

lemma decimal_int_one_line: "newline \<notin> set (decimal_int i) \<and> backslash \<notin> set (decimal_int i)"
proof -
  have "newline \<notin> set (decimal n) \<and> backslash \<notin> set (decimal n)" for n
    using decimal_digits [of n] by (auto simp: list_all_iff is_digit_def)
  then show ?thesis by (auto simp: decimal_int_def)
qed

lemma dots_to_colons_append: "dots_to_colons (s @ c # t) = dots_to_colons s @ dots_to_colons [c] @ dots_to_colons t"
  by (simp add: dots_to_colons_def)

lemma dots_to_colons_id: "CHR ''.'' \<notin> set w \<Longrightarrow> dots_to_colons w = w"
  by (induction w) (auto simp: dots_to_colons_def)

lemma dots_to_colons_name: "is_name w \<Longrightarrow> dots_to_colons w = w"
  using is_name_set by (intro dots_to_colons_id) simp

lemma enum_underlying_text: "enum_underlying_text e = underlying_text (enum_underlying_of e)"
  by (simp add: enum_underlying_text_def enum_underlying_of_def)

lemma underlying_newline: "newline \<notin> set (underlying_text u)"
  by (cases u) simp_all

lemma enum_reference_text:
  assumes "CHR ''.'' \<in> set e"
  shows "e = fst (enum_reference interface e) @ CHR ''.'' # snd (enum_reference interface e)"
proof -
  let ?rest = "dropWhile ((\<noteq>) (CHR ''.'')) e"
  have "?rest \<noteq> []" using assms by (simp add: dropWhile_eq_Nil_conv)
  then have "?rest = CHR ''.'' # drop 1 ?rest"
    using hd_dropWhile [of "(\<noteq>) (CHR ''.'')" e] by (cases ?rest) auto
  then show ?thesis
    using assms takeWhile_dropWhile_id [of "(\<noteq>) (CHR ''.'')" e] by (simp add: enum_reference_def)
qed

text \<open>The type of a member is the name of an enumeration with its interface, or begins with \<^verbatim>\<open>W\<close>.\<close>

lemma cxx_enum_type:
  assumes "is_name interface" "plain_arg a" "truthy (arg_enum a)"
  obtains i n where "is_name i" "is_name n" "cxx_member_type interface a = i @ ''::'' @ n"
    "type_text (arg_field_type env interface a) = i @ ''::'' @ n"
proof -
  obtain e where e: "arg_enum a = Some e" using assms(3) by (cases "arg_enum a") simp_all
  let ?r = "enum_reference interface e"
  have names: "is_name (fst ?r)" "is_name (snd ?r)"
    using assms by (auto simp: plain_arg_def e enum_reference_def split: if_splits)
  have "cxx_member_type interface a = fst ?r @ ''::'' @ snd ?r"
  proof (cases "CHR ''.'' \<in> set e")
    case True
    from enum_reference_text [OF this, of interface]
    have "dots_to_colons e = dots_to_colons (fst ?r @ CHR ''.'' # snd ?r)" by (rule arg_cong)
    also have "\<dots> = fst ?r @ ''::'' @ snd ?r"
      using names by (simp only: dots_to_colons_append dots_to_colons_name) (simp add: dots_to_colons_def)
    finally show ?thesis using True assms(3) by (simp add: cxx_member_type_def e)
  qed (use assms(3) in \<open>simp add: cxx_member_type_def e enum_reference_def\<close>)
  with names assms(3) that show ?thesis by (simp add: arg_field_type_def e Let_def)
qed

lemma cxx_plain_type:
  assumes "plain_arg a" "\<not> truthy (arg_enum a)"
  obtains t where "newline \<notin> set t" "cxx_member_type interface a = CHR ''W'' # t"
    "type_text (arg_field_type env interface a) = CHR ''W'' # t"
proof -
  have i: "newline \<notin> set (interface_or_nothing (arg_interface a))"
    "interface_text (interface_of (arg_interface a)) = interface_or_nothing (arg_interface a)"
    using assms is_name_set by (auto simp: plain_arg_def interface_or_nothing_def interface_of_def)
  have "type_text (arg_field_type env interface a) = cxx_member_type interface a"
    using assms(2) i(2) by (cases "arg_wtype a") (simp_all add: arg_field_type_def cxx_member_type_def)
  moreover obtain t where "cxx_member_type interface a = CHR ''W'' # t" "newline \<notin> set t"
    using assms(2) i(1) by (cases "arg_wtype a") (auto simp: cxx_member_type_def)
  ultimately show ?thesis using that by simp
qed

lemma emits_member:
  assumes "is_name interface" "plain_arg a"
  shows "emits (as_cxx_data_member interface a) [field_line (arg_field env interface a)]"
proof -
  let ?line = "cxx_member_type interface a @ '' '' @ arg_name a @ '';''"
  have name: "newline \<notin> set (arg_name a)" using assms is_name_set by (simp add: plain_arg_def)
  have stop: "one_line '';''" by (simp add: one_line_def ends_plain_def)
  have "type_text (arg_field_type env interface a) = cxx_member_type interface a \<and> code_line ?line"
  proof (cases "truthy (arg_enum a)")
    case True
    from cxx_enum_type [OF assms True] obtain i n where "is_name i" "is_name n"
      "cxx_member_type interface a = i @ ''::'' @ n" "type_text (arg_field_type env interface a) = i @ ''::'' @ n" .
    then show ?thesis
      using code_line_name [of i "''::'' @ n @ '' '' @ arg_name a" "'';''"] name stop by (simp add: is_name_set)
  next
    case False
    from cxx_plain_type [OF assms(2) False] obtain t where "newline \<notin> set t"
      "cxx_member_type interface a = CHR ''W'' # t" "type_text (arg_field_type env interface a) = CHR ''W'' # t" .
    moreover have "\<not> py_space (CHR ''W'')" by (simp add: py_space_def is_space_def)
    ultimately show ?thesis
      using code_line_text [of "CHR ''W''" "t @ '' '' @ arg_name a" "'';''"] name stop by simp
  qed
  moreover have "emits (summary_or_description (arg_summary a) (arg_description a) 4) []"
    using assms by (intro emits_summary_or_description) (simp_all add: plain_arg_def)
  ultimately show ?thesis
    using emits_silent [OF _ emits_code_line [of ?line 4]]
    by (simp add: as_cxx_data_member_def field_line_def arg_field_def)
qed

lemma emits_entry:
  assumes "plain_entry e"
  shows "emits (as_cxx_enum_class_entry n is_last e)
           [(''E'' @ entry_name e) @ '' = '' @ decimal_int (entry_value e) @ (if is_last then [] else '','')]"
proof -
  let ?t = "decimal_int (entry_value e) @ (if is_last then [] else '','')"
  have "one_line ?t \<and> ?t \<noteq> []"
    using one_line_prefix [of "decimal_int (entry_value e)" "[]"] decimal_digits [of "nat (entry_value e)"]
      decimal_int_one_line [of "entry_value e"]
    by (auto simp: one_line_def ends_plain_def decimal_int_def)
  moreover have "newline \<notin> set (entry_name e @ '' = '')"
    using assms is_name_set by (simp add: plain_entry_def)
  moreover have "\<not> py_space (CHR ''E'')" by (simp add: py_space_def is_space_def)
  ultimately have line: "code_line ((''E'' @ entry_name e) @ '' = '' @ ?t)"
    using code_line_text [of "CHR ''E''" "entry_name e @ '' = ''" ?t] by simp
  have "emits (summary_or_description (entry_summary e) (entry_description e) n) []"
    using assms by (intro emits_summary_or_description) (simp_all add: plain_entry_def)
  from emits_silent [OF this emits_code_line [OF line, of n]] show ?thesis
    by (simp add: as_cxx_enum_class_entry_def)
qed

lemma emits_entries:
  "es \<noteq> [] \<Longrightarrow> list_all plain_entry es \<Longrightarrow>
     emits (concat (map (as_cxx_enum_class_entry n False) (butlast es)) @ as_cxx_enum_class_entry n True (last es))
       (enumerator_lines (map (\<lambda>x. (''E'' @ entry_name x, entry_value x)) es))"
proof (induction es rule: induct_list012)
  case (2 x)
  then show ?case using emits_entry [of x n True] by simp
next
  case (3 x y es)
  then show ?case using emits_append [OF emits_entry [of x n False] "3.IH"(2)] by simp
qed simp

text \<open>Lines of code without a name at their beginning or their end.\<close>

lemma emits_line:
  "code_line l \<Longrightarrow> emits (l @ nl) [l]"
  using emits_code_line [of l 0] by simp

lemmas plain_line_simps = code_line_def one_line_def ends_plain_def py_space_def is_space_def

lemma emits_end: "emits (spaces n @ ''};'' @ nl) [''};'']"
  by (rule emits_code_line) (simp add: plain_line_simps)

lemma emits_end_blank: "emits (''};'' @ nl @ nl) [''};'']"
  using emits_append [OF emits_end [of 0] emits_newline] by simp

lemma emits_enum_declaration:
  "is_name (wl_enum_name e) \<Longrightarrow>
     emits (as_cxx_enum_class_decleration n e)
       [''enum class '' @ wl_enum_name e @ '' : '' @ underlying_text (enum_underlying_of e) @ '';'']"
  using emits_code_line [of "''enum class '' @ wl_enum_name e @ '' : '' @ underlying_text (enum_underlying_of e) @ '';''" n]
  by (simp add: as_cxx_enum_class_decleration_def enum_underlying_text plain_line_simps is_name_set underlying_newline)

lemma emits_enum:
  assumes "is_name interface" "plain_enum e"
  shows "\<exists>s. as_cxx_enum_class_definition interface 0 e = Inr s \<and> emits s (enum_lines (enum_of interface e))"
proof -
  let ?head = "''enum class '' @ interface @ ''::'' @ wl_enum_name e @ '' : '' @ underlying_text (enum_underlying_of e) @ '' {''"
  have "code_line ?head"
    using assms is_name_set by (simp add: plain_enum_def plain_line_simps underlying_newline)
  then have head: "emits (?head @ nl) [?head]" by (rule emits_line)
  have entries: "emits (concat (map (as_cxx_enum_class_entry 4 False) (butlast (wl_enum_entries e))) @
        as_cxx_enum_class_entry 4 True (last (wl_enum_entries e)))
      (enumerator_lines (enumerators (enum_of interface e)))"
    using emits_entries [of "wl_enum_entries e" 4] assms by (simp add: plain_enum_def enum_of_def)
  have comment: "emits (case wl_enum_description e of None \<Rightarrow> [] | Some d \<Rightarrow> as_sphinx_comment [] 0 d) []"
    using emits_description_comment [of "wl_enum_description e"] assms
    by (simp add: plain_enum_def description_comment_def)
  show ?thesis
    using emits_silent [OF comment emits_append [OF head emits_append [OF entries emits_end_blank]]] assms(2)
    by (simp add: as_cxx_enum_class_definition_def Let_def enum_underlying_text plain_enum_def enum_lines_def
        enum_of_def)
qed

lemma emits_opcode:
  assumes "is_name interface" "0 \<le> n" "n < 2 ^ 16"
  shows "emits (cxx_opcode_static_member interface n)
           [''static constexpr Wopcode<'' @ interface @ ''> opcode{ '' @ decimal (unat (word_of_int n :: u16)) @ '' };'']"
proof -
  have n: "decimal_int n = decimal (unat (word_of_int n :: u16))"
    using assms by (simp add: decimal_int_def unsigned_of_int take_bit_int_eq_self unat_eq_nat_uint)
  have "code_line (''static constexpr Wopcode<'' @ interface @ ''> opcode{ '' @ decimal_int n @ '' };'')"
    using assms is_name_set decimal_int_one_line by (simp add: plain_line_simps)
  from emits_code_line [OF this, of 4] show ?thesis by (simp add: cxx_opcode_static_member_def n)
qed

lemma emits_struct_line:
  "is_name name \<Longrightarrow> emits (member_struct_decleration n name) [struct_line name]"
  using emits_code_line [of "struct_line name" n]
  by (simp add: member_struct_decleration_def struct_line_def plain_line_simps is_name_set)

text \<open>The struct of a message, of either kind.\<close>

lemma emits_message:
  assumes "is_name interface" "is_name name" "0 \<le> n" "n < 2 ^ 16" "plain_description d" "list_all plain_arg args"
  shows "emits (description_comment d @ (''struct '' @ interface @ ''::'' @ kind_text k @ ''::'' @ name @ '' {'' @ nl) @
             cxx_opcode_static_member interface n @ concat (map (as_cxx_data_member interface) args) @ ''};'' @ nl @ nl)
           (message_lines (message_of env interface k name n args))"
proof -
  let ?head = "''struct '' @ interface @ ''::'' @ kind_text k @ ''::'' @ name @ '' {''"
  have "newline \<notin> set (kind_text k)" by (cases k) simp_all
  then have "code_line ?head" using assms is_name_set by (simp add: plain_line_simps)
  then have head: "emits (?head @ nl) [?head]" by (rule emits_line)
  have fields: "emits (concat (map (as_cxx_data_member interface) args)) (map (\<lambda>a. field_line (arg_field env interface a)) args)"
    using assms by (intro emits_concat_lines emits_member) (auto simp: list_all_iff)
  from emits_silent [OF emits_description_comment [OF assms(5)] emits_append [OF head
      emits_append [OF emits_opcode [OF assms(1,3,4)] emits_append [OF fields emits_end_blank]]]]
  show ?thesis by (simp add: message_lines_def message_of_def comp_def)
qed

lemma emits_request:
  "is_name interface \<Longrightarrow> 0 \<le> n \<Longrightarrow> n < 2 ^ 16 \<Longrightarrow> plain_request r \<Longrightarrow>
     emits (request_struct_definition interface n r)
       (message_lines (message_of env interface Request (request_name r) n (request_args r)))"
  using emits_message [of interface "request_name r" n "request_description r" "request_args r" Request env]
  by (simp add: request_struct_definition_def plain_request_def)

lemma emits_event:
  "is_name interface \<Longrightarrow> 0 \<le> n \<Longrightarrow> n < 2 ^ 16 \<Longrightarrow> plain_event e \<Longrightarrow>
     emits (event_struct_definition interface n e)
       (message_lines (message_of env interface Event (event_name e) n (event_args e)))"
  using emits_message [of interface "event_name e" n "event_description e" "event_args e" Event env]
  by (simp add: event_struct_definition_def plain_event_def)

lemma py_map_emits:
  "(\<And>x. x \<in> set xs \<Longrightarrow> \<exists>s. f x = Inr s \<and> emits s (g x)) \<Longrightarrow>
     \<exists>ss. py_map f xs = Inr ss \<and> emits (concat ss) (concat (map g xs))"
proof (induction xs)
  case (Cons x xs)
  then obtain s ss where "f x = Inr s" "emits s (g x)" "py_map f xs = Inr ss"
    "emits (concat ss) (concat (map g xs))"
    by (metis list.set_intros)
  then show ?case by (auto intro: emits_append)
qed auto

lemma emits_definitions:
  assumes "plain_interface i"
  shows "\<exists>s. as_cxx_definitions i = Inr s \<and> emits s (interface_lines (interface_def_of env i))"
proof -
  have name: "is_name (interface_name i)" using assms by (simp add: plain_interface_def)
  have "\<exists>es. py_map (as_cxx_enum_class_definition (interface_name i) 0) (interface_enums i) = Inr es \<and>
      emits (concat es) (concat (map (\<lambda>e. enum_lines (enum_of (interface_name i) e)) (interface_enums i)))"
    using assms by (intro py_map_emits emits_enum name) (simp add: plain_interface_def list_all_iff)
  then obtain es where es: "py_map (as_cxx_enum_class_definition (interface_name i) 0) (interface_enums i) = Inr es"
    "emits (concat es) (concat (map (\<lambda>e. enum_lines (enum_of (interface_name i) e)) (interface_enums i)))"
    by blast
  have opcodes: "0 \<le> n \<and> n < 2 ^ 16" if "n \<in> set (request_opcodes i) \<union> set (event_opcodes i)" for n
    using assms that by (auto simp: plain_interface_def list_all_iff)
  have "emits (concat (map (\<lambda>(n, r). request_struct_definition (interface_name i) n r)
        (zip (request_opcodes i) (interface_requests i))))
      (concat (map (\<lambda>(n, r). message_lines (message_of env (interface_name i) Request (request_name r) n (request_args r)))
        (zip (request_opcodes i) (interface_requests i))))"
    using assms opcodes name
    by (intro emits_concat) (auto simp: plain_interface_def list_all_iff intro!: emits_request
        dest: set_zip_leftD set_zip_rightD)
  moreover have "emits (concat (map (\<lambda>(n, e). event_struct_definition (interface_name i) n e)
        (zip (event_opcodes i) (interface_events i))))
      (concat (map (\<lambda>(n, e). message_lines (message_of env (interface_name i) Event (event_name e) n (event_args e)))
        (zip (event_opcodes i) (interface_events i))))"
    using assms opcodes name
    by (intro emits_concat) (auto simp: plain_interface_def list_all_iff intro!: emits_event
        dest: set_zip_leftD set_zip_rightD)
  ultimately have "emits (concat es @ concat (map (\<lambda>(n, r). request_struct_definition (interface_name i) n r)
        (zip (request_opcodes i) (interface_requests i))) @
      concat (map (\<lambda>(n, e). event_struct_definition (interface_name i) n e)
        (zip (event_opcodes i) (interface_events i))))
      (interface_lines (interface_def_of env i))"
    using es(2) by (auto simp: interface_lines_def interface_def_of_def comp_def case_prod_unfold
        intro!: emits_append)
  with es(1) show ?thesis by (simp add: as_cxx_definitions_def)
qed

lemma emits_declaration:
  assumes "plain_interface i"
  shows "emits (as_cxx_struct_without_definitions i) (decl_lines (forward_decl (interface_def_of env i)))"
proof -
  let ?head = "''struct '' @ interface_name i @ '' {''"
  have "code_line ?head" using assms is_name_set by (simp add: plain_interface_def plain_line_simps)
  then have head: "emits (?head @ nl) [?head]" by (rule emits_line)
  have enums: "emits (concat (map (as_cxx_enum_class_decleration 4) (interface_enums i)))
      (map (\<lambda>e. ''enum class '' @ wl_enum_name e @ '' : '' @ underlying_text (enum_underlying_of e) @ '';'')
        (interface_enums i))"
    using assms by (intro emits_concat_lines emits_enum_declaration)
      (simp add: plain_interface_def plain_enum_def list_all_iff)
  have blank: "emits (if interface_enums i \<noteq> [] then nl else []) []"
    by (simp add: emits_newline emits_Nil)
  have struct: "emits (spaces 4 @ ''struct request {'' @ nl) [''struct request {'']"
    "emits (spaces 4 @ ''struct event {'' @ nl) [''struct event {'']"
    by (rule emits_code_line; simp add: plain_line_simps)+
  have requests: "emits (concat (map (\<lambda>r. member_struct_decleration 8 (request_name r)) (interface_requests i)))
      (map (\<lambda>r. struct_line (request_name r)) (interface_requests i))"
    using assms by (intro emits_concat_lines emits_struct_line)
      (simp add: plain_interface_def plain_request_def list_all_iff)
  have events: "emits (concat (map (\<lambda>e. member_struct_decleration 8 (event_name e)) (interface_events i)))
      (map (\<lambda>e. struct_line (event_name e)) (interface_events i))"
    using assms by (intro emits_concat_lines emits_struct_line)
      (simp add: plain_interface_def plain_event_def list_all_iff)
  have end_blank: "emits (spaces 4 @ ''};'' @ nl @ nl) [''};'']"
    using emits_append [OF emits_end [of 4] emits_newline] by simp
  show ?thesis
    unfolding as_cxx_struct_without_definitions_def
    using emits_append [OF head emits_append [OF enums emits_append [OF blank emits_append [OF struct(1)
        emits_append [OF requests emits_append [OF end_blank emits_append [OF struct(2)
        emits_append [OF events emits_append [OF emits_end [of 4] emits_end [of 0]]]]]]]]]]
    by (simp add: decl_lines_def interface_def_of_def comp_def)
qed

lemma emits_file_comment:
  assumes "one_line (wl_protocol_name p)" "plain_text (wl_copyright p)" "plain_description (wl_protocol_description p)"
  shows "emits (file_comment p) []"
proof -
  have newline: "newline \<notin> set (wl_protocol_name p)" using assms by (simp add: one_line_def)
  have "one_line ('' Generated from Wayland xml protocol: '' @ wl_protocol_name p)"
    using assms(1) by (intro one_line_prefix) simp_all
  from emits_silent [OF emits_comment_line [OF this, of 0] emits_newline]
  have first: "emits (''// Generated from Wayland xml protocol: '' @ wl_protocol_name p @ nl @ nl) []" by simp
  have file_line: "emits (''/// @file'' @ nl) []"
    using emits_slashes [of "''@file''" 0] by (simp add: one_line_def ends_plain_def)
  have "emits (''/// '' @ wl_protocol_name p @ '' xml protocol'' @ nl) []"
    using emits_slashes [of "wl_protocol_name p @ '' xml protocol''" 0] newline
    by (simp add: one_line_def ends_plain_def)
  note no_description = emits_silent [OF file_line this]
  have description: "emits (as_sphinx_comment (''@file'' @ nl @ ''/// '') 0 d) []"
    if "wl_protocol_description p = Some d" for d
  proof -
    have "as_sphinx_comment (''@file'' @ nl @ ''/// '') 0 d = (''/// @file'' @ nl) @ as_sphinx_comment [] 0 d"
      by (simp add: as_sphinx_comment_def Let_def)
    with emits_silent [OF file_line emits_sphinx [of d 0]] assms(3) that show ?thesis by simp
  qed
  have copyright: "emits (''///'' @ nl @ commentify ''///'' c @ nl) []" if "wl_copyright p = Some c" for c
    using emits_silent [OF emits_spacer [of 0] emits_silent [OF emits_commentify [of c 0] emits_newline]] assms(2) that
    by (simp add: plain_text_def)
  have "emits (case wl_protocol_description p of Some d \<Rightarrow> as_sphinx_comment (''@file'' @ nl @ ''/// '') 0 d
      | None \<Rightarrow> ''/// @file'' @ nl @ ''/// '' @ wl_protocol_name p @ '' xml protocol'' @ nl) []"
    using no_description description by (simp split: option.split)
  moreover have "emits (if truthy (wl_copyright p)
      then ''///'' @ nl @ commentify ''///'' (the (wl_copyright p)) @ nl else []) []"
    using copyright by (cases "wl_copyright p") (simp_all add: emits_Nil)
  ultimately show ?thesis
    using emits_silent [OF first emits_silent] unfolding file_comment_def by blast
qed

lemma emits_preamble:
  "emits (''#pragma once'' @ nl @ nl) [''#pragma once'']"
  "emits (''#include '' @ [quote] @ ''waylander/wayland/protocol_primitives.hpp'' @ [quote] @ nl @ nl)
     [''#include '' @ [quote] @ ''waylander/wayland/protocol_primitives.hpp'' @ [quote]]"
  "emits (''namespace waylander {'' @ nl) [''namespace waylander {'']"
  "emits (''namespace wl {'' @ nl) [''namespace wl {'']"
  "emits (''namespace protocols {'' @ nl @ nl) [''namespace protocols {'']"
  using emits_append [OF emits_line [of "''#pragma once''"] emits_newline]
    emits_append [OF emits_line [of "''#include '' @ [quote] @ ''waylander/wayland/protocol_primitives.hpp'' @ [quote]"] emits_newline]
    emits_line [of "''namespace waylander {''"] emits_line [of "''namespace wl {''"]
    emits_append [OF emits_line [of "''namespace protocols {''"] emits_newline]
  by (simp_all add: plain_line_simps)

lemma emits_closing:
  "emits (''} // namespace protocols'' @ nl) [''} // namespace protocols'']"
  "emits (''} // namespace wl'' @ nl) [''} // namespace wl'']"
  "emits (''} // namespace waylander'' @ nl) [''} // namespace waylander'']"
  by (rule emits_line; simp add: plain_line_simps)+

lemma cxx_header_emits:
  assumes "plain_protocol p"
  shows "\<exists>content. cxx_header_content p = Inr content \<and> emits content (cxx_lines (header_of env p))"
proof -
  have "\<exists>ds. py_map as_cxx_definitions (wl_interfaces p) = Inr ds \<and>
      emits (concat ds) (concat (map (\<lambda>i. interface_lines (interface_def_of env i)) (wl_interfaces p)))"
    using assms by (intro py_map_emits emits_definitions) (simp add: plain_protocol_def list_all_iff)
  then obtain ds where ds: "py_map as_cxx_definitions (wl_interfaces p) = Inr ds"
    "emits (concat ds) (concat (map (\<lambda>i. interface_lines (interface_def_of env i)) (wl_interfaces p)))"
    by blast
  have decls: "emits (concat (map as_cxx_struct_without_definitions (wl_interfaces p)))
      (concat (map (\<lambda>i. decl_lines (forward_decl (interface_def_of env i))) (wl_interfaces p)))"
    using assms by (intro emits_concat emits_declaration) (simp add: plain_protocol_def list_all_iff)
  have comment: "emits (file_comment p) []"
    using assms by (intro emits_file_comment) (simp_all add: plain_protocol_def)
  have "one_line ''/ Declare everything before they might be used.''" by (simp add: one_line_def ends_plain_def)
  from emits_silent [OF emits_comment_line [OF this, of 0] emits_newline]
  have note_line: "emits (''/// Declare everything before they might be used.'' @ nl @ nl) []" by simp
  note parts = emits_append [OF emits_preamble(1) emits_append [OF emits_preamble(2)
    emits_append [OF emits_preamble(3) emits_append [OF emits_preamble(4) emits_append [OF emits_preamble(5)
    emits_silent [OF note_line emits_append [OF decls emits_append [OF ds(2) emits_append [OF emits_closing(1)
    emits_append [OF emits_closing(2) emits_closing(3)]]]]]]]]]]
  from emits_silent [OF comment parts] ds(1) assms show ?thesis
    by (simp add: cxx_header_content_def cxx_lines_def header_of_def comp_def plain_protocol_def)
qed

end
