(* ===== verification/Described_Headers.thy ===== *)
theory Described_Headers
  imports Header_Generator Protocol_Checks
begin

text \<open>
  The way back: the XML that describes a table of the protocol headers, and the protocol the
  generator reads from it. Every message, enumeration and interface has the same description \<open>d\<close>, a
  summary and a text. The fields before a new id of unknown interface are not in the XML, the
  generator puts them there.
\<close>

section \<open>The XML of a table\<close>

type_synonym doc = "string \<times> string"

definition doc_xml :: "doc \<Rightarrow> xml" where
  "doc_xml d = Element ''description'' [(''summary'', fst d)] (Some (snd d)) []"

fun type_attributes :: "arg_type \<Rightarrow> (string \<times> string) list" where
  "type_attributes TWint = [(''type'', ''int'')]"
| "type_attributes TWuint = [(''type'', ''uint'')]"
| "type_attributes TWfixed = [(''type'', ''fixed'')]"
| "type_attributes (TWobject (protocol_interface i)) = [(''type'', ''object''), (''interface'', i)]"
| "type_attributes (TWobject generic_object) = [(''type'', ''object'')]"
| "type_attributes (TWnew_id (protocol_interface i)) = [(''type'', ''new_id''), (''interface'', i)]"
| "type_attributes (TWnew_id generic_object) = [(''type'', ''new_id'')]"
| "type_attributes (TWenum u i n) = [(''type'', ''uint''), (''enum'', i @ ''.'' @ n)]"
| "type_attributes TWstring = [(''type'', ''string'')]"
| "type_attributes TWarray = [(''type'', ''array'')]"
| "type_attributes TWfd = [(''type'', ''fd'')]"

definition field_xml :: "string \<times> arg_type \<Rightarrow> xml" where
  "field_xml f = Element ''arg'' ((''name'', fst f) # type_attributes (snd f)) None []"

definition explicit_fields :: "(string \<times> arg_type) list \<Rightarrow> (string \<times> arg_type) list" where
  "explicit_fields fs = filter (\<lambda>f. fst f \<notin> {''new_id_interface'', ''new_id_interface_version''}) fs"

definition message_xml :: "doc \<Rightarrow> message_type \<Rightarrow> xml" where
  "message_xml d M =
     Element (kind_text (msg_kind M)) [(''name'', msg_name M)] None
       (doc_xml d # map field_xml (explicit_fields (msg_fields M)))"

definition entry_xml :: "string \<times> int \<Rightarrow> xml" where
  "entry_xml e = Element ''entry'' [(''name'', tl (fst e)), (''value'', decimal_int (snd e))] None []"

definition enum_xml :: "doc \<Rightarrow> enum_type \<Rightarrow> xml" where
  "enum_xml d E =
     Element ''enum''
       ((''name'', enum_name E) # (if enum_underlying E = Wuint_underlying then [(''bitfield'', ''true'')] else []))
       None (doc_xml d # map entry_xml (enumerators E))"

definition interface_xml :: "doc \<Rightarrow> interface_def \<Rightarrow> xml" where
  "interface_xml d I =
     Element ''interface'' [(''name'', decl_name (forward_decl I)), (''version'', ''1'')] None
       (doc_xml d # map (message_xml d) (request_messages I) @ map (message_xml d) (event_messages I) @
        map (enum_xml d) (enum_definitions I))"

definition protocol_xml :: "doc \<Rightarrow> protocol \<Rightarrow> xml" where
  "protocol_xml d P =
     Element ''protocol'' [(''name'', protocol_name P)] None
       (doc_xml d # map (interface_xml d) (protocol_interfaces P))"

section \<open>The protocol of a table\<close>

definition doc_description :: "doc \<Rightarrow> wl_description option" where
  "doc_description d = Some \<lparr>desc_summary = fst d, desc_text = Some (snd d)\<rparr>"

fun described_type :: "arg_type \<Rightarrow> wl_arg_type" where
  "described_type TWint = wl_int"
| "described_type TWuint = wl_uint"
| "described_type TWfixed = wl_fixed"
| "described_type (TWobject _) = wl_object"
| "described_type (TWnew_id _) = wl_new_id"
| "described_type (TWenum _ _ _) = wl_uint"
| "described_type TWstring = wl_string"
| "described_type TWarray = wl_array"
| "described_type TWfd = linux_fd"

fun described_interface :: "arg_type \<Rightarrow> string option" where
  "described_interface (TWobject (protocol_interface i)) = Some i"
| "described_interface (TWnew_id (protocol_interface i)) = Some i"
| "described_interface _ = None"

fun described_enum :: "arg_type \<Rightarrow> string option" where
  "described_enum (TWenum _ i n) = Some (i @ ''.'' @ n)"
| "described_enum _ = None"

definition arg_of_field :: "string \<times> arg_type \<Rightarrow> wl_arg" where
  "arg_of_field f =
     \<lparr>arg_name = fst f, arg_wtype = described_type (snd f), arg_summary = None,
      arg_interface = described_interface (snd f), arg_allow_null = Some False,
      arg_enum = described_enum (snd f), arg_description = None\<rparr>"

definition args_of_field :: "string \<times> arg_type \<Rightarrow> wl_arg list" where
  "args_of_field f = (if snd f = TWnew_id generic_object then new_id_preceding_args else []) @ [arg_of_field f]"

definition args_of_message :: "message_type \<Rightarrow> wl_arg list" where
  "args_of_message M = concat (map args_of_field (explicit_fields (msg_fields M)))"

definition request_of_message :: "doc \<Rightarrow> message_type \<Rightarrow> wl_request" where
  "request_of_message d M =
     \<lparr>request_name = msg_name M, request_type = None, request_since = None,
      request_description = doc_description d, request_args = args_of_message M\<rparr>"

definition event_of_message :: "doc \<Rightarrow> message_type \<Rightarrow> wl_event" where
  "event_of_message d M =
     \<lparr>event_name = msg_name M, event_type = None, event_since = None,
      event_description = doc_description d, event_args = args_of_message M\<rparr>"

definition enum_of_type :: "doc \<Rightarrow> enum_type \<Rightarrow> wl_enum" where
  "enum_of_type d E =
     \<lparr>wl_enum_name = enum_name E, wl_enum_since = None, is_bitfield = (enum_underlying E = Wuint_underlying),
      wl_enum_description = doc_description d,
      wl_enum_entries =
        map (\<lambda>e. \<lparr>entry_name = tl (fst e), entry_value = snd e, entry_summary = None,
          entry_since = None, entry_description = None\<rparr>) (enumerators E)\<rparr>"

definition counting :: "'a list \<Rightarrow> int list" where
  "counting xs = map int [0..<length xs]"

definition interface_of_def :: "doc \<Rightarrow> interface_def \<Rightarrow> wl_interface" where
  "interface_of_def d I =
     \<lparr>interface_name = decl_name (forward_decl I), interface_version = 1,
      interface_description = doc_description d,
      interface_requests = map (request_of_message d) (request_messages I),
      interface_events = map (event_of_message d) (event_messages I),
      interface_enums = map (enum_of_type d) (enum_definitions I),
      request_opcodes = counting (request_messages I), event_opcodes = counting (event_messages I)\<rparr>"

definition protocol_of_table :: "doc \<Rightarrow> protocol \<Rightarrow> wl_protocol" where
  "protocol_of_table d P =
     \<lparr>wl_protocol_name = protocol_name P, wl_copyright = None,
      wl_protocol_description = doc_description d,
      wl_interfaces = map (interface_of_def d) (protocol_interfaces P)\<rparr>"

section \<open>Tables that can be described\<close>

text \<open>
  Names are identifiers, enumerators begin with \<^verbatim>\<open>E\<close>, the fields before a new id of unknown interface
  are the ones the generator puts there, and no interface is empty.
\<close>

fun names_ok :: "arg_type \<Rightarrow> bool" where
  "names_ok (TWobject (protocol_interface i)) = is_name i"
| "names_ok (TWnew_id (protocol_interface i)) = is_name i"
| "names_ok (TWenum _ i n) = (is_name i \<and> is_name n)"
| "names_ok _ = True"

definition with_preceding :: "string \<times> arg_type \<Rightarrow> (string \<times> arg_type) list" where
  "with_preceding f =
     (if snd f = TWnew_id generic_object
      then [(''new_id_interface'', TWstring), (''new_id_interface_version'', TWuint), f] else [f])"

definition describable_message :: "message_type \<Rightarrow> bool" where
  "describable_message M \<longleftrightarrow>
     is_name (msg_name M) \<and>
     list_all (\<lambda>f. is_name (fst f) \<and> names_ok (snd f)) (msg_fields M) \<and>
     concat (map with_preceding (explicit_fields (msg_fields M))) = msg_fields M"

definition describable_enum :: "enum_type \<Rightarrow> bool" where
  "describable_enum E \<longleftrightarrow>
     is_name (enum_name E) \<and>
     list_all (\<lambda>e. take 1 (fst e) = ''E'' \<and> is_name (drop 1 (fst e))) (enumerators E)"

definition describable_interface :: "interface_def \<Rightarrow> bool" where
  "describable_interface I \<longleftrightarrow>
     is_name (decl_name (forward_decl I)) \<and>
     list_all describable_message (request_messages I @ event_messages I) \<and>
     list_all describable_enum (enum_definitions I) \<and>
     \<not> (request_messages I = [] \<and> event_messages I = [] \<and> enum_definitions I = [])"

definition describable :: "protocol \<Rightarrow> bool" where
  "describable P \<longleftrightarrow>
     one_line (protocol_name P) \<and> protocol_interfaces P \<noteq> [] \<and>
     list_all describable_interface (protocol_interfaces P)"

section \<open>Reading the XML\<close>

lemma parse_doc: "parse_wl_description (doc_xml d) = Inr \<lparr>desc_summary = fst d, desc_text = Some (snd d)\<rparr>"
  by (simp add: parse_wl_description_def doc_xml_def py_assert_def attrib_def)

lemma doc_tag [simp]: "has_tag t (doc_xml d) \<longleftrightarrow> t = ''description''"
  by (auto simp: doc_xml_def)

lemma parse_field:
  "names_ok (snd f) \<Longrightarrow> parse_wl_arg (field_xml f) = Inr (args_of_field f)"
  by (cases "snd f" rule: type_attributes.cases)
    (auto simp: parse_wl_arg_def field_xml_def py_assert_def attrib_def only_description_def
      parse_wl_arg_type_def args_of_field_def arg_of_field_def is_name_def)

lemma parse_fields:
  assumes "list_all (\<lambda>f. names_ok (snd f)) (msg_fields M)"
  shows "py_concat_map parse_wl_arg (map field_xml (explicit_fields (msg_fields M))) = Inr (args_of_message M)"
  using py_map_map [of "explicit_fields (msg_fields M)" parse_wl_arg field_xml args_of_field] assms
  by (simp add: py_concat_map_def parse_field explicit_fields_def list_all_iff args_of_message_def)

lemma parse_message:
  assumes "describable_message M"
  shows "msg_kind M = Request \<Longrightarrow> parse_wl_request (message_xml d M) = Inr (request_of_message d M)"
    "msg_kind M = Event \<Longrightarrow> parse_wl_event (message_xml d M) = Inr (event_of_message d M)"
proof -
  have fields: "py_concat_map parse_wl_arg (map field_xml (explicit_fields (msg_fields M))) = Inr (args_of_message M)"
    using assms by (intro parse_fields) (simp add: describable_message_def list_all_iff)
  show "msg_kind M = Request \<Longrightarrow> parse_wl_request (message_xml d M) = Inr (request_of_message d M)"
    "msg_kind M = Event \<Longrightarrow> parse_wl_event (message_xml d M) = Inr (event_of_message d M)"
    by (simp_all add: parse_wl_request_def parse_wl_event_def message_xml_def py_assert_def parse_since_def attrib_def
        message_children_def parse_doc fields request_of_message_def event_of_message_def doc_description_def)
qed

lemma parse_entry:
  "parse_wl_enum_entry (entry_xml e) =
     Inr \<lparr>entry_name = tl (fst e), entry_value = snd e, entry_summary = None, entry_since = None,
          entry_description = None\<rparr>"
  by (simp add: parse_wl_enum_entry_def entry_xml_def py_assert_def only_description_def parse_since_def
      attrib_def py_int_decimal_int)

lemma parse_enum: "parse_wl_enum (enum_xml d E) = Inr (enum_of_type d E)"
  using py_map_map [of "enumerators E" parse_wl_enum_entry entry_xml] parse_entry
  by (simp add: parse_wl_enum_def enum_xml_def py_assert_def parse_since_def attrib_def parse_doc
      enum_of_type_def doc_description_def)

lemma parse_members_append:
  "parse_members (xs @ ys) s = py_bind (parse_members xs s) (parse_members ys)"
proof (induction xs arbitrary: s)
  case (Cons x xs)
  then show ?case by (cases "parse_member x s") simp_all
qed simp

lemma counting_Suc: "map (\<lambda>i. n + int i) [0..<Suc k] = n # map (\<lambda>i. n + 1 + int i) [0..<k]"
  by (simp add: upt_conv_Cons map_Suc_upt [symmetric] comp_def del: upt_Suc)

lemma parse_request_members:
  "list_all (\<lambda>M. describable_message M \<and> msg_kind M = Request) Ms \<Longrightarrow>
     parse_members (map (message_xml d) Ms) s =
       Inr (s\<lparr>parsed_requests := parsed_requests s @ map (request_of_message d) Ms,
              found_request_opcodes := found_request_opcodes s @
                map (\<lambda>i. request_opcode_counter s + int i) [0..<length Ms],
              request_opcode_counter := request_opcode_counter s + int (length Ms)\<rparr>)"
proof (induction Ms arbitrary: s)
  case (Cons M Ms)
  have "has_tag t (message_xml d M) \<longleftrightarrow> t = ''request''" for t
    using Cons.prems by (auto simp: message_xml_def)
  then show ?case using Cons parse_message [of M d]
    by (simp add: parse_member_def counting_Suc add.assoc del: upt_Suc)
qed simp

lemma parse_event_members:
  "list_all (\<lambda>M. describable_message M \<and> msg_kind M = Event) Ms \<Longrightarrow>
     parse_members (map (message_xml d) Ms) s =
       Inr (s\<lparr>parsed_events := parsed_events s @ map (event_of_message d) Ms,
              found_event_opcodes := found_event_opcodes s @
                map (\<lambda>i. event_opcode_counter s + int i) [0..<length Ms],
              event_opcode_counter := event_opcode_counter s + int (length Ms)\<rparr>)"
proof (induction Ms arbitrary: s)
  case (Cons M Ms)
  have "has_tag t (message_xml d M) \<longleftrightarrow> t = ''event''" for t
    using Cons.prems by (auto simp: message_xml_def)
  then show ?case using Cons parse_message [of M d]
    by (simp add: parse_member_def counting_Suc add.assoc del: upt_Suc)
qed simp

lemma parse_enum_members:
  "parse_members (map (enum_xml d) Es) s =
     Inr (s\<lparr>parsed_enums := parsed_enums s @ map (enum_of_type d) Es\<rparr>)"
proof (induction Es arbitrary: s)
  case (Cons E Es)
  have "has_tag t (enum_xml d E) \<longleftrightarrow> t = ''enum''" for t by (auto simp: enum_xml_def)
  then show ?case using Cons parse_enum by (simp add: parse_member_def)
qed simp

lemma parse_interface:
  assumes "interface_ok I" "describable_interface I"
  shows "parse_wl_interface (interface_xml d I) = Inr (interface_of_def d I)"
proof -
  have kinds: "list_all (\<lambda>M. describable_message M \<and> msg_kind M = Request) (request_messages I)"
    "list_all (\<lambda>M. describable_message M \<and> msg_kind M = Event) (event_messages I)"
    using assms by (simp_all add: interface_ok_def messages_ok_def Let_def describable_interface_def list_all_iff)
  have more: "\<not> length (children_of (interface_xml d I)) \<le> 1"
    using assms(2) by (auto simp: interface_xml_def describable_interface_def)
  have one: "py_int 10 ''1'' = Inr 1"
    by code_simp
  show ?thesis
    using more kinds one
    by (simp add: parse_wl_interface_def) (simp add: interface_xml_def py_assert_def parse_doc
        parse_members_append parse_request_members parse_event_members parse_enum_members no_members_def
        attrib_def interface_of_def_def doc_description_def counting_def, blast)
qed

lemma parse_protocol_xml:
  assumes "list_all interface_ok (protocol_interfaces P)" "describable P"
  shows "parse_wl_protocol (protocol_xml d P) = Inr (protocol_of_table d P)"
  using assms py_map_map [of "protocol_interfaces P" parse_wl_interface "interface_xml d" "interface_of_def d"]
  by (simp add: parse_wl_protocol_def protocol_xml_def py_assert_def Let_def parse_doc attrib_def describable_def
      list_all_iff parse_interface protocol_of_table_def doc_description_def)

section \<open>The table again\<close>

definition env_ok :: "(string \<times> string \<Rightarrow> underlying_type) \<Rightarrow> protocol \<Rightarrow> bool" where
  "env_ok env P \<longleftrightarrow>
     (\<forall>M \<in> set (message_types P). \<forall>u i n. TWenum u i n \<in> set (field_types M) \<longrightarrow> env (i, n) = u)"

lemma enum_reference_dot: "is_name i \<Longrightarrow> enum_reference interface (i @ ''.'' @ n) = (i, n)"
  using is_name_set [of i] by (simp add: enum_reference_def takeWhile_append dropWhile_append)

lemma truthy_name: "is_name i \<Longrightarrow> truthy (Some i) \<and> truthy (Some (i @ ''.'' @ n))"
  by (simp add: is_name_def)

lemma arg_of_field_field:
  assumes "names_ok (snd f)" "\<And>u i n. snd f = TWenum u i n \<Longrightarrow> env (i, n) = u"
  shows "arg_field env interface (arg_of_field f) = f"
proof -
  have "arg_field_type env interface (arg_of_field f) = snd f"
    using assms truthy_name enum_reference_dot
    by (cases "snd f" rule: type_attributes.cases)
      (simp_all add: arg_field_type_def arg_of_field_def interface_of_def Let_def is_name_def)
  then show ?thesis by (simp add: arg_field_def) (simp add: arg_of_field_def)
qed

lemma args_of_field_fields:
  assumes "names_ok (snd f)" "\<And>u i n. snd f = TWenum u i n \<Longrightarrow> env (i, n) = u"
  shows "map (arg_field env interface) (args_of_field f) = with_preceding f"
  using arg_of_field_field [OF assms(1), of env interface] assms(2)
  by (simp add: args_of_field_def with_preceding_def) (simp add: new_id_preceding_args_def
      preceding_arg_def arg_field_def arg_field_type_def)

lemma opcodes_from_map:
  "opcodes_from n Ms \<Longrightarrow> map (\<lambda>M. uint (msg_opcode M)) Ms = map (\<lambda>i. n + int i) [0..<length Ms]"
proof (induction n Ms rule: opcodes_from.induct)
  case (2 n M Ms)
  then show ?case by (simp add: counting_Suc del: upt_Suc)
qed simp

lemma counting_opcodes: "opcodes_from 0 Ms \<Longrightarrow> counting Ms = map (\<lambda>M. uint (msg_opcode M)) Ms"
  using opcodes_from_map [of 0 Ms] by (simp add: counting_def)

lemma message_again:
  assumes "describable_message M" "msg_interface M = protocol_interface interface"
    and "\<And>u i n. TWenum u i n \<in> set (field_types M) \<Longrightarrow> env (i, n) = u"
  shows "message_of env interface (msg_kind M) (msg_name M) (uint (msg_opcode M)) (args_of_message M) = M"
proof -
  have "map (arg_field env interface) (args_of_field f) = with_preceding f" if "f \<in> set (explicit_fields (msg_fields M))" for f
  proof (rule args_of_field_fields)
    from that have f: "f \<in> set (msg_fields M)" by (simp add: explicit_fields_def)
    with assms(1) show "names_ok (snd f)" by (auto simp: describable_message_def list_all_iff)
    fix u i n
    assume "snd f = TWenum u i n"
    with f show "env (i, n) = u" by (intro assms(3)) (metis field_types_def image_eqI list.set_map)
  qed
  then have "map (arg_field env interface) (args_of_message M) =
      concat (map with_preceding (explicit_fields (msg_fields M)))"
    by (simp add: args_of_message_def map_concat comp_def cong: map_cong)
  also have "\<dots> = msg_fields M" using assms(1) by (simp add: describable_message_def)
  finally show ?thesis using assms(2) by (simp add: message_of_def)
qed

lemma messages_again:
  assumes "\<And>M. M \<in> set Ms \<Longrightarrow> h (uint (msg_opcode M)) (g M) = M" "opcodes_from 0 Ms"
  shows "map (\<lambda>(n, r). h n r) (zip (counting Ms) (map g Ms)) = Ms"
proof -
  have "zip (counting Ms) (map g Ms) = map (\<lambda>M. (uint (msg_opcode M), g M)) Ms"
    by (simp add: counting_opcodes [OF assms(2)] zip_map_map zip_same_conv_map)
  then show ?thesis using assms(1) by (simp add: map_idI)
qed

lemma enum_again:
  assumes "describable_enum E" "enum_interface E = interface"
  shows "enum_of interface (enum_of_type d E) = E"
proof -
  have "(''E'' @ tl (fst e), snd e) = e" if "e \<in> set (enumerators E)" for e
  proof -
    have "take 1 (fst e) = ''E''" using that assms(1) by (simp add: describable_enum_def list_all_iff)
    then have "''E'' @ tl (fst e) = fst e" by (cases "fst e") simp_all
    then show ?thesis by simp
  qed
  then have "map (\<lambda>e. (''E'' @ tl (fst e), snd e)) (enumerators E) = enumerators E" by (simp add: map_idI)
  with assms(2) show ?thesis
    by (cases "enum_underlying E") (simp_all add: enum_of_def enum_of_type_def enum_underlying_of_def comp_def)
qed

lemma interface_again:
  assumes "interface_ok I" "describable_interface I"
    and "\<And>M u i n. M \<in> set (request_messages I @ event_messages I) \<Longrightarrow> TWenum u i n \<in> set (field_types M) \<Longrightarrow>
      env (i, n) = u"
  shows "interface_def_of env (interface_of_def d I) = I"
proof -
  let ?i = "decl_name (forward_decl I)"
  have ok: "messages_ok I Request" "messages_ok I Event"
    using assms(1) by (simp_all add: interface_ok_messages)
  have again: "message_of env ?i k (msg_name M) (uint (msg_opcode M)) (args_of_message M) = M"
    if "M \<in> set (messages_of k I)" for k M
  proof -
    have "msg_kind M = k" "msg_interface M = protocol_interface ?i"
      using that interface_ok_messages [OF assms(1), of k] by (simp_all add: messages_ok_def Let_def list_all_iff)
    with message_again [of M ?i env] assms(2) assms(3) [of M] that show ?thesis
      by (cases k) (simp_all add: describable_interface_def list_all_iff)
  qed
  have requests: "map (\<lambda>(n, r). message_of env ?i Request (request_name r) n (request_args r))
      (zip (counting (request_messages I)) (map (request_of_message d) (request_messages I))) = request_messages I"
    using again [of _ Request] ok(1)
    by (intro messages_again) (simp_all add: request_of_message_def messages_ok_def Let_def)
  have events: "map (\<lambda>(n, e). message_of env ?i Event (event_name e) n (event_args e))
      (zip (counting (event_messages I)) (map (event_of_message d) (event_messages I))) = event_messages I"
    using again [of _ Event] ok(2)
    by (intro messages_again) (simp_all add: event_of_message_def messages_ok_def Let_def)
  have enums: "map (enum_of ?i) (map (enum_of_type d) (enum_definitions I)) = enum_definitions I"
    using assms(1,2) by (simp add: comp_def map_idI enum_again interface_ok_def describable_interface_def list_all_iff)
  have underlying: "enum_underlying_of (enum_of_type d E) = enum_underlying E" for E
    by (cases "enum_underlying E") (simp_all add: enum_underlying_of_def enum_of_type_def)
  have decl: "map (\<lambda>E. (enum_name E, enum_underlying E)) (enum_definitions I) = decl_enums (forward_decl I)"
    "map msg_name (request_messages I) = decl_requests (forward_decl I)"
    "map msg_name (event_messages I) = decl_events (forward_decl I)"
    using assms(1) ok by (simp_all add: interface_ok_def messages_ok_def Let_def)
  show ?thesis
    using requests events enums decl
    by (simp add: interface_def_of_def interface_of_def_def comp_def underlying)
      (simp add: enum_of_type_def request_of_message_def event_of_message_def)
qed

lemma table_again:
  assumes "list_all interface_ok (protocol_interfaces P)" "describable P" "env_ok env P"
  shows "header_of env (protocol_of_table d P) = P"
proof -
  have "interface_def_of env (interface_of_def d I) = I" if "I \<in> set (protocol_interfaces P)" for I
    using that assms by (intro interface_again)
      (auto simp: list_all_iff describable_def env_ok_def message_types_def)
  then show ?thesis by (simp add: header_of_def protocol_of_table_def comp_def map_idI)
qed

end
