(* ===== verification/Generated_Headers.thy ===== *)
theory Generated_Headers
  imports Described_Headers
begin

text \<open>
  The generator on the six protocol headers: their tables can be described in XML, and what it
  writes from the XML is their code.
\<close>

section \<open>The protocol of a table is plain\<close>

definition plain_doc :: "doc \<Rightarrow> bool" where
  "plain_doc d \<longleftrightarrow> one_line (fst d) \<and> list_all ends_plain (split_lines (snd d))"

lemma plain_doc_description: "plain_doc d \<Longrightarrow> plain_description (doc_description d)"
  by (simp add: plain_doc_def plain_description_def doc_description_def plain_text_def)

lemma is_name_preceding: "is_name ''new_id_interface'' \<and> is_name ''new_id_interface_version''"
  by (simp add: is_name_def name_char_def digit_value_def Let_def)

lemma plain_args_of_field:
  assumes "is_name (fst f)" "names_ok (snd f)"
  shows "list_all plain_arg (args_of_field f)"
proof -
  have "plain_arg (arg_of_field f)"
    using assms enum_reference_dot
    by (cases "snd f" rule: type_attributes.cases)
      (simp_all add: plain_arg_def arg_of_field_def plain_summary_def plain_description_def)
  moreover have "list_all plain_arg new_id_preceding_args"
    using is_name_preceding by (simp add: new_id_preceding_args_def preceding_arg_def plain_arg_def
        plain_summary_def plain_description_def one_line_def ends_plain_def)
  ultimately show ?thesis by (simp add: args_of_field_def)
qed

lemma plain_args_of_message:
  "describable_message M \<Longrightarrow> list_all plain_arg (args_of_message M)"
  using plain_args_of_field
  by (fastforce simp: describable_message_def args_of_message_def explicit_fields_def list_all_iff)

lemma counting_bound:
  assumes "opcodes_from 0 Ms"
  shows "list_all (\<lambda>n. 0 \<le> n \<and> n < 2 ^ 16) (counting Ms)"
  unfolding counting_opcodes [OF assms] list_all_iff by (auto intro: order_less_le_trans [OF uint_lt2p])

lemma plain_interface_of_def:
  assumes "describable_interface I" "plain_doc d" "interface_ok I"
  shows "plain_interface (interface_of_def d I)"
proof -
  note d = plain_doc_description [OF assms(2)]
  have "plain_enum (enum_of_type d E)" if "E \<in> set (enum_definitions I)" for E
    using that assms(1,3) d
    by (auto simp: describable_interface_def describable_enum_def list_all_iff plain_enum_def enum_of_type_def
        plain_entry_def plain_summary_def plain_description_def enum_ok_def drop_Suc interface_ok_def)
  moreover have "plain_request (request_of_message d M)" "plain_event (event_of_message d M)"
    if "describable_message M" for M
    using that d plain_args_of_message [OF that]
    by (simp_all add: plain_request_def request_of_message_def plain_event_def event_of_message_def
        describable_message_def)
  ultimately show ?thesis
    using assms(1) d counting_bound [of "request_messages I"] counting_bound [of "event_messages I"]
      interface_ok_messages [OF assms(3), of Request] interface_ok_messages [OF assms(3), of Event]
    by (simp add: plain_interface_def interface_of_def_def describable_interface_def list_all_iff ball_Un
        messages_ok_def Let_def)
qed

lemma plain_protocol_of_table:
  assumes "list_all interface_ok (protocol_interfaces P)" "describable P" "plain_doc d"
  shows "plain_protocol (protocol_of_table d P)"
  using assms plain_doc_description [OF assms(3)] plain_interface_of_def [OF _ assms(3)]
  by (simp add: plain_protocol_def protocol_of_table_def describable_def list_all_iff plain_text_def)

section \<open>The enumerations of the headers\<close>

definition header_env :: "string \<times> string \<Rightarrow> underlying_type" where
  "header_env e =
     (case find (\<lambda>(i, n, u). (i, n) = e) (concat (map enum_names protocols)) of
        Some (i, n, u) \<Rightarrow> u | None \<Rightarrow> Wint_underlying)"

lemma enum_names_unique:
  assumes "P \<in> set protocols" "Q \<in> set protocols" "(i, n, u) \<in> set (enum_names P)" "(i, n, v) \<in> set (enum_names Q)"
  shows "u = v"
proof -
  obtain I where I: "I \<in> set (protocol_interfaces P)" "decl_name (forward_decl I) = i"
    "(n, u) \<in> set (decl_enums (forward_decl I))"
    using assms(3) by (auto simp: enum_names_def)
  obtain J where J: "J \<in> set (protocol_interfaces Q)" "decl_name (forward_decl J) = i"
    "(n, v) \<in> set (decl_enums (forward_decl J))"
    using assms(4) by (auto simp: enum_names_def)
  have names: "distinct (map (\<lambda>I. decl_name (forward_decl I)) (concat (map protocol_interfaces protocols)))"
    using protocols_interfaces_distinct by (simp add: interface_names_def [abs_def] map_concat comp_def)
  have "I \<in> set (concat (map protocol_interfaces protocols))" "J \<in> set (concat (map protocol_interfaces protocols))"
    using I J assms(1,2) by auto
  with names I(2) J(2) have "I = J" by (metis (mono_tags, lifting) distinct_map inj_on_eq_iff)
  moreover have "distinct (map fst (decl_enums (forward_decl I)))"
    using protocol_okD(1) [OF protocols_ok [OF assms(1)] I(1)] by (simp add: interface_ok_def)
  ultimately show ?thesis using I(3) J(3) by (metis eq_key_imp_eq_value)
qed

lemma header_env_declared:
  assumes "P \<in> set protocols" "declares_enum P (i, n, u)"
  shows "header_env (i, n) = u"
proof -
  let ?all = "concat (map enum_names protocols)"
  have "(i, n, u) \<in> set (enum_names P)" using assms(2) by (auto simp: declares_enum_def list_ex_iff)
  with assms(1) have "(i, n, u) \<in> set ?all" by auto
  then obtain x where x: "find (\<lambda>(j, m, v). (j, m) = (i, n)) ?all = Some x"
    by (cases "find (\<lambda>(j, m, v). (j, m) = (i, n)) ?all") (auto simp: find_None_iff)
  then have "x \<in> set ?all" "case x of (j, m, v) \<Rightarrow> (j, m) = (i, n)"
    unfolding find_Some_iff by (metis nth_mem)+
  then obtain v Q where v: "x = (i, n, v)" "Q \<in> set protocols" "(i, n, v) \<in> set (enum_names Q)" by auto
  with enum_names_unique [OF assms(1)] assms(2) have "u = v" by (auto simp: declares_enum_def list_ex_iff)
  with x v(1) show ?thesis by (simp add: header_env_def)
qed

lemma header_env_ok:
  assumes "P \<in> set protocols"
  shows "env_ok header_env P"
  unfolding env_ok_def
proof (intro ballI allI impI)
  fix M u i n
  assume M: "M \<in> set (message_types P)" and T: "TWenum u i n \<in> set (field_types M)"
  have "message_ok [wayland_protocol, P] M" using protocol_okD(2) [OF protocols_ok [OF assms] M] .
  with T have "field_ok [wayland_protocol, P] (TWenum u i n)"
    by (auto simp: message_ok_def list_all_iff simp del: field_ok.simps)
  moreover have "wayland_protocol \<in> set protocols" by (simp add: protocols_def)
  ultimately show "header_env (i, n) = u" using assms header_env_declared by auto
qed

section \<open>Names\<close>

text \<open>The identifier characters by the bits of their codes, for evaluation.\<close>

lemma name_char_range:
  "name_char c \<longleftrightarrow>
     (let n = of_char c :: nat
      in 48 \<le> n \<and> n \<le> 57 \<or> 65 \<le> n \<and> n \<le> 90 \<or> n = 95 \<or> 97 \<le> n \<and> n \<le> 122)"
proof -
  have "c = CHR ''_'' \<longleftrightarrow> (of_char c :: nat) = of_char CHR ''_''" by (simp only: of_char_eq_iff)
  then have "c = CHR ''_'' \<longleftrightarrow> (of_char c :: nat) = 95" by simp
  then show ?thesis by (auto simp: name_char_def digit_value_def Let_def)
qed

lemma low_bits:
  fixes p q r s :: bool
  defines "l \<equiv> of_bool p + 2 * of_bool q + 4 * of_bool r + 8 * of_bool s :: nat"
  shows "s \<and> (r \<or> q) \<longleftrightarrow> 10 \<le> l" "s \<and> (r \<or> q \<and> p) \<longleftrightarrow> 11 \<le> l"
    "p \<or> q \<or> r \<or> s \<longleftrightarrow> l \<noteq> 0" "s \<and> r \<and> q \<and> p \<longleftrightarrow> l = 15" "l \<le> 15"
  by (cases p; cases q; cases r; cases s; simp add: l_def)+

lemma name_char_bits [code]:
  "name_char (Char b0 b1 b2 b3 b4 b5 b6 b7) \<longleftrightarrow>
     \<not> b7 \<and>
     (if b6 then (if b4 then \<not> (b3 \<and> (b2 \<or> b1 \<and> b0)) \<or> (\<not> b5 \<and> b3 \<and> b2 \<and> b1 \<and> b0)
                  else b0 \<or> b1 \<or> b2 \<or> b3)
      else b5 \<and> b4 \<and> \<not> (b3 \<and> (b2 \<or> b1)))"
proof -
  define l :: nat where "l = of_bool b0 + 2 * of_bool b1 + 4 * of_bool b2 + 8 * of_bool b3"
  note low = low_bits [where p = b0 and q = b1 and r = b2 and s = b3, folded l_def]
  have code: "(of_char (Char b0 b1 b2 b3 b4 b5 b6 b7) :: nat) =
      l + 16 * of_bool b4 + 32 * of_bool b5 + 64 * of_bool b6 + 128 * of_bool b7"
    by (simp add: l_def)
  have "l \<le> 15" using low(5) .
  then show ?thesis unfolding name_char_range Let_def code low(1-4)
    by (cases b4; cases b5; cases b6; cases b7) auto
qed

lemma wayland_protocol_describable: "describable wayland_protocol"
  by code_simp

lemma xdg_shell_protocol_describable: "describable xdg_shell_protocol"
  by code_simp

lemma tablet_v2_protocol_describable: "describable tablet_v2_protocol"
  by code_simp

lemma linux_dmabuf_v1_protocol_describable: "describable linux_dmabuf_v1_protocol"
  by code_simp

lemma presentation_time_protocol_describable: "describable presentation_time_protocol"
  by code_simp

lemma viewporter_protocol_describable: "describable viewporter_protocol"
  by code_simp

end
