(* ===== verification/Header_Files.thy ===== *)
theory Header_Files
  imports Generated_Headers
begin

text \<open>
  \<^verbatim>\<open>main\<close> of \<^verbatim>\<open>generate_cxx_header_from_wayland_xml.py\<close>: the repositories it clones, the XML files it finds
  there and the headers it writes. Cloning and the XML parser are parameters; \<^verbatim>\<open>argparse\<close> has read
  the arguments.
\<close>

section \<open>Repositories and files\<close>

text \<open>
  What is asked of a clone: the paths that match a pattern (\<^verbatim>\<open>git ls-files\<close>) and the content of a path
  at the head.
\<close>

record 'bytes repo =
  ls_files :: "string \<Rightarrow> string list"
  tree_at_head :: "string \<Rightarrow> 'bytes py"

text \<open>The headers written so far, by path, and the exception that has ended the run, if any.\<close>

type_synonym files = "string \<rightharpoonup> string"
type_synonym run = "files \<times> unit py"

fun run_then :: "run \<Rightarrow> (files \<Rightarrow> run) \<Rightarrow> run" where
  "run_then (files, Inl e) f = (files, Inl e)"
| "run_then (files, Inr _) f = f files"

section \<open>Writing the headers\<close>

definition generate_header :: "('bytes \<Rightarrow> xml_document py) \<Rightarrow> string \<Rightarrow> 'bytes repo \<Rightarrow> string \<Rightarrow> files \<Rightarrow> run" where
  "generate_header fromstring dst_dir_path repo path_in_repo files =
     (case py_bind (tree_at_head repo path_in_repo) (\<lambda>bytes.
             py_bind (parse_wayland_xml fromstring bytes) (write_cxx_header (dst_dir_path @ ''/''))) of
        Inl e \<Rightarrow> (files, Inl e)
      | Inr (filename, content) \<Rightarrow> (files(filename \<mapsto> content), Inr ()))"

fun for_each :: "('a \<Rightarrow> files \<Rightarrow> run) \<Rightarrow> 'a list \<Rightarrow> files \<Rightarrow> run" where
  "for_each f [] files = (files, Inr ())"
| "for_each f (x # xs) files = run_then (f x files) (for_each f xs)"

definition parse_protocols_from_repo ::
    "('bytes \<Rightarrow> xml_document py) \<Rightarrow> string \<Rightarrow> string \<Rightarrow> 'bytes repo \<Rightarrow> files \<Rightarrow> run" where
  "parse_protocols_from_repo fromstring dst_dir_path git_pathspec repo =
     for_each (generate_header fromstring dst_dir_path repo) (ls_files repo git_pathspec)"

definition with_clone :: "'bytes repo py \<Rightarrow> ('bytes repo \<Rightarrow> files \<Rightarrow> run) \<Rightarrow> files \<Rightarrow> run" where
  "with_clone clone f files = (case clone of Inl e \<Rightarrow> (files, Inl e) | Inr repo \<Rightarrow> f repo files)"

text \<open>
  \<^verbatim>\<open>protocols\<close> is a set in the script; the list holds its elements in the order of the iteration.
\<close>

definition generator_main ::
    "(string \<Rightarrow> 'bytes repo py) \<Rightarrow> ('bytes \<Rightarrow> xml_document py) \<Rightarrow> string list \<Rightarrow> string \<Rightarrow> string \<Rightarrow> string \<Rightarrow>
     files \<Rightarrow> run" where
  "generator_main clone_from fromstring names dst_dir_path wl_address wl_protocols_address files =
     run_then
       (if ''core'' \<in> set names
        then with_clone (clone_from wl_address)
          (parse_protocols_from_repo fromstring dst_dir_path ''protocol/wayland.xml'') files
        else (files, Inr ()))
       (\<lambda>files.
          let non_core_protocols = filter (\<lambda>p. p \<noteq> ''core'') names
          in if non_core_protocols \<noteq> []
             then with_clone (clone_from wl_protocols_address)
               (\<lambda>repo. for_each (\<lambda>protocol.
                  parse_protocols_from_repo fromstring dst_dir_path (protocol @ ''/*.xml'') repo)
                  non_core_protocols) files
             else (files, Inr ()))"

section \<open>The headers of described tables\<close>

definition header_file :: "string \<Rightarrow> protocol \<Rightarrow> string" where
  "header_file dst P = dst @ ''/'' @ protocol_name P @ ''_protocol.hpp''"

text \<open>The path of a clone holds an XML document that describes the table of a header.\<close>

definition holds_document :: "('bytes \<Rightarrow> xml_document py) \<Rightarrow> doc \<Rightarrow> 'bytes repo \<Rightarrow> string \<Rightarrow> protocol \<Rightarrow> bool" where
  "holds_document fromstring d repo path P \<longleftrightarrow>
     P \<in> set protocols \<and>
     (\<exists>D. py_bind (tree_at_head repo path) fromstring = Inr D \<and> outer_comments D = [] \<and>
        without_comments (document_root D) = protocol_xml d P)"

definition holds_documents ::
    "('bytes \<Rightarrow> xml_document py) \<Rightarrow> doc \<Rightarrow> 'bytes repo \<Rightarrow> string \<Rightarrow> protocol list \<Rightarrow> bool" where
  "holds_documents fromstring d repo git_pathspec Ps \<longleftrightarrow>
     list_all2 (holds_document fromstring d repo) (ls_files repo git_pathspec) Ps"

text \<open>Every header that is in the files is the code of its table.\<close>

definition has_header :: "string \<Rightarrow> files \<Rightarrow> protocol \<Rightarrow> bool" where
  "has_header dst files P \<longleftrightarrow>
     (\<exists>content. files (header_file dst P) = Some content \<and> code_lines content = cxx_lines P)"

lemma protocols_describable: "P \<in> set protocols \<Longrightarrow> describable P"
  by (auto simp: protocols_def wayland_protocol_describable xdg_shell_protocol_describable
      tablet_v2_protocol_describable linux_dmabuf_v1_protocol_describable
      presentation_time_protocol_describable viewporter_protocol_describable)

lemma protocol_names_distinct: "distinct (map protocol_name protocols)"
  by (simp add: protocols_def wayland_protocol_def xdg_shell_protocol_def tablet_v2_protocol_def
      linux_dmabuf_v1_protocol_def presentation_time_protocol_def viewporter_protocol_def)

lemma header_file_inj: "P \<in> set protocols \<Longrightarrow> Q \<in> set protocols \<Longrightarrow> header_file dst P = header_file dst Q \<Longrightarrow> P = Q"
  using protocol_names_distinct by (auto simp: header_file_def distinct_map inj_on_def)

lemma generate_described:
  assumes "holds_document fromstring d repo path P" "plain_doc d"
  shows "\<exists>content. generate_header fromstring dst repo path files =
           (files(header_file dst P \<mapsto> content), Inr ()) \<and> code_lines content = cxx_lines P"
proof -
  from assms(1) obtain D where P: "P \<in> set protocols"
    and D: "py_bind (tree_at_head repo path) fromstring = Inr D" "outer_comments D = []"
      "without_comments (document_root D) = protocol_xml d P"
    by (auto simp: holds_document_def)
  have ok: "list_all interface_ok (protocol_interfaces P)"
    using protocols_ok [OF P] by (simp add: protocol_ok_def)
  note P' = protocols_describable [OF P]
  obtain bytes where bytes: "tree_at_head repo path = Inr bytes" "fromstring bytes = Inr D"
    using D(1) by auto
  have parsed: "parse_wayland_xml fromstring bytes = Inr (protocol_of_table d P)"
    using bytes(2) D parse_protocol_xml [OF ok P', of d]
    by (simp add: parse_wayland_xml_def remove_comment_nodes_def)
  obtain content where content: "cxx_header_content (protocol_of_table d P) = Inr content"
    "emits content (cxx_lines (header_of header_env (protocol_of_table d P)))"
    using cxx_header_emits [OF plain_protocol_of_table [OF ok P' assms(2)]] by blast
  have "code_lines content = cxx_lines P"
    using emits_code_lines [OF content(2)] table_again [OF ok P' header_env_ok [OF P], of d] by simp
  moreover have "wl_protocol_name (protocol_of_table d P) = protocol_name P"
    by (simp add: protocol_of_table_def)
  ultimately show ?thesis
    using bytes(1) parsed content(1)
    by (intro exI [of _ content]) (simp add: generate_header_def write_cxx_header_def header_file_def)
qed

lemma has_header_write:
  assumes "P \<in> set protocols" "Q \<in> set protocols" "code_lines content = cxx_lines P" "has_header dst files Q"
  shows "has_header dst (files(header_file dst P \<mapsto> content)) Q"
proof (cases "P = Q")
  case False
  then have "header_file dst Q \<noteq> header_file dst P" using header_file_inj [OF assms(1,2)] by metis
  with assms(4) show ?thesis by (simp add: has_header_def)
qed (use assms(3) in \<open>simp add: has_header_def\<close>)

text \<open>A step succeeds, keeps the headers there are and adds those of \<open>Ps\<close>.\<close>

definition adds_headers :: "string \<Rightarrow> (files \<Rightarrow> run) \<Rightarrow> protocol list \<Rightarrow> bool" where
  "adds_headers dst f Ps \<longleftrightarrow>
     (\<forall>files. \<exists>files'. f files = (files', Inr ()) \<and>
        (\<forall>Q \<in> set protocols. Q \<in> set Ps \<or> has_header dst files Q \<longrightarrow> has_header dst files' Q))"

lemma adds_then:
  assumes "adds_headers dst f Ps" "adds_headers dst g Qs"
  shows "adds_headers dst (\<lambda>files. run_then (f files) g) (Ps @ Qs)"
  unfolding adds_headers_def
proof
  fix files
  obtain files' where f: "f files = (files', Inr ())"
    "\<forall>Q \<in> set protocols. Q \<in> set Ps \<or> has_header dst files Q \<longrightarrow> has_header dst files' Q"
    using assms(1) by (auto simp: adds_headers_def)
  obtain files'' where g: "g files' = (files'', Inr ())"
    "\<forall>Q \<in> set protocols. Q \<in> set Qs \<or> has_header dst files' Q \<longrightarrow> has_header dst files'' Q"
    using assms(2) by (auto simp: adds_headers_def)
  from f g show "\<exists>files'. run_then (f files) g = (files', Inr ()) \<and>
      (\<forall>Q \<in> set protocols. Q \<in> set (Ps @ Qs) \<or> has_header dst files Q \<longrightarrow> has_header dst files' Q)"
    by auto
qed

lemma adds_for_each:
  "(\<And>x. x \<in> set xs \<Longrightarrow> adds_headers dst (f x) (Ps x)) \<Longrightarrow> adds_headers dst (for_each f xs) (concat (map Ps xs))"
proof (induction xs)
  case Nil
  then show ?case by (simp add: adds_headers_def)
next
  case (Cons x xs)
  then have "adds_headers dst (\<lambda>files. run_then (f x files) (for_each f xs)) (Ps x @ concat (map Ps xs))"
    by (intro adds_then) simp_all
  then show ?case by (simp add: adds_headers_def)
qed

lemma adds_repo:
  assumes "holds_documents fromstring d repo git_pathspec Ps" "plain_doc d"
  shows "adds_headers dst (parse_protocols_from_repo fromstring dst git_pathspec repo) Ps"
proof -
  have "adds_headers dst (for_each (generate_header fromstring dst repo) paths) Ps"
    if "list_all2 (holds_document fromstring d repo) paths Ps" for paths
    using that
  proof (induction rule: list_all2_induct)
    case Nil
    show ?case by (simp add: adds_headers_def)
  next
    case (Cons path paths P Ps)
    have P: "P \<in> set protocols" using Cons(1) by (simp add: holds_document_def)
    have "adds_headers dst (generate_header fromstring dst repo path) [P]"
      unfolding adds_headers_def
    proof
      fix files
      from generate_described [OF Cons(1) assms(2)]
      obtain content where "generate_header fromstring dst repo path files = (files(header_file dst P \<mapsto> content), Inr ())"
        and content: "code_lines content = cxx_lines P"
        by blast
      moreover have "has_header dst (files(header_file dst P \<mapsto> content)) P"
        using content by (simp add: has_header_def)
      ultimately show "\<exists>files'. generate_header fromstring dst repo path files = (files', Inr ()) \<and>
          (\<forall>Q \<in> set protocols. Q \<in> set [P] \<or> has_header dst files Q \<longrightarrow> has_header dst files' Q)"
        using has_header_write [OF P _ content] by auto
    qed
    from adds_then [OF this Cons(3)] show ?case by (simp add: adds_headers_def)
  qed
  with assms(1) show ?thesis by (simp add: holds_documents_def parse_protocols_from_repo_def)
qed

lemma holds_documents_protocols: "holds_documents fromstring d repo git_pathspec Ps \<Longrightarrow> set Ps \<subseteq> set protocols"
  by (auto simp: holds_documents_def holds_document_def list_all2_conv_all_nth in_set_conv_nth)

lemma adds_with_clone:
  "clone = Inr repo \<Longrightarrow> adds_headers dst (f repo) Ps \<Longrightarrow> adds_headers dst (with_clone clone f) Ps"
  by (simp add: adds_headers_def with_clone_def)

lemma adds_if:
  "(b \<Longrightarrow> adds_headers dst f Ps) \<Longrightarrow>
     adds_headers dst (\<lambda>files. if b then f files else (files, Inr ())) (if b then Ps else [])"
  by (cases b) (simp_all add: adds_headers_def)

end
