(* ===== verification/Generator_Properties.thy ===== *)
theory Generator_Properties
  imports Header_Files
begin

text \<open>
  The properties of \<^verbatim>\<open>generate_cxx_header_from_wayland_xml.py\<close>: what it writes, what it reads and which
  documents it rejects.
\<close>

section \<open>The run of the generator\<close>

text \<open>The two halves of \<open>generator_main\<close>.\<close>

definition core_run ::
    "(string \<Rightarrow> 'bytes repo py) \<Rightarrow> ('bytes \<Rightarrow> xml_document py) \<Rightarrow> string list \<Rightarrow> string \<Rightarrow> string \<Rightarrow> files \<Rightarrow> run" where
  "core_run clone_from fromstring names dst wl_address files =
     (if ''core'' \<in> set names
      then with_clone (clone_from wl_address) (parse_protocols_from_repo fromstring dst ''protocol/wayland.xml'') files
      else (files, Inr ()))"

definition other_run ::
    "(string \<Rightarrow> 'bytes repo py) \<Rightarrow> ('bytes \<Rightarrow> xml_document py) \<Rightarrow> string list \<Rightarrow> string \<Rightarrow> string \<Rightarrow> files \<Rightarrow> run" where
  "other_run clone_from fromstring names dst wl_protocols_address files =
     (if filter (\<lambda>p. p \<noteq> ''core'') names \<noteq> []
      then with_clone (clone_from wl_protocols_address) (\<lambda>repo. for_each (\<lambda>protocol.
        parse_protocols_from_repo fromstring dst (protocol @ ''/*.xml'') repo) (filter (\<lambda>p. p \<noteq> ''core'') names)) files
      else (files, Inr ()))"

lemma generator_main_halves:
  "generator_main clone_from fromstring names dst wl_address wl_protocols_address files =
     run_then (core_run clone_from fromstring names dst wl_address files)
       (other_run clone_from fromstring names dst wl_protocols_address)"
  by (simp add: generator_main_def core_run_def other_run_def [abs_def] Let_def)

lemma core_run_adds:
  assumes "plain_doc d" "''core'' \<in> set names \<Longrightarrow>
      \<exists>repo. clone_from wl_address = Inr repo \<and>
        holds_documents fromstring d repo ''protocol/wayland.xml'' [wayland_protocol]"
  shows "adds_headers dst (core_run clone_from fromstring names dst wl_address)
           (if ''core'' \<in> set names then [wayland_protocol] else [])"
  unfolding core_run_def [abs_def]
proof (rule adds_if)
  assume "''core'' \<in> set names"
  with assms(2) obtain repo where "clone_from wl_address = Inr repo"
    "holds_documents fromstring d repo ''protocol/wayland.xml'' [wayland_protocol]"
    by blast
  then show "adds_headers dst (with_clone (clone_from wl_address)
      (parse_protocols_from_repo fromstring dst ''protocol/wayland.xml'')) [wayland_protocol]"
    using adds_repo [OF _ assms(1)] by (intro adds_with_clone)
qed

lemma other_run_adds:
  assumes "plain_doc d" "\<exists>p \<in> set names. p \<noteq> ''core'' \<Longrightarrow>
      \<exists>repo. clone_from wl_protocols_address = Inr repo \<and>
        (\<forall>p \<in> set names. p \<noteq> ''core'' \<longrightarrow> holds_documents fromstring d repo (p @ ''/*.xml'') (Ps p))"
  shows "adds_headers dst (other_run clone_from fromstring names dst wl_protocols_address)
           (if filter (\<lambda>p. p \<noteq> ''core'') names \<noteq> [] then concat (map Ps (filter (\<lambda>p. p \<noteq> ''core'') names)) else [])"
  unfolding other_run_def [abs_def]
proof (rule adds_if)
  let ?rest = "filter (\<lambda>p. p \<noteq> ''core'') names"
  assume "?rest \<noteq> []"
  then have "\<exists>p \<in> set names. p \<noteq> ''core''" by (auto simp: filter_empty_conv)
  with assms(2) obtain repo where repo: "clone_from wl_protocols_address = Inr repo"
    "\<forall>p \<in> set names. p \<noteq> ''core'' \<longrightarrow> holds_documents fromstring d repo (p @ ''/*.xml'') (Ps p)"
    by blast
  have "adds_headers dst (for_each (\<lambda>protocol.
      parse_protocols_from_repo fromstring dst (protocol @ ''/*.xml'') repo) ?rest) (concat (map Ps ?rest))"
    using repo(2) by (intro adds_for_each adds_repo [OF _ assms(1)]) simp_all
  with repo(1) show "adds_headers dst (with_clone (clone_from wl_protocols_address) (\<lambda>repo. for_each (\<lambda>protocol.
      parse_protocols_from_repo fromstring dst (protocol @ ''/*.xml'') repo) ?rest)) (concat (map Ps ?rest))"
    by (rule adds_with_clone)
qed


definition example_doc :: doc where
  "example_doc = (''set the size'', ''Both are in pixels.'')"

lemma example_doc_plain: "plain_doc example_doc"
  by (simp add: plain_doc_def example_doc_def one_line_def ends_plain_def)

lemma protocol_xml_comment_free: "without_comments (protocol_xml d P) = protocol_xml d P"
  by (rule comment_free_without)
    (simp add: protocol_xml_def interface_xml_def message_xml_def enum_xml_def entry_xml_def field_xml_def
      doc_xml_def list_all_iff ball_Un)

text \<open>A clone of each repository, and the parser on the two files in them.\<close>

definition example_repo :: "string repo" where
  "example_repo =
     \<lparr>ls_files = (\<lambda>pathspec. if pathspec = ''protocol/wayland.xml'' then [''protocol/wayland.xml'']
        else [''stable/viewporter/viewporter.xml'']),
      tree_at_head = (\<lambda>path. Inr path)\<rparr>"

definition example_fromstring :: "string \<Rightarrow> xml_document py" where
  "example_fromstring bytes =
     Inr \<lparr>outer_comments = [],
          document_root = protocol_xml example_doc
            (if bytes = ''protocol/wayland.xml'' then wayland_protocol else viewporter_protocol)\<rparr>"

lemma example_documents:
  "holds_documents example_fromstring example_doc example_repo ''protocol/wayland.xml'' [wayland_protocol]"
  "holds_documents example_fromstring example_doc example_repo (''stable'' @ ''/*.xml'') [viewporter_protocol]"
  by (simp_all add: holds_documents_def holds_document_def example_repo_def example_fromstring_def protocols_def
      protocol_xml_comment_free)


section \<open>Reading and writing\<close>

text \<open>
  C14: reading the XML that describes a well-formed table gives a protocol of
  that table: the same interfaces, enumerations with their values, messages with their opcodes and
  members, and the members the generator adds before a new id of unknown interface.
\<close>

theorem described_table_round_trip:
  assumes "list_all interface_ok (protocol_interfaces P)" "describable P" "env_ok env P"
  shows "\<exists>p. parse_wl_protocol (protocol_xml d P) = Inr p \<and> header_of env p = P"
  using parse_protocol_xml [OF assms(1,2)] table_again [OF assms] by blast

theorem described_table_round_trip_witness:
  "\<exists>p. parse_wl_protocol (protocol_xml example_doc wayland_protocol) = Inr p \<and> header_of header_env p = wayland_protocol"
  using described_table_round_trip [of wayland_protocol header_env example_doc] wayland_protocol_declarations
    wayland_protocol_describable header_env_ok [of wayland_protocol]
  by (simp add: protocols_def)



text \<open>A backslash at the end of a description joins the comment with the code below it.\<close>

lemma splice_backslash: "newline \<notin> set u \<Longrightarrow> splice (u @ backslash # newline # s) = u @ splice s"
proof (induction u)
  case (Cons c u)
  then show ?case by (cases u) auto
qed simp

lemma split_lines_one: "newline \<notin> set s \<Longrightarrow> split_lines s = [s]"
  by (induction s) auto



section \<open>Opcodes and rejected documents\<close>

lemma counting_snoc: "counting (xs @ [x]) = counting xs @ [int (length xs)]"
  by (simp add: counting_def)

definition members_counted :: "found_members \<Rightarrow> bool" where
  "members_counted s \<longleftrightarrow>
     found_request_opcodes s = counting (parsed_requests s) \<and>
     request_opcode_counter s = int (length (parsed_requests s)) \<and>
     found_event_opcodes s = counting (parsed_events s) \<and>
     event_opcode_counter s = int (length (parsed_events s))"

lemma parse_member_counted: "members_counted s \<Longrightarrow> parse_member c s = Inr s' \<Longrightarrow> members_counted s'"
  by (auto simp: members_counted_def parse_member_def counting_snoc split: if_splits)

lemma parse_members_counted: "members_counted s \<Longrightarrow> parse_members cs s = Inr s' \<Longrightarrow> members_counted s'"
  by (induction cs arbitrary: s) (auto dest: parse_member_counted)

lemma parse_members_found:
  "parse_members cs s = Inr s' \<Longrightarrow>
     \<exists>rs es ns.
       parsed_requests s' = parsed_requests s @ rs \<and> parsed_events s' = parsed_events s @ es \<and>
       parsed_enums s' = parsed_enums s @ ns \<and>
       list_all2 (\<lambda>c r. parse_wl_request c = Inr r) (filter (has_tag ''request'') cs) rs \<and>
       list_all2 (\<lambda>c e. parse_wl_event c = Inr e) (filter (has_tag ''event'') cs) es \<and>
       list_all2 (\<lambda>c n. parse_wl_enum c = Inr n) (filter (has_tag ''enum'') cs) ns"
proof (induction cs arbitrary: s)
  case (Cons c cs)
  then obtain s1 where s1: "parse_member c s = Inr s1" "parse_members cs s1 = Inr s'" by auto
  from Cons.IH [OF s1(2)] obtain rs es ns where
    "parsed_requests s' = parsed_requests s1 @ rs" "parsed_events s' = parsed_events s1 @ es"
    "parsed_enums s' = parsed_enums s1 @ ns"
    "list_all2 (\<lambda>c r. parse_wl_request c = Inr r) (filter (has_tag ''request'') cs) rs"
    "list_all2 (\<lambda>c e. parse_wl_event c = Inr e) (filter (has_tag ''event'') cs) es"
    "list_all2 (\<lambda>c n. parse_wl_enum c = Inr n) (filter (has_tag ''enum'') cs) ns"
    by blast
  then show ?case
    using s1(1) by (cases c) (auto simp: parse_member_def list_all2_Cons1 split: if_splits)
qed simp

text \<open>What an argument of unknown interface needs is put before it, and arguments follow each other.\<close>

lemma new_ids_ok_append:
  assumes "new_ids_ok Ts" "new_ids_ok Us"
  shows "new_ids_ok (Ts @ Us)"
  unfolding new_ids_ok_def list_all_iff
proof (intro ballI impI)
  fix i
  assume i: "i \<in> set [0..<length (Ts @ Us)]" and T: "(Ts @ Us) ! i = TWnew_id generic_object"
  show "2 \<le> i \<and> (Ts @ Us) ! (i - 2) = TWstring \<and> (Ts @ Us) ! (i - 1) = TWuint"
  proof (cases "i < length Ts")
    case True
    with assms(1) T have "2 \<le> i \<and> Ts ! (i - 2) = TWstring \<and> Ts ! (i - 1) = TWuint"
      by (simp add: new_ids_ok_def list_all_iff nth_append)
    moreover have "i - 2 < length Ts" "i - 1 < length Ts" using True by simp_all
    ultimately show ?thesis by (simp add: nth_append)
  next
    case False
    then obtain j where j: "i = length Ts + j" using le_Suc_ex [of "length Ts" i] by auto
    with i T have "j < length Us" "Us ! j = TWnew_id generic_object" by auto
    with assms(2) have *: "2 \<le> j \<and> Us ! (j - 2) = TWstring \<and> Us ! (j - 1) = TWuint"
      by (simp add: new_ids_ok_def list_all_iff)
    then have "i - 2 = length Ts + (j - 2)" "i - 1 = length Ts + (j - 1)" using j by auto
    with * j show ?thesis by (simp only: nth_append_length_plus) simp
  qed
qed

lemma new_ids_ok_concat: "list_all new_ids_ok Tss \<Longrightarrow> new_ids_ok (concat Tss)"
proof (induction Tss)
  case Nil
  show ?case by (simp add: new_ids_ok_def)
qed (simp add: new_ids_ok_append)

lemma new_ids_ok_one: "T \<noteq> TWnew_id generic_object \<Longrightarrow> new_ids_ok [T]"
  by (simp add: new_ids_ok_def)

lemma new_ids_ok_preceded: "new_ids_ok [TWstring, TWuint, T]"
  by (simp add: new_ids_ok_def upt_rec)

lemma parse_wl_arg_new_ids:
  assumes "parse_wl_arg c = Inr as"
  shows "new_ids_ok (map (arg_field_type env interface) as)"
proof -
  obtain a where a: "as = (if arg_wtype a = wl_new_id \<and> \<not> truthy (arg_interface a) then new_id_preceding_args else []) @ [a]"
    using assms by (auto simp: parse_wl_arg_def) 
  have "map (arg_field_type env interface) new_id_preceding_args = [TWstring, TWuint]"
    by (simp add: new_id_preceding_args_def preceding_arg_def arg_field_type_def)
  moreover have "arg_field_type env interface a \<noteq> TWnew_id generic_object"
    if "\<not> (arg_wtype a = wl_new_id \<and> \<not> truthy (arg_interface a))"
    using that by (cases "arg_wtype a") (auto simp: arg_field_type_def interface_of_def Let_def)
  ultimately show ?thesis
    using a by (auto intro: new_ids_ok_preceded new_ids_ok_one)
qed

lemma message_children_new_ids:
  assumes "message_children c = Inr (d, args)"
  shows "new_ids_ok (map (arg_field_type env interface) args)"
proof -
  obtain cs ass where "py_map parse_wl_arg cs = Inr ass" "args = concat ass"
    using assms by (auto simp: message_children_def py_concat_map_def)
  moreover from this(1) have "list_all (\<lambda>as. new_ids_ok (map (arg_field_type env interface) as)) ass"
    by (auto simp: list_all_iff dest!: py_map_source intro: parse_wl_arg_new_ids)
  ultimately show ?thesis
    using new_ids_ok_concat [of "map (map (arg_field_type env interface)) ass"]
    by (simp add: map_concat list_all_iff)
qed

lemma parse_wl_request_new_ids:
  "parse_wl_request c = Inr r \<Longrightarrow> new_ids_ok (map (arg_field_type env interface) (request_args r))"
  by (auto simp: parse_wl_request_def intro: message_children_new_ids)

lemma parse_wl_event_new_ids:
  "parse_wl_event c = Inr e \<Longrightarrow> new_ids_ok (map (arg_field_type env interface) (event_args e))"
  by (auto simp: parse_wl_event_def intro: message_children_new_ids)

lemma field_types_message_of: "field_types (message_of env i k n c args) = map (arg_field_type env i) args"
  by (simp add: field_types_def message_of_def arg_field_def comp_def)

text \<open>
  C25: an interface that is read has the request, event and enum children of its
  node, in their order, whatever other children are between them; the opcodes of the requests and
  of the events count from 0; and in each message a new id of unknown interface follows the
  name and the version of its interface.
\<close>

theorem parsed_interface_counts_opcodes:
  assumes "parse_wl_interface node = Inr i"
  shows "list_all2 (\<lambda>c r. parse_wl_request c = Inr r) (filter (has_tag ''request'') (children_of node)) (interface_requests i) \<and>
    list_all2 (\<lambda>c e. parse_wl_event c = Inr e) (filter (has_tag ''event'') (children_of node)) (interface_events i) \<and>
    list_all2 (\<lambda>c n. parse_wl_enum c = Inr n) (filter (has_tag ''enum'') (children_of node)) (interface_enums i) \<and>
    request_opcodes i = map int [0..<length (interface_requests i)] \<and>
    event_opcodes i = map int [0..<length (interface_events i)] \<and>
    list_all (\<lambda>M. new_ids_ok (field_types M))
      (request_messages (interface_def_of env i) @ event_messages (interface_def_of env i))"
proof -
  let ?cs = "children_of node"
  obtain d s where more: "\<not> length ?cs \<le> 1"
    and d: "(if has_tag ''description'' (?cs ! 0) then py_bind (parse_wl_description (?cs ! 0)) (\<lambda>d. Inr (Some d))
        else Inr None) = Inr d"
    and s: "parse_members (drop (of_bool (d \<noteq> None)) ?cs) no_members = Inr s"
    and i: "interface_requests i = parsed_requests s" "interface_events i = parsed_events s"
      "interface_enums i = parsed_enums s" "request_opcodes i = found_request_opcodes s"
      "event_opcodes i = found_event_opcodes s"
    using assms unfolding parse_wl_interface_def py_bind_Inr by (auto simp: py_bind_Inr split: if_splits)
  have "has_tag ''description'' (?cs ! 0)" if "d \<noteq> None" using d that by (auto split: if_splits)
  with more have none: "filter (has_tag t) ?cs = filter (has_tag t) (drop (of_bool (d \<noteq> None)) ?cs)"
    if "t \<noteq> ''description''" for t
    using that by (cases ?cs; cases "?cs ! 0") (auto simp: of_bool_def)
  have found: "list_all2 (\<lambda>c r. parse_wl_request c = Inr r) (filter (has_tag ''request'') (children_of node)) (interface_requests i)"
    "list_all2 (\<lambda>c e. parse_wl_event c = Inr e) (filter (has_tag ''event'') (children_of node)) (interface_events i)"
    "list_all2 (\<lambda>c n. parse_wl_enum c = Inr n) (filter (has_tag ''enum'') (children_of node)) (interface_enums i)"
    using parse_members_found [OF s] none i by (auto simp: no_members_def)
  have "members_counted s"
    by (rule parse_members_counted [OF _ s]) (simp add: members_counted_def no_members_def counting_def)
  then have opcodes: "request_opcodes i = counting (interface_requests i)" "event_opcodes i = counting (interface_events i)"
    using i by (simp_all add: members_counted_def)
  have "new_ids_ok (map (arg_field_type env interface) (request_args r))" if "r \<in> set (interface_requests i)" for r interface
    using that found(1) parse_wl_request_new_ids by (auto simp: list_all2_conv_all_nth in_set_conv_nth)
  moreover have "new_ids_ok (map (arg_field_type env interface) (event_args e))" if "e \<in> set (interface_events i)" for e interface
    using that found(2) parse_wl_event_new_ids by (auto simp: list_all2_conv_all_nth in_set_conv_nth)
  ultimately have "list_all (\<lambda>M. new_ids_ok (field_types M))
      (request_messages (interface_def_of env i) @ event_messages (interface_def_of env i))"
    by (auto simp: interface_def_of_def list_all_iff field_types_message_of dest: set_zip_rightD)
  with found opcodes show ?thesis by (simp add: counting_def)
qed

definition example_node :: xml where
  "example_node =
     Element ''interface'' [(''name'', ''a''), (''version'', ''1'')] None
       [doc_xml example_doc, Element ''request'' [(''name'', ''x'')] None [], Element ''note'' [] None [],
        Element ''event'' [(''name'', ''y'')] None [], Element ''request'' [(''name'', ''z'')] None []]"

definition example_request :: "string \<Rightarrow> wl_request" where
  "example_request name =
     \<lparr>request_name = name, request_type = None, request_since = None, request_description = None, request_args = []\<rparr>"

definition example_interface :: wl_interface where
  "example_interface =
     \<lparr>interface_name = ''a'', interface_version = 1, interface_description = doc_description example_doc,
      interface_requests = [example_request ''x'', example_request ''z''],
      interface_events = [\<lparr>event_name = ''y'', event_type = None, event_since = None, event_description = None,
        event_args = []\<rparr>],
      interface_enums = [], request_opcodes = [0, 1], event_opcodes = [0]\<rparr>"

lemma example_interface_parsed: "parse_wl_interface example_node = Inr example_interface"
  by code_simp

theorem parsed_interface_counts_opcodes_witness:
  "length (filter (has_tag ''request'') (children_of example_node)) = 2 \<and>
   request_opcodes example_interface = map int [0..<length (interface_requests example_interface)] \<and>
   event_opcodes example_interface = map int [0..<length (interface_events example_interface)] \<and>
   list_all2 (\<lambda>c r. parse_wl_request c = Inr r) (filter (has_tag ''request'') (children_of example_node))
     (interface_requests example_interface)"
  using parsed_interface_counts_opcodes [OF example_interface_parsed, of header_env]
  by (simp add: list_all2_lengthD) (simp add: example_node_def)



end
