(* ===== verification/Blocking_Pipe.thy ===== *)
theory Blocking_Pipe
  imports Prelude
begin

text \<open>
  \<^verbatim>\<open>indefinitly_blocking_pipe_io.cpp\<close>: a program that reads from a pipe whose other end it holds and never
  writes to. The pipe is gnulander's, which is not in the repository: opening it and reading from
  it are parameters. The state of the program is what it has printed.
\<close>

text \<open>The handler of \<^verbatim>\<open>SIGINT\<close>.\<close>

definition sigint_handler :: "string list \<Rightarrow> string list" where
  "sigint_handler printed = printed @ [''SIGINT is ignored.'']"

text \<open>
  \<^verbatim>\<open>main\<close>; \<open>interrupts\<close> is the number of \<^verbatim>\<open>SIGINT\<close>s that arrive while it reads, after each of which the read
  goes on. Five bytes are asked for.
\<close>

definition blocking_pipe_main ::
    "('i \<times> 'o) outcome \<Rightarrow> ('i \<Rightarrow> nat \<Rightarrow> bytes outcome) \<Rightarrow> nat \<Rightarrow> string list \<times> unit outcome" where
  "blocking_pipe_main open_pipe read interrupts =
     state_bind ([], open_pipe) (\<lambda>(input, output) printed.
     state_bind ((sigint_handler ^^ interrupts) (printed @ [''Reading... '']), read input 5) (\<lambda>_ printed.
       (printed @ [''Done!''], Value ())))"

lemma sigint_handler_lines: "(sigint_handler ^^ n) printed = printed @ replicate n ''SIGINT is ignored.''"
  by (induction n) (simp_all add: sigint_handler_def replicate_append_same)

text \<open>A read that blocks for ever is not ended by interrupts, and the last line is never printed.\<close>

lemma blocked_read_is_never_done:
  assumes "open_pipe = Value (input, output)" "read input 5 = Blocked"
  shows "blocking_pipe_main open_pipe read interrupts =
           (''Reading... '' # replicate interrupts ''SIGINT is ignored.'', Blocked)"
  using assms by (simp add: blocking_pipe_main_def sigint_handler_lines)

end
