(* ===== verification/Sstd_Tests.thy ===== *)
theory Sstd_Tests
  imports Sstd Unique_Handle Type_Templates
begin

text \<open>
  The test programs of \<^verbatim>\<open>waylander::sstd\<close>, each test as the conjunction of what it expects, evaluated on
  the model: each holds. Left out are the tests of the language alone (placement new of a byte), of the
  concepts a handle models (copyable, movable) and of an allocator being an adapter.
\<close>

section \<open>\<^verbatim>\<open>test_sstd_throw_system_error.cpp\<close>\<close>

definition EIO :: int where "EIO = 5"
definition EBADF :: int where "EBADF = 9"

text \<open>The code of the \<^verbatim>\<open>std::system_error\<close> that was thrown, and whether one was.\<close>

fun error_code :: "'a outcome \<Rightarrow> int option" where
  "error_code (Raise (System_error n _)) = Some n"
| "error_code _ = None"

definition throws_system_error :: "'a outcome \<Rightarrow> bool" where
  "throws_system_error r \<longleftrightarrow> error_code r \<noteq> None"

text \<open>\<^verbatim>\<open>std::error_code\<close> is true in a condition when its value is not 0.\<close>

definition test_generic_error :: "(int \<Rightarrow> string) \<Rightarrow> source_location \<Rightarrow> bool" where
  "test_generic_error strerror loc \<longleftrightarrow>
     (let throwing = \<lambda>errno. throw_generic_system_error strerror errno loc :: unit outcome
      in throws_system_error (throwing EBADF) \<and> error_code (throwing EIO) = Some EIO)"

definition test_partial_io_error :: "(int \<Rightarrow> string) \<Rightarrow> source_location \<Rightarrow> bool" where
  "test_partial_io_error strerror loc \<longleftrightarrow>
     (let throwing = \<lambda>errno. throw_partial_system_io_error strerror errno 1 10 loc :: unit outcome
      in throws_system_error (throwing EBADF) \<and> error_code (throwing EIO) = Some EIO)"

definition test_generic_error_without_errno :: "(int \<Rightarrow> string) \<Rightarrow> source_location \<Rightarrow> bool" where
  "test_generic_error_without_errno strerror loc \<longleftrightarrow>
     (let thrown = throw_generic_system_error strerror 0 loc :: unit outcome
      in throws_system_error thrown \<and> (\<forall>c \<in> set_option (error_code thrown). \<not> c \<noteq> 0))"

definition test_partial_io_error_without_errno :: "(int \<Rightarrow> string) \<Rightarrow> source_location \<Rightarrow> bool" where
  "test_partial_io_error_without_errno strerror loc \<longleftrightarrow>
     (let thrown = throw_partial_system_io_error strerror 0 1 10 loc :: unit outcome
      in throws_system_error thrown \<and> (\<forall>c \<in> set_option (error_code thrown). \<not> c \<noteq> 0))"

lemma error_tests_pass:
  "test_generic_error strerror loc" "test_partial_io_error strerror loc"
  "test_generic_error_without_errno strerror loc" "test_partial_io_error_without_errno strerror loc"
  by (simp_all add: test_generic_error_def test_partial_io_error_def test_generic_error_without_errno_def
      test_partial_io_error_without_errno_def throws_system_error_def throw_generic_system_error_def
      throw_partial_system_io_error_def Let_def)

section \<open>\<^verbatim>\<open>test_sstd_unique_handle.cpp\<close>\<close>

text \<open>
  The resource of the tests, with one more field for the expectations its member functions and the
  releaser check: it stays true while all of them hold.
\<close>

record mock_resource =
  is_active :: bool
  expectations_met :: bool

definition new_mock :: mock_resource where
  "new_mock = \<lparr>is_active = True, expectations_met = True\<rparr>"

definition checked_free_er :: "mock_resource \<Rightarrow> mock_resource" where
  "checked_free_er x = \<lparr>is_active = False, expectations_met = (expectations_met x \<and> is_active x)\<rparr>"

definition mock_move_assign :: "mock_resource \<Rightarrow> mock_resource \<Rightarrow> mock_resource \<times> mock_resource" where
  "mock_move_assign self rhs =
     (\<lparr>is_active = is_active rhs, expectations_met = (expectations_met self \<and> expectations_met rhs \<and> \<not> is_active self)\<rparr>, rhs)"

definition mock_ops :: "mock_resource base_ops" where
  "mock_ops = \<lparr>move_construct = (\<lambda>x. (x, x)), move_assign = mock_move_assign, releaser = checked_free_er\<rparr>"

text \<open>
  The program, at whose end the handles are destroyed in the reverse order of their construction, runs
  with every expectation met, and ends in a state with the property given.
\<close>

definition destroy_locals :: "mock_resource handles \<Rightarrow> mock_resource handles" where
  "destroy_locals h = fold (destruct mock_ops) (rev [0..<length (objects h)]) h"

definition runs_as_expected :: "mock_resource command list \<Rightarrow> (mock_resource handles \<Rightarrow> bool) \<Rightarrow> bool" where
  "runs_as_expected cs expectation \<longleftrightarrow>
     (case run_commands mock_ops cs no_handles of
        None \<Rightarrow> False
      | Some h \<Rightarrow> expectation h \<and> list_all (\<lambda>x. expectations_met (base x)) (objects (destroy_locals h)))"

definition active_resource :: "nat \<Rightarrow> mock_resource handles \<Rightarrow> bool" where
  "active_resource i h \<longleftrightarrow> is_active (base (objects h ! i))"

definition test_dtor_releases :: bool where
  "test_dtor_releases \<longleftrightarrow>
     runs_as_expected [Construct new_mock] (active_resource 0) \<and>
     runs_as_expected [Construct new_mock, Destruct 0] (\<lambda>h. \<not> active_resource 0 h)"

definition test_dtor_of_moved_from :: bool where
  "test_dtor_of_moved_from \<longleftrightarrow> runs_as_expected [Construct new_mock, Move_construct 0] (\<lambda>_. True)"

definition test_move_ctor_of_resource :: bool where
  "test_move_ctor_of_resource \<longleftrightarrow>
     runs_as_expected [Construct new_mock] (active_resource 0) \<and>
     runs_as_expected [Construct new_mock, Destruct 0] (\<lambda>h. \<not> active_resource 0 h) \<and>
     runs_as_expected [Construct new_mock, Destruct 0, Move_construct 0] (\<lambda>h. \<not> active_resource 1 h)"

definition test_move_assignment_releases :: bool where
  "test_move_assignment_releases \<longleftrightarrow>
     runs_as_expected [Construct new_mock, Construct new_mock, Move_assign 0 1] (\<lambda>_. True)"

definition test_self_move_assignment :: bool where
  "test_self_move_assignment \<longleftrightarrow> runs_as_expected [Construct new_mock, Move_assign 0 0] (\<lambda>_. True)"

lemma unique_handle_tests_pass:
  "test_dtor_releases" "test_dtor_of_moved_from" "test_move_ctor_of_resource"
  "test_move_assignment_releases" "test_self_move_assignment"
  by (simp_all add: test_dtor_releases_def test_dtor_of_moved_from_def test_move_ctor_of_resource_def
      test_move_assignment_releases_def test_self_move_assignment_def runs_as_expected_def destroy_locals_def
      active_resource_def no_handles_def construct_def destruct_def move_ctor_def move_assignment_def
      mock_ops_def mock_move_assign_def checked_free_er_def new_mock_def Let_def)

section \<open>\<^verbatim>\<open>test_sstd_tuple_utils.cpp\<close>\<close>

text \<open>A member of the test's structure with its type; a reference is the address of a member.\<close>

type_synonym foo_member = "cpp_type \<times> (nat + string)"

definition foo :: "foo_member list" where
  "foo = [(Class ''unsigned'', Inl 42), (Class ''int'', Inl 43), (Class ''std::string_view'', Inr ''foo object'')]"

definition foo_addresses :: "nat list" where
  "foo_addresses = [0, 4, 8]"

definition test_to_tuple :: bool where
  "test_to_tuple \<longleftrightarrow>
     (case to_tuple foo of
        None \<Rightarrow> False
      | Some foo_tuple \<Rightarrow>
          map fst foo_tuple = [Class ''unsigned'', Class ''int'', Class ''std::string_view''] \<and>
          foo_tuple ! 0 = foo ! 0 \<and> foo_tuple ! 1 = foo ! 1 \<and> foo_tuple ! 2 = foo ! 2)"

definition test_to_ref_tuple :: bool where
  "test_to_ref_tuple \<longleftrightarrow>
     (let load = the \<circ> map_of (zip foo_addresses foo)
      in case to_ref_tuple foo_addresses of
           None \<Rightarrow> False
         | Some ref_tuple \<Rightarrow>
             map (fst \<circ> load) ref_tuple = [Class ''unsigned'', Class ''int'', Class ''std::string_view''] \<and>
             load (ref_tuple ! 0) = foo ! 0 \<and> load (ref_tuple ! 1) = foo ! 1 \<and> load (ref_tuple ! 2) = foo ! 2 \<and>
             ref_tuple ! 0 = foo_addresses ! 0 \<and> ref_tuple ! 1 = foo_addresses ! 1 \<and>
             ref_tuple ! 2 = foo_addresses ! 2)"

lemma tuple_tests_pass: "test_to_tuple" "test_to_ref_tuple"
  by (simp_all add: test_to_tuple_def test_to_ref_tuple_def to_tuple_eq to_ref_tuple_eq foo_def foo_addresses_def)

section \<open>\<^verbatim>\<open>test_sstd_construct_allocator_adapter.cpp\<close>\<close>

text \<open>
  \<^verbatim>\<open>std::vector::emplace_back\<close> builds the new element with the arguments given; \<^verbatim>\<open>std::allocator\<close> has no
  \<^verbatim>\<open>construct\<close>, so a byte without arguments is value-initialised.
\<close>

definition emplace_back :: "('t \<Rightarrow> 'arg list \<Rightarrow> 't) \<Rightarrow> (nat \<Rightarrow> 't) \<Rightarrow> 'arg list \<Rightarrow> 't list \<Rightarrow> 't list" where
  "emplace_back allocator storage args xs = xs @ [allocator (storage (length xs)) args]"

definition std_construct :: "byte \<Rightarrow> byte list \<Rightarrow> byte" where
  "std_construct storage args = (case args of [] \<Rightarrow> 0 | a # _ \<Rightarrow> a)"

definition test_traits_use_construct :: bool where
  "test_traits_use_construct \<longleftrightarrow>
     (let counter = \<lambda>args :: int list. length args; C = counter [1, 2, 3]; counters = replicate 3 (counter [])
      in list_all (\<lambda>c. c = 0) counters \<and> C = 3 \<and>
         list_all (\<lambda>c. c = 3)
           [constant_construct C (counters ! 0) ([] :: int list), constant_construct C (counters ! 1) [1 :: int],
            constant_construct C (counters ! 2) [1, 2 :: int]])"

definition test_constant_construct_in_vector :: "(nat \<Rightarrow> int) \<Rightarrow> bool" where
  "test_constant_construct_in_vector storage \<longleftrightarrow>
     (let A = constant_construct (42 :: int) :: int \<Rightarrow> int list \<Rightarrow> int;
          vec = vector_resize A storage 10 [];
          emplaced = fold (emplace_back A storage) [[], [1], [1, 2], [1, 2, 3]] []
      in length vec = 10 \<and> list_all (\<lambda>x. x = 42) vec \<and>
         length emplaced = 4 \<and> list_all (\<lambda>x. x = 42) emplaced \<and>
         list_all (\<lambda>x. x = 42) (vector_resize A storage 10 []))"

definition test_default_init_construct :: bool where
  "test_default_init_construct \<longleftrightarrow> default_init_construct 1 [2] = 2"

text \<open>Shrinking leaves the memory of the removed bytes as it is.\<close>

definition test_resize_zeroes :: bool where
  "test_resize_zeroes \<longleftrightarrow>
     (let vec = replicate 10 10; resized = vector_resize std_construct ((!) vec) 10
            (vector_resize std_construct ((!) vec) 5 vec)
      in list_all (\<lambda>i. resized ! i = (if i < 5 then 10 else 0)) [0..<length resized])"

definition test_resize_default_init :: bool where
  "test_resize_default_init \<longleftrightarrow>
     (let vec = replicate 10 10
      in list_all (\<lambda>b. b = 10) (byte_vec_resize ((!) vec) 10 (byte_vec_resize ((!) vec) 5 vec)))"

lemma allocator_tests_pass:
  "test_traits_use_construct" "test_constant_construct_in_vector storage" "test_default_init_construct"
  "test_resize_zeroes" "test_resize_default_init"
proof -
  show "test_traits_use_construct"
    by (simp add: test_traits_use_construct_def constant_construct_def Let_def list_all_iff)
  show "test_constant_construct_in_vector storage"
    by (simp add: test_constant_construct_in_vector_def constant_construct_def vector_resize_def
        emplace_back_def Let_def list_all_iff)
  show "test_default_init_construct"
    by (simp add: test_default_init_construct_def default_init_construct_def)
  show "test_resize_zeroes" "test_resize_default_init"
    by code_simp+
qed

section \<open>\<^verbatim>\<open>test_sstd_type_utils.cpp\<close>\<close>

definition int_type :: cpp_type where "int_type = Class ''int''"
definition long_type :: cpp_type where "long_type = Class ''long''"
definition size_type :: cpp_type where "size_type = Class ''std::size_t''"

text \<open>The ranges of the three types of the tests, on a machine with 64-bit \<^verbatim>\<open>long\<close>.\<close>

definition represents :: "cpp_type \<Rightarrow> int \<Rightarrow> bool" where
  "represents T n \<longleftrightarrow>
     (if T = int_type then - (2 ^ 31) \<le> n \<and> n < 2 ^ 31
      else if T = long_type then - (2 ^ 63) \<le> n \<and> n < 2 ^ 63
      else T = size_type \<and> 0 \<le> n \<and> n < 2 ^ 64)"

definition test_numeral_type :: bool where
  "test_numeral_type \<longleftrightarrow>
     (let numeral = numeral_t represents
      in list_all (\<lambda>one. one = Some (Integral_constant int_type 1))
           [numeral (int_type, 1) None, numeral (int_type, 1) (Some int_type), numeral (size_type, 1) (Some int_type)] \<and>
         list_all (\<lambda>four. four = Some (Integral_constant long_type 4))
           [numeral (long_type, 4) None, numeral (long_type, 4) (Some long_type), numeral (int_type, 4) (Some long_type)] \<and>
         list_all (\<lambda>six. six = Some (Integral_constant size_type 6))
           [numeral (size_type, 6) None, numeral (size_type, 6) (Some size_type), numeral (long_type, 6) (Some size_type)])"

text \<open>A class with its bases; every class is derived from itself.\<close>

definition derived_with :: "(cpp_type \<times> cpp_type) list \<Rightarrow> cpp_type \<Rightarrow> cpp_type \<Rightarrow> bool" where
  "derived_with bases T B \<longleftrightarrow> T = B \<or> (T, B) \<in> set bases"

definition test_predicate_type :: bool where
  "test_predicate_type \<longleftrightarrow>
     (let is_predicate = predicate_type (derived_with
            [(Class ''true_trait'', bool_constant True), (Class ''false_trait'', bool_constant False),
             (Class ''non_trait'', Integral_constant int_type 42)])
      in is_predicate (Class ''true_trait'') \<and> is_predicate (Class ''false_trait'') \<and>
         \<not> is_predicate (Class ''empty'') \<and> \<not> is_predicate (Class ''non_trait''))"

text \<open>The template called nullary has one parameter, as any template has at least one.\<close>

definition test_arity_of_template :: bool where
  "test_arity_of_template \<longleftrightarrow>
     (let nullary_template = class_template ''nullary_template'' (\<lambda>n. n = 1);
          unary_template = class_template ''unary_template'' (\<lambda>n. n = 1);
          binary_template = class_template ''binary_template'' (\<lambda>n. n = 2);
          ternary_template = class_template ''ternary_template'' (\<lambda>n. n = 3);
          has_arity = (\<lambda>N. map (arity_of_template_is N) [nullary_template, unary_template, binary_template, ternary_template])
      in has_arity 0 = [False, False, False, False] \<and> has_arity 1 = [True, True, False, False] \<and>
         has_arity 2 = [False, False, True, False] \<and> has_arity 3 = [False, False, False, True])"

text \<open>The sample of standard traits: the template, and which of 0 to 3 arguments it takes.\<close>

definition standard_traits :: "(string \<times> type_template \<times> bool list) list" where
  "standard_traits =
     [(''is_void'', class_template ''is_void'' (\<lambda>n. n = 1), [False, True, False, False]),
      (''is_swappable_with'', class_template ''is_swappable_with'' (\<lambda>n. n = 2), [False, False, True, False]),
      (''is_constructible'', class_template ''is_constructible'' (\<lambda>n. n \<ge> 1), [False, True, True, True]),
      (''rank'', class_template ''rank'' (\<lambda>n. n = 1), [False, True, False, False]),
      (''common_type'', class_template ''common_type'' (\<lambda>_. True), [True, True, True, True]),
      (''conjunction'', class_template ''conjunction'' (\<lambda>_. True), [True, True, True, True])]"

definition for_standard_traits :: "(string \<Rightarrow> type_template \<Rightarrow> nat \<Rightarrow> bool \<Rightarrow> bool) \<Rightarrow> bool" where
  "for_standard_traits expectation \<longleftrightarrow>
     list_all (\<lambda>(name, TT, takes). list_all (\<lambda>n. expectation name TT n (takes ! n)) [0..<4]) standard_traits"

definition test_template_invocable :: bool where
  "test_template_invocable \<longleftrightarrow>
     for_standard_traits (\<lambda>name TT n valid. template_invocable TT (replicate n int_type) = valid)"

definition test_template_invoke :: bool where
  "test_template_invoke \<longleftrightarrow>
     for_standard_traits (\<lambda>name TT n valid. valid \<longrightarrow>
       template_invoke TT (replicate n int_type) = Some (Specialization name (replicate n int_type)))"

definition test_template_invoke_with_repeated_argument :: bool where
  "test_template_invoke_with_repeated_argument \<longleftrightarrow>
     for_standard_traits (\<lambda>name TT n valid. valid \<longrightarrow>
       template_invoke_with_repeated_argument TT int_type n = Some (Specialization name (replicate n int_type)))"

definition test_steal_template_args :: bool where
  "test_steal_template_args \<longleftrightarrow>
     (let types = [int_type, Class ''float'', Class ''double'']
      in steal_template_args (Specialization ''std::tuple'' types) type_list = Some (list_of_types types))"

text \<open>What the two traits of the tests on the fold say of a type, as base and as static member.\<close>

definition unary_traits :: "(string \<times> string list) list" where
  "unary_traits = [(''is_floating_point'', [''float'', ''double'']), (''is_enum'', [''foo''])]"

fun trait_value :: "cpp_type \<Rightarrow> bool option" where
  "trait_value (Specialization trait [Class T]) = map_option (\<lambda>Ts. T \<in> set Ts) (map_of unary_traits trait)"
| "trait_value _ = None"

definition trait_derived :: "cpp_type \<Rightarrow> cpp_type \<Rightarrow> bool" where
  "trait_derived T B \<longleftrightarrow> T = B \<or> map_option bool_constant (trait_value T) = Some B"

definition trait_fold :: "string \<Rightarrow> string list \<Rightarrow> bool" where
  "trait_fold trait Ts =
     unary_predicate_trait_fold trait_derived trait_value (class_template trait (\<lambda>n. n = 1)) (map Class Ts)"

definition test_trait_fold :: bool where
  "test_trait_fold \<longleftrightarrow>
     trait_fold ''is_floating_point'' [''float'', ''double'', ''double''] \<and>
     \<not> trait_fold ''is_floating_point'' [''int'', ''double'', ''double''] \<and>
     \<not> trait_fold ''is_floating_point'' [''float'', ''uint'', ''double''] \<and>
     \<not> trait_fold ''is_floating_point'' [''float'', ''double'', ''long'']"

definition test_trait_fold_of_nothing :: bool where
  "test_trait_fold_of_nothing \<longleftrightarrow>
     trait_fold ''is_enum'' [] \<and> trait_fold ''is_floating_point'' [] \<and>
     \<not> trait_fold ''is_enum'' [''int''] \<and> \<not> trait_fold ''is_floating_point'' [''int''] \<and>
     trait_fold ''is_enum'' [''foo'', ''foo''] \<and> trait_fold ''is_floating_point'' [''float'', ''float'']"

lemma type_utils_tests_pass:
  "test_numeral_type" "test_predicate_type" "test_arity_of_template" "test_template_invocable"
  "test_template_invoke" "test_template_invoke_with_repeated_argument" "test_steal_template_args"
  by code_simp+

lemma trait_fold_tests_pass: "test_trait_fold" "test_trait_fold_of_nothing"
  by code_simp+

section \<open>\<^verbatim>\<open>test_sstd_type_list.cpp\<close>\<close>

text \<open>
  What calling an overload set gives in these tests, where an argument always has the very type of a
  parameter: the function declared with the types of the arguments, or else the generic lambda
  \<open>generic\<close>.
\<close>

fun function_result :: "cpp_type \<Rightarrow> cpp_type list \<Rightarrow> cpp_type option" where
  "function_result (Specialization name [Function_type R Args]) Ts = (if Args = Ts then Some R else None)"
| "function_result _ _ = None"

fun generic_result :: "(cpp_type list \<Rightarrow> cpp_type option) \<Rightarrow> cpp_type \<Rightarrow> cpp_type list \<Rightarrow> cpp_type option" where
  "generic_result generic (Class _) Ts = generic Ts"
| "generic_result generic _ _ = None"

fun overload_result :: "(cpp_type list \<Rightarrow> cpp_type option) \<Rightarrow> cpp_type \<Rightarrow> cpp_type list \<Rightarrow> cpp_type option" where
  "overload_result generic (Specialization _ Fs) Ts =
     (case List.map_filter (\<lambda>F. function_result F Ts) Fs @ List.map_filter (\<lambda>F. generic_result generic F Ts) Fs of
        R # _ \<Rightarrow> Some R
      | [] \<Rightarrow> None)"
| "overload_result _ _ _ = None"

definition short_type :: cpp_type where "short_type = Class ''short''"
definition unsigned_type :: cpp_type where "unsigned_type = Class ''unsigned''"
definition no_lambda :: "cpp_type list \<Rightarrow> cpp_type option" where "no_lambda Ts = None"

definition test_map_short_to_long :: bool where
  "test_map_short_to_long \<longleftrightarrow>
     map_types (overload_result no_lambda) [short_type] [Function_type long_type [short_type]] =
       Some (list_of_types [long_type]) \<and>
     map_types (overload_result no_lambda) (replicate 3 short_type) [Function_type long_type [short_type]] =
       Some (list_of_types (replicate 3 long_type))"

definition test_map_vice_versa :: bool where
  "test_map_vice_versa \<longleftrightarrow>
     map_types (overload_result no_lambda) [short_type, long_type, long_type, short_type]
       [Function_type long_type [short_type], Function_type short_type [long_type]] =
     Some (list_of_types [long_type, short_type, short_type, long_type])"

definition test_map_empty_list :: bool where
  "test_map_empty_list \<longleftrightarrow>
     map_types (overload_result no_lambda) []
       [Function_type int_type [int_type], Function_type (Class ''float'') [Class ''float'']] =
     Some (list_of_types [])"

definition test_map_generic_lambda :: bool where
  "test_map_generic_lambda \<longleftrightarrow>
     map_types (overload_result (\<lambda>Ts. if length Ts = 1 then Some short_type else None))
       [int_type, Class ''double'', Class ''float'']
       [Function_type unsigned_type [int_type], Class ''generic_lambda''] =
     Some (list_of_types [unsigned_type, short_type, short_type])"

fun add_constants :: "cpp_type list \<Rightarrow> cpp_type option" where
  "add_constants [Integral_constant T a, Integral_constant U b] = numeral_t represents (int_type, a + b) None"
| "add_constants _ = None"

definition test_fold_integral_constants :: bool where
  "test_fold_integral_constants \<longleftrightarrow>
     fold_left_types (overload_result add_constants) (map (Integral_constant int_type) [1, 42, 0, 100])
       (Integral_constant int_type 2000) [Class ''binary_op''] = Some (Integral_constant int_type 2143)"

definition test_fold_overloaded :: bool where
  "test_fold_overloaded \<longleftrightarrow>
     fold_left_types (overload_result no_lambda) [short_type, int_type, long_type] (Class ''unsigned short'')
       [Function_type short_type [Class ''unsigned short'', short_type],
        Function_type unsigned_type [short_type, int_type],
        Function_type (Class ''long long'') [unsigned_type, long_type]] = Some (Class ''long long'')"

definition test_fold_empty_list :: bool where
  "test_fold_empty_list \<longleftrightarrow>
     fold_left_types (overload_result no_lambda) [] (Class ''double'')
       [Function_type int_type [int_type, int_type],
        Function_type long_type [Class ''double'', Class ''double'']] = Some (Class ''double'')"

definition test_fold_one_type :: bool where
  "test_fold_one_type \<longleftrightarrow>
     fold_left_types (overload_result no_lambda) [long_type] short_type
       [Function_type int_type [short_type, long_type], Function_type unsigned_type [long_type, short_type]] =
     Some int_type"

definition appended :: "cpp_type list \<Rightarrow> cpp_type option \<Rightarrow> cpp_type option" where
  "appended Us L = Option.bind (Option.bind L template_args) (\<lambda>Ts. append_types Ts Us)"

definition test_append :: bool where
  "test_append \<longleftrightarrow>
     (let s = appended [short_type] (Some (list_of_types []));
          si = appended [int_type] s;
          sil = appended [long_type] si;
          siluu = appended [unsigned_type, unsigned_type] sil
      in s = Some (list_of_types [short_type]) \<and> si = Some (list_of_types [short_type, int_type]) \<and>
         sil = Some (list_of_types [short_type, int_type, long_type]) \<and>
         siluu = Some (list_of_types [short_type, int_type, long_type, unsigned_type, unsigned_type]))"

definition short_lists :: "cpp_type list list" where
  "short_lists = [[], [short_type], [short_type, long_type]]"

definition test_append_nothing :: bool where
  "test_append_nothing \<longleftrightarrow>
     list_all (\<lambda>Ts. appended [] (Some (list_of_types Ts)) = Some (list_of_types Ts)) short_lists"

definition test_concat :: bool where
  "test_concat \<longleftrightarrow>
     (let L = list_of_types;
          si = [short_type, int_type];
          twice = (\<lambda>T. Option.bind T (\<lambda>T. concat_types T T))
      in concat_types (L [short_type]) (L [int_type]) = Some (L si) \<and>
         twice (Some (L si)) = Some (L (si @ si)) \<and> twice (twice (Some (L si))) = Some (L (si @ si @ si @ si)))"

definition test_concat_empty :: bool where
  "test_concat_empty \<longleftrightarrow>
     list_all (\<lambda>Ts. concat_types (list_of_types []) (list_of_types Ts) = Some (list_of_types Ts) \<and>
       concat_types (list_of_types Ts) (list_of_types []) = Some (list_of_types Ts)) short_lists"

definition test_template_invocable_with_list :: bool where
  "test_template_invocable_with_list \<longleftrightarrow>
     for_standard_traits (\<lambda>name TT n valid.
       template_invocable_with_list TT (list_of_types (replicate n int_type)) = valid)"

definition test_template_invoke_with_list :: bool where
  "test_template_invoke_with_list \<longleftrightarrow>
     for_standard_traits (\<lambda>name TT n valid. valid \<longrightarrow>
       template_invoke_with_list TT (list_of_types (replicate n int_type)) =
         Some (Specialization name (replicate n int_type)))"

lemma type_list_tests_pass:
  "test_map_short_to_long" "test_map_vice_versa" "test_map_empty_list" "test_map_generic_lambda"
  "test_fold_integral_constants" "test_fold_overloaded" "test_fold_empty_list" "test_fold_one_type"
  by code_simp+

lemma append_and_concat_tests_pass:
  "test_append" "test_append_nothing" "test_concat" "test_concat_empty"
  "test_template_invocable_with_list" "test_template_invoke_with_list"
  by code_simp+

end
