(* ===== verification/Unit_Tests.thy ===== *)
theory Unit_Tests
  imports Byte_Array Sstd Protocol_Checks Message_Buffer Message_Parser System_Utils Connected_Client
begin

text \<open>
  Unit tests of the repository, as the conjunction of what they expect, evaluated on the model: each
  holds. Expectations on types that are no Wayland primitives (\<^verbatim>\<open>int\<close>, \<^verbatim>\<open>double[10]\<close>, an enumeration of 16
  bits) have no counterpart. The tests of \<^verbatim>\<open>waylander::sstd\<close> other than those of bytes are in
  \<open>Sstd_Tests\<close>, those of the visitor and of the client in \<open>Visitor_Tests\<close> and \<open>Client_Tests\<close>.
\<close>

section \<open>\<^verbatim>\<open>test_sstd_math.cpp\<close>\<close>

definition test_round_upto_multiple_of :: bool where
  "test_round_upto_multiple_of \<longleftrightarrow>
     0 = round_upto_multiple_of 4 0 \<and> 3 = round_upto_multiple_of 4 1 \<and>
     2 = round_upto_multiple_of 4 2 \<and> 1 = round_upto_multiple_of 4 3 \<and>
     0 = round_upto_multiple_of 4 4 \<and> 3 = round_upto_multiple_of 4 5 \<and>
     2 = round_upto_multiple_of 4 6 \<and> 1 = round_upto_multiple_of 4 7 \<and>
     0 = round_upto_multiple_of 4 8 \<and> 3 = round_upto_multiple_of 4 9"

lemma round_upto_multiple_of_passes: "test_round_upto_multiple_of"
  by code_simp

section \<open>\<^verbatim>\<open>test_sstd_byte_array.cpp\<close>\<close>

definition test_total_memory_usage :: bool where
  "test_total_memory_usage \<longleftrightarrow>
     total_memory_usage_is 0 [] \<and> total_memory_usage_is 1 [1] \<and> total_memory_usage_is 4 [4] \<and>
     total_memory_usage_is 8 [8] \<and> total_memory_usage_is 2 [1, 1] \<and> total_memory_usage_is 5 [1, 4] \<and>
     total_memory_usage_is 9 [1, 8] \<and> total_memory_usage_is 3 [1, 1, 1] \<and>
     total_memory_usage_is 6 [1, 4, 1] \<and> total_memory_usage_is 10 [1, 8, 1] \<and>
     \<not> total_memory_usage_is 1 [] \<and> \<not> total_memory_usage_is 2 [1] \<and> \<not> total_memory_usage_is 5 [4] \<and>
     \<not> total_memory_usage_is 9 [8] \<and> \<not> total_memory_usage_is 3 [1, 1] \<and>
     \<not> total_memory_usage_is 6 [1, 4] \<and> \<not> total_memory_usage_is 10 [1, 8] \<and>
     \<not> total_memory_usage_is 4 [1, 1, 1] \<and> \<not> total_memory_usage_is 7 [1, 4, 1] \<and>
     \<not> total_memory_usage_is 11 [1, 8, 1]"

definition uint8 :: "u64 \<Rightarrow> packed_uint" where "uint8 v = (1, v)"
definition uint16 :: "u64 \<Rightarrow> packed_uint" where "uint16 v = (2, v)"
definition uint32 :: "u64 \<Rightarrow> packed_uint" where "uint32 v = (4, v)"

definition arrays_equal :: "byte_array option \<Rightarrow> byte_array option \<Rightarrow> bool" where
  "arrays_equal a b \<longleftrightarrow> (case (a, b) of (Some x, Some y) \<Rightarrow> byte_array_equal x y | _ \<Rightarrow> False)"

definition test_byte_array_equality :: bool where
  "test_byte_array_equality \<longleftrightarrow>
     (let buf_a1 = byte_array_of_uints 3 [uint8 0, uint8 1, uint8 2];
          buf_a2 = byte_array_of_uints 3 [uint8 0, uint8 1, uint8 2];
          buf_a3 = byte_array_of_uints 3 [uint8 0, uint8 2, uint8 2]
      in arrays_equal buf_a1 buf_a2 \<and> \<not> arrays_equal buf_a1 buf_a3 \<and> \<not> arrays_equal buf_a2 buf_a3)"

definition test_empty_byte_arrays :: bool where
  "test_empty_byte_arrays \<longleftrightarrow> arrays_equal (byte_array_of_uints 0 []) (byte_array_of_uints 0 [])"

text \<open>The six ways to write four bytes of 1, with a given constructor, and all 15 comparisons.\<close>

definition one_packs :: "packed_uint list list" where
  "one_packs =
     (let one = uint8 1; oneone = uint16 0x101; oneoneoneone = uint32 0x1010101
      in [[one, one, one, one], [oneone, oneone], [oneoneoneone],
          [oneone, one, one], [one, oneone, one], [one, one, oneone]])"

fun all_pairs :: "('a \<Rightarrow> 'a \<Rightarrow> bool) \<Rightarrow> 'a list \<Rightarrow> bool" where
  "all_pairs r [] \<longleftrightarrow> True"
| "all_pairs r (x # xs) \<longleftrightarrow> list_all (r x) xs \<and> all_pairs r xs"

definition test_integers_alias :: bool where
  "test_integers_alias \<longleftrightarrow> all_pairs arrays_equal (map (byte_array_of_uints 4) one_packs)"

definition test_deduced_size :: bool where
  "test_deduced_size \<longleftrightarrow> all_pairs arrays_equal (map deduced_byte_array one_packs)"

definition test_byte_array_span :: bool where
  "test_byte_array_span \<longleftrightarrow>
     all_pairs (=) (map (\<lambda>p. map_option byte_array_bytes (deduced_byte_array p)) one_packs)"

lemma byte_array_tests_pass:
  "test_total_memory_usage" "test_byte_array_equality" "test_empty_byte_arrays" "test_integers_alias"
  "test_deduced_size" "test_byte_array_span"
  by code_simp+

section \<open>\<^verbatim>\<open>test_wayland_primitive_types.cpp\<close>\<close>

definition expect_equal :: "nat primitive \<Rightarrow> nat primitive \<Rightarrow> bool" where
  "expect_equal a b \<longleftrightarrow> primitive_equal a b = Some True"

definition expect_unequal :: "nat primitive \<Rightarrow> nat primitive \<Rightarrow> bool" where
  "expect_unequal a b \<longleftrightarrow> primitive_equal a b = Some False"

definition test_generic_comparison :: bool where
  "test_generic_comparison \<longleftrightarrow>
     (let obj_generic = Wobject 3; new_generic = Wnew_id 4; obj_foo = Wobject 3; obj_bar = Wobject 4;
          new_foo = Wnew_id 3
      in expect_equal obj_generic obj_generic \<and> expect_equal obj_generic obj_foo \<and>
         expect_unequal obj_generic obj_bar \<and> expect_unequal new_generic obj_generic \<and>
         expect_unequal new_generic obj_foo \<and> expect_equal new_generic obj_bar \<and>
         expect_equal obj_foo obj_foo \<and> expect_unequal obj_foo obj_bar \<and>
         expect_equal obj_foo new_foo \<and> expect_equal obj_bar obj_bar \<and>
         expect_unequal obj_bar new_foo \<and> expect_equal new_foo new_foo)"

definition convertible :: "interface \<Rightarrow> interface \<Rightarrow> bool" where
  "convertible T U \<longleftrightarrow> wobject_to_wnew_id U \<lparr>wobject_interface = T, wobject_value = 1\<rparr> \<noteq> None"

definition test_convertible :: bool where
  "test_convertible \<longleftrightarrow>
     (let foo = protocol_interface ''foo''; bar = protocol_interface ''bar''
      in convertible foo foo \<and> convertible foo generic_object \<and> convertible bar bar \<and>
         convertible bar generic_object \<and> convertible generic_object generic_object)"

definition test_not_convertible :: bool where
  "test_not_convertible \<longleftrightarrow>
     (let foo = protocol_interface ''foo''; bar = protocol_interface ''bar''
      in \<not> convertible foo bar \<and> \<not> convertible bar foo \<and> \<not> convertible generic_object foo \<and>
         \<not> convertible generic_object bar)"

lemma primitive_tests_pass: "test_generic_comparison" "test_convertible" "test_not_convertible"
  by code_simp+

section \<open>\<^verbatim>\<open>test_wayland_message_utils.cpp\<close>\<close>

definition test_static_message_argument :: bool where
  "test_static_message_argument \<longleftrightarrow>
     list_all static_message_argument
       [TWint, TWuint, TWfixed, TWobject generic_object, TWobject (protocol_interface ''wl_display''),
        TWnew_id generic_object, TWnew_id (protocol_interface ''wl_display'')] \<and>
     list_all (\<lambda>T. \<not> static_message_argument T) [TWstring, TWarray, TWfd]"

definition test_dynamic_message_argument :: bool where
  "test_dynamic_message_argument \<longleftrightarrow>
     list_all (\<lambda>T. \<not> dynamic_message_argument T)
       [TWint, TWuint, TWfixed, TWobject generic_object, TWobject (protocol_interface ''wl_display''),
        TWnew_id generic_object, TWnew_id (protocol_interface ''wl_display'')] \<and>
     list_all dynamic_message_argument [TWstring, TWarray, TWfd]"

definition enum_argument :: "enum_type \<Rightarrow> arg_type" where
  "enum_argument E = TWenum (enum_underlying E) (enum_interface E) (enum_name E)"

definition test_enum_arguments :: bool where
  "test_enum_arguments \<longleftrightarrow>
     list_all (\<lambda>E. static_message_argument (enum_argument E) \<and> \<not> dynamic_message_argument (enum_argument E))
       [wl_display_enum_error, wl_shm_enum_format, wl_keyboard_enum_key_state]"

definition test_payload_size_short :: bool where
  "test_payload_size_short \<longleftrightarrow>
     static_message wl_display_request_get_registry \<and>
     message_payload_size wl_display_request_get_registry = Some 4"

definition test_payload_size_long :: bool where
  "test_payload_size_long \<longleftrightarrow>
     static_message wl_shm_pool_request_create_buffer \<and>
     message_payload_size wl_shm_pool_request_create_buffer = Some (4 + 4 + 4 + 4 + 4 + 4)"

lemma message_utils_tests_pass:
  "test_static_message_argument" "test_dynamic_message_argument" "test_enum_arguments"
  "test_payload_size_short" "test_payload_size_long"
  by code_simp+

section \<open>\<^verbatim>\<open>test_wayland_system_utils.cpp\<close>\<close>

fun throws_runtime_error :: "'a outcome \<Rightarrow> bool" where
  "throws_runtime_error (Raise (Runtime_error _)) \<longleftrightarrow> True"
| "throws_runtime_error _ \<longleftrightarrow> False"

definition test_absolute_display :: bool where
  "test_absolute_display \<longleftrightarrow>
     (let relative_path = ''some/relative/path/to/wl.sock''; absolute_path = ''/some/absolute/path/to/wl.sock''
      in is_relative relative_path \<and> is_absolute absolute_path \<and>
         wayland_socket_path [''WAYLAND_DISPLAY'' \<mapsto> relative_path] \<noteq> Value relative_path \<and>
         wayland_socket_path [''WAYLAND_DISPLAY'' \<mapsto> absolute_path] = Value absolute_path)"

definition test_nothing_set :: bool where
  "test_nothing_set \<longleftrightarrow> throws_runtime_error (wayland_socket_path Map.empty)"

definition test_relative_display_alone :: bool where
  "test_relative_display_alone \<longleftrightarrow>
     (let relative_path = ''some/relative/path/to/wl.sock''
      in is_relative relative_path \<and>
         throws_runtime_error (wayland_socket_path [''WAYLAND_DISPLAY'' \<mapsto> relative_path]))"

definition test_relative_display :: bool where
  "test_relative_display \<longleftrightarrow>
     (let relative_path = ''some/relative/path/to/wl.sock''; runtime_path = ''/some/runtime/path''
      in is_relative relative_path \<and>
         wayland_socket_path [''WAYLAND_DISPLAY'' \<mapsto> relative_path, ''XDG_RUNTIME_DIR'' \<mapsto> runtime_path] =
           Value (path_append runtime_path relative_path))"

definition test_no_display :: bool where
  "test_no_display \<longleftrightarrow>
     (let runtime_path = ''/some/runtime/path''
      in wayland_socket_path [''XDG_RUNTIME_DIR'' \<mapsto> runtime_path] = Value (path_append runtime_path ''wayland-0''))"

lemma system_utils_tests_pass:
  "test_absolute_display" "test_nothing_set" "test_relative_display_alone" "test_relative_display" "test_no_display"
  by code_simp+

section \<open>\<^verbatim>\<open>test_wayland_message_parser.cpp\<close>\<close>

fun throws_logic_error :: "'a outcome \<Rightarrow> bool" where
  "throws_logic_error (Raise (Logic_error _)) \<longleftrightarrow> True"
| "throws_logic_error _ \<longleftrightarrow> False"

text \<open>The bytes of an array built from values; no bytes when it does not compile.\<close>

definition array_bytes :: "nat \<Rightarrow> bytes list \<Rightarrow> bytes" where
  "array_bytes N values = (case byte_array_of_objects N values of None \<Rightarrow> [] | Some a \<Rightarrow> byte_array_bytes a)"

definition uint_bytes :: "u32 \<Rightarrow> bytes" where
  "uint_bytes v = le_bytes 4 v"

definition get_registry_header :: "u16 \<Rightarrow> bytes" where
  "get_registry_header size_a =
     header_bytes (make_message_header (wobject_value global_display_object) (msg_opcode wl_display_request_get_registry) size_a)"

definition test_parser_empty :: bool where
  "test_parser_empty \<longleftrightarrow> message_generator (make_message_parser []) = ([], Value ())"

definition test_parser_short_beginning :: bool where
  "test_parser_short_beginning \<longleftrightarrow>
     (case message_generator (make_message_parser (replicate 5 42)) of (msgs, stop) \<Rightarrow>
        msgs = [] \<and> throws_logic_error stop)"

definition test_parser_short_end :: bool where
  "test_parser_short_end \<longleftrightarrow>
     (case message_generator (make_message_parser
         (array_bytes 16 [get_registry_header 12, uint_bytes 2, uint_bytes 42])) of (msgs, stop) \<Rightarrow>
        length msgs = 1 \<and> throws_logic_error stop)"

definition test_parser_incorrect_size :: bool where
  "test_parser_incorrect_size \<longleftrightarrow>
     (case message_generator (make_message_parser (array_bytes 12 [get_registry_header 5, uint_bytes 2])) of
        (msgs, stop) \<Rightarrow> msgs = [] \<and> throws_logic_error stop)"

definition test_parser_one_message :: bool where
  "test_parser_one_message \<longleftrightarrow>
     (let get_registery_request = array_bytes 12 [get_registry_header 12, uint_bytes 2]
      in message_generator (make_message_parser get_registery_request) =
           ([\<lparr>pm_object_id = wobject_value global_display_object, pm_opcode = msg_opcode wl_display_request_get_registry,
              pm_arguments = subspan sizeof_message_header 4 get_registery_request\<rparr>], Value ()))"

definition test_parser_two_messages :: bool where
  "test_parser_two_messages \<longleftrightarrow>
     (let size_B = 8 + 4 + 4 + 4 + 4 + 4;
          header_B = header_bytes (make_message_header 2 (msg_opcode wl_registry_request_bind) size_B);
          B_str = [103, 101, 114, 0];
          messages_AB = array_bytes (12 + unat size_B)
            [get_registry_header 12, uint_bytes 42, header_B, uint_bytes 43, uint_bytes 4, B_str, uint_bytes 999,
             uint_bytes 10]
      in message_generator (make_message_parser messages_AB) =
           ([\<lparr>pm_object_id = wobject_value global_display_object, pm_opcode = msg_opcode wl_display_request_get_registry,
              pm_arguments = subspan 8 4 messages_AB\<rparr>,
             \<lparr>pm_object_id = 2, pm_opcode = msg_opcode wl_registry_request_bind,
              pm_arguments = subspan (8 + 4 + 8) (unat size_B - 8) messages_AB\<rparr>], Value ()))"

lemma parsed_bytes:
  assumes "list_all fits ms"
  shows "message_generator (make_message_parser (concat (map message_bytes ms))) = (ms, Value ())"
    and "r \<noteq> [] \<Longrightarrow> parse_NUM r = Raise e \<Longrightarrow>
      message_generator (make_message_parser (concat (map message_bytes ms) @ r)) = (ms, Raise e)"
  using generator_messages_append [OF assms, of "[]"] generator_messages_append [OF assms, of r]
  by (simp_all add: message_generator_def make_message_parser_def parsed_message_generator.simps [of "[]"]
      parsed_message_generator.simps [of r] generator_resume_def)

lemma get_registry_bytes:
  "get_registry_header 12 @ uint_bytes v =
     message_bytes \<lparr>pm_object_id = 1, pm_opcode = msg_opcode wl_display_request_get_registry, pm_arguments = uint_bytes v\<rparr>"
  by (simp add: get_registry_header_def message_bytes_def uint_bytes_def global_display_object_def)

lemma length_get_registry_header: "length (get_registry_header s) = 8"
  by (simp add: get_registry_header_def)

lemma parser_tests_pass:
  "test_parser_empty" "test_parser_short_beginning" "test_parser_short_end" "test_parser_incorrect_size"
  "test_parser_one_message"
proof -
  let ?m = "\<lparr>pm_object_id = 1, pm_opcode = msg_opcode wl_display_request_get_registry, pm_arguments = uint_bytes 2\<rparr>"
  have fits: "fits ?m" by (simp add: fits_def uint_bytes_def)
  note bytes = array_bytes_def byte_array_of_objects_eq byte_array_bytes_def length_get_registry_header
  show "test_parser_empty"
    using parsed_bytes(1) [of "[]"] by (simp add: test_parser_empty_def)
  show "test_parser_short_beginning"
    using parsed_bytes(2) [of "[]" "replicate 5 42"] by (simp add: test_parser_short_beginning_def parse_NUM_eq)
  have "array_bytes 16 [get_registry_header 12, uint_bytes 2, uint_bytes 42] = message_bytes ?m @ uint_bytes 42"
    by (simp add: bytes get_registry_bytes [symmetric]) (simp add: uint_bytes_def)
  then show "test_parser_short_end"
    using parsed_bytes(2) [of "[?m]" "uint_bytes 42"] fits
    by (simp add: test_parser_short_end_def parse_NUM_eq) (simp add: uint_bytes_def le_bytes_4)
  have "size_at (get_registry_header 5 @ uint_bytes 2) = 5"
    by (simp add: size_at_def get_registry_header_def make_message_header_def)
  then show "test_parser_incorrect_size"
    using parsed_bytes(2) [of "[]" "get_registry_header 5 @ uint_bytes 2"]
    by (simp add: test_parser_incorrect_size_def bytes parse_NUM_eq uint_bytes_def)
  have "array_bytes 12 [get_registry_header 12, uint_bytes 2] = message_bytes ?m"
    by (simp add: bytes get_registry_bytes [symmetric]) (simp add: uint_bytes_def)
  then show "test_parser_one_message"
    using parsed_bytes(1) [of "[?m]"] fits
    by (simp add: test_parser_one_message_def global_display_object_def) (simp add: subspan_def message_bytes_def uint_bytes_def)
qed

lemma two_messages_pass: "test_parser_two_messages"
proof -
  let ?a = "\<lparr>pm_object_id = 1, pm_opcode = msg_opcode wl_display_request_get_registry, pm_arguments = uint_bytes 42\<rparr>"
  let ?b = "\<lparr>pm_object_id = 2, pm_opcode = msg_opcode wl_registry_request_bind,
    pm_arguments = uint_bytes 43 @ uint_bytes 4 @ [103, 101, 114, 0] @ uint_bytes 999 @ uint_bytes 10\<rparr>"
  have fits: "fits ?a" "fits ?b" by (simp_all add: fits_def uint_bytes_def)
  have "array_bytes 40 [get_registry_header 12, uint_bytes 42,
      header_bytes (make_message_header 2 (msg_opcode wl_registry_request_bind) 28), uint_bytes 43, uint_bytes 4,
      [103, 101, 114, 0], uint_bytes 999, uint_bytes 10] = message_bytes ?a @ message_bytes ?b"
    by (simp add: array_bytes_def byte_array_of_objects_eq byte_array_bytes_def length_get_registry_header
        get_registry_bytes [symmetric]) (simp add: uint_bytes_def message_bytes_def)
  then show ?thesis
    using parsed_bytes(1) [of "[?a, ?b]"] fits
    by (simp add: test_parser_two_messages_def global_display_object_def)
      (simp add: subspan_def message_bytes_def uint_bytes_def)
qed

section \<open>\<^verbatim>\<open>test_wayland_message_buffer.cpp\<close>\<close>

text \<open>
  Appending in a checked build, over memory that holds \<^verbatim>\<open>0xAA\<close>. A test goes on with the buffer, and fails
  when appending does.
\<close>

definition test_build :: build where
  "test_build = \<lparr>ndebug = False, checked_subscript = True\<rparr>"

definition appending :: "wobject \<Rightarrow> message_type \<Rightarrow> nat primitive list \<Rightarrow> nat message_buffer \<Rightarrow>
    (nat message_buffer \<Rightarrow> bool) \<Rightarrow> bool" where
  "appending obj M args mb expectation =
     (case append_message test_build (\<lambda>_. 0xAA) obj M args mb of Value mb' \<Rightarrow> expectation mb' | _ \<Rightarrow> False)"

definition test_buffer_empty :: bool where
  "test_buffer_empty \<longleftrightarrow> buffer_empty (empty_message_buffer :: nat message_buffer)"

definition test_buffer_request :: bool where
  "test_buffer_request \<longleftrightarrow>
     appending global_display_object wl_display_request_get_registry [Wnew_id 42] empty_message_buffer
       (\<lambda>mb. \<not> buffer_empty mb)"

definition test_buffer_event :: bool where
  "test_buffer_event \<longleftrightarrow>
     appending global_display_object wl_display_event_delete_id [Wuint 4] empty_message_buffer
       (\<lambda>mb. \<not> buffer_empty mb)"

definition test_buffer_release :: bool where
  "test_buffer_release \<longleftrightarrow>
     appending global_display_object wl_display_request_get_registry [Wnew_id 2] empty_message_buffer (\<lambda>mb.
     appending global_display_object wl_display_event_delete_id [Wuint 4] mb (\<lambda>mb.
       \<not> buffer_empty mb \<and> buffer_empty (snd (release_data mb))))"

definition test_buffer_constant_size :: bool where
  "test_buffer_constant_size \<longleftrightarrow>
     appending global_display_object wl_display_request_get_registry [Wnew_id 2] empty_message_buffer (\<lambda>mb.
     appending global_display_object wl_display_event_delete_id [Wuint 4] mb (\<lambda>mb.
       (case release_data mb of (released_data, mb') \<Rightarrow>
          buffer_empty mb' \<and> length released_data = 2 * 8 + 4 + 4 \<and>
          (case message_generator (make_message_parser released_data) of (msgs, stop) \<Rightarrow>
             stop = Value () \<and>
             map (\<lambda>m. (pm_object_id m, pm_opcode m)) msgs =
               [(wobject_value global_display_object, msg_opcode wl_display_request_get_registry),
                (wobject_value global_display_object, msg_opcode wl_display_event_delete_id)]))))"

definition display_error :: "bytes" where
  "display_error = map of_char ''display error''"

text \<open>The size, the header and the last member of a message with one dynamic member after eight bytes.\<close>

definition dynamic_member_expected :: "wobject \<Rightarrow> message_type \<Rightarrow> nat \<Rightarrow> bytes \<Rightarrow> nat \<Rightarrow> nat message_buffer \<Rightarrow> bool" where
  "dynamic_member_expected obj M count content unpadded mb \<longleftrightarrow>
     (case release_data mb of (released_data, mb') \<Rightarrow>
        buffer_empty mb' \<and>
        length released_data = 8 + 4 + 4 + (unpadded + nat (round_upto_multiple_of 4 (int unpadded))) \<and>
        length released_data mod 4 = 0 \<and>
        (case message_generator (make_message_parser released_data) of (msgs, stop) \<Rightarrow>
           stop = Value () \<and>
           map (\<lambda>m. (pm_object_id m, pm_opcode m)) msgs = [(wobject_value obj, msg_opcode M)]) \<and>
        le_word (subspan (8 + 4 + 4) 4 released_data) = (of_nat count :: u32) \<and>
        count \<noteq> unpadded + nat (round_upto_multiple_of 4 (int unpadded)) \<and> count \<noteq> unpadded \<and>
        subspan (8 + 4 + 4 + 4) (length content) released_data = content)"

definition test_buffer_string :: bool where
  "test_buffer_string \<longleftrightarrow>
     appending global_display_object wl_display_event_error [Wobject 4, Wuint 42, Wstring display_error]
       empty_message_buffer (\<lambda>mb.
         dynamic_member_expected global_display_object wl_display_event_error (length display_error + 1)
           display_error (4 + length display_error + 1) mb \<and>
         fst (release_data mb) ! (8 + 4 + 4 + 4 + length display_error) = 0)"

definition test_buffer_array :: bool where
  "test_buffer_array \<longleftrightarrow>
     (let keyboard_obj = \<lparr>wobject_interface = protocol_interface ''wl_keyboard'', wobject_value = 2\<rparr>
      in appending keyboard_obj wl_keyboard_event_enter [Wuint 5, Wobject 43, Warray [1, 2, 3]]
           empty_message_buffer (dynamic_member_expected keyboard_obj wl_keyboard_event_enter 3 [1, 2, 3] (4 + 3)))"

definition test_buffer_short_string :: bool where
  "test_buffer_short_string \<longleftrightarrow>
     appending global_display_object wl_display_event_error [Wobject 4, Wuint 42, Wstring (map of_char ''M'')]
       empty_message_buffer
       (dynamic_member_expected global_display_object wl_display_event_error 2 (map of_char ''M'') (4 + 1 + 1))"

definition test_buffer_short_array :: bool where
  "test_buffer_short_array \<longleftrightarrow>
     (let keyboard_obj = \<lparr>wobject_interface = protocol_interface ''wl_keyboard'', wobject_value = 2\<rparr>
      in appending keyboard_obj wl_keyboard_event_enter [Wuint 5, Wobject 43, Warray [1]]
           empty_message_buffer (dynamic_member_expected keyboard_obj wl_keyboard_event_enter 1 [1] (4 + 1)))"

definition test_buffer_fd :: bool where
  "test_buffer_fd \<longleftrightarrow>
     appending \<lparr>wobject_interface = protocol_interface ''wl_shm'', wobject_value = 2\<rparr> wl_shm_request_create_pool
       [Wnew_id 42, Wfd 7, Wint 10] empty_message_buffer (\<lambda>mb.
         \<not> buffer_empty mb \<and>
         (let mb1 = snd (release_data mb); fd_vec = fst (release_fds mb1); mb2 = snd (release_fds mb1)
          in \<not> buffer_empty mb1 \<and> buffer_empty mb2 \<and> length fd_vec = 1))"

lemma appending_value:
  "appendable test_build obj M args \<Longrightarrow>
     appending obj M args mb e =
       e \<lparr>buff = buff mb @ message_bytes \<lparr>pm_object_id = wobject_value obj, pm_opcode = msg_opcode M,
             pm_arguments = enc_args (\<lambda>_. 0xAA) (length (buff mb) + 8) args\<rparr>,
          fd_buff = fd_buff mb @ fds_of_args args\<rparr>"
  by (simp add: appending_def append_message_value enc_message_def message_bytes_def)

lemmas buffer_test_simps =
  appending_value wire_simps test_build_def global_display_object_def empty_message_buffer_def buffer_empty_def
  release_data_def release_fds_def fds_of_args_def wl_display_request_get_registry_def wl_display_event_delete_id_def
  wl_display_event_error_def wl_keyboard_event_enter_def wl_shm_request_create_pool_def

lemma buffer_tests_pass:
  "test_buffer_empty" "test_buffer_request" "test_buffer_event" "test_buffer_release" "test_buffer_fd"
  by (simp_all add: test_buffer_empty_def test_buffer_request_def test_buffer_event_def test_buffer_release_def
      test_buffer_fd_def buffer_test_simps Let_def)

lemma constant_size_passes: "test_buffer_constant_size"
proof -
  let ?a = "\<lparr>pm_object_id = 1, pm_opcode = msg_opcode wl_display_request_get_registry, pm_arguments = le_bytes 4 (2 :: u32)\<rparr>"
  let ?b = "\<lparr>pm_object_id = 1, pm_opcode = msg_opcode wl_display_event_delete_id, pm_arguments = le_bytes 4 (4 :: u32)\<rparr>"
  have "fits ?a" "fits ?b" by (simp_all add: fits_def)
  then show ?thesis
    using parsed_bytes(1) [of "[?a, ?b]"]
    by (simp add: test_buffer_constant_size_def buffer_test_simps)
qed

lemma dynamic_member_passes:
  assumes "pm_object_id m = wobject_value obj" "pm_opcode m = msg_opcode M"
    and args: "pm_arguments m = le_bytes 4 (a :: u32) @ le_bytes 4 (b :: u32) @ le_bytes 4 (of_nat count :: u32) @ content @ pad"
    and pad: "4 + length content + length pad = unpadded + pad_of unpadded"
    and "unpadded < 200" "count < unpadded"
  shows "dynamic_member_expected obj M count content unpadded \<lparr>buff = message_bytes m, fd_buff = []\<rparr>"
proof -
  have "length content + length pad < 65516" using pad assms(5) pad_of_less [of unpadded] by linarith
  then have "fits m" by (simp add: fits_def args)
  moreover have "(16 + (unpadded + pad_of unpadded)) mod 4 = 0"
    using pad_of_aligned [of unpadded] by presburger
  moreover have "20 + (length content + length pad) = 16 + (unpadded + pad_of unpadded)" using pad by simp
  ultimately show ?thesis
    using parsed_bytes(1) [of "[m]"] assms(1,2,6) args
    by (simp add: dynamic_member_expected_def release_data_def buffer_empty_def pad_of_def [symmetric])
      (simp add: message_bytes_def subspan_def)
qed

lemma dynamic_tests_pass:
  "test_buffer_string" "test_buffer_array" "test_buffer_short_string" "test_buffer_short_array"
proof -
  let ?s = "\<lambda>k s. padding (\<lambda>_. 0xAA) k (5 + length s)" and ?a = "\<lambda>k a. padding (\<lambda>_. 0xAA) k (4 + length a)"
  let ?error = "\<lambda>s. \<lparr>pm_object_id = 1, pm_opcode = msg_opcode wl_display_event_error,
    pm_arguments = le_bytes 4 (4 :: u32) @ le_bytes 4 (42 :: u32) @ le_bytes 4 (of_nat (length s + 1) :: u32) @ s @
      [0] @ ?s 16 s\<rparr>"
  let ?enter = "\<lambda>a. \<lparr>pm_object_id = 2, pm_opcode = msg_opcode wl_keyboard_event_enter,
    pm_arguments = le_bytes 4 (5 :: u32) @ le_bytes 4 (43 :: u32) @ le_bytes 4 (of_nat (length a) :: u32) @ a @ ?a 16 a\<rparr>"
  let ?keyboard = "\<lparr>wobject_interface = protocol_interface ''wl_keyboard'', wobject_value = 2\<rparr>"
  have string: "dynamic_member_expected global_display_object wl_display_event_error (length s + 1) s (4 + length s + 1)
      \<lparr>buff = message_bytes (?error s), fd_buff = []\<rparr>" if "length s < 100" for s
    using that by (intro dynamic_member_passes [where a = 4 and b = 42 and pad = "[0] @ ?s 16 s"])
      (simp_all add: global_display_object_def)
  have array: "dynamic_member_expected ?keyboard wl_keyboard_event_enter (length a) a (4 + length a)
      \<lparr>buff = message_bytes (?enter a), fd_buff = []\<rparr>" if "length a < 100" "a \<noteq> []" for a
    using that by (intro dynamic_member_passes [where a = 5 and b = 43 and pad = "?a 16 a"]) simp_all
  show "test_buffer_array"
    using array [of "[1, 2, 3]"] by (simp add: test_buffer_array_def buffer_test_simps numeral_3_eq_3)
  show "test_buffer_short_array"
    using array [of "[1]"] by (simp add: test_buffer_short_array_def buffer_test_simps)
  show "test_buffer_short_string"
  proof -
    have two: "length (map of_char ''M'' :: bytes) + 1 = 2" by simp
    show ?thesis
      using string [of "map of_char ''M''", unfolded two] by (simp add: test_buffer_short_string_def buffer_test_simps)
  qed
  show "test_buffer_string"
  proof -
    have l: "length display_error = 13" by (simp add: display_error_def)
    have delimiter: "message_bytes (?error display_error) ! (20 + 13) = 0"
      by (simp add: message_bytes_def nth_append l)
    show ?thesis
      using string [of display_error] delimiter by (simp add: test_buffer_string_def buffer_test_simps l)
  qed
qed

end
