(* ===== verification/Visitor_Tests.thy ===== *)
theory Visitor_Tests
  imports Unit_Tests Client_Requests
begin

text \<open>
  \<^verbatim>\<open>test_wayland_message_visitor.cpp\<close>: each test as what it expects, proved to hold of the model. The
  callbacks count their calls, and keep whether everything they expect of their arguments has held.
\<close>

section \<open>Counting callbacks\<close>

record counters =
  default_counter :: nat
  first_counter :: nat
  second_counter :: nat
  as_expected :: bool
  previous_arguments :: "bytes option"

definition fresh_counters :: counters where
  "fresh_counters =
     \<lparr>default_counter = 0, first_counter = 0, second_counter = 0, as_expected = True, previous_arguments = None\<rparr>"

definition expect_that :: "bool \<Rightarrow> counters \<Rightarrow> counters" where
  "expect_that b w = w\<lparr>as_expected := as_expected w \<and> b\<rparr>"

definition counts :: "nat \<Rightarrow> nat \<Rightarrow> nat \<Rightarrow> counters \<Rightarrow> bool" where
  "counts d m n w \<longleftrightarrow> default_counter w = d \<and> first_counter w = m \<and> second_counter w = n \<and> as_expected w"

text \<open>A visit in a test, which goes on with the counters when the visit returns normally.\<close>

definition visiting :: "counters default_overload \<Rightarrow> counters message_overload_set \<Rightarrow> parsed_message \<Rightarrow> counters \<Rightarrow>
    (counters \<Rightarrow> bool) \<Rightarrow> bool" where
  "visiting d mos msg w expectation \<longleftrightarrow>
     (case message_visit d mos msg w of (w', Value _) \<Rightarrow> expectation w' | _ \<Rightarrow> False)"

definition adding_overload :: "wobject \<Rightarrow> message_type \<Rightarrow>
    (nat primitive list \<Rightarrow> counters \<Rightarrow> counters \<times> unit outcome) \<Rightarrow> counters message_overload_set \<Rightarrow>
    (counters message_overload_set \<Rightarrow> bool) \<Rightarrow> bool" where
  "adding_overload obj M f mos expectation \<longleftrightarrow>
     (case add_overload test_build obj M f mos of (mos', Value _) \<Rightarrow> expectation mos' | _ \<Rightarrow> False)"

section \<open>A message nobody knows\<close>

definition touch_obj :: wobject where
  "touch_obj = \<lparr>wobject_interface = protocol_interface ''wl_touch'', wobject_value = 42\<rparr>"

definition UM_arguments :: "nat primitive list" where
  "UM_arguments = [Wuint 0, Wuint 0, Wint 0]"

text \<open>The bytes of the struct are those of its members.\<close>

definition UM :: parsed_message where
  "UM = \<lparr>pm_object_id = wobject_value touch_obj, pm_opcode = msg_opcode wl_touch_event_up,
         pm_arguments = concat (map static_repr UM_arguments)\<rparr>"

definition default_counter_incrementer :: "counters \<Rightarrow> counters \<times> unit outcome" where
  "default_counter_incrementer w = (w\<lparr>default_counter := default_counter w + 1\<rparr>, Value ())"

definition test_visit_default :: bool where
  "test_visit_default \<longleftrightarrow>
     (let visit = visiting (Nullary default_counter_incrementer) empty_overload_set UM
      in visit fresh_counters (\<lambda>w. counts 1 0 0 w \<and> visit w (\<lambda>w. visit w (counts 3 0 0))))"

definition test_visit_default_with_message :: bool where
  "test_visit_default_with_message \<longleftrightarrow>
     (let visit = visiting (With_message (\<lambda>msg w. default_counter_incrementer (expect_that
              (pm_object_id msg = wobject_value touch_obj \<and> pm_opcode msg = msg_opcode wl_touch_event_up \<and>
               pm_arguments msg = pm_arguments UM) w))) empty_overload_set UM
      in visit fresh_counters (\<lambda>w. counts 1 0 0 w \<and> visit w (\<lambda>w. visit w (counts 3 0 0))))"

definition test_visit_static_message :: bool where
  "test_visit_static_message \<longleftrightarrow>
     static_message wl_touch_event_up \<and>
     (let d = Nullary default_counter_incrementer
      in visiting d empty_overload_set UM fresh_counters (\<lambda>w. counts 1 0 0 w \<and>
         adding_overload touch_obj wl_touch_event_up
           (\<lambda>args w. (expect_that (args = UM_arguments) (w\<lparr>first_counter := first_counter w + 1\<rparr>), Value ()))
           empty_overload_set (\<lambda>overload_set.
         visiting d overload_set UM w (\<lambda>w. counts 1 1 0 w \<and>
         visiting d overload_set (UM\<lparr>pm_object_id := pm_object_id UM + 1\<rparr>) w (counts 2 1 0)))))"

lemmas visit_test_simps =
  visiting_def adding_overload_def message_visit_def overload_resolution_def add_overload_def insert_overload_def
  empty_overload_set_def erase_overload_def counts_def expect_that_def default_counter_incrementer_def
  fresh_counters_def

lemma default_visit_tests_pass: "test_visit_default" "test_visit_default_with_message"
  by (simp_all add: test_visit_default_def test_visit_default_with_message_def visit_test_simps UM_def Let_def)

lemma interpreted_UM:
  "interpert_message_payload test_build wl_touch_event_up (pm_arguments UM) = Value UM_arguments"
proof -
  have "pm_arguments UM = enc_args (\<lambda>_. 0) 0 UM_arguments"
    by (simp add: UM_def UM_arguments_def)
  moreover have "readable_message test_build wl_touch_event_up UM_arguments"
    by (simp add: wire_simps wl_touch_event_up_def UM_arguments_def)
  ultimately show ?thesis by (simp add: interpert_enc_args)
qed

lemma static_visit_test_passes: "test_visit_static_message"
proof -
  have "static_message wl_touch_event_up" by code_simp
  moreover have "pm_object_id UM = wobject_value touch_obj" "pm_opcode UM = msg_opcode wl_touch_event_up"
    by (simp_all add: UM_def)
  ultimately show ?thesis
    by (simp add: test_visit_static_message_def visit_test_simps interpreted_UM Let_def)
qed

section \<open>Messages out of a buffer\<close>

text \<open>
  The data of a buffer to which messages have been appended, and the messages a parser yields of it, as
  the tests make them.
\<close>

fun append_messages :: "nat request list \<Rightarrow> nat message_buffer \<Rightarrow> nat message_buffer outcome" where
  "append_messages [] mb = Value mb"
| "append_messages ((obj, M, args) # rs) mb =
     bind_outcome (append_message test_build (\<lambda>_. 0xAA) obj M args mb) (append_messages rs)"

definition message_data :: "nat request list \<Rightarrow> bytes" where
  "message_data rs =
     (case append_messages rs empty_message_buffer of Value mb \<Rightarrow> fst (release_data mb) | _ \<Rightarrow> [])"

text \<open>Requests that can be appended, and that the size field can hold.\<close>

definition sendable :: "nat request list \<Rightarrow> bool" where
  "sendable rs \<longleftrightarrow>
     (\<forall>(obj, M, args) \<in> set rs. appendable test_build obj M args \<and> 8 + wire_sizes args < 65536)"

lemma append_messages_value:
  "sendable rs \<Longrightarrow> append_messages rs mb =
     Value \<lparr>buff = buff mb @ enc_requests (\<lambda>_. 0xAA) (length (buff mb)) rs, fd_buff = fd_buff mb @ fds_of_requests rs\<rparr>"
proof (induction rs arbitrary: mb)
  case (Cons r rs)
  obtain obj M args where r: "r = (obj, M, args)" by (cases r)
  with Cons.prems have "appendable test_build obj M args" "sendable rs"
    by (auto simp: sendable_def)
  with Cons.IH show ?case
    by (simp add: r append_message_value fds_of_requests_def add.assoc)
qed (simp add: fds_of_requests_def)

lemma message_data_value:
  assumes "sendable rs"
  shows "message_data rs = concat (map message_bytes (messages_of_requests (\<lambda>_. 0xAA) 0 rs))"
  using append_messages_value [OF assms, of empty_message_buffer]
  by (simp add: message_data_def release_data_def empty_message_buffer_def enc_requests_messages)

lemma sendable_fits: "sendable rs \<Longrightarrow> list_all fits (messages_of_requests storage k rs)"
  by (rule messages_of_requests_fit) (auto simp: sendable_def)

lemma parsed_message_data:
  assumes "sendable rs"
  shows "message_generator (make_message_parser (message_data rs)) = (messages_of_requests (\<lambda>_. 0xAA) 0 rs, Value ())"
  using parsed_bytes(1) [OF sendable_fits [OF assms]] by (simp add: message_data_value [OF assms])

text \<open>A message that is one of those, for the objects and types of the requests.\<close>

definition carries :: "nat request \<Rightarrow> parsed_message \<Rightarrow> bool" where
  "carries r m \<longleftrightarrow>
     (case r of (obj, M, args) \<Rightarrow> pm_object_id m = wobject_value obj \<and> pm_opcode m = msg_opcode M \<and>
        interpert_message_payload test_build M (pm_arguments m) = Value args)"

lemma carries_interpreted:
  "carries (obj, M, args) m \<Longrightarrow> interpert_message_payload test_build M (pm_arguments m) = Value args"
  "carries (obj, M, args) m \<Longrightarrow> pm_object_id m = wobject_value obj"
  "carries (obj, M, args) m \<Longrightarrow> pm_opcode m = msg_opcode M"
  by (simp_all add: carries_def)

lemma messages_carry:
  assumes "\<forall>(obj, M, args) \<in> set rs. readable_message test_build M args"
  shows "list_all2 carries rs (messages_of_requests storage k rs)"
  using messages_of_requests_interpreted [of test_build rs storage k] assms
  by (induction rule: list_all2_induct) (auto simp: carries_def)

section \<open>Overloads for strings and arrays\<close>

definition pirate :: bytes where "pirate = map of_char ''pirate''"

definition keyboard_obj :: "u32 \<Rightarrow> wobject" where
  "keyboard_obj n = \<lparr>wobject_interface = protocol_interface ''wl_keyboard'', wobject_value = n\<rparr>"

definition dynamic_messages :: "nat request list" where
  "dynamic_messages =
     [(global_display_object, wl_display_event_error, [Wobject 42, Wuint 43, Wstring (map of_char ''FooBar'')]),
      (keyboard_obj 123, wl_keyboard_event_enter, [Wuint 12, Wobject 13, Warray pirate]),
      (global_display_object, wl_display_event_error, [Wobject 43, Wuint 44, Wstring (map of_char ''Bar'')]),
      (keyboard_obj 321, wl_keyboard_event_enter, [Wuint 21, Wobject 31, Warray (take 3 pirate)]),
      (keyboard_obj 333, wl_keyboard_event_enter, [Wuint 21, Wobject 31, Warray (take 3 pirate)])]"

definition unknown_keyboard :: "counters default_overload" where
  "unknown_keyboard = With_message (\<lambda>msg w.
     (expect_that (pm_object_id msg = wobject_value (keyboard_obj 333) \<and> pm_opcode msg = msg_opcode wl_keyboard_event_enter)
        (w\<lparr>default_counter := default_counter w + 1\<rparr>), Value ()))"

definition on_error :: "nat primitive list \<Rightarrow> counters \<Rightarrow> counters \<times> unit outcome" where
  "on_error args w =
     (expect_that
        ((first_counter w = 0 \<longrightarrow> args = [Wobject 42, Wuint 43, Wstring (map of_char ''FooBar'')]) \<and>
         (first_counter w = 1 \<longrightarrow> args = [Wobject 43, Wuint 44, Wstring (map of_char ''Bar'')]))
        (w\<lparr>first_counter := first_counter w + 1\<rparr>), Value ())"

definition on_enter :: "nat \<Rightarrow> nat primitive list \<Rightarrow> nat primitive list \<Rightarrow> counters \<Rightarrow> counters \<times> unit outcome" where
  "on_enter n expected args w =
     (expect_that (args = expected) (w\<lparr>second_counter := second_counter w + n\<rparr>), Value ())"

text \<open>The messages one after another, with what is expected of the counters after each.\<close>

fun visiting_each :: "counters default_overload \<Rightarrow> counters message_overload_set \<Rightarrow> parsed_message list \<Rightarrow>
    (counters \<Rightarrow> bool) list \<Rightarrow> counters \<Rightarrow> bool" where
  "visiting_each d mos [] [] w \<longleftrightarrow> True"
| "visiting_each d mos (m # ms) (e # es) w \<longleftrightarrow> visiting d mos m w (\<lambda>w. e w \<and> visiting_each d mos ms es w)"
| "visiting_each d mos _ _ w \<longleftrightarrow> False"

definition test_visit_dynamic_messages :: bool where
  "test_visit_dynamic_messages \<longleftrightarrow>
     adding_overload global_display_object wl_display_event_error on_error empty_overload_set (\<lambda>overload_set.
     adding_overload (keyboard_obj 123) wl_keyboard_event_enter
       (on_enter 1 [Wuint 12, Wobject 13, Warray pirate]) overload_set (\<lambda>overload_set.
     adding_overload (keyboard_obj 321) wl_keyboard_event_enter
       (on_enter 10 [Wuint 21, Wobject 31, Warray (take 3 pirate)]) overload_set (\<lambda>overload_set.
       counts 0 0 0 fresh_counters \<and>
       (case message_generator (make_message_parser (message_data dynamic_messages)) of (msgs, stop) \<Rightarrow>
          stop = Value () \<and>
          visiting_each unknown_keyboard overload_set msgs
            [counts 0 1 0, counts 0 1 1, counts 0 2 1, counts 0 2 11, counts 1 2 11] fresh_counters))))"

lemmas message_test_simps =
  wire_simps test_build_def global_display_object_def keyboard_obj_def pirate_def
  wl_display_event_error_def wl_keyboard_event_enter_def wl_display_request_get_registry_def
  wl_registry_request_bind_def

lemma test_opcodes:
  "msg_opcode wl_display_event_error = 0" "msg_opcode wl_keyboard_event_enter = 1"
  "msg_opcode wl_display_request_get_registry = 1" "msg_opcode wl_registry_request_bind = 0"
  by (simp_all add: message_test_simps)

lemma dynamic_messages_sendable: "sendable dynamic_messages"
  by (simp add: sendable_def dynamic_messages_def message_test_simps wire_sizes_def pad_of_eq)

lemma dynamic_messages_readable: "\<forall>(obj, M, args) \<in> set dynamic_messages. readable_message test_build M args"
  by (simp add: dynamic_messages_def message_test_simps)

lemma dynamic_visit_test_passes: "test_visit_dynamic_messages"
proof -
  note sent = parsed_message_data [OF dynamic_messages_sendable]
  have "list_all2 carries dynamic_messages (messages_of_requests (\<lambda>_. 0xAA) 0 dynamic_messages)"
    by (rule messages_carry [OF dynamic_messages_readable])
  then obtain a b c d e where ms: "messages_of_requests (\<lambda>_. 0xAA) 0 dynamic_messages = [a, b, c, d, e]"
    and m: "carries (dynamic_messages ! 0) a" "carries (dynamic_messages ! 1) b" "carries (dynamic_messages ! 2) c"
      "carries (dynamic_messages ! 3) d" "carries (dynamic_messages ! 4) e"
    by (auto simp: dynamic_messages_def list_all2_Cons1)
  note m = m [unfolded dynamic_messages_def, simplified]
  note carried = m [THEN carries_interpreted(1)] m [THEN carries_interpreted(2)] m [THEN carries_interpreted(3)]
  show ?thesis
    by (simp add: test_visit_dynamic_messages_def sent ms visit_test_simps unknown_keyboard_def on_error_def on_enter_def
        carried test_opcodes global_display_object_def keyboard_obj_def)
qed

section \<open>Overloads with a state\<close>

definition test_registry_obj :: wobject where
  "test_registry_obj = \<lparr>wobject_interface = protocol_interface ''wl_registry'', wobject_value = 42\<rparr>"

definition test_display_obj :: wobject where
  "test_display_obj = \<lparr>wobject_interface = protocol_interface ''wl_display'', wobject_value = 55\<rparr>"

definition get_registry_of :: "wobject \<Rightarrow> u32 \<Rightarrow> nat request" where
  "get_registry_of obj registry = (obj, wl_display_request_get_registry, [Wnew_id registry])"

definition bind_of :: "u32 \<Rightarrow> string \<Rightarrow> u32 \<Rightarrow> u32 \<Rightarrow> nat request" where
  "bind_of name interface version new_id =
     (test_registry_obj, wl_registry_request_bind,
      [Wuint name, Wstring (map of_char interface), Wuint version, Wnew_id new_id])"

definition stateful_messages :: "nat request list" where
  "stateful_messages =
     [get_registry_of global_display_object 1, bind_of 2 ''abc'' 42 3,
      get_registry_of global_display_object 4, bind_of 5 ''def'' 43 6,
      get_registry_of test_display_obj 7, get_registry_of test_display_obj 7]"

text \<open>The default keeps the arguments of the first message it gets.\<close>

definition remembering_default :: "counters default_overload" where
  "remembering_default = With_message (\<lambda>msg w.
     let w = w\<lparr>default_counter := default_counter w + 1\<rparr>
     in (case previous_arguments w of
           None \<Rightarrow> w\<lparr>previous_arguments := Some (pm_arguments msg)\<rparr>
         | Some previous \<Rightarrow>
             expect_that (previous = pm_arguments msg) (w\<lparr>default_counter := default_counter w + 10\<rparr>),
         Value ()))"

text \<open>The flag \<^verbatim>\<open>first_time\<close> of the closures is true until the first call, as long as their counter is 0.\<close>

definition on_get_registry :: "nat primitive list \<Rightarrow> counters \<Rightarrow> counters \<times> unit outcome" where
  "on_get_registry args w =
     (expect_that (args = (if first_counter w = 0 then [Wnew_id 1] else [Wnew_id 4]))
        (w\<lparr>first_counter := first_counter w + 1\<rparr>), Value ())"

definition on_bind :: "nat primitive list \<Rightarrow> counters \<Rightarrow> counters \<times> unit outcome" where
  "on_bind args w =
     (expect_that
        (args = snd (snd (if second_counter w = 0 then bind_of 2 ''abc'' 42 3 else bind_of 5 ''def'' 43 6)))
        (w\<lparr>second_counter := second_counter w + 1\<rparr>), Value ())"

definition test_visit_stateful_overloads :: bool where
  "test_visit_stateful_overloads \<longleftrightarrow>
     adding_overload global_display_object wl_display_request_get_registry on_get_registry empty_overload_set
       (\<lambda>overload_set.
     adding_overload test_registry_obj wl_registry_request_bind on_bind overload_set (\<lambda>overload_set.
       (case message_visit_range remembering_default overload_set
               (message_generator (make_message_parser (message_data stateful_messages))) fresh_counters of
          (w, Value _) \<Rightarrow> default_counter w = 12 \<and> as_expected w
        | _ \<Rightarrow> False)))"

lemmas stateful_test_simps =
  get_registry_of_def bind_of_def test_registry_obj_def test_display_obj_def global_display_object_def

lemma stateful_messages_sendable: "sendable stateful_messages"
  by (simp add: sendable_def stateful_messages_def stateful_test_simps message_test_simps wire_sizes_def pad_of_eq)

lemma stateful_messages_readable: "\<forall>(obj, M, args) \<in> set stateful_messages. readable_message test_build M args"
  by (simp add: stateful_messages_def stateful_test_simps message_test_simps)

text \<open>The payload of a request without strings and arrays is the same wherever it stands.\<close>

lemma get_registry_payload:
  "i < length rs \<Longrightarrow> rs ! i = get_registry_of obj n \<Longrightarrow>
     pm_arguments (messages_of_requests storage k rs ! i) = le_bytes 4 n"
proof (induction storage k rs arbitrary: i rule: messages_of_requests.induct)
  case (2 storage k obj M args rs)
  then show ?case by (cases i) (auto simp: get_registry_of_def)
qed simp

lemma stateful_visit_test_passes: "test_visit_stateful_overloads"
proof -
  note sent = parsed_message_data [OF stateful_messages_sendable]
  have "list_all2 carries stateful_messages (messages_of_requests (\<lambda>_. 0xAA) 0 stateful_messages)"
    by (rule messages_carry [OF stateful_messages_readable])
  then obtain a b c d e f where ms: "messages_of_requests (\<lambda>_. 0xAA) 0 stateful_messages = [a, b, c, d, e, f]"
    and m: "carries (stateful_messages ! 0) a" "carries (stateful_messages ! 1) b" "carries (stateful_messages ! 2) c"
      "carries (stateful_messages ! 3) d" "carries (stateful_messages ! 4) e" "carries (stateful_messages ! 5) f"
    by (auto simp: stateful_messages_def list_all2_Cons1)
  note m = m [unfolded stateful_messages_def get_registry_of_def bind_of_def, simplified]
  note carried = m [THEN carries_interpreted(1)] m [THEN carries_interpreted(2)] m [THEN carries_interpreted(3)]
  have "pm_arguments e = pm_arguments f"
    using get_registry_payload [of 4 stateful_messages test_display_obj 7 "\<lambda>_. 0xAA" 0]
      get_registry_payload [of 5 stateful_messages test_display_obj 7 "\<lambda>_. 0xAA" 0]
    by (simp add: ms) (simp add: stateful_messages_def)
  then show ?thesis
    by (simp add: test_visit_stateful_overloads_def sent ms visit_test_simps remembering_default_def
        on_get_registry_def on_bind_def carried test_opcodes stateful_test_simps Let_def)
qed

end
