(* ===== verification/Client_Tests.thy ===== *)
theory Client_Tests
  imports Visitor_Tests Client_Visit List_Socket System_Utils
begin

text \<open>
  \<^verbatim>\<open>test_wayland_connected_client.cpp\<close>: each test as what it expects, proved to hold of the model. The
  socket pair and the thread at its other end are the subproject's: the client has a socket in memory,
  or, where the test receives, any socket whose pending bytes are what the thread writes, however it
  cuts them. What is expected by the type of an expression alone has no counterpart.
\<close>

section \<open>Object ids\<close>

type_synonym test_client = "(nat list_socket, nat) connected_client"

definition new_client :: test_client where
  "new_client = make_connected_client (list_socket [])"

text \<open>The object \<^verbatim>\<open>id4\<close> gets its id from its own member function.\<close>

definition test_reserve_object_id :: bool where
  "test_reserve_object_id \<longleftrightarrow>
     (let (id1, client) = reserve_object_id (protocol_interface ''wl_display'') new_client;
          (id2, client) = reserve_object_id (protocol_interface ''wl_touch'') client;
          (id3, client) = reserve_object_id generic_object client;
          (id4, id4_copy, client) =
            reserve_id \<lparr>wobject_interface = protocol_interface ''wl_shell'', wobject_value = 0\<rparr> client;
          (id5, client) = reserve_object_id (protocol_interface ''wl_shell'') client;
          same = (\<lambda>a b. primitive_equal (Wobject (wobject_value a)) (Wobject (wobject_value b) :: nat primitive) = Some True)
      in same id4 id4_copy \<and>
         map wobject_interface [id1, id2, id3, id4, id5] =
           [protocol_interface ''wl_display'', protocol_interface ''wl_touch'', generic_object,
            protocol_interface ''wl_shell'', protocol_interface ''wl_shell''] \<and>
         map wobject_value [global_display_object, id1, id2, id3, id4, id5] = [1, 2, 3, 4, 5, 6] \<and>
         same id1 id1 \<and> \<not> same id1 id2 \<and> \<not> same id1 id3 \<and> same id2 id2 \<and> \<not> same id2 id3 \<and> same id3 id3 \<and>
         \<not> same id4 id5)"

lemma reserve_object_id_test_passes: "test_reserve_object_id"
  by code_simp

section \<open>Requests\<close>

definition storage_AA :: "nat \<Rightarrow> byte" where "storage_AA = (\<lambda>_. 0xAA)"

definition registering :: "nat request list \<Rightarrow> test_client \<Rightarrow> (test_client \<Rightarrow> bool) \<Rightarrow> bool" where
  "registering rs client expectation \<longleftrightarrow>
     (case register_requests test_build storage_AA rs client of (client, Value _) \<Rightarrow> expectation client | _ \<Rightarrow> False)"

definition flushing :: "test_client \<Rightarrow> (test_client \<Rightarrow> bool) \<Rightarrow> bool" where
  "flushing client expectation \<longleftrightarrow>
     (case flush_registered_requests test_build list_socket_ops client of
        (client, Value _) \<Rightarrow> expectation client
      | _ \<Rightarrow> False)"

definition test_register_request :: bool where
  "test_register_request \<longleftrightarrow>
     (let (registry, client) = reserve_object_id (protocol_interface ''wl_registry'') new_client
      in registering [get_registry_of global_display_object (wobject_value registry)] client (\<lambda>_. True))"

text \<open>A call the compiler rejects is ill-formed; the message is of the interface of the display.\<close>

definition test_register_other_interface :: bool where
  "test_register_other_interface \<longleftrightarrow>
     (let register = (\<lambda>T. snd (register_requests test_build storage_AA
            [get_registry_of \<lparr>wobject_interface = protocol_interface T, wobject_value = 0\<rparr> 0] new_client))
      in register ''wl_display'' \<noteq> Ill_formed \<and> register ''wl_shm'' = Ill_formed)"

text \<open>Rounds of registering the same request a number of times and flushing.\<close>

fun flush_rounds :: "nat request \<Rightarrow> nat list \<Rightarrow> test_client \<Rightarrow> (test_client \<Rightarrow> bool) \<Rightarrow> bool" where
  "flush_rounds r [] client expectation \<longleftrightarrow> expectation client"
| "flush_rounds r (n # ns) client expectation \<longleftrightarrow>
     \<not> has_registered_requests client \<and>
     registering (replicate n r) client (\<lambda>client. has_registered_requests client \<and>
     flushing client (\<lambda>client. \<not> has_registered_requests client \<and> flush_rounds r ns client expectation))"

definition all_received :: "nat \<Rightarrow> test_client \<Rightarrow> bool" where
  "all_received amount_of_msg client \<longleftrightarrow>
     (let recv_data = map fst (outgoing (server_sock client))
      in length recv_data =
           (sizeof_message_header + the (message_payload_size wl_display_request_get_registry)) * amount_of_msg \<and>
         (case message_generator (make_message_parser recv_data) of (msgs, stop) \<Rightarrow>
            stop = Value () \<and>
            list_all (\<lambda>m. pm_object_id m = wobject_value global_display_object \<and>
              pm_opcode m = msg_opcode wl_display_request_get_registry) msgs))"

definition test_flush_without_fds :: bool where
  "test_flush_without_fds \<longleftrightarrow>
     (let (registry, client) = reserve_object_id (protocol_interface ''wl_registry'') new_client;
          request = get_registry_of global_display_object (wobject_value registry);
          msg_repeats_per_send = [1, 2, 4, 8]
      in static_message wl_display_request_get_registry \<and>
         flush_rounds request msg_repeats_per_send client (all_received (fold (+) msg_repeats_per_send 0)))"

text \<open>
  The descriptor the server gets is the one of the memory block; that its pages are those the test has
  filled is the operating system's.
\<close>

definition test_flush_with_fds :: bool where
  "test_flush_with_fds \<longleftrightarrow>
     (let mem_ref = 7 :: nat;
          request = (\<lparr>wobject_interface = protocol_interface ''wl_shm'', wobject_value = 2\<rparr>,
            wl_shm_request_create_pool, [Wnew_id 42, Wfd mem_ref, Wint 10])
      in \<not> has_registered_requests new_client \<and>
         registering [request] new_client (\<lambda>client. has_registered_requests client \<and>
         flushing client (\<lambda>client. \<not> has_registered_requests client \<and>
           length (outgoing (server_sock client)) = sizeof_message_header + 4 + 4 \<and>
           List.map_filter snd (outgoing (server_sock client)) = [mem_ref])))"

definition test_flush_nothing :: bool where
  "test_flush_nothing \<longleftrightarrow>
     \<not> has_registered_requests new_client \<and> flushing new_client (\<lambda>client. \<not> has_registered_requests client)"

lemma register_tests_pass: "test_register_request" "test_register_other_interface" "test_flush_nothing"
  by code_simp+

lemma flush_with_fds_passes: "test_flush_with_fds"
  by code_simp

text \<open>What a round leaves: the bytes of its requests have been sent, and the buffer is empty.\<close>

lemma flush_rounds_sent:
  assumes app: "appendable test_build obj M args" and enc: "\<And>k. enc_message storage_AA k obj M args = bs"
    and fds: "fds_of_args args = []"
  shows "request_buff client = empty_message_buffer \<Longrightarrow> 0 \<notin> set ns \<Longrightarrow>
    \<exists>client'. flush_rounds (obj, M, args) ns client e = e client' \<and>
      map fst (outgoing (server_sock client')) =
        map fst (outgoing (server_sock client)) @ concat (replicate (sum_list ns) bs)"
proof (induction ns arbitrary: client)
  case (Cons n ns)
  have e: "enc_requests storage_AA k (replicate m (obj, M, args)) = concat (replicate m bs)" for k m
    by (induction m arbitrary: k) (simp_all add: enc)
  have f: "fds_of_requests (replicate m (obj, M, args)) = []" for m
    by (simp add: fds_of_requests_def fds)
  let ?c1 = "client\<lparr>request_buff := \<lparr>buff = concat (replicate n bs), fd_buff = []\<rparr>\<rparr>"
  have reg: "register_requests test_build storage_AA (replicate n (obj, M, args)) client = (?c1, Value ())"
    using register_requests_value [of "replicate n (obj, M, args)" test_build storage_AA client] app Cons.prems(1)
    by (simp add: e f empty_message_buffer_def)
  have "bs \<noteq> []" using enc_message_not_Nil [of storage_AA 0 obj M args] by (simp add: enc)
  then have some: "concat (replicate n bs) \<noteq> []" using Cons.prems(2) by (cases n) simp_all
  obtain s' where flush: "flush_registered_requests test_build list_socket_ops ?c1 =
      (?c1\<lparr>server_sock := s', request_buff := empty_message_buffer\<rparr>, Value ())"
    and s': "outgoing s' = outgoing (server_sock client) @ attach (concat (replicate n bs)) []"
    using flush_value [OF list_socket_sends_all, of ?c1 test_build] some by auto
  let ?c2 = "?c1\<lparr>server_sock := s', request_buff := empty_message_buffer\<rparr>"
  obtain client' where "flush_rounds (obj, M, args) ns ?c2 e = e client'"
    and "map fst (outgoing (server_sock client')) = map fst (outgoing s') @ concat (replicate (sum_list ns) bs)"
    using Cons.IH [of ?c2] Cons.prems(2) by auto
  moreover have "map fst (outgoing s') = map fst (outgoing (server_sock client)) @ concat (replicate n bs)"
    by (simp add: s' comp_def)
  ultimately show ?case
    using reg flush some Cons.prems(1)
    by (intro exI [of _ client'])
      (simp add: registering_def flushing_def has_registered_requests_def buffer_empty_def empty_message_buffer_def
        replicate_add)
qed auto

lemma flush_without_fds_passes: "test_flush_without_fds"
proof -
  let ?r = "get_registry_of global_display_object 2"
  let ?m = "\<lparr>pm_object_id = wobject_value global_display_object,
    pm_opcode = msg_opcode wl_display_request_get_registry, pm_arguments = le_bytes 4 (2 :: u32)\<rparr>"
  let ?ms = "replicate 15 ?m"
  have app: "appendable test_build global_display_object wl_display_request_get_registry [Wnew_id 2 :: nat primitive]"
    by (simp add: message_test_simps)
  have enc: "enc_message storage_AA k global_display_object wl_display_request_get_registry [Wnew_id 2 :: nat primitive]
      = message_bytes ?m" for k
    by (simp add: enc_message_def message_bytes_def)
  have fit: "list_all fits ?ms" by (simp add: list_all_iff fits_def)
  let ?client = "new_client\<lparr>next_new_id := 3\<rparr>"
  have "request_buff ?client = empty_message_buffer" "outgoing (server_sock ?client) = []"
    by (simp_all add: new_client_def make_connected_client_def)
  from flush_rounds_sent [OF app enc _ this(1), of "[1, 2, 4, 8]" "all_received 15"] this(2) obtain client' where
    rounds: "flush_rounds ?r [1, 2, 4, 8] ?client (all_received 15) = all_received 15 client'"
    and sent: "map fst (outgoing (server_sock client')) = concat (map message_bytes ?ms)"
    by (auto simp: get_registry_of_def fds_of_args_def)
  have "static_message wl_display_request_get_registry" and size: "message_payload_size wl_display_request_get_registry = Some 4"
    by code_simp+
  moreover have "all_received 15 client'"
    using parsed_bytes(1) [OF fit]
    by (simp add: all_received_def sent size length_concat sum_list_replicate list_all_iff)
  ultimately show ?thesis
    using rounds
    by (simp add: test_flush_without_fds_def reserve_object_id_def new_client_def make_connected_client_def)
qed

section \<open>Receiving events\<close>

text \<open>
  The loop of the tests that receive: until \<open>number_of_events\<close> events have been received, with the
  number received so far.
\<close>

partial_function (option) receive_until_all ::
  "('s, nat) sock_ops \<Rightarrow> nat \<Rightarrow> (parsed_message \<Rightarrow> bool) \<Rightarrow> nat \<Rightarrow> ('s, nat) connected_client \<Rightarrow> bool option" where
  "receive_until_all ops number_of_events as_sent events_recved client =
     (if events_recved = number_of_events then Some True
      else case recv_events ops storage_AA client of
        None \<Rightarrow> None
      | Some cp \<Rightarrow>
          (case snd cp of
             Value msg_parser \<Rightarrow>
               (case message_generator msg_parser of (msgs, stop) \<Rightarrow>
                  if stop = Value () \<and> list_all as_sent msgs
                  then receive_until_all ops number_of_events as_sent (events_recved + length msgs) (fst cp)
                  else Some False)
           | _ \<Rightarrow> Some False))"

definition sent_configure_event :: "wobject \<Rightarrow> nat request" where
  "sent_configure_event obj = (obj, wl_shell_surface_event_configure, [Wenum 1, Wint 42, Wint 13])"

definition shell_surface_obj :: wobject where
  "shell_surface_obj = \<lparr>wobject_interface = protocol_interface ''wl_shell_surface'', wobject_value = 2\<rparr>"

text \<open>The test with a socket from which the bytes of all the events can be read.\<close>

definition test_receive_events :: "('s, nat) sock_ops \<Rightarrow> 's \<Rightarrow> bool" where
  "test_receive_events ops sock \<longleftrightarrow>
     (let (obj, client) =
            reserve_object_id (protocol_interface ''wl_shell_surface'') (make_connected_client sock :: ('s, nat) connected_client)
      in receive_until_all ops 14
           (\<lambda>msg. pm_opcode msg = msg_opcode wl_shell_surface_event_configure \<and>
             pm_object_id msg = wobject_value obj) 0 client = Some True)"

text \<open>The socket whose other end writes byte by byte, with a pause after each: a read returns one.\<close>

definition one_byte_socket_ops :: "(nat list_socket, nat) sock_ops" where
  "one_byte_socket_ops = list_socket_ops\<lparr>sock_read_some := \<lambda>s n.
     (s\<lparr>incoming := drop 1 (incoming s)\<rparr>, Value (take 1 (incoming s)))\<rparr>"

lemma one_byte_socket_reads_pending: "reads_pending one_byte_socket_ops incoming"
  by (auto simp: reads_pending_def one_byte_socket_ops_def Suc_le_eq length_greater_0_conv
      simp del: length_greater_0_conv)

lemma receive_until_all_returns:
  assumes "reads_pending ops pending" and "n = k + length ms" and "partial_tail (recv_buff client)"
    and "recv_buff client @ pending (server_sock client) = concat (map message_bytes ms)"
    and "list_all fits ms" and "\<forall>m \<in> set ms. 4 dvd length (pm_arguments m)" and "list_all as_sent ms"
  shows "receive_until_all ops n as_sent k client = Some True"
  using assms(2-)
proof (induction "length (pending (server_sock client))" arbitrary: client k ms rule: less_induct)
  case less
  show ?case
  proof (cases "ms = []")
    case True
    then show ?thesis using less.prems(1) by (simp add: receive_until_all.simps)
  next
    case False
    then have "pending (server_sock client) \<noteq> []"
      using less.prems(2-4) whole_not_partial by (cases ms) auto
    from recv_events_stream [OF assms(1) less.prems(4) this less.prems(3,5), of storage_AA]
    obtain ms1 ms2 client' p where ms: "ms = ms1 @ ms2" and
      recv: "recv_events ops storage_AA client = Some (client', Value p)" "message_generator p = (ms1, Value ())"
        "partial_tail (recv_buff client')"
        "recv_buff client' @ pending (server_sock client') = concat (map message_bytes ms2)"
        "length (pending (server_sock client')) < length (pending (server_sock client))" by blast
    have "receive_until_all ops n as_sent (k + length ms1) client' = Some True"
      using less.prems recv ms by (intro less.hyps [of client' _ ms2]) auto
    with recv less.prems(6) False show ?thesis
      by (subst receive_until_all.simps) (simp add: ms)
  qed
qed

lemma receive_events_passes:
  assumes "reads_pending ops pending"
    and "pending sock = message_data (replicate 14 (sent_configure_event shell_surface_obj))"
  shows "test_receive_events ops sock"
proof -
  let ?rs = "replicate 14 (sent_configure_event shell_surface_obj)"
  let ?ms = "messages_of_requests (\<lambda>_. 0xAA) 0 ?rs"
  let ?as_sent = "\<lambda>msg. pm_opcode msg = msg_opcode wl_shell_surface_event_configure \<and> pm_object_id msg = 2"
  have sendable: "sendable ?rs" and readable: "\<forall>(obj, M, args) \<in> set ?rs. readable_message test_build M args"
    by (simp_all add: sendable_def sent_configure_event_def shell_surface_obj_def message_test_simps wire_sizes_def
        wl_shell_surface_event_configure_def)
  have "list_all2 carries ?rs ?ms" by (rule messages_carry [OF readable])
  then have sent: "length ?ms = 14" "list_all ?as_sent ?ms"
    by (auto simp: list_all2_conv_all_nth list_all_length carries_def sent_configure_event_def shell_surface_obj_def)
  let ?client = "make_connected_client sock :: (_, nat) connected_client"
  have "receive_until_all ops 14 ?as_sent 0 (?client\<lparr>next_new_id := 3\<rparr>) = Some True"
    using assms(2) sent
    by (intro receive_until_all_returns [OF assms(1), of _ _ ?ms])
      (simp_all add: message_data_value [OF sendable] sendable_fits [OF sendable] make_connected_client_def
        messages_of_requests_aligned
        partial_tail_def)
  then show ?thesis
    by (simp add: test_receive_events_def reserve_object_id_def make_connected_client_def)
qed

lemma receive_tests_pass:
  "test_receive_events list_socket_ops (list_socket (message_data (replicate 14 (sent_configure_event shell_surface_obj))))"
  "test_receive_events one_byte_socket_ops (list_socket (message_data (replicate 14 (sent_configure_event shell_surface_obj))))"
  by (simp_all add: receive_events_passes [OF list_socket_reads_pending] receive_events_passes [OF one_byte_socket_reads_pending])

section \<open>The default constructor\<close>

text \<open>
  The test means to be skipped when there is no server, but returns when there is one: it passes
  exactly when there is a socket, whatever constructing a client does, since a client is only
  constructed without a server.
\<close>

definition test_default_constructed ::
  "environment \<Rightarrow> (path \<Rightarrow> bool) \<Rightarrow> (path \<Rightarrow> nat list_socket outcome) \<Rightarrow> bool" where
  "test_default_constructed getenv is_socket open_local_stream_socket \<longleftrightarrow>
     (case wayland_socket_path getenv of
        Value socket_path \<Rightarrow>
          (let wayland_server_is_present = is_socket socket_path
           in wayland_server_is_present \<and>
              (if wayland_server_is_present then True
               else (case connect_client open_local_stream_socket socket_path :: test_client outcome of
                       Raise _ \<Rightarrow> False | _ \<Rightarrow> True)))
      | _ \<Rightarrow> False)"

lemma default_constructed_test_is_vacuous:
  "test_default_constructed getenv is_socket open_local_stream_socket \<longleftrightarrow>
     (\<exists>p. wayland_socket_path getenv = Value p \<and> is_socket p)"
  by (auto simp: test_default_constructed_def Let_def split: outcome.split)


section \<open>Visiting until a message\<close>

text \<open>
  The counters of the messages are the first and the second; the test counts no defaults.
\<close>

definition visited_messages :: "nat request list" where
  "visited_messages =
     [get_registry_of test_display_obj 1, bind_of 2 ''abc'' 42 3, get_registry_of test_display_obj 4, bind_of 5 ''def'' 43 6,
      get_registry_of global_display_object 7, get_registry_of test_display_obj 8]"

type_synonym 's test_world = "('s, nat, counters) world"

definition counting_first :: "nat primitive list \<Rightarrow> 's test_world \<Rightarrow> 's test_world \<times> unit outcome" where
  "counting_first args w = ((fst w, (snd w)\<lparr>first_counter := first_counter (snd w) + 1\<rparr>), Value ())"

definition counting_second :: "nat primitive list \<Rightarrow> 's test_world \<Rightarrow> 's test_world \<times> unit outcome" where
  "counting_second args w = ((fst w, (snd w)\<lparr>second_counter := second_counter (snd w) + 1\<rparr>), Value ())"

definition expecting_bind :: "nat primitive list \<Rightarrow> 's test_world \<Rightarrow> 's test_world \<times> unit outcome" where
  "expecting_bind args w = ((fst w, expect_that (args = snd (snd (bind_of 2 ''abc'' 42 3))) (snd w)), Value ())"

text \<open>A call of \<^verbatim>\<open>until\<close> in the test.\<close>

definition until_returns :: "('s test_world \<times> unit outcome) option \<Rightarrow> ('s test_world \<Rightarrow> bool) \<Rightarrow> bool" where
  "until_returns r expectation \<longleftrightarrow> (case r of Some (w, Value _) \<Rightarrow> expectation w | _ \<Rightarrow> False)"

definition test_visit_until :: "('s, nat) sock_ops \<Rightarrow> 's \<Rightarrow> bool" where
  "test_visit_until ops sock \<longleftrightarrow>
     (let client = make_connected_client sock :: ('s, nat) connected_client;
          ov = empty_overload_set :: 's test_world message_overload_set
      in until_returns (until_message_with test_build ops storage_AA (closure_mos (recv_and_visit_events ov)) test_registry_obj
             wl_registry_request_bind expecting_bind (client, fresh_counters)) (\<lambda>w.
         counts 0 0 0 (snd w) \<and>
         (let (ov, r1) = add_overload test_build test_display_obj wl_display_request_get_registry counting_first ov;
              (ov, r2) = add_overload test_build test_registry_obj wl_registry_request_bind counting_second ov
          in r1 = Value () \<and> r2 = Value () \<and>
             until_returns (until_message ops storage_AA (closure_mos (recv_and_visit_events ov)) global_display_object
                 wl_display_request_get_registry w) (\<lambda>w.
               counts 0 1 1 (snd w) \<and>
               until_returns (until_message ops storage_AA (closure_mos (recv_and_visit_events ov)) test_display_obj
                   wl_display_request_get_registry w) (\<lambda>w. counts 0 1 1 (snd w))))))"

text \<open>What the overloads of the test do, on the view of the world that the lemmas on \<open>until\<close> use.\<close>

definition first_view :: "(nat, counters) request_view \<Rightarrow> (nat, counters) request_view" where
  "first_view = (\<lambda>(n, mb, u). (n, mb, u\<lparr>first_counter := first_counter u + 1\<rparr>))"

definition second_view :: "(nat, counters) request_view \<Rightarrow> (nat, counters) request_view" where
  "second_view = (\<lambda>(n, mb, u). (n, mb, u\<lparr>second_counter := second_counter u + 1\<rparr>))"

lemma counting_acts:
  "interpert_message_payload test_build M (pm_arguments m) = Value (args :: nat primitive list) \<Longrightarrow>
     acts_as (Some (erase_overload test_build M counting_first)) m first_view"
  "interpert_message_payload test_build M (pm_arguments m) = Value (args :: nat primitive list) \<Longrightarrow>
     acts_as (Some (erase_overload test_build M counting_second)) m second_view"
  by (simp_all add: acts_as_def erase_overload_def counting_first_def counting_second_def first_view_def
      second_view_def view_of_world_def set_view_def)

lemma expecting_bind_acts:
  "interpert_message_payload test_build M (pm_arguments m) = Value (snd (snd (bind_of 2 ''abc'' 42 3))) \<Longrightarrow>
     acts_as (Some (erase_overload test_build M expecting_bind)) m (\<lambda>v. v)"
  by (simp add: acts_as_def erase_overload_def expecting_bind_def expect_that_def view_of_world_def set_view_def)

lemma visited_messages_sendable: "sendable visited_messages"
  by (simp add: sendable_def visited_messages_def stateful_test_simps message_test_simps wire_sizes_def pad_of_eq)

lemma visited_messages_readable: "\<forall>(obj, M, args) \<in> set visited_messages. readable_message test_build M args"
  by (simp add: visited_messages_def stateful_test_simps message_test_simps)

text \<open>A call of \<open>until\<close> in a test, on the messages that are still to come.\<close>

lemma until_in_test:
  assumes "reads_pending ops pending" and "sendable rs"
    and "ms @ pre @ m # post = messages_of_requests (\<lambda>_. 0xAA) 0 rs"
    and "\<forall>k \<in> set pre. \<not> matches i oc k" and "matches i oc m"
    and "visits_as mos (set pre) V" and "acts_as cb m g"
    and "recv_buff (fst w) @ pending (server_sock (fst w)) = concat (map message_bytes (pre @ m # post))"
    and "\<And>w'. view_of_world w' = g (fold V pre (view_of_world w)) \<Longrightarrow>
      recv_buff (fst w') @ pending (server_sock (fst w')) = concat (map message_bytes post) \<Longrightarrow> expectation w'"
  shows "until_returns (try_again ops storage mos i oc cb w) expectation"
proof -
  have "list_all fits (ms @ pre @ m # post)" "\<forall>k \<in> set (ms @ pre @ m # post). 4 dvd length (pm_arguments k)"
    unfolding assms(3) using sendable_fits [OF assms(2)] messages_of_requests_aligned by blast+
  then obtain w' where "try_again ops storage mos i oc cb w = Some (w', Value ())"
    "view_of_world w' = g (fold V pre (view_of_world w))"
    "recv_buff (fst w') @ pending (server_sock (fst w')) = concat (map message_bytes post)"
    using try_again_stream [OF assms(1), of pre m post i oc mos V cb g w storage "\<lambda>_. ()"] assms(4-8) by auto
  with assms(9) show ?thesis by (simp add: until_returns_def)
qed

lemma test_object_values:
  "wobject_value test_registry_obj = 42" "wobject_value test_display_obj = 55" "wobject_value global_display_object = 1"
  by (simp_all add: test_registry_obj_def test_display_obj_def global_display_object_def)

lemma counts_steps:
  "counts 0 0 0 u \<Longrightarrow>
     counts 0 (Suc 0) (Suc 0) (u\<lparr>first_counter := Suc (first_counter u), second_counter := Suc (second_counter u)\<rparr>)"
  "counts 0 0 0 fresh_counters" "counts d m n (expect_that True u) \<longleftrightarrow> counts d m n u"
  by (simp_all add: counts_def fresh_counters_def expect_that_def)

definition counting_overloads :: "'s test_world message_overload_set" where
  "counting_overloads = empty_overload_set
     \<lparr>overloads := [(55, 1) \<mapsto> erase_overload test_build wl_display_request_get_registry counting_first,
                    (42, 0) \<mapsto> erase_overload test_build wl_registry_request_bind counting_second]\<rparr>"

lemma counting_overloads_added:
  "add_overload test_build test_registry_obj wl_registry_request_bind counting_second
      (fst (add_overload test_build test_display_obj wl_display_request_get_registry counting_first empty_overload_set)) =
    (counting_overloads, Value ())"
  "snd (add_overload test_build test_display_obj wl_display_request_get_registry counting_first empty_overload_set) = Value ()"
  by (simp_all add: add_overload_def insert_overload_def empty_overload_set_def counting_overloads_def
      test_object_values test_opcodes)

text \<open>The messages the server has sent, with their keys and what is in those that reach an overload.\<close>

definition visited_keys :: "key_t list" where
  "visited_keys = [(55, 1), (42, 0), (55, 1), (42, 0), (1, 1), (55, 1)]"

lemma visited_messages_sent:
  obtains a b c d e f where "messages_of_requests (\<lambda>_. 0xAA) 0 visited_messages = [a, b, c, d, e, f]"
    and "map (\<lambda>m. (pm_object_id m, pm_opcode m)) [a, b, c, d, e, f] = visited_keys"
    and "acts_as (Some (erase_overload test_build wl_registry_request_bind expecting_bind) :: 's test_world erased_overload option) b (\<lambda>v. v)"
    and "acts_as (Some (erase_overload test_build wl_display_request_get_registry counting_first) :: 's test_world erased_overload option) c first_view"
    and "acts_as (Some (erase_overload test_build wl_registry_request_bind counting_second) :: 's test_world erased_overload option) d second_view"
proof -
  have "list_all2 carries visited_messages (messages_of_requests (\<lambda>_. 0xAA) 0 visited_messages)"
    by (rule messages_carry [OF visited_messages_readable])
  then obtain a b c d e f where ms: "messages_of_requests (\<lambda>_. 0xAA) 0 visited_messages = [a, b, c, d, e, f]"
    and m: "carries (visited_messages ! 0) a" "carries (visited_messages ! 1) b" "carries (visited_messages ! 2) c"
      "carries (visited_messages ! 3) d" "carries (visited_messages ! 4) e" "carries (visited_messages ! 5) f"
    by (auto simp: visited_messages_def list_all2_Cons1)
  note m = m [unfolded visited_messages_def get_registry_of_def bind_of_def, simplified]
  note payload = m [THEN carries_interpreted(1)]
  have "map (\<lambda>m. (pm_object_id m, pm_opcode m)) [a, b, c, d, e, f] = visited_keys"
    by (simp add: visited_keys_def m [THEN carries_interpreted(2)] m [THEN carries_interpreted(3)] test_object_values
        test_opcodes)
  with ms show ?thesis
    using payload(2) by (intro that [of a b c d e f])
      (simp_all add: counting_acts [OF payload(3)] counting_acts [OF payload(4)] expecting_bind_acts bind_of_def)
qed

lemma until_the_last_message:
  assumes ops: "reads_pending ops pending"
    and ms: "messages_of_requests (\<lambda>_. 0xAA) 0 visited_messages = ms @ [f]" and "matches 55 1 f"
    and "counts 0 1 1 (snd w)" and "recv_buff (fst w) @ pending (server_sock (fst w)) = message_bytes f"
  shows "until_returns (until_message ops storage_AA counting_overloads test_display_obj wl_display_request_get_registry w)
    (\<lambda>w. counts 0 1 1 (snd w))"
  unfolding until_message_def
  using assms(3-) by (intro until_in_test [OF ops visited_messages_sendable, of ms "[]" f "[]" _ _ _ "\<lambda>_ v. v" _ "\<lambda>v. v"])
    (auto simp: ms test_object_values test_opcodes visits_as_def view_of_world_def)

lemma until_the_last_but_one:
  fixes w :: "'s test_world"
  assumes ops: "reads_pending ops pending"
    and ms: "messages_of_requests (\<lambda>_. 0xAA) 0 visited_messages = [a, b, c, d, e, f]"
    and keys: "map (\<lambda>m. (pm_object_id m, pm_opcode m)) [a, b, c, d, e, f] = visited_keys"
    and "acts_as (Some (erase_overload test_build wl_display_request_get_registry counting_first) :: 's test_world erased_overload option) c first_view"
    and "acts_as (Some (erase_overload test_build wl_registry_request_bind counting_second) :: 's test_world erased_overload option) d second_view"
    and "counts 0 0 0 (snd w)"
    and "recv_buff (fst w) @ pending (server_sock (fst w)) = concat (map message_bytes [c, d, e, f])"
  shows "until_returns (until_message ops storage_AA counting_overloads global_display_object wl_display_request_get_registry w)
    (\<lambda>w. counts 0 1 1 (snd w) \<and>
      until_returns (until_message ops storage_AA counting_overloads test_display_obj wl_display_request_get_registry w)
        (\<lambda>w. counts 0 1 1 (snd w)))"
  unfolding until_message_def [of _ _ _ global_display_object]
  using assms(3-) by (intro until_in_test [OF ops visited_messages_sendable, of "[a, b]" "[c, d]" e "[f]" _ _ _
        "\<lambda>m. if pm_object_id m = 55 then first_view else second_view" _ "\<lambda>v. v"])
    (auto simp: ms matches_def test_object_values test_opcodes visited_keys_def visits_as_def counting_overloads_def
      overload_resolution_def view_of_world_def first_view_def second_view_def
      intro!: counts_steps until_the_last_message [OF ops, of "[a, b, c, d, e]" f, unfolded One_nat_def counting_overloads_def])

lemma visit_until_passes:
  fixes sock :: 's
  assumes ops: "reads_pending ops pending" and data: "pending sock = message_data visited_messages"
  shows "test_visit_until ops sock"
proof -
  obtain a b c d e f where ms: "messages_of_requests (\<lambda>_. 0xAA) 0 visited_messages = [a, b, c, d, e, f]"
    and keys: "map (\<lambda>m. (pm_object_id m, pm_opcode m)) [a, b, c, d, e, f] = visited_keys"
    and b: "acts_as (Some (erase_overload test_build wl_registry_request_bind expecting_bind) :: 's test_world erased_overload option) b (\<lambda>v. v)"
    and c: "acts_as (Some (erase_overload test_build wl_display_request_get_registry counting_first) :: 's test_world erased_overload option) c first_view"
    and d: "acts_as (Some (erase_overload test_build wl_registry_request_bind counting_second) :: 's test_world erased_overload option) d second_view"
    by (rule visited_messages_sent)
  note second = until_the_last_but_one [OF ops ms keys c d, unfolded One_nat_def, simplified]
  have "until_returns (until_message_with test_build ops storage_AA (empty_overload_set :: 's test_world message_overload_set)
      test_registry_obj wl_registry_request_bind expecting_bind (make_connected_client sock, fresh_counters)) (\<lambda>w.
        counts 0 0 0 (snd w) \<and>
        until_returns (until_message ops storage_AA counting_overloads global_display_object wl_display_request_get_registry w)
          (\<lambda>w. counts 0 1 1 (snd w) \<and>
            until_returns (until_message ops storage_AA counting_overloads test_display_obj wl_display_request_get_registry w)
              (\<lambda>w. counts 0 1 1 (snd w))))"
    unfolding until_message_with_def
    using b keys data
    by (intro until_in_test [OF ops visited_messages_sendable, of "[]" "[a]" b "[c, d, e, f]" _ _ _ "\<lambda>_ v. v" _ "\<lambda>v. v"])
      (auto simp: ms matches_def test_object_values test_opcodes visited_keys_def visits_as_def overload_resolution_def
        empty_overload_set_def view_of_world_def make_connected_client_def message_data_value [OF visited_messages_sendable]
        counts_steps intro!: second)
  then show ?thesis
    by (simp add: test_visit_until_def recv_and_visit_events_def case_prod_beta counting_overloads_added Let_def)
qed

lemma visit_until_test_passes:
  "test_visit_until list_socket_ops (list_socket (message_data visited_messages))"
  "test_visit_until one_byte_socket_ops (list_socket (message_data visited_messages))"
  by (simp_all add: visit_until_passes [OF list_socket_reads_pending] visit_until_passes [OF one_byte_socket_reads_pending])

end
