(* ===== verification/Spec2Isabelle.thy ===== *)
theory Spec2Isabelle
  imports Client_Invariant Protocol_Checks Byte_Array Unique_Handle Type_Templates Picture_Properties
    Generator_Properties Blocking_Pipe Sstd_Tests Client_Tests
begin

text \<open>
  Waylander is a C++ client library for the Wayland protocol. A client object owns the socket to the
  server; requests are structs that are serialised into a buffer and flushed, events are bytes that
  are cut into messages, looked up by object id and opcode, and given to callbacks after their
  payload has been read back into the struct of the message type. The structs come from protocol
  headers generated out of XML. This development models the library under \<^verbatim>\<open>include/waylander\<close> and
  \<^verbatim>\<open>src\<close>, all six protocol headers included, and the two client programs under \<^verbatim>\<open>examples/wayland\<close>, from
  the source, as well as the Python script that generates the headers from XML and the demonstration of
  a blocking pipe, and proves what makes each part correct, up to the path of a request from
  \<^verbatim>\<open>register_request\<close> to a receiver that parses it and to whole runs of the two programs.

  The theories and what they model:

  \<^item> \<^verbatim>\<open>Prelude\<close>: bytes, machine words, their little-endian representation, and \<open>outcome\<close>, the result
    of a C++ call: a value, an exception, an abort (failed assertion or checked subscript), undefined
    behaviour, a call that never returns, a call the compiler rejects. \<open>build\<close> says whether
    assertions and the checks of the standard library are compiled in.
  \<^item> \<^verbatim>\<open>Sstd\<close>, \<^verbatim>\<open>Unique_Handle\<close>, \<^verbatim>\<open>Byte_Array\<close>, \<^verbatim>\<open>Type_Utils\<close>: the supplement library (\<^verbatim>\<open>sstd.hpp\<close>, \<^verbatim>\<open>sstd.cpp\<close>,
    \<^verbatim>\<open>byte_vec.hpp\<close>, \<^verbatim>\<open>construct_allocator_adapter.hpp\<close>, \<^verbatim>\<open>byte_array.hpp\<close>, \<^verbatim>\<open>type_utils.hpp\<close>). Types are data
    there: an aggregate is the list of its members, and each branch of \<^verbatim>\<open>to_tuple\<close> and
    \<^verbatim>\<open>to_ref_tuple\<close> is a definition with the names it binds and returns.
  \<^item> \<^verbatim>\<open>Type_Templates\<close>: the rest of \<^verbatim>\<open>type_utils.hpp\<close>: types are terms, templates partial functions on packs
    of types, and a concept is a predicate on them.
  \<^item> \<^verbatim>\<open>Protocol_Primitives\<close>, \<^verbatim>\<open>Message_Utils\<close>: the primitive values, the header with its layout, the
    comparison operator, message types and the concepts on them.
  \<^item> \<^verbatim>\<open>Message_Buffer\<close>: \<^verbatim>\<open>message_buffer::append\<close> with its writes to uninitialised memory (the function
    \<open>storage\<close> is what that memory holds), and the wire encoding \<open>enc_message\<close> as its specification.
  \<^item> \<^verbatim>\<open>Message_Interpreter\<close>: \<^verbatim>\<open>interpert_message_payload\<close>. The locale \<open>element_codec\<close> states what an encoder
    and a decoder of single elements owe each other and lifts it to sequences; it is interpreted on
    \<open>enc_arg\<close> and \<open>read_element\<close>.
  \<^item> \<^verbatim>\<open>Message_Parser\<close>: the coroutine \<^verbatim>\<open>parsed_message_generator\<close>, one resumption at a time.
  \<^item> \<^verbatim>\<open>Message_Overload_Set\<close>, \<^verbatim>\<open>Message_Visitor\<close>: the table of callbacks, behind the locale
    \<open>overload_table\<close>, interpreted on the model's table, and the visits that use it. A callback is
    a function on the state it captures and may throw.
  \<^item> \<^verbatim>\<open>Connected_Client\<close>: the client with every operation; \<^verbatim>\<open>Client_Requests\<close>, \<^verbatim>\<open>Client_Events\<close> and
    \<^verbatim>\<open>Client_Visit\<close> hold the lemmas of its request side up to the messages a parser finds in the bytes
    sent, of receiving, and of \<^verbatim>\<open>until\<close>, which is shown to
    refine a function on lists of messages; \<^verbatim>\<open>Client_Properties\<close> has its properties, and
    \<^verbatim>\<open>Client_Invariant\<close> the client as a step relation with its invariant. \<^verbatim>\<open>List_Socket\<close> is a socket in
    memory that satisfies the assumptions and on which the properties are instantiated.
  \<^item> \<^verbatim>\<open>System_Utils\<close>: the path of the Wayland socket.
  \<^item> \<^verbatim>\<open>Protocol_Tables\<close>, the six \<^verbatim>\<open>..._Protocol\<close> theories and \<^verbatim>\<open>Protocol_Checks\<close>: one definition per interface
    declaration, enumeration and message struct of the protocol headers, and their
    well-formedness.
  \<^item> \<^verbatim>\<open>Cpp_Int\<close>: \<^verbatim>\<open>int\<close> arithmetic in which overflow is undefined, the division of \<^verbatim>\<open>double\<close>s with its
    rounding, \<^verbatim>\<open>std::stoi\<close>. \<^verbatim>\<open>Static_Picture\<close>: the picture of \<^verbatim>\<open>display_static_picture.cpp\<close>, \<^verbatim>\<open>pow\<close> and the
    drawing, which is shown to give the carpet defined with integers (C30, C38).
  \<^item> \<^verbatim>\<open>Client_Programs\<close>: what the two example clients share, and the vocabulary of their
    specifications: requests in a buffer (\<open>queue\<close>), requests on the wire (\<open>wire\<close>), and the state of a
    program between two operations (\<open>program_at\<close>). The locale \<open>client_socket\<close> states what the programs
    need of a socket; it is interpreted on the socket in memory.
  \<^item> \<^verbatim>\<open>List_Registry_Globals\<close>: the program \<^verbatim>\<open>list_registry_globals.cpp\<close> (C33).
  \<^item> \<^verbatim>\<open>Picture_Window\<close>: the class \<^verbatim>\<open>static_picture_window\<close>, one definition per callback and per stage of its
    constructor, and \<^verbatim>\<open>main\<close>. \<^verbatim>\<open>Picture_Session\<close> follows a run: the requests are given as a function of
    the globals the server announces, and each stage takes the program from one \<open>program_at\<close> to the
    next. \<^verbatim>\<open>Picture_Properties\<close> has whole runs (C18, C34, C36); what a compositor that parses the bytes of
    a run finds in them is C37, in this theory.
  \<^item> \<^verbatim>\<open>Wayland_Xml\<close>, \<^verbatim>\<open>Protocol_Xml\<close>, \<^verbatim>\<open>Header_Writer\<close>, \<^verbatim>\<open>Header_Files\<close>: the script
    \<^verbatim>\<open>generate_cxx_header_from_wayland_xml.py\<close>: XML elements and the exceptions of Python, the functions that
    read a protocol, the methods that write it as C++, and \<^verbatim>\<open>main\<close>. \<^verbatim>\<open>Header_Text\<close> says what a compiler
    keeps of a header, its code lines; \<open>cxx_lines\<close> of \<^verbatim>\<open>Header_Generator\<close> is the specification: the code of
    a table of \<^verbatim>\<open>Protocol_Tables\<close>, which the text a protocol is written as is shown to be (C15).
    \<^verbatim>\<open>Described_Headers\<close> has the XML of a table and reads it back (C14), \<^verbatim>\<open>Generated_Headers\<close> checks that the
    six headers can be described that way, and \<^verbatim>\<open>Generator_Properties\<close> has whole runs (C13), the
    opcodes (C25) and the documents that are rejected or damaged (C26, C27).
  \<^item> \<^verbatim>\<open>Blocking_Pipe\<close>: the program \<^verbatim>\<open>indefinitly_blocking_pipe_io.cpp\<close>.
  \<^item> \<^verbatim>\<open>Unit_Tests\<close>, \<^verbatim>\<open>Sstd_Tests\<close>, \<^verbatim>\<open>Visitor_Tests\<close>, \<^verbatim>\<open>Client_Tests\<close>: the fifteen test programs of the library
    under \<^verbatim>\<open>tests\<close>, each test as what it expects of the model, with the proof that it holds there. The
    tests that receive or visit events hold for every socket that delivers the bytes, however it cuts
    them; the test of the default constructor passes exactly when there is a server, and then
    constructs nothing.

  Loops. The parser, the scan of the messages in \<^verbatim>\<open>until\<close> and the writes recurse on the bytes or the
  members that are left and are total functions. The three \<^verbatim>\<open>goto\<close> loops of the client are partial
  functions whose value is \<open>None\<close> when they never end; the properties say when they end (C3 to C5,
  C19, C20) and that one does not on a size field of 0 (C21). No fuel is used.

  Parameters. The subproject gnulander (the socket and file descriptors) is not in the repository:
  the socket is a state with three operations, and the properties assume of them what \<open>sends_all\<close>,
  \<open>reads_pending\<close> and \<open>sends_keep_pending\<close> state. \<^verbatim>\<open>std::strerror\<close>, \<^verbatim>\<open>std::hash\<close>, the environment and the
  contents of uninitialised memory are arguments; so are the memory block of the picture and, in
  \<^verbatim>\<open>Type_Templates\<close>, what the compiler knows of the program's classes. The lines a program prints are a
  list, and \<^verbatim>\<open>std::exit\<close> is the outcome \<open>Exited\<close>. The XML parser of the generator and the clones it reads
  from are arguments, which C13 assumes to hold documents of the tables; the pipe of the demonstration
  is one as well.

  Not modelled: memory allocation and its failure; the lifetime rules behind spans and string views
  (values are copied), so callbacks that destroy or receive on the client they are called from are
  outside the lemmas; the destructor of the base class of \<^verbatim>\<open>unique_handle\<close>; white space outside of ASCII
  in the descriptions and processing instructions in the XML the generator reads, the arguments of its
  command line, the lines it prints and failures to open a file; in the tests, what is expected of the
  type of an expression alone or of the language, and \<^verbatim>\<open>test_unit_test.cpp\<close>, which tries out the test
  framework. What is left of the C++ code outside of the map is comments, \<^verbatim>\<open>#include\<close>s, namespaces and
  \<^verbatim>\<open>using\<close> aliases; gnulander is not in the repository, and the build files and the documentation have
  no behaviour to model.

  The properties C1 to C40 stand in the theories of the components they are about; those in this
  theory span components. Several of them state how the code fails: C21 to C24, C26 to
  C29, C31, C34, C38 and C40.
\<close>

section \<open>Requests on their way to the server\<close>

text \<open>
  C1: the requests a new client registers and flushes arrive at a server that parses the bytes: the bytes
  sent are exactly those of one message per request, in order, with the object, the opcode and,
  interpreted as the request's type, the arguments that were registered; the descriptors are sent in
  the order of the requests.
\<close>

theorem requests_reach_the_server:
  assumes "sends_all ops sent" and "sent sock = []"
    and "\<forall>(obj, M, args) \<in> set rs. appendable cfg obj M args \<and> 8 + wire_sizes args < 65536 \<and>
      length (fds_of_args args) \<le> 7"
    and "register_requests cfg storage rs (make_connected_client sock) = (c1, r1)"
    and "flush_registered_requests cfg ops c1 = (c2, r2)"
  shows "r1 = Value () \<and> r2 = Value () \<and> \<not> has_registered_requests c2 \<and>
    List.map_filter snd (sent (server_sock c2)) = fds_of_requests rs \<and>
    (\<exists>ms. parsed_message_generator (map fst (sent (server_sock c2))) = (ms, Value ()) \<and>
      list_all2 (\<lambda>(obj, M, args) m. pm_object_id m = wobject_value obj \<and> pm_opcode m = msg_opcode M \<and>
        (readable_message cfg' M args \<longrightarrow>
           interpert_message_payload cfg' M (pm_arguments m) = Value args)) rs ms)"
proof -
  let ?ms = "messages_of_requests storage 0 rs"
  have app: "\<forall>(obj, M, args) \<in> set rs. appendable cfg obj M args"
    and small: "\<forall>(obj, M, args) \<in> set rs. 8 + wire_sizes args < 65536"
    and fds: "\<forall>(obj, M, args) \<in> set rs. length (fds_of_args args) \<le> 7"
    using assms(3) by auto
  have c1: "c1 = (make_connected_client sock)\<lparr>request_buff :=
      \<lparr>buff = enc_requests storage 0 rs, fd_buff = fds_of_requests rs\<rparr>\<rparr>" and r1: "r1 = Value ()"
    using register_requests_value [OF app, of storage "make_connected_client sock"] assms(4)
    by (simp_all add: client_simps empty_message_buffer_def)
  have parse: "parsed_message_generator (enc_requests storage 0 rs) = (?ms, Value ())"
    using generator_messages_append [OF messages_of_requests_fit [OF small], of storage 0 "[]"]
    by (simp add: enc_requests_messages)
  have sent: "r2 = Value () \<and> \<not> has_registered_requests c2 \<and>
      sent (server_sock c2) = attach (enc_requests storage 0 rs) (fds_of_requests rs)"
  proof (cases "rs = []")
    case True
    with assms(2,5) show ?thesis
      by (auto simp: c1 flush_registered_requests_def fds_of_requests_def client_simps)
  next
    case False
    then have "0 < length (enc_requests storage 0 rs)"
      by (cases rs) (auto simp: enc_message_not_Nil)
    then have "length (fd_buff (request_buff c1)) < length (buff (request_buff c1))"
      using fds_of_requests_bound [OF fds, of storage 0]
      by (cases "enc_requests storage 0 rs") (auto simp: c1)
    from flush_value [OF assms(1) this, of cfg] assms(2,5) show ?thesis
      by (auto simp: c1 client_simps empty_message_buffer_def)
  qed
  have "length (fds_of_requests rs) \<le> length (enc_requests storage 0 rs)"
    using fds_of_requests_bound [OF fds, of storage 0] by simp
  then show ?thesis
    using sent r1 parse messages_of_requests_interpreted [of cfg' rs storage 0]
    by (auto simp: map_fst_attach fds_attach)
qed

theorem requests_reach_the_server_witness:
  "snd (register_requests \<lparr>ndebug = False, checked_subscript = True\<rparr> (\<lambda>_. 0)
      [(global_display_object, wl_display_request_sync, [Wnew_id 2])]
      (make_connected_client (list_socket []) :: (nat list_socket, nat) connected_client)) = Value ()"
proof -
  let ?cfg = "\<lparr>ndebug = False, checked_subscript = True\<rparr>"
  let ?rs = "[(global_display_object, wl_display_request_sync, [Wnew_id 2 :: nat primitive])]"
  let ?c0 = "make_connected_client (list_socket []) :: (nat list_socket, nat) connected_client"
  let ?c1 = "fst (register_requests ?cfg (\<lambda>_. 0) ?rs ?c0)"
  have ok: "\<forall>(obj, M, args) \<in> set ?rs. appendable ?cfg obj M args \<and> 8 + wire_sizes args < 65536 \<and>
      length (fds_of_args args) \<le> 7"
    by (simp add: wire_simps global_display_object_def
        wl_display_request_sync_def wire_sizes_def fds_of_args_def)
  show ?thesis
    using requests_reach_the_server [OF list_socket_sends_all _ ok,
        where sock = "list_socket []" and storage = "\<lambda>_. 0" and ?c1.0 = ?c1
        and ?r1.0 = "snd (register_requests ?cfg (\<lambda>_. 0) ?rs ?c0)"
        and ?c2.0 = "fst (flush_registered_requests ?cfg list_socket_ops ?c1)"
        and ?r2.0 = "snd (flush_registered_requests ?cfg list_socket_ops ?c1)" and cfg' = ?cfg]
    by simp
qed

section \<open>The protocol headers and the library\<close>

lemma protocol_message_limits:
  assumes "P \<in> set protocols" and "M \<in> set (message_types P)"
  shows "length (field_types M) \<le> 20" and "length (filter ((=) TWfd) (field_types M)) \<le> 1"
  using message_ok_limits [OF protocol_okD(2) [OF protocols_ok [OF assms(1)] assms(2)]] by simp_all



text \<open>
  C16: every message type of the generated protocols that has no descriptor can be sent and
  interpreted: values of its members' types, appended for an object of its interface, are read back
  from the payload.
\<close>

theorem protocol_messages_round_trip:
  assumes "P \<in> set protocols" and "M \<in> set (message_types P)" and "TWfd \<notin> set (field_types M)"
    and "args_of_type M args" and "\<forall>p \<in> set args. writable_arg cfg p"
    and "wobject_interface obj = msg_interface M"
  shows "\<exists>mb'. append_message cfg storage obj M args mb = Value mb' \<and>
    interpert_message_payload cfg M (drop (length (buff mb) + sizeof_message_header) (buff mb')) = Value args"
proof -
  have len: "length (field_types M) \<le> 20" using assms(1,2) by (rule protocol_message_limits)
  moreover have "length args = length (field_types M)"
    using assms(4) by (simp add: args_of_type_def list_all2_lengthD)
  ultimately have app: "appendable cfg obj M args"
    using assms(5,6) by (simp add: wire_simps)
  have "readable_message cfg M args"
    using assms(3-5) len by (simp add: readable_message_iff field_types_def)
  from interpert_enc_args [OF this] show ?thesis
    by (simp add: append_message_value [OF app] enc_message_def)
qed

theorem protocol_messages_round_trip_witness:
  "\<exists>mb'. append_message \<lparr>ndebug = False, checked_subscript = True\<rparr> (\<lambda>_. 0) global_display_object
      wl_display_request_sync [Wnew_id 2 :: nat primitive] empty_message_buffer = Value mb' \<and>
    interpert_message_payload \<lparr>ndebug = False, checked_subscript = True\<rparr> wl_display_request_sync
      (drop (length (buff (empty_message_buffer :: nat message_buffer)) + sizeof_message_header) (buff mb'))
      = Value [Wnew_id 2 :: nat primitive]"
proof (rule protocol_messages_round_trip)
  show "wayland_protocol \<in> set protocols" by (simp add: protocols_def)
  show "wl_display_request_sync \<in> set (message_types wayland_protocol)"
    unfolding message_types_iff wayland_protocol_interfaces
    by (intro bexI [of _ wl_display_interface] exI [of _ Request]) (simp_all add: wl_display_interface_def)
qed (simp_all add: wl_display_request_sync_def field_types_def args_of_type_def global_display_object_def)

text \<open>
  Overloads for all the events of an interface of the generated protocols can be added for one
  object: none is refused, and each event's opcode finds its own overload.
\<close>

lemma overloads_for_all_events:
  assumes "P \<in> set protocols" and "I \<in> set (protocol_interfaces P)"
    and "rs = map (\<lambda>M. (obj, M, f M)) (event_messages I)"
    and "add_overloads cfg rs empty_overload_set = (mos, outcomes)"
  shows "outcomes = replicate (length rs) (Value ()) \<and>
    (\<forall>M \<in> set (event_messages I).
       overload_resolution mos (wobject_value obj) (msg_opcode M) = Some (erase_overload cfg M (f M)))"
proof -
  have "distinct (map msg_opcode (messages_of Event I))"
    by (intro messages_ok_opcodes interface_ok_messages protocol_okD(1) [OF protocols_ok [OF assms(1)] assms(2)])
  then have keys: "distinct (map registered_key rs)"
    by (simp add: assms(3) registered_key_def comp_def distinct_map inj_on_def)
  have "map_of (map (registered_entry cfg) rs) (wobject_value obj, msg_opcode M) = Some (erase_overload cfg M (f M))"
    if "M \<in> set (event_messages I)" for M
  proof (rule map_of_is_SomeI)
    show "distinct (map fst (map (registered_entry cfg) rs))"
      unfolding registered_keys by (rule keys)
    show "((wobject_value obj, msg_opcode M), erase_overload cfg M (f M)) \<in> set (map (registered_entry cfg) rs)"
      using that by (force simp: assms(3) registered_entry_def registered_key_def)
  qed
  then show ?thesis
    using overloads_accepted [OF keys, of cfg] overloads_added [of cfg rs] assms(4)
    by (simp add: overload_resolution_def)
qed

section \<open>A whole run on the wire\<close>

lemma wanted_globals_interface:
  "(name, interface, version) \<in> set (wanted_globals gs) \<Longrightarrow>
     interface \<in> {u8_literal ''wl_shm'', u8_literal ''wl_compositor'', u8_literal ''xdg_wm_base''}"
  by (induction gs rule: rev_induct)
    (auto simp: wanted_globals_snoc is_wanted_def Let_def wanted_globals_def [of "[]"] split: if_splits)

definition small_request :: "build \<Rightarrow> 'fd request \<Rightarrow> bool" where
  "small_request cfg = (\<lambda>(obj, M, args).
     8 + wire_sizes args < 65536 \<and> length (fds_of_args args) \<le> 7 \<and>
     (M \<noteq> wl_shm_request_create_pool \<longrightarrow> readable_message cfg M args))"

lemma small_requests:
  "small_request cfg (obj, wl_display_request_get_registry, [Wnew_id a])"
  "small_request cfg (obj, wl_display_request_sync, [Wnew_id a])"
  "small_request cfg (obj, wl_shm_pool_request_create_buffer, [Wnew_id a, Wint x1, Wint x2, Wint x3, Wint x4, Wenum e])"
  "small_request cfg (obj, wl_shm_pool_request_destroy, [])"
  "small_request cfg (obj, wl_compositor_request_create_surface, [Wnew_id a])"
  "small_request cfg (obj, xdg_wm_base_request_get_xdg_surface, [Wnew_id a, Wobject i])"
  "small_request cfg (obj, xdg_surface_request_get_toplevel, [Wnew_id a])"
  "small_request cfg (obj, wl_surface_request_commit, [])"
  "small_request cfg (obj, wl_surface_request_attach, [Wobject i, Wint x1, Wint x2])"
  "small_request cfg (obj, xdg_surface_request_ack_configure, [Wuint x])"
  "small_request cfg (obj, xdg_wm_base_request_pong, [Wuint x])"
  unfolding small_request_def
  by (simp_all add: wire_simps wire_sizes_def fds_of_args_def wl_display_request_get_registry_def
      wl_display_request_sync_def wl_shm_pool_request_create_buffer_def wl_shm_pool_request_destroy_def
      wl_compositor_request_create_surface_def xdg_wm_base_request_get_xdg_surface_def
      xdg_surface_request_get_toplevel_def wl_surface_request_commit_def wl_surface_request_attach_def
      xdg_surface_request_ack_configure_def xdg_wm_base_request_pong_def)

lemma create_pool_small: "small_request cfg (obj, wl_shm_request_create_pool, [Wnew_id a, Wfd fd, Wint x])"
  by (simp add: small_request_def wire_sizes_def fds_of_args_def)

lemma bind_small:
  assumes "(name, interface, version) \<in> set (wanted_globals gs)"
  shows "small_request cfg (obj, wl_registry_request_bind, [Wuint name, Wstring interface, Wuint version, Wnew_id i])"
  using wanted_globals_interface [OF assms]
  by (auto simp: small_request_def wire_simps wl_registry_request_bind_def u8_literal_def wire_sizes_def
      pad_of_eq fds_of_args_def)

lemma bind_requests_small: "\<forall>r \<in> set (bind_requests (wanted_globals gs)). small_request cfg r"
proof
  fix r :: "'fd request"
  assume "r \<in> set (bind_requests (wanted_globals gs))"
  then obtain k name interface version where
    r: "r = (object_of ''wl_registry'' 2, wl_registry_request_bind,
      [Wuint name, Wstring interface, Wuint version, Wnew_id (4 + of_nat k)])"
    and k: "k < length (wanted_globals gs)" "wanted_globals gs ! k = (name, interface, version)"
    by (auto simp: bind_requests_def in_set_enumerate_eq)
  from k have "(name, interface, version) \<in> set (wanted_globals gs)" by (metis nth_mem)
  then show "small_request cfg r" unfolding r by (rule bind_small)
qed

lemma session_requests_small:
  "\<forall>rs \<in> set (session_flushes fd pic G P serial s). \<forall>r \<in> set rs. small_request cfg r"
  using bind_requests_small [of "map G (filter (matches 2 0) (before_done s))" cfg]
  by (auto simp: session_flushes_def Let_def session_globals_def surface_requests_def show_requests_def pongs_def
      small_requests create_pool_small)

lemma wire_of_small:
  assumes "\<forall>r \<in> set rs. small_request cfg r"
  shows "map fst (wire storage rs) = enc_requests storage 0 rs"
    and "List.map_filter snd (wire storage rs) = fds_of_requests rs"
proof -
  have "\<forall>(obj, M, args) \<in> set rs. length (fds_of_args args) \<le> 7"
    using assms by (auto simp: small_request_def)
  from fds_of_requests_bound [OF this, of storage 0]
  have "length (fds_of_requests rs) \<le> length (enc_requests storage 0 rs)" by simp
  then show "map fst (wire storage rs) = enc_requests storage 0 rs"
    "List.map_filter snd (wire storage rs) = fds_of_requests rs"
    by (simp_all add: wire_def map_fst_attach fds_attach)
qed

lemma map_filter_append: "List.map_filter f (xs @ ys) = List.map_filter f xs @ List.map_filter f ys"
  by (simp add: map_filter_def)

lemma concat_map_empty: "concat (map (\<lambda>_. []) xs) = []"
  by (induction xs) simp_all

lemma flushes_received:
  assumes "\<forall>rs \<in> set rss. \<forall>r \<in> set rs. small_request cfg r"
  shows "map fst (concat (map (wire storage) rss)) =
      concat (map message_bytes (concat (map (messages_of_requests storage 0) rss))) \<and>
    List.map_filter snd (concat (map (wire storage) rss)) = fds_of_requests (concat rss) \<and>
    list_all fits (concat (map (messages_of_requests storage 0) rss)) \<and>
    list_all2 (\<lambda>(obj, M, args) m. pm_object_id m = wobject_value obj \<and> pm_opcode m = msg_opcode M \<and>
        (readable_message cfg M args \<longrightarrow> interpert_message_payload cfg M (pm_arguments m) = Value args))
      (concat rss) (concat (map (messages_of_requests storage 0) rss))"
  using assms
proof (induction rss)
  case Nil
  then show ?case by (simp add: fds_of_requests_def map_filter_def)
next
  case (Cons rs rss)
  have "list_all fits (messages_of_requests storage 0 rs)"
    using Cons.prems by (intro messages_of_requests_fit) (auto simp: small_request_def)
  moreover have "fds_of_requests (rs @ concat rss) = fds_of_requests rs @ fds_of_requests (concat rss)"
    by (simp add: fds_of_requests_def)
  moreover have small: "\<forall>r \<in> set rs. small_request cfg r" using Cons.prems by simp
  ultimately show ?case
    using Cons wire_of_small [OF small, of storage] messages_of_requests_interpreted [of cfg rs storage 0]
    by (simp add: enc_requests_messages map_filter_append list_all2_appendI)
qed

text \<open>
  C37: the compositor that parses what a whole run of \<^verbatim>\<open>display_static_picture\<close> has sent finds exactly
  the requests of the session, in order, with the objects, the opcodes and (but for the request
  that carries the descriptor of the picture's memory) the arguments the program gave, and
  that descriptor is the only one it receives.
\<close>

theorem compositor_receives_the_session:
  fixes ops :: "('s, 'fd) sock_ops"
  assumes "client_socket ops sent pending"
    and "pending sock = concat (map message_bytes (session_messages s))" and "sent sock = []"
    and "session_ok TYPE('fd) cfg G P serial s"
    and "draw_carpet cfg mem getenv = (out, Value pic)" and "picture_fits pic"
    and "wayland_socket_path getenv = Value path" and "open_local_stream_socket path = Value sock"
  shows "\<exists>w ms. display_static_picture_main cfg ops storage uninit mem block_fd getenv open_local_stream_socket
      = Some ((out, Some w), Value ()) \<and>
    parsed_message_generator (map fst (sent (server_sock (fst w)))) = (ms, Value ()) \<and>
    list_all2 (\<lambda>(obj, M, args) m. pm_object_id m = wobject_value obj \<and> pm_opcode m = msg_opcode M \<and>
        (M \<noteq> wl_shm_request_create_pool \<longrightarrow> interpert_message_payload cfg' M (pm_arguments m) = Value args))
      (concat (session_flushes (block_fd (pic_buff pic)) pic G P serial s)) ms \<and>
    List.map_filter snd (sent (server_sock (fst w))) = [block_fd (pic_buff pic)]"
proof -
  let ?rss = "session_flushes (block_fd (pic_buff pic)) pic G P serial s :: 'fd request list list"
  let ?ms = "concat (map (messages_of_requests storage 0) ?rss)"
  have small: "\<forall>rs \<in> set ?rss. \<forall>r \<in> set rs. small_request cfg' r"
    by (rule session_requests_small)
  note recd = flushes_received [OF small, of storage]
  have "fds_of_requests (concat ?rss) = [block_fd (pic_buff pic)]"
    by (simp add: session_flushes_def Let_def surface_requests_def show_requests_def fds_of_requests_def
        fds_of_args_def pongs_def bind_requests_def comp_def case_prod_unfold concat_map_empty)
  moreover have "parsed_message_generator (map fst (concat (map (wire storage) ?rss))) = (?ms, Value ())"
    using generator_messages_append [OF recd [THEN conjunct2, THEN conjunct2, THEN conjunct1], of "[]"] by (simp add: recd)
  moreover have "list_all2 (\<lambda>(obj, M, args) m. pm_object_id m = wobject_value obj \<and> pm_opcode m = msg_opcode M \<and>
        (M \<noteq> wl_shm_request_create_pool \<longrightarrow> interpert_message_payload cfg' M (pm_arguments m) = Value args))
      (concat ?rss) ?ms"
    using recd [THEN conjunct2, THEN conjunct2, THEN conjunct2] by (rule list.rel_mono_strong) (use small in \<open>auto simp: small_request_def\<close>)
  moreover obtain w where "run_bind (construct_window cfg ops storage block_fd
        (make_connected_client sock, window_members uninit pic out)) (\<lambda>_ w. wait_for_close_event cfg ops storage w)
      = Some (w, Value ())" and at: "program_at storage sent pending (first_free_id (session_globals G s) + 5)
      (pongs (wm_base_id (session_globals G s)) P (before_close s))
      (surface_members (bound_members (session_globals G s) (opened_members uninit pic out))
        (first_free_id (session_globals G s)))
      (sent sock @ concat (map (wire storage) ?rss)) (after_close s) w"
    using session_run [OF assms(1,2,4,6), of storage block_fd uninit out] by blast
  moreover have "sent (server_sock (fst w)) = concat (map (wire storage) ?rss)" "printed (snd w) = out"
    using at by (simp_all add: program_at_def view_of_world_def assms(3))
  ultimately show ?thesis
    using recd assms(5,7,8) by (intro exI [of _ w] exI [of _ ?ms]) (simp add: display_static_picture_main_def connect_client_def)
qed

theorem compositor_receives_the_session_witness:
  "\<exists>w ms. display_static_picture_main checked_build list_socket_ops (\<lambda>_. 0) (\<lambda>_. 0) list_memory nat
      [''RECURSIONS'' \<mapsto> ''0'', ''BASE_LENGTH'' \<mapsto> ''1'', ''WAYLAND_DISPLAY'' \<mapsto> ''/w'']
      (\<lambda>_. Value (list_socket (concat (map message_bytes (session_messages example_session))) :: nat list_socket))
      = Some ((fst (draw_carpet checked_build list_memory
           [''RECURSIONS'' \<mapsto> ''0'', ''BASE_LENGTH'' \<mapsto> ''1'', ''WAYLAND_DISPLAY'' \<mapsto> ''/w'']), Some w), Value ()) \<and>
    parsed_message_generator (map fst (outgoing (server_sock (fst w)))) = (ms, Value ()) \<and>
    List.map_filter snd (outgoing (server_sock (fst w))) = [4]"
  using compositor_receives_the_session [OF list_client.client_socket_axioms _ _ example_session_ok smallest_carpet
      smallest_carpet_fits, where sock = "list_socket (concat (map message_bytes (session_messages example_session)))"
      and cfg' = checked_build and storage = "\<lambda>_. 0" and block_fd = nat and uninit = "\<lambda>_. 0" and path = "''/w''" and open_local_stream_socket =
        "\<lambda>_. Value (list_socket (concat (map message_bytes (session_messages example_session))))"]
  by (auto simp: wayland_socket_path_def is_absolute_def list_socket_def)

end
